(* ===== verification/Prelude.thy ===== *)
theory Prelude
  imports Complex_Main "HOL-Library.List_Lexorder" "HOL-Library.AList"
begin

text \<open>
  What every component of the development shares: Python strings as lists of code points,
  Python values as they come out of a TOML or a JSON document, dictionaries as association
  lists in insertion order, exceptions as values, the record of the library primitives the
  program calls, and two interfaces that several components implement: a partial codec and a
  first-match rule list.
\<close>

section \<open>Strings\<close>

text \<open>
  A Python \<open>str\<close> is a sequence of Unicode code points; it may hold a lone surrogate, which
  has no UTF-8 encoding. A literal of the source, always ASCII, is written \<open>lit ''abc''\<close>.
  A \<open>bytes\<close> value is a list of integers below 256.
\<close>

type_synonym pstr = "nat list"

type_synonym pbytes = "nat list"

definition lit :: "string \<Rightarrow> pstr" where
  "lit s = map of_char s"

lemma lit_Nil [simp]: "lit [] = []"
  by (simp add: lit_def)

lemma lit_eq_iff [simp]: "lit s = lit t \<longleftrightarrow> s = t"
  by (simp add: lit_def inj_map_eq_map inj_of_char)

lemma lit_eq_Nil_iff [simp]: "lit s = [] \<longleftrightarrow> s = []" and Nil_eq_lit_iff [simp]: "[] = lit s \<longleftrightarrow> s = []"
  by (auto simp: lit_def)

lemma length_lit [simp]: "length (lit s) = length s"
  by (simp add: lit_def)

lemma lit_append: "lit (s @ t) = lit s @ lit t"
  by (simp add: lit_def)

lemma set_lit_bound: "c \<in> set (lit s) \<Longrightarrow> c < 256"
  by (auto simp: lit_def of_char_def)

definition startswith :: "pstr \<Rightarrow> pstr \<Rightarrow> bool" where
  "startswith p s \<longleftrightarrow> take (length p) s = p"

definition endswith :: "pstr \<Rightarrow> pstr \<Rightarrow> bool" where
  "endswith p s \<longleftrightarrow> length p \<le> length s \<and> drop (length s - length p) s = p"

lemma startswith_append [simp]: "startswith p (p @ s)"
  by (simp add: startswith_def)

lemma startswithE:
  assumes "startswith p s"
  obtains r where "s = p @ r"
  using assms by (metis append_take_drop_id startswith_def)

section \<open>Values\<close>

text \<open>
  What \<open>tomllib.load\<close> and \<open>json.loads\<close> return. A float is the rational it denotes, or one of
  the three non-finite ones, given by its JSON text (\<open>NaN\<close>, \<open>Infinity\<close>, \<open>-Infinity\<close>). A
  dictionary keeps its insertion order; its keys are distinct in every value the program
  builds or parses.
\<close>

datatype pyval =
    PNone
  | PBool bool
  | PInt int
  | PFloat rat
  | PNonFinite pstr
  | PStr pstr
  | PList "pyval list"
  | PDict "(pstr \<times> pyval) list"

type_synonym dict = "(pstr \<times> pyval) list"

text \<open>\<open>d.get(k)\<close>, with \<open>None\<close> for a missing key, and \<open>d.get(k, default)\<close>.\<close>

definition dget :: "dict \<Rightarrow> pstr \<Rightarrow> pyval" where
  "dget d k = (case map_of d k of None \<Rightarrow> PNone | Some v \<Rightarrow> v)"

definition dget_or :: "dict \<Rightarrow> pstr \<Rightarrow> pyval \<Rightarrow> pyval" where
  "dget_or d k dflt = (case map_of d k of None \<Rightarrow> dflt | Some v \<Rightarrow> v)"

text \<open>\<open>k in d\<close>, and \<open>d[k] = v\<close>: an existing key keeps its place, a new one goes last.\<close>

definition dmem :: "pstr \<Rightarrow> dict \<Rightarrow> bool" where
  "dmem k d \<longleftrightarrow> k \<in> set (map fst d)"

definition dset :: "dict \<Rightarrow> pstr \<Rightarrow> pyval \<Rightarrow> dict" where
  "dset d k v = AList.update k v d"

definition dkeys :: "dict \<Rightarrow> pstr list" where
  "dkeys d = map fst d"

text \<open>Truth of a value in a condition.\<close>

fun truthy :: "pyval \<Rightarrow> bool" where
  "truthy PNone = False"
| "truthy (PBool b) = b"
| "truthy (PInt i) = (i \<noteq> 0)"
| "truthy (PFloat q) = (q \<noteq> 0)"
| "truthy (PNonFinite t) = True"
| "truthy (PStr s) = (s \<noteq> [])"
| "truthy (PList xs) = (xs \<noteq> [])"
| "truthy (PDict d) = (d \<noteq> [])"

fun is_str :: "pyval \<Rightarrow> bool" where
  "is_str (PStr s) = True"
| "is_str v = False"

fun is_dict :: "pyval \<Rightarrow> bool" where
  "is_dict (PDict d) = True"
| "is_dict v = False"

text \<open>The characters of a value known to be a string, empty otherwise.\<close>

fun str_of :: "pyval \<Rightarrow> pstr" where
  "str_of (PStr s) = s"
| "str_of v = []"

lemma is_strE: "is_str v \<Longrightarrow> (\<And>s. v = PStr s \<Longrightarrow> thesis) \<Longrightarrow> thesis"
  by (cases v) auto

lemma dget_dset [simp]: "dget (dset d k v) k' = (if k' = k then v else dget d k')"
  by (simp add: dget_def dset_def update_conv')

lemma dmem_dset [simp]: "dmem k' (dset d k v) \<longleftrightarrow> k' = k \<or> dmem k' d"
  by (auto simp: dmem_def dset_def update_keys)

lemma distinct_dset: "distinct (map fst d) \<Longrightarrow> distinct (map fst (dset d k v))"
  by (simp add: dset_def distinct_update)

lemma dset_snoc: "k \<notin> set (map fst d) \<Longrightarrow> dset d k v = d @ [(k, v)]"
  by (induction d) (auto simp: dset_def)

lemma dget_not_mem: "\<not> dmem k d \<Longrightarrow> dget d k = PNone"
  by (simp add: dget_def dmem_def map_of_eq_None_iff [THEN iffD2])

lemma dget_Cons [simp]: "dget ((k, v) # d) k' = (if k' = k then v else dget d k')"
  by (simp add: dget_def)

lemma dget_Nil [simp]: "dget [] k = PNone"
  by (simp add: dget_def)

lemma dmem_Cons [simp]: "dmem k ((k', v) # d) \<longleftrightarrow> k = k' \<or> dmem k d"
  and dmem_Nil [simp]: "\<not> dmem k []"
  by (auto simp: dmem_def)

section \<open>Exceptions\<close>

text \<open>
  A function of the source that may raise returns \<open>exn + 'a\<close>. An exception carries the
  constant part of its message; the values interpolated into the text are left out.
\<close>

datatype exn =
    ProtocolError string
  | ConnectionClosed
  | AuthError string
  | SecurityConfigError string
  | RuntimeError string
  | ValueError string
  | UnicodeEncodeError
  | TypeError
  | IndexError
  | KeyError
  | StructError
  | StopIteration
  | AttributeError
  | OverflowError
  | OSError string
  | SystemExit int
  | ConfigError string
  | TartarusError string

type_synonym 'a res = "exn + 'a"

fun is_ok :: "'a res \<Rightarrow> bool" where
  "is_ok (Inl e) = False"
| "is_ok (Inr x) = True"

text \<open>Statements one after the other, the first one that raises ends them; a guard that raises.\<close>

definition andthen :: "'a res \<Rightarrow> ('a \<Rightarrow> 'b res) \<Rightarrow> 'b res" where
  "andthen m f = (case m of Inl e \<Rightarrow> Inl e | Inr x \<Rightarrow> f x)"

lemma andthen_simps [simp]: "andthen (Inl e) f = Inl e" "andthen (Inr x) f = f x"
  by (simp_all add: andthen_def)

lemma andthen_Inr_iff [simp]: "andthen m f = Inr y \<longleftrightarrow> (\<exists>x. m = Inr x \<and> f x = Inr y)"
  by (cases m) simp_all

definition require :: "bool \<Rightarrow> exn \<Rightarrow> unit res" where
  "require ok e = (if ok then Inr () else Inl e)"

lemma require_Inr_iff [simp]: "require ok e = Inr u \<longleftrightarrow> ok"
  by (simp add: require_def)

text \<open>A comprehension over a function that may raise: the first error stops it.\<close>

fun map_res :: "('a \<Rightarrow> 'e + 'b) \<Rightarrow> 'a list \<Rightarrow> 'e + 'b list" where
  "map_res f [] = Inr []"
| "map_res f (x # xs) =
     (case f x of Inl e \<Rightarrow> Inl e
      | Inr y \<Rightarrow> (case map_res f xs of Inl e \<Rightarrow> Inl e | Inr ys \<Rightarrow> Inr (y # ys)))"

lemma map_res_Inr_iff:
  "map_res f xs = Inr ys \<longleftrightarrow> list_all2 (\<lambda>x y. f x = Inr y) xs ys"
proof (induction xs arbitrary: ys)
  case Nil
  then show ?case by auto
next
  case (Cons x xs)
  show ?case
  proof (cases "map_res f xs")
    case (Inl e)
    then have "\<not> list_all2 (\<lambda>x y. f x = Inr y) xs zs" for zs
      using Cons.IH [of zs] by simp
    with Inl show ?thesis by (cases ys) (auto split: sum.split)
  next
    case (Inr zs)
    then have "list_all2 (\<lambda>x y. f x = Inr y) xs zs' \<longleftrightarrow> zs' = zs" for zs'
      using Cons.IH [of zs'] by auto
    with Inr show ?thesis by (cases ys) (auto split: sum.split)
  qed
qed

section \<open>Library primitives\<close>

text \<open>
  The primitives of C libraries the program calls and whose code is not in the repository:
  the SHA-256 hexadecimal digest (OpenSSL), the shortest decimal text of a float, the
  value of a decimal literal and of an arbitrary text given to \<open>float\<close> (the C library), Unicode
  NFC normalisation (the Unicode database), and \<open>str\<close> of a value that is no string. Nothing is
  assumed of them unless a theorem says so.
\<close>

record lib =
  sha256_hex :: "pbytes \<Rightarrow> pstr"
  float_repr :: "rat \<Rightarrow> pstr"
  float_parse :: "pstr \<Rightarrow> pyval"
  float_text :: "pstr \<Rightarrow> pyval option"
  nfc :: "pstr \<Rightarrow> pstr"
  str_text :: "pyval \<Rightarrow> pstr"

section \<open>Interfaces shared by several components\<close>

subsection \<open>A codec\<close>

text \<open>
  An encoder and a partial decoder, with the values they are used on. The one law is the
  round trip; that distinct values have distinct encodings follows from it.
\<close>

locale codec =
  fixes enc :: "'a \<Rightarrow> 'b"
    and dec :: "'b \<Rightarrow> 'a option"
    and ok :: "'a \<Rightarrow> bool"
  assumes dec_enc: "ok x \<Longrightarrow> dec (enc x) = Some x"
begin

lemma enc_inj:
  assumes "ok x" "ok y" "enc x = enc y"
  shows "x = y"
proof -
  have "Some x = dec (enc x)" by (rule dec_enc [OF assms(1), symmetric])
  also have "\<dots> = dec (enc y)" by (simp only: assms(3))
  also have "\<dots> = Some y" by (rule dec_enc [OF assms(2)])
  finally show ?thesis by simp
qed

lemma inj_on_enc: "inj_on enc {x. ok x}"
  by (auto intro: inj_onI enc_inj)

end

subsection \<open>A first-match rule list\<close>

text \<open>
  An ordered rule list evaluated first-match-wins with a default verdict: what the rule
  engines of the proxies promise. The two laws are the loop's two branches.
\<close>

locale first_match =
  fixes eval :: "'r list \<Rightarrow> 'c \<Rightarrow> 'p"
    and hit :: "'r \<Rightarrow> 'c \<Rightarrow> bool"
    and verdict :: "'r \<Rightarrow> 'p"
    and dflt :: 'p
  assumes eval_Nil: "eval [] c = dflt"
    and eval_Cons: "eval (r # rs) c = (if hit r c then verdict r else eval rs c)"
begin

lemma eval_no_hit: "(\<forall>r \<in> set rs. \<not> hit r c) \<Longrightarrow> eval rs c = dflt"
  by (induction rs) (auto simp: eval_Nil eval_Cons)

lemma eval_append:
  "eval (rs @ ss) c = (if \<exists>r \<in> set rs. hit r c then eval rs c else eval ss c)"
  by (induction rs) (auto simp: eval_Cons)

lemma eval_first:
  "(\<forall>r \<in> set rs. \<not> hit r c) \<Longrightarrow> hit r c \<Longrightarrow> eval (rs @ r # ss) c = verdict r"
  by (auto simp: eval_append eval_Cons)

lemma eval_shadowed:
  assumes "\<And>c. hit s c \<Longrightarrow> \<exists>r \<in> set rs. hit r c"
  shows "eval (rs @ s # ss) c = eval (rs @ ss) c"
  using assms by (auto simp: eval_append eval_Cons)

lemma eval_decided_by:
  "(eval rs c = dflt \<and> (\<forall>r \<in> set rs. \<not> hit r c)) \<or>
   (\<exists>us r vs. rs = us @ r # vs \<and> hit r c \<and> (\<forall>u \<in> set us. \<not> hit u c) \<and> eval rs c = verdict r)"
proof (cases "\<exists>r \<in> set rs. hit r c")
  case True
  then have "\<exists>us r vs. rs = us @ r # vs \<and> hit r c \<and> (\<forall>u \<in> set us. \<not> hit u c)"
    by (drule_tac split_list_first_prop) blast
  then show ?thesis using eval_first by blast
next
  case False
  then show ?thesis using eval_no_hit by blast
qed

end

section \<open>Operations on a state\<close>

text \<open>
  A method that changes state and may raise: the state it leaves is part of its result also when
  it raises. What the stateful components share is that an operation keeps a property of the
  state; the facts about single operations are collected in \<open>keeps\<close>.
\<close>

type_synonym ('s, 'a) op = "'s \<Rightarrow> 'a res \<times> 's"

definition seq :: "('s, 'a) op \<Rightarrow> ('a \<Rightarrow> ('s, 'b) op) \<Rightarrow> ('s, 'b) op" where
  "seq m f d = (case m d of (Inl e, d') \<Rightarrow> (Inl e, d') | (Inr x, d') \<Rightarrow> f x d')"

definition ret :: "'a \<Rightarrow> ('s, 'a) op" where
  "ret x d = (Inr x, d)"

definition raise :: "exn \<Rightarrow> ('s, 'a) op" where
  "raise e d = (Inl e, d)"

text \<open>A pure function that may raise, used as an operation.\<close>

definition pure_op :: "'a res \<Rightarrow> ('s, 'a) op" where
  "pure_op r d = (r, d)"

text \<open>A change of the state that cannot fail.\<close>

definition update_op :: "('s \<Rightarrow> 's) \<Rightarrow> ('s, unit) op" where
  "update_op f d = (Inr (), f d)"

text \<open>An operation chosen by the state it starts in.\<close>

definition on_state :: "('s \<Rightarrow> ('s, 'a) op) \<Rightarrow> ('s, 'a) op" where
  "on_state f d = f d d"

fun for_each :: "('x \<Rightarrow> ('s, unit) op) \<Rightarrow> 'x list \<Rightarrow> ('s, unit) op" where
  "for_each f [] = ret ()"
| "for_each f (x # xs) = seq (f x) (\<lambda>_. for_each f xs)"

definition keeps :: "('s \<Rightarrow> bool) \<Rightarrow> ('s, 'a) op \<Rightarrow> bool" where
  "keeps I m \<longleftrightarrow> (\<forall>d. I d \<longrightarrow> I (snd (m d)))"

named_theorems keeps \<open>operations that keep a property of their state\<close>

lemma keepsD: "keeps I m \<Longrightarrow> I d \<Longrightarrow> I (snd (m d))"
  by (simp add: keeps_def)

lemma keeps_ret [keeps]: "keeps I (ret x)"
  by (simp add: keeps_def ret_def)

lemma keeps_raise [keeps]: "keeps I (raise e)"
  by (simp add: keeps_def raise_def)

lemma keeps_pure_op [keeps]: "keeps I (pure_op r)"
  by (simp add: keeps_def pure_op_def)

lemma keeps_update_op: "(\<And>d. I d \<Longrightarrow> I (f d)) \<Longrightarrow> keeps I (update_op f)"
  by (simp add: keeps_def update_op_def)

lemma keeps_seq [keeps]: "keeps I m \<Longrightarrow> (\<And>x. keeps I (f x)) \<Longrightarrow> keeps I (seq m f)"
proof -
  assume m: "keeps I m" and f: "\<And>x. keeps I (f x)"
  show ?thesis
    unfolding keeps_def
  proof (intro allI impI)
    fix d assume "I d"
    then have "I (snd (m d))" using m by (simp add: keeps_def)
    then show "I (snd (seq m f d))"
      using f by (cases "m d"; cases "fst (m d)") (simp_all add: seq_def keeps_def)
  qed
qed

lemma keeps_on_state: "(\<And>s. I s \<Longrightarrow> keeps I (f s)) \<Longrightarrow> keeps I (on_state f)"
  by (simp add: keeps_def on_state_def)

lemma keeps_for_each: "(\<And>x. x \<in> set xs \<Longrightarrow> keeps I (f x)) \<Longrightarrow> keeps I (for_each f xs)"
  by (induction xs) (simp_all add: keeps)

lemma seq_InrD:
  "seq m f d = (Inr y, d') \<Longrightarrow> \<exists>x d1. m d = (Inr x, d1) \<and> f x d1 = (Inr y, d')"
  by (auto simp: seq_def split: prod.splits sum.splits)

text \<open>
  A Hoare triple for operations: from a state with \<open>P\<close>, a result \<open>x\<close> leaves a state with \<open>Q x\<close>
  and an exception one with \<open>R\<close>.
\<close>

definition triple :: "('s \<Rightarrow> bool) \<Rightarrow> ('s, 'a) op \<Rightarrow> ('a \<Rightarrow> 's \<Rightarrow> bool) \<Rightarrow> ('s \<Rightarrow> bool) \<Rightarrow> bool" where
  "triple P m Q R \<longleftrightarrow> (\<forall>s. P s \<longrightarrow> (case m s of (Inr x, s') \<Rightarrow> Q x s' | (Inl e, s') \<Rightarrow> R s'))"

lemma triple_InrD: "triple P m Q R \<Longrightarrow> P s \<Longrightarrow> m s = (Inr x, s') \<Longrightarrow> Q x s'"
  and triple_InlD: "triple P m Q R \<Longrightarrow> P s \<Longrightarrow> m s = (Inl e, s') \<Longrightarrow> R s'"
  by (force simp: triple_def)+

lemma triple_seq: "triple P m Q R \<Longrightarrow> (\<And>x. triple (Q x) (f x) S R) \<Longrightarrow> triple P (seq m f) S R"
  unfolding triple_def seq_def by (fastforce split: prod.splits sum.splits)

lemma triple_ret: "(\<And>s. P s \<Longrightarrow> Q x s) \<Longrightarrow> triple P (ret x) Q R"
  by (simp add: triple_def ret_def)

lemma triple_raise: "(\<And>s. P s \<Longrightarrow> R s) \<Longrightarrow> triple P (raise e) Q R"
  by (simp add: triple_def raise_def)

lemma triple_pure_op: "(\<And>s x. P s \<Longrightarrow> r = Inr x \<Longrightarrow> Q x s) \<Longrightarrow> (\<And>s. P s \<Longrightarrow> R s) \<Longrightarrow> triple P (pure_op r) Q R"
  by (cases r) (simp_all add: triple_def pure_op_def)

lemma triple_update_op: "(\<And>s. P s \<Longrightarrow> Q () (f s)) \<Longrightarrow> triple P (update_op f) Q R"
  by (simp add: triple_def update_op_def)

lemma triple_on_state: "(\<And>s0. P s0 \<Longrightarrow> triple (\<lambda>s. s = s0) (f s0) Q R) \<Longrightarrow> triple P (on_state f) Q R"
  unfolding triple_def on_state_def by simp

lemma triple_conseq:
  "triple P m Q R \<Longrightarrow> (\<And>s. P' s \<Longrightarrow> P s) \<Longrightarrow> (\<And>x s. Q x s \<Longrightarrow> Q' x s) \<Longrightarrow> (\<And>s. R s \<Longrightarrow> R' s) \<Longrightarrow> triple P' m Q' R'"
  unfolding triple_def by (fastforce split: prod.splits sum.splits)

lemma keeps_iff_triple: "keeps I m \<longleftrightarrow> triple I m (\<lambda>_. I) I"
  unfolding keeps_def triple_def by (fastforce split: prod.splits sum.splits)

end
