(* ===== verification/Json.thy ===== *)
theory Json
  imports Prelude
begin

text \<open>
  The parts of the standard library that carry a frame over the wire: UTF-8
  (\<open>str.encode\<close>, \<open>bytes.decode\<close>), and \<open>json.dumps\<close> / \<open>json.loads\<close> with the arguments the
  program passes (compact separators, \<open>ensure_ascii = False\<close>, keys sorted or not). The
  theorems are the round trips: a text that encodes decodes to itself, a value that prints
  parses to itself, and the printed text holds no newline.
\<close>

section \<open>UTF-8\<close>

definition surrogate :: "nat \<Rightarrow> bool" where
  "surrogate c \<longleftrightarrow> 55296 \<le> c \<and> c < 57344"

definition utf8_char :: "nat \<Rightarrow> pbytes option" where
  "utf8_char c =
     (if c < 128 then Some [c]
      else if c < 2048 then Some [192 + c div 64, 128 + c mod 64]
      else if surrogate c then None
      else if c < 65536 then Some [224 + c div 4096, 128 + c div 64 mod 64, 128 + c mod 64]
      else if c < 1114112 then
        Some [240 + c div 262144, 128 + c div 4096 mod 64, 128 + c div 64 mod 64, 128 + c mod 64]
      else None)"

fun utf8_encode :: "pstr \<Rightarrow> pbytes res" where
  "utf8_encode [] = Inr []"
| "utf8_encode (c # s) =
     (case utf8_char c of None \<Rightarrow> Inl UnicodeEncodeError
      | Some w \<Rightarrow> (case utf8_encode s of Inl e \<Rightarrow> Inl e | Inr b \<Rightarrow> Inr (w @ b)))"

definition cont :: "nat \<Rightarrow> bool" where
  "cont b \<longleftrightarrow> 128 \<le> b \<and> b < 192"

text \<open>The code points of a two-, three- and four-byte form.\<close>

definition comb2 :: "nat \<Rightarrow> nat \<Rightarrow> nat" where
  "comb2 b x = (b - 192) * 64 + (x - 128)"

definition comb3 :: "nat \<Rightarrow> nat \<Rightarrow> nat \<Rightarrow> nat" where
  "comb3 b x y = (b - 224) * 4096 + (x - 128) * 64 + (y - 128)"

definition comb4 :: "nat \<Rightarrow> nat \<Rightarrow> nat \<Rightarrow> nat \<Rightarrow> nat" where
  "comb4 b x y z = (b - 240) * 262144 + (x - 128) * 4096 + (y - 128) * 64 + (z - 128)"

text \<open>One character off the front of a byte string; overlong forms and surrogates are invalid.\<close>

definition utf8_next :: "nat \<Rightarrow> pbytes \<Rightarrow> (nat \<times> pbytes) option" where
  "utf8_next b bs =
     (if b < 128 then Some (b, bs)
      else if 194 \<le> b \<and> b < 224 then
        (case bs of
           x # r \<Rightarrow> if cont x then Some (comb2 b x, r) else None
         | [] \<Rightarrow> None)
      else if 224 \<le> b \<and> b < 240 then
        (case bs of
           x # y # r \<Rightarrow>
             (let c = comb3 b x y
              in if cont x \<and> cont y \<and> 2048 \<le> c \<and> \<not> surrogate c then Some (c, r) else None)
         | _ \<Rightarrow> None)
      else if 240 \<le> b \<and> b < 245 then
        (case bs of
           x # y # z # r \<Rightarrow>
             (let c = comb4 b x y z
              in if cont x \<and> cont y \<and> cont z \<and> 65536 \<le> c \<and> c < 1114112
                 then Some (c, r) else None)
         | _ \<Rightarrow> None)
      else None)"

lemma utf8_next_length: "utf8_next b bs = Some (c, r) \<Longrightarrow> length r \<le> length bs"
  unfolding utf8_next_def Let_def
  by (cases bs; cases "tl bs"; cases "tl (tl bs)") (auto split: if_split_asm)

function utf8_decode :: "pbytes \<Rightarrow> pstr option" where
  "utf8_decode [] = Some []"
| "utf8_decode (b # bs) =
     (case utf8_next b bs of None \<Rightarrow> None
      | Some (c, r) \<Rightarrow> map_option (Cons c) (utf8_decode r))"
  by pat_completeness auto
termination
  by (relation "measure length") (auto dest: utf8_next_length)

lemma comb_char:
  "comb2 (192 + c div 64) (128 + c mod 64) = c"
  "comb3 (224 + c div 4096) (128 + c div 64 mod 64) (128 + c mod 64) = c"
  "comb4 (240 + c div 262144) (128 + c div 4096 mod 64) (128 + c div 64 mod 64) (128 + c mod 64) = c"
proof -
  have d4: "c div 4096 = c div 64 div 64" and d18: "c div 262144 = c div 64 div 64 div 64"
    by (simp_all add: div_mult2_eq [symmetric])
  have e1: "c div 64 * 64 + c mod 64 = c"
    and e2: "c div 64 div 64 * 64 + c div 64 mod 64 = c div 64"
    and e3: "c div 64 div 64 div 64 * 64 + c div 64 div 64 mod 64 = c div 64 div 64"
    by (rule div_mult_mod_eq)+
  show "comb2 (192 + c div 64) (128 + c mod 64) = c"
    unfolding comb2_def add_diff_cancel_left' by (rule e1)
  show "comb3 (224 + c div 4096) (128 + c div 64 mod 64) (128 + c mod 64) = c"
    unfolding d4 comb3_def add_diff_cancel_left' using e1 e2 by linarith
  show "comb4 (240 + c div 262144) (128 + c div 4096 mod 64) (128 + c div 64 mod 64) (128 + c mod 64) = c"
    unfolding d4 d18 comb4_def add_diff_cancel_left' using e1 e2 e3 by linarith
qed

lemma cont_low [simp]: "cont (128 + c mod 64)"
  by (simp add: cont_def)

lemma utf8_next_forms:
  "2 \<le> h \<Longrightarrow> h < 32 \<Longrightarrow> cont x \<Longrightarrow> utf8_next (192 + h) (x # r) = Some (comb2 (192 + h) x, r)"
  "h < 16 \<Longrightarrow> cont x \<Longrightarrow> cont y \<Longrightarrow> 2048 \<le> comb3 (224 + h) x y \<Longrightarrow> \<not> surrogate (comb3 (224 + h) x y)
     \<Longrightarrow> utf8_next (224 + h) (x # y # r) = Some (comb3 (224 + h) x y, r)"
  "h < 5 \<Longrightarrow> cont x \<Longrightarrow> cont y \<Longrightarrow> cont z \<Longrightarrow> 65536 \<le> comb4 (240 + h) x y z
     \<Longrightarrow> comb4 (240 + h) x y z < 1114112
     \<Longrightarrow> utf8_next (240 + h) (x # y # z # r) = Some (comb4 (240 + h) x y z, r)"
  by (simp_all add: utf8_next_def)

lemma utf8_next_char:
  assumes "utf8_char c = Some w"
  shows "\<exists>b bs. w = b # bs \<and> utf8_next b (bs @ r) = Some (c, r)"
proof -
  consider (one) "c < 128" | (two) "\<not> c < 128" "c < 2048"
    | (three) "\<not> c < 2048" "\<not> surrogate c" "c < 65536"
    | (four) "\<not> c < 65536" "c < 1114112"
    using assms unfolding utf8_char_def by (meson option.distinct(1) not_less)
  then show ?thesis
  proof cases
    case one
    with assms have "w = [c]" by (simp add: utf8_char_def)
    with one show ?thesis by (simp add: utf8_next_def)
  next
    case two
    then have w: "w = [192 + c div 64, 128 + c mod 64]" using assms by (simp add: utf8_char_def)
    from two have h: "2 \<le> c div 64" "c div 64 < 32" by simp_all
    show ?thesis
      unfolding w using utf8_next_forms(1) [OF h cont_low] by (simp add: comb_char(1))
  next
    case three
    then have w: "w = [224 + c div 4096, 128 + c div 64 mod 64, 128 + c mod 64]"
      using assms by (simp add: utf8_char_def)
    from three have h: "c div 4096 < 16" by simp
    show ?thesis
      unfolding w using utf8_next_forms(2) [OF h cont_low [of "c div 64"] cont_low [of c]] three
      by (simp add: comb_char(2))
  next
    case four
    then have w: "w = [240 + c div 262144, 128 + c div 4096 mod 64, 128 + c div 64 mod 64, 128 + c mod 64]"
      using assms by (simp add: utf8_char_def surrogate_def)
    from four have h: "c div 262144 < 5" by simp
    show ?thesis
      unfolding w
      using utf8_next_forms(3) [OF h cont_low [of "c div 4096"] cont_low [of "c div 64"] cont_low [of c]] four
      by (simp add: comb_char(3))
  qed
qed

lemma utf8_decode_char:
  assumes "utf8_char c = Some w"
  shows "utf8_decode (w @ r) = map_option (Cons c) (utf8_decode r)"
  using utf8_next_char [OF assms, of r] by auto

lemma utf8_decode_encode: "utf8_encode s = Inr b \<Longrightarrow> utf8_decode b = Some s"
  by (induction s arbitrary: b) (auto simp: utf8_decode_char split: option.splits sum.splits)

lemma utf8_char_bytes:
  "utf8_char c = Some w \<Longrightarrow> x \<in> set w \<Longrightarrow> x < 256 \<and> (x < 128 \<longrightarrow> x = c)"
  by (auto simp: utf8_char_def split: if_splits)

lemma utf8_encode_bytes:
  "utf8_encode s = Inr b \<Longrightarrow> x \<in> set b \<Longrightarrow> x < 256 \<and> (x < 128 \<longrightarrow> x \<in> set s)"
proof (induction s arbitrary: b)
  case (Cons c s)
  then obtain w b' where "utf8_char c = Some w" "utf8_encode s = Inr b'" "b = w @ b'"
    by (auto split: option.splits sum.splits)
  with Cons show ?case by (auto dest: utf8_char_bytes)
qed simp

definition encodable :: "pstr \<Rightarrow> bool" where
  "encodable s \<longleftrightarrow> (\<forall>c \<in> set s. c < 1114112 \<and> \<not> surrogate c)"

lemma utf8_encode_ok_iff: "(\<exists>b. utf8_encode s = Inr b) \<longleftrightarrow> encodable s"
proof (induction s)
  case (Cons c s)
  have "(\<exists>w. utf8_char c = Some w) \<longleftrightarrow> c < 1114112 \<and> \<not> surrogate c"
    by (auto simp: utf8_char_def surrogate_def)
  with Cons show ?case by (auto simp: encodable_def split: option.splits sum.splits)
qed (simp add: encodable_def)

lemma utf8_encode_error: "\<not> encodable s \<Longrightarrow> utf8_encode s = Inl UnicodeEncodeError"
proof (induction s)
  case (Cons c s)
  have "utf8_char c = None" if "\<not> (c < 1114112 \<and> \<not> surrogate c)"
    using that by (auto simp: utf8_char_def surrogate_def)
  with Cons show ?case
    by (cases "utf8_char c"; cases "utf8_encode s") (auto simp: encodable_def)
qed (simp add: encodable_def)

lemma encodable_lit [simp]: "encodable (lit s)"
  by (auto simp: encodable_def surrogate_def dest: set_lit_bound)

lemma encodable_simps [simp]:
  "encodable []" "encodable (c # s) \<longleftrightarrow> c < 1114112 \<and> \<not> surrogate c \<and> encodable s"
  "encodable (s @ t) \<longleftrightarrow> encodable s \<and> encodable t"
  by (auto simp: encodable_def)

definition utf8_enc :: "pstr \<Rightarrow> pbytes" where
  "utf8_enc s = (case utf8_encode s of Inl e \<Rightarrow> [] | Inr b \<Rightarrow> b)"

lemma utf8_encode_enc: "encodable s \<Longrightarrow> utf8_encode s = Inr (utf8_enc s)"
  using utf8_encode_ok_iff [of s] by (auto simp: utf8_enc_def)

interpretation utf8: codec utf8_enc utf8_decode encodable
  by unfold_locales (simp add: utf8_decode_encode utf8_encode_enc)

section \<open>Printing\<close>

fun nat_repr :: "nat \<Rightarrow> pstr" where
  "nat_repr n = (if n < 10 then [48 + n] else nat_repr (n div 10) @ [48 + n mod 10])"

declare nat_repr.simps [simp del]

definition int_repr :: "int \<Rightarrow> pstr" where
  "int_repr i = (if i < 0 then 45 # nat_repr (nat (- i)) else nat_repr (nat i))"

definition hex_digit :: "nat \<Rightarrow> nat" where
  "hex_digit d = (if d < 10 then 48 + d else 87 + d)"

text \<open>\<open>py_encode_basestring\<close>: only the quote, the backslash and the control characters are escaped.\<close>

definition esc_char :: "nat \<Rightarrow> pstr" where
  "esc_char c =
     (if c = 34 then [92, 34] else if c = 92 then [92, 92]
      else if c = 10 then [92, 110] else if c = 13 then [92, 114] else if c = 9 then [92, 116]
      else if c = 12 then [92, 102] else if c = 8 then [92, 98]
      else if c < 32 then [92, 117, 48, 48, hex_digit (c div 16), hex_digit (c mod 16)]
      else [c])"

definition str_json :: "pstr \<Rightarrow> pstr" where
  "str_json s = 34 # concat (map esc_char s) @ [34]"

fun dumps :: "lib \<Rightarrow> pyval \<Rightarrow> pstr"
  and dumps_list :: "lib \<Rightarrow> pyval list \<Rightarrow> pstr"
  and dumps_items :: "lib \<Rightarrow> dict \<Rightarrow> pstr" where
  "dumps E PNone = lit ''null''"
| "dumps E (PBool b) = (if b then lit ''true'' else lit ''false'')"
| "dumps E (PInt i) = int_repr i"
| "dumps E (PFloat q) = float_repr E q"
| "dumps E (PNonFinite t) = t"
| "dumps E (PStr s) = str_json s"
| "dumps E (PList xs) = 91 # dumps_list E xs @ [93]"
| "dumps E (PDict d) = 123 # dumps_items E d @ [125]"
| "dumps_list E [] = []"
| "dumps_list E (x # xs) = dumps E x @ (if xs = [] then [] else 44 # dumps_list E xs)"
| "dumps_items E [] = []"
| "dumps_items E ((k, v) # d) =
     str_json k @ 58 # dumps E v @ (if d = [] then [] else 44 # dumps_items E d)"

text \<open>\<open>sort_keys = True\<close>: the keys of every dictionary in code-point order.\<close>

fun sort_keys :: "pyval \<Rightarrow> pyval"
  and sort_keys_list :: "pyval list \<Rightarrow> pyval list"
  and sort_keys_items :: "dict \<Rightarrow> dict" where
  "sort_keys (PList xs) = PList (sort_keys_list xs)"
| "sort_keys (PDict d) = PDict (sort_key fst (sort_keys_items d))"
| "sort_keys v = v"
| "sort_keys_list [] = []"
| "sort_keys_list (x # xs) = sort_keys x # sort_keys_list xs"
| "sort_keys_items [] = []"
| "sort_keys_items ((k, v) # d) = (k, sort_keys v) # sort_keys_items d"

section \<open>Parsing\<close>

text \<open>
  A decoding error, an integer of more digits than \<open>int\<close> converts
  (\<open>sys.int_info.default_max_str_digits\<close>, a plain \<open>ValueError\<close>), or the fuel of the model,
  which never runs out (\<open>json_loads_fuel\<close>).
\<close>

datatype jerr = JDecode | JIntDigits | JFuel

definition is_digit :: "nat \<Rightarrow> bool" where
  "is_digit c \<longleftrightarrow> 48 \<le> c \<and> c \<le> 57"

definition nat_of_digits :: "pstr \<Rightarrow> nat" where
  "nat_of_digits s = foldl (\<lambda>a d. 10 * a + (d - 48)) 0 s"

definition max_int_digits :: nat where
  "max_int_digits = 4300"

definition jws :: "pstr \<Rightarrow> pstr" where
  "jws s = dropWhile (\<lambda>c. c = 32 \<or> c = 9 \<or> c = 10 \<or> c = 13) s"

definition hex_val :: "nat \<Rightarrow> nat option" where
  "hex_val c =
     (if is_digit c then Some (c - 48) else if 97 \<le> c \<and> c \<le> 102 then Some (c - 87)
      else if 65 \<le> c \<and> c \<le> 70 then Some (c - 55) else None)"

definition hex4 :: "pstr \<Rightarrow> nat option" where
  "hex4 s =
     (case map hex_val (take 4 s) of
        [Some a, Some b, Some c, Some d] \<Rightarrow> Some (a * 4096 + b * 256 + c * 16 + d)
      | _ \<Rightarrow> None)"

definition simple_esc :: "nat \<Rightarrow> nat option" where
  "simple_esc c =
     (if c = 34 \<or> c = 92 \<or> c = 47 then Some c
      else if c = 98 then Some 8 else if c = 102 then Some 12 else if c = 110 then Some 10
      else if c = 114 then Some 13 else if c = 116 then Some 9 else None)"

text \<open>
  After a \<open>\\uXXXX\<close> escape with value \<open>u\<close> and the rest \<open>r\<close>: a high surrogate followed by an escaped
  low one is joined with it; a lone surrogate is kept.
\<close>

definition join_surrogate :: "nat \<Rightarrow> pstr \<Rightarrow> (nat \<times> pstr) option" where
  "join_surrogate u r =
     (if 55296 \<le> u \<and> u < 56320 \<and> startswith [92, 117] r then
        (case hex4 (drop 2 r) of
           None \<Rightarrow> None
         | Some l \<Rightarrow>
             if 56320 \<le> l \<and> l < 57344
             then Some (65536 + (u - 55296) * 1024 + (l - 56320), drop 6 r)
             else Some (u, r))
      else Some (u, r))"

text \<open>One character of a string body, escapes resolved.\<close>

definition str_char :: "nat \<Rightarrow> pstr \<Rightarrow> (nat \<times> pstr) option" where
  "str_char c r =
     (if c < 32 then None
      else if c \<noteq> 92 then Some (c, r)
      else (case r of
              [] \<Rightarrow> None
            | e # r' \<Rightarrow>
                if e = 117
                then (case hex4 r' of None \<Rightarrow> None | Some u \<Rightarrow> join_surrogate u (drop 4 r'))
                else map_option (\<lambda>x. (x, r')) (simple_esc e)))"

lemma str_char_length: "str_char c r = Some (x, q) \<Longrightarrow> length q \<le> length r"
  by (auto simp: str_char_def join_surrogate_def split: if_splits list.splits option.splits)

function jstr :: "pstr \<Rightarrow> (pstr \<times> pstr) option" where
  "jstr [] = None"
| "jstr (c # r) =
     (if c = 34 then Some ([], r)
      else (case str_char c r of None \<Rightarrow> None
            | Some (x, q) \<Rightarrow> map_option (\<lambda>(s, p). (x # s, p)) (jstr q)))"
  by pat_completeness auto
termination
  by (relation "measure length") (auto dest: str_char_length)

text \<open>\<open>-?(0|[1-9][0-9]*)(.[0-9]+)?([eE][+-]?[0-9]+)?\<close>\<close>

definition jfrac :: "pstr \<Rightarrow> pstr \<times> pstr" where
  "jfrac s =
     (case s of c # d # r \<Rightarrow> if c = 46 \<and> is_digit d then (c # takeWhile is_digit (d # r), dropWhile is_digit (d # r)) else ([], s)
      | _ \<Rightarrow> ([], s))"

definition jexp :: "pstr \<Rightarrow> pstr \<times> pstr" where
  "jexp s =
     (case s of
        c # r \<Rightarrow>
          if c = 101 \<or> c = 69 then
            (let (sg, ds) = (case r of d # r' \<Rightarrow> if d = 43 \<or> d = 45 then ([d], r') else ([], r) | [] \<Rightarrow> ([], []))
             in if takeWhile is_digit ds = [] then ([], s)
                else (c # sg @ takeWhile is_digit ds, dropWhile is_digit ds))
          else ([], s)
      | [] \<Rightarrow> ([], []))"

definition jint_part :: "pstr \<Rightarrow> pstr" where
  "jint_part s = (if startswith [48] s then [48] else takeWhile is_digit s)"

definition jnum :: "lib \<Rightarrow> pstr \<Rightarrow> jerr + pyval \<times> pstr" where
  "jnum E s =
     (let neg = startswith [45] s; body = (if neg then drop 1 s else s);
          ds = jint_part body;
          r0 = drop (length ds) body; (fr, r1) = jfrac r0; (ex, r2) = jexp r1
      in if ds = [] then Inl JDecode
         else if fr = [] \<and> ex = [] then
           (if max_int_digits < length ds then Inl JIntDigits
            else Inr (PInt (if neg then - int (nat_of_digits ds) else int (nat_of_digits ds)), r2))
         else Inr (float_parse E ((if neg then [45] else []) @ ds @ fr @ ex), r2))"

definition jatom :: "lib \<Rightarrow> pstr \<Rightarrow> jerr + pyval \<times> pstr" where
  "jatom E s =
     (if startswith (lit ''null'') s then Inr (PNone, drop 4 s)
      else if startswith (lit ''true'') s then Inr (PBool True, drop 4 s)
      else if startswith (lit ''false'') s then Inr (PBool False, drop 5 s)
      else if startswith (lit ''NaN'') s then Inr (PNonFinite (lit ''NaN''), drop 3 s)
      else if startswith (lit ''Infinity'') s then Inr (PNonFinite (lit ''Infinity''), drop 8 s)
      else if startswith (lit ''-Infinity'') s then Inr (PNonFinite (lit ''-Infinity''), drop 9 s)
      else jnum E s)"

text \<open>The pairs of an object become a dictionary in order; a repeated key keeps its last value.\<close>

definition dict_of :: "dict \<Rightarrow> dict" where
  "dict_of kvs = foldl (\<lambda>d (k, v). dset d k v) [] kvs"

fun jval :: "lib \<Rightarrow> nat \<Rightarrow> pstr \<Rightarrow> jerr + pyval \<times> pstr"
  and jarr :: "lib \<Rightarrow> nat \<Rightarrow> pstr \<Rightarrow> jerr + pyval list \<times> pstr"
  and jobj :: "lib \<Rightarrow> nat \<Rightarrow> pstr \<Rightarrow> jerr + dict \<times> pstr" where
  "jval E 0 s = Inl JFuel"
| "jval E (Suc n) [] = Inl JDecode"
| "jval E (Suc n) (c # r) =
     (if c = 34 then
        (case jstr r of None \<Rightarrow> Inl JDecode | Some (t, q) \<Rightarrow> Inr (PStr t, q))
      else if c = 91 then
        (if startswith [93] (jws r) then Inr (PList [], drop 1 (jws r))
         else (case jarr E n (jws r) of Inl e \<Rightarrow> Inl e | Inr (vs, q) \<Rightarrow> Inr (PList vs, q)))
      else if c = 123 then
        (if startswith [125] (jws r) then Inr (PDict [], drop 1 (jws r))
         else (case jobj E n (jws r) of Inl e \<Rightarrow> Inl e | Inr (d, q) \<Rightarrow> Inr (PDict (dict_of d), q)))
      else jatom E (c # r))"
| "jarr E 0 s = Inl JFuel"
| "jarr E (Suc n) s =
     (case jval E n s of
        Inl e \<Rightarrow> Inl e
      | Inr (v, q) \<Rightarrow>
          if startswith [93] (jws q) then Inr ([v], drop 1 (jws q))
          else if startswith [44] (jws q) then
            (case jarr E n (jws (drop 1 (jws q))) of
               Inl e \<Rightarrow> Inl e | Inr (vs, p) \<Rightarrow> Inr (v # vs, p))
          else Inl JDecode)"
| "jobj E 0 s = Inl JFuel"
| "jobj E (Suc n) s =
     (if \<not> startswith [34] s then Inl JDecode
      else (case jstr (drop 1 s) of
        None \<Rightarrow> Inl JDecode
      | Some (k, q) \<Rightarrow>
          if \<not> startswith [58] (jws q) then Inl JDecode
          else (case jval E n (jws (drop 1 (jws q))) of
            Inl e \<Rightarrow> Inl e
          | Inr (v, p) \<Rightarrow>
              if startswith [125] (jws p) then Inr ([(k, v)], drop 1 (jws p))
              else if startswith [44] (jws p) then
                (case jobj E n (jws (drop 1 (jws p))) of
                   Inl e \<Rightarrow> Inl e | Inr (d, t) \<Rightarrow> Inr ((k, v) # d, t))
              else Inl JDecode)))"

definition json_loads :: "lib \<Rightarrow> pstr \<Rightarrow> jerr + pyval" where
  "json_loads E s =
     (case jval E (2 * length s + 2) (jws s) of
        Inl e \<Rightarrow> Inl e
      | Inr (v, q) \<Rightarrow> if jws q = [] then Inr v else Inl JDecode)"

section \<open>The round trip\<close>

lemma nat_of_digits_snoc: "nat_of_digits (xs @ [d]) = 10 * nat_of_digits xs + (d - 48)"
  by (simp add: nat_of_digits_def)

lemma nat_repr_facts:
  "nat_of_digits (nat_repr n) = n \<and> nat_repr n \<noteq> [] \<and> (\<forall>c \<in> set (nat_repr n). is_digit c) \<and>
   (nat_repr n = [48] \<or> hd (nat_repr n) \<noteq> 48)"
proof (induction n rule: nat_repr.induct)
  case (1 n)
  show ?case
  proof (cases "n < 10")
    case True
    then show ?thesis by (auto simp: nat_repr.simps [of n] nat_of_digits_def is_digit_def)
  next
    case False
    then have "nat_of_digits (nat_repr (n div 10)) \<noteq> 0" using 1 by auto
    then have "nat_repr (n div 10) \<noteq> [48]" by (auto simp: nat_of_digits_def)
    then show ?thesis using 1 False
      by (auto simp: nat_repr.simps [of n] nat_of_digits_snoc is_digit_def hd_append)
  qed
qed

lemmas nat_repr_inverse [simp] = nat_repr_facts [THEN conjunct1]
lemmas nat_repr_not_Nil [simp] = nat_repr_facts [THEN conjunct2, THEN conjunct1]

lemma nat_repr_digit: "c \<in> set (nat_repr n) \<Longrightarrow> is_digit c"
  using nat_repr_facts [of n] by blast

text \<open>What may follow a number in a printed value: nothing that would extend it.\<close>

definition num_stop :: "pstr \<Rightarrow> bool" where
  "num_stop r \<longleftrightarrow> (case r of [] \<Rightarrow> True | c # _ \<Rightarrow> \<not> is_digit c \<and> c \<noteq> 46 \<and> c \<noteq> 101 \<and> c \<noteq> 69)"

lemma jnum_digits:
  assumes "num_stop r"
  shows "jfrac r = ([], r)" "jexp r = ([], r)"
    "takeWhile is_digit (nat_repr n @ r) = nat_repr n"
    "startswith [48] (nat_repr n @ r) \<Longrightarrow> nat_repr n = [48]"
proof -
  show "jfrac r = ([], r)" "jexp r = ([], r)"
    using assms by (auto simp: jfrac_def jexp_def num_stop_def split: list.split)
  have "takeWhile is_digit r = []" using assms by (cases r) (auto simp: num_stop_def)
  then show "takeWhile is_digit (nat_repr n @ r) = nat_repr n"
    using nat_repr_facts [of n] by simp
  show "nat_repr n = [48]" if "startswith [48] (nat_repr n @ r)"
    using that nat_repr_facts [of n] by (cases "nat_repr n") (auto simp: startswith_def)
qed

lemma nat_repr_Cons:
  obtains c t where "nat_repr n = c # t" "is_digit c"
  using nat_repr_facts [of n] by (cases "nat_repr n") auto

lemma jnum_int_repr:
  assumes stop: "num_stop r" and len: "length (nat_repr (nat \<bar>i\<bar>)) \<le> max_int_digits"
  shows "jnum E (int_repr i @ r) = Inr (PInt i, r)"
proof -
  define p where "p = nat_repr (nat \<bar>i\<bar>)"
  obtain c t where ct: "p = c # t" "is_digit c" unfolding p_def by (rule nat_repr_Cons)
  have ds: "jint_part (p @ r) = p"
    unfolding p_def jint_part_def using jnum_digits(3,4) [OF stop, of "nat \<bar>i\<bar>"] by (cases "startswith [48] (p @ r)") (simp_all add: p_def)
  have val: "int (nat_of_digits p) = \<bar>i\<bar>" by (simp add: p_def)
  have pl: "p \<noteq> []" "\<not> max_int_digits < length p" using ct len by (simp_all add: p_def)
  show ?thesis
  proof (cases "i < 0")
    case True
    then have e: "int_repr i = 45 # p" by (simp add: int_repr_def p_def)
    have "startswith [45] (45 # p @ r)" by (simp add: startswith_def)
    then show ?thesis
      unfolding jnum_def e Let_def append_Cons by (simp add: ds jnum_digits(1,2) [OF stop] val pl True abs_of_neg)
  next
    case False
    then have e: "int_repr i = p" by (simp add: int_repr_def p_def)
    have "\<not> startswith [45] (p @ r)" using ct by (auto simp: startswith_def is_digit_def)
    then show ?thesis
      unfolding jnum_def e Let_def using False by (simp add: ds jnum_digits(1,2) [OF stop] val pl)
  qed
qed

lemma hex_val_digit: "d < 16 \<Longrightarrow> hex_val (hex_digit d) = Some d"
  by (auto simp: hex_val_def hex_digit_def is_digit_def)

lemma jstr_esc:
  "jstr (esc_char c @ q) = map_option (\<lambda>(s, p). (c # s, p)) (jstr q)"
proof -
  have h: "hex4 (48 # 48 # hex_digit (c div 16) # hex_digit (c mod 16) # q) = Some c" if "c < 32"
    using that hex_val_digit [of "c div 16"] hex_val_digit [of "c mod 16"]
    by (simp add: hex4_def hex_val_def is_digit_def)
  show ?thesis
    by (auto simp: esc_char_def str_char_def simple_esc_def h join_surrogate_def)
qed

lemma jstr_str_json: "jstr (concat (map esc_char s) @ 34 # r) = Some (s, r)"
  by (induction s) (simp_all add: jstr_esc)

text \<open>Values that print and parse without a float: what the program itself sends.\<close>

fun json_ok :: "pyval \<Rightarrow> bool"
  and json_ok_list :: "pyval list \<Rightarrow> bool"
  and json_ok_items :: "dict \<Rightarrow> bool" where
  "json_ok (PInt i) = (length (nat_repr (nat \<bar>i\<bar>)) \<le> max_int_digits)"
| "json_ok (PFloat q) = False"
| "json_ok (PNonFinite t) = False"
| "json_ok (PList xs) = json_ok_list xs"
| "json_ok (PDict d) = (distinct (map fst d) \<and> json_ok_items d)"
| "json_ok v = True"
| "json_ok_list [] = True"
| "json_ok_list (x # xs) = (json_ok x \<and> json_ok_list xs)"
| "json_ok_items [] = True"
| "json_ok_items ((k, v) # d) = (json_ok v \<and> json_ok_items d)"

lemma dict_of_append:
  "distinct (map fst (d @ kvs)) \<Longrightarrow> foldl (\<lambda>d (k, v). dset d k v) d kvs = d @ kvs"
proof (induction kvs arbitrary: d)
  case (Cons kv kvs)
  then show ?case by (cases kv) (auto simp: dset_snoc)
qed simp

lemma dict_of_distinct: "distinct (map fst kvs) \<Longrightarrow> dict_of kvs = kvs"
  using dict_of_append [of "[]" kvs] by (simp add: dict_of_def)

definition value_start :: "nat \<Rightarrow> bool" where
  "value_start c \<longleftrightarrow> is_digit c \<or> c = 45 \<or> c = 34 \<or> c = 91 \<or> c = 123 \<or> c = 110 \<or> c = 116 \<or> c = 102"

lemma lit_words:
  "lit ''null'' = [110, 117, 108, 108]" "lit ''true'' = [116, 114, 117, 101]"
  "lit ''false'' = [102, 97, 108, 115, 101]" "lit ''NaN'' = [78, 97, 78]"
  "lit ''Infinity'' = [73, 110, 102, 105, 110, 105, 116, 121]"
  "lit ''-Infinity'' = [45, 73, 110, 102, 105, 110, 105, 116, 121]"
  by (simp_all add: lit_def)

lemma int_repr_Cons:
  obtains c t where "int_repr i = c # t" "is_digit c \<or> c = 45 \<and> (\<exists>d u. t = d # u \<and> is_digit d)"
proof (cases "i < 0")
  case True
  obtain c t where "nat_repr (nat (- i)) = c # t" "is_digit c" by (rule nat_repr_Cons)
  with True that show ?thesis by (auto simp: int_repr_def)
next
  case False
  obtain c t where "nat_repr (nat i) = c # t" "is_digit c" by (rule nat_repr_Cons)
  with False that show ?thesis by (auto simp: int_repr_def)
qed

lemma dumps_Cons:
  assumes "json_ok v"
  obtains c t where "dumps E v = c # t" "value_start c"
proof (cases v)
  case (PInt i)
  obtain c t where "int_repr i = c # t" "is_digit c \<or> c = 45 \<and> (\<exists>d u. t = d # u \<and> is_digit d)"
    by (rule int_repr_Cons)
  with PInt that show ?thesis by (auto simp: value_start_def)
next
  case (PBool b)
  with that show ?thesis by (cases b) (auto simp: value_start_def lit_words)
qed (use assms that in \<open>auto simp: value_start_def lit_words str_json_def split: if_splits\<close>)

lemma jws_start: "value_start c \<Longrightarrow> jws (c # s) = c # s"
  by (auto simp: value_start_def jws_def is_digit_def)

lemma jws_dumps: "json_ok v \<Longrightarrow> jws (dumps E v @ r) = dumps E v @ r"
  by (rule dumps_Cons [of v E]) (auto simp: jws_start)

lemma jws_punct [simp]:
  "jws (93 # s) = 93 # s" "jws (44 # s) = 44 # s" "jws (58 # s) = 58 # s"
  "jws (125 # s) = 125 # s" "jws (34 # s) = 34 # s" "jws [] = []"
  by (simp_all add: jws_def)

lemma startswith_Cons [simp]: "startswith [a] (b # s) \<longleftrightarrow> a = b"
  and startswith_single_Nil [simp]: "\<not> startswith [a] []"
  by (auto simp: startswith_def)

lemma jval_atom:
  assumes "json_ok v" "case v of PNone \<Rightarrow> True | PBool _ \<Rightarrow> True | PInt _ \<Rightarrow> True | _ \<Rightarrow> False"
    "num_stop r"
  shows "jval E (Suc n) (dumps E v @ r) = Inr (v, r)"
proof (cases v)
  case (PInt i)
  obtain c t where ct: "int_repr i = c # t" "is_digit c \<or> c = 45 \<and> (\<exists>d u. t = d # u \<and> is_digit d)"
    by (rule int_repr_Cons)
  have "jatom E (int_repr i @ r) = jnum E (int_repr i @ r)"
    using ct by (auto simp: jatom_def lit_words startswith_def is_digit_def)
  moreover have "c \<noteq> 34" "c \<noteq> 91" "c \<noteq> 123" using ct by (auto simp: is_digit_def)
  ultimately show ?thesis
    using PInt ct(1) jnum_int_repr [OF assms(3), of i E] assms(1) by simp
qed (use assms in \<open>auto simp: lit_words jatom_def startswith_def\<close>)

fun fuel_of :: "pyval \<Rightarrow> nat"
  and fuel_list :: "pyval list \<Rightarrow> nat"
  and fuel_items :: "dict \<Rightarrow> nat" where
  "fuel_of (PList xs) = Suc (fuel_list xs)"
| "fuel_of (PDict d) = Suc (fuel_items d)"
| "fuel_of v = 1"
| "fuel_list [] = 0"
| "fuel_list (x # xs) = Suc (max (fuel_of x) (fuel_list xs))"
| "fuel_items [] = 0"
| "fuel_items ((k, v) # d) = Suc (max (fuel_of v) (fuel_items d))"

lemma num_stop_punct [simp]: "num_stop (93 # r)" "num_stop (44 # r)" "num_stop (125 # r)" "num_stop []"
  by (simp_all add: num_stop_def is_digit_def)

lemma str_json_append: "str_json s @ r = 34 # concat (map esc_char s) @ 34 # r"
  by (simp add: str_json_def)

lemma parse_dumps:
  "json_ok v \<Longrightarrow> num_stop r \<Longrightarrow> fuel_of v \<le> n \<Longrightarrow> jval E n (dumps E v @ r) = Inr (v, r)"
  "json_ok_list xs \<Longrightarrow> xs \<noteq> [] \<Longrightarrow> fuel_list xs \<le> n \<Longrightarrow>
     jarr E n (dumps_list E xs @ 93 # r) = Inr (xs, r)"
  "json_ok_items d \<Longrightarrow> d \<noteq> [] \<Longrightarrow> fuel_items d \<le> n \<Longrightarrow>
     jobj E n (dumps_items E d @ 125 # r) = Inr (d, r)"
proof (induction E v and E xs and E d arbitrary: n r and n r and n r
    rule: dumps_dumps_list_dumps_items.induct)
  case (6 E s)
  then show ?case by (cases n) (simp_all add: str_json_append jstr_str_json)
next
  case (7 E xs)
  then obtain m where n: "n = Suc m" "fuel_list xs \<le> m" by (cases n) auto
  show ?case
  proof (cases xs)
    case Nil
    then show ?thesis by (simp add: n)
  next
    case (Cons x ys)
    then have "json_ok x" using 7 by simp
    then obtain c t where ct: "dumps E x = c # t" "value_start c" by (rule dumps_Cons)
    then have ws: "jws (dumps_list E xs @ 93 # r) = dumps_list E xs @ 93 # r"
      and nb: "\<not> startswith [93] (dumps_list E xs @ 93 # r)"
      using Cons by (auto simp: jws_start value_start_def is_digit_def)
    have "jarr E m (dumps_list E xs @ 93 # r) = Inr (xs, r)"
      using 7 n Cons by simp
    then show ?thesis using ws nb by (simp add: n)
  qed
next
  case (8 E d)
  then obtain m where n: "n = Suc m" "fuel_items d \<le> m" by (cases n) auto
  show ?case
  proof (cases d)
    case Nil
    then show ?thesis by (simp add: n dict_of_def)
  next
    case (Cons kv e)
    obtain k v where kv: "kv = (k, v)" by force
    have ws: "jws (dumps_items E d @ 125 # r) = dumps_items E d @ 125 # r"
      and nb: "\<not> startswith [125] (dumps_items E d @ 125 # r)"
      using Cons kv by (auto simp: str_json_append)
    have "jobj E m (dumps_items E d @ 125 # r) = Inr (d, r)"
      using 8 n Cons by simp
    then show ?thesis using ws nb 8 by (simp add: n dict_of_distinct)
  qed
next
  case (10 E x xs)
  then obtain m where n: "n = Suc m" "fuel_of x \<le> m" "fuel_list xs \<le> m" by (cases n) auto
  show ?case
  proof (cases xs)
    case Nil
    then show ?thesis using 10 n by simp
  next
    case (Cons y ys)
    then have "json_ok y" using 10 by simp
    then obtain c t where ct: "dumps E y = c # t" "value_start c" by (rule dumps_Cons)
    then have ws: "jws (dumps_list E xs @ 93 # r) = dumps_list E xs @ 93 # r"
      using Cons by (auto simp: jws_start)
    have "jarr E m (dumps_list E xs @ 93 # r) = Inr (xs, r)"
      using 10 n Cons by simp
    moreover have "jval E m (dumps E x @ 44 # dumps_list E xs @ 93 # r) = Inr (x, 44 # dumps_list E xs @ 93 # r)"
      using 10 n by simp
    ultimately show ?thesis using Cons ws by (simp add: n)
  qed
next
  case (12 E k v d)
  then obtain m where n: "n = Suc m" "fuel_of v \<le> m" "fuel_items d \<le> m" by (cases n) auto
  have v: "jws (dumps E v @ q) = dumps E v @ q" for q using 12 by (simp add: jws_dumps)
  show ?case
  proof (cases d)
    case Nil
    then show ?thesis using 12 n v by (simp add: str_json_append jstr_str_json)
  next
    case (Cons kv e)
    obtain k' v' where kv: "kv = (k', v')" by force
    have ws: "jws (dumps_items E d @ 125 # r) = dumps_items E d @ 125 # r"
      using Cons kv by (auto simp: str_json_append)
    have "jobj E m (dumps_items E d @ 125 # r) = Inr (d, r)"
      using 12 n Cons by simp
    moreover have "jval E m (dumps E v @ 44 # dumps_items E d @ 125 # r) = Inr (v, 44 # dumps_items E d @ 125 # r)"
      using 12 n by simp
    ultimately show ?thesis using Cons ws v by (simp add: n str_json_append jstr_str_json)
  qed
next
  case (1 E)
  then show ?case using jval_atom [of PNone r E] by (auto dest: Suc_le_D)
next
  case (2 E b)
  then show ?case using jval_atom [of "PBool b" r E] by (auto dest: Suc_le_D)
next
  case (3 E i)
  then show ?case using jval_atom [of "PInt i" r E] by (auto dest: Suc_le_D)
qed simp_all

lemma fuel_dumps:
  "json_ok v \<Longrightarrow> Suc (fuel_of v) \<le> 2 * length (dumps E v)"
  "json_ok_list xs \<Longrightarrow> fuel_list xs \<le> 2 * length (dumps_list E xs)"
  "json_ok_items d \<Longrightarrow> fuel_items d \<le> 2 * length (dumps_items E d)"
proof (induction E v and E xs and E d rule: dumps_dumps_list_dumps_items.induct)
  case (3 E i)
  obtain c t where "int_repr i = c # t" using int_repr_Cons by blast
  then show ?case by simp
qed (auto simp: lit_words str_json_def)

lemma json_loads_dumps: "json_ok v \<Longrightarrow> json_loads E (dumps E v) = Inr v"
  using parse_dumps(1) [of v "[]" "2 * length (dumps E v) + 2" E] fuel_dumps(1) [of v E]
    jws_dumps [of v E "[]"]
  by (simp add: json_loads_def)

text \<open>Sorting the keys keeps a value printable.\<close>

lemma fst_sort_keys_items: "map fst (sort_keys_items d) = map fst d"
  by (induction d) auto

lemma json_ok_items_iff: "json_ok_items d \<longleftrightarrow> (\<forall>(k, v) \<in> set d. json_ok v)"
  by (induction d) auto

lemma json_ok_sort_keys:
  "json_ok v \<Longrightarrow> json_ok (sort_keys v)"
  "json_ok_list xs \<Longrightarrow> json_ok_list (sort_keys_list xs)"
  "json_ok_items d \<Longrightarrow> json_ok_items (sort_keys_items d)"
proof (induction v and xs and d rule: sort_keys_sort_keys_list_sort_keys_items.induct)
  case (2 d)
  have "distinct (map fst (sort_keys_items d))" using 2 by (simp add: fst_sort_keys_items)
  then have "distinct (sort_keys_items d)" "inj_on fst (set (sort_keys_items d))"
    by (simp_all add: distinct_map)
  then have "distinct (map fst (sort_key fst (sort_keys_items d)))"
    by (simp add: distinct_map)
  with 2 show ?case by (auto simp: json_ok_items_iff)
qed auto

text \<open>A printed value holds no newline: the character only appears escaped.\<close>

lemma esc_char_no_newline: "10 \<notin> set (esc_char c)"
  by (auto simp: esc_char_def hex_digit_def)

lemma str_json_no_newline: "10 \<notin> set (str_json s)"
  using esc_char_no_newline by (auto simp: str_json_def)

lemma dumps_no_newline:
  "json_ok v \<Longrightarrow> 10 \<notin> set (dumps E v)"
  "json_ok_list xs \<Longrightarrow> 10 \<notin> set (dumps_list E xs)"
  "json_ok_items d \<Longrightarrow> 10 \<notin> set (dumps_items E d)"
proof (induction E v and E xs and E d rule: dumps_dumps_list_dumps_items.induct)
  case (3 E i)
  show ?case by (auto simp: int_repr_def is_digit_def dest: nat_repr_digit)
qed (auto simp: lit_words str_json_no_newline)

interpretation json: codec "dumps E" "\<lambda>s. case json_loads E s of Inl e \<Rightarrow> None | Inr v \<Rightarrow> Some v" json_ok
  for E
  by unfold_locales (simp add: json_loads_dumps)

text \<open>
  The parser never runs out of its fuel: every call but the descent into an array consumes
  text, so twice the length of the text is enough.
\<close>

lemma length_jws: "length (jws s) \<le> length s"
  by (simp add: jws_def length_dropWhile_le)

lemma jstr_length: "jstr s = Some (t, q) \<Longrightarrow> length q < length s"
  by (induction s arbitrary: t q rule: jstr.induct)
    (fastforce split: if_splits option.splits dest: str_char_length)+

lemma jfrac_length: "jfrac s = (f, q) \<Longrightarrow> length q \<le> length s"
  using length_dropWhile_le [of is_digit "tl s"]
  by (auto simp: jfrac_def split: list.splits if_splits)

lemma jexp_length: "jexp s = (f, q) \<Longrightarrow> length q \<le> length s"
proof -
  assume e: "jexp s = (f, q)"
  have d1: "length (dropWhile is_digit (tl s)) \<le> length (tl s)"
    and d2: "length (dropWhile is_digit (tl (tl s))) \<le> length (tl (tl s))"
    by (rule length_dropWhile_le)+
  show ?thesis
    using e d1 d2 by (cases s; cases "tl s") (auto simp: jexp_def Let_def split: if_splits)
qed

lemma jnum_length: "jnum E s = Inr (v, q) \<Longrightarrow> length q < length s"
proof -
  assume e: "jnum E s = Inr (v, q)"
  define body where "body = (if startswith [45] s then drop 1 s else s)"
  define ds where "ds = jint_part body"
  obtain fr r1 where fr: "jfrac (drop (length ds) body) = (fr, r1)" by force
  obtain ex r2 where ex: "jexp r1 = (ex, r2)" by force
  have "ds \<noteq> []" "q = r2"
    using e fr ex by (auto simp: jnum_def Let_def body_def [symmetric] ds_def [symmetric] split: if_splits)
  moreover have "length body \<le> length s" by (simp add: body_def)
  moreover have "body \<noteq> []"
    using \<open>ds \<noteq> []\<close> by (auto simp: ds_def jint_part_def startswith_def)
  ultimately show ?thesis
    using jfrac_length [OF fr] jexp_length [OF ex] by (cases ds; cases body) auto
qed

lemma jatom_length: "jatom E s = Inr (v, q) \<Longrightarrow> length q < length s"
  by (cases s) (auto simp: jatom_def startswith_def lit_words dest: jnum_length split: if_splits)

lemma parse_length:
  "jval E n s = Inr (v, q) \<Longrightarrow> length q < length s"
  "jarr E n s = Inr (vs, q) \<Longrightarrow> length q < length s"
  "jobj E n s = Inr (d, q) \<Longrightarrow> length q < length s"
proof (induction E n s and E n s and E n s arbitrary: v q and vs q and d q rule: jval_jarr_jobj.induct)
  case (3 E n c r)
  then show ?case
    using length_jws [of r]
    by (auto split: if_splits option.splits sum.splits dest!: jstr_length jatom_length)
next
  case (5 E n s)
  obtain w p where w: "jval E n s = Inr (w, p)" using "5.prems" by (auto split: sum.splits)
  have p: "length p < length s" using "5.IH"(1) [OF w] .
  show ?case
    using "5.prems" w p length_jws [of p] "5.IH"(2) [OF w refl] length_jws [of "drop 1 (jws p)"]
    by (fastforce split: if_splits sum.splits)
next
  case (7 E n s)
  obtain k p where k: "jstr (drop 1 s) = Some (k, p)" "startswith [34] s"
    using "7.prems" by (auto split: if_splits option.splits)
  obtain w t where w: "jval E n (jws (drop 1 (jws p))) = Inr (w, t)"
    using "7.prems" k by (auto split: if_splits sum.splits)
  have kp: "length p < length s" using jstr_length [OF k(1)] by simp
  have wt: "length t < length s"
    using "7.IH"(1) k w kp "7.prems" length_jws [of p] length_jws [of "drop 1 (jws p)"]
    by (fastforce split: if_splits)
  show ?case
    using "7.prems" k w wt length_jws [of t] length_jws [of "drop 1 (jws t)"] "7.IH"(2)
    by (fastforce split: if_splits sum.splits)
qed auto

lemma jnum_no_fuel: "jnum E s \<noteq> Inl JFuel"
  by (auto simp: jnum_def Let_def split: prod.split)

lemma jatom_no_fuel: "jatom E s \<noteq> Inl JFuel"
  by (simp add: jatom_def jnum_no_fuel)

lemma parse_fuel:
  "2 * length s + 1 \<le> n \<Longrightarrow> jval E n s \<noteq> Inl JFuel"
  "2 * length s + 2 \<le> n \<Longrightarrow> jarr E n s \<noteq> Inl JFuel"
  "2 * length s + 2 \<le> n \<Longrightarrow> jobj E n s \<noteq> Inl JFuel"
proof (induction E n s and E n s and E n s rule: jval_jarr_jobj.induct)
  case (3 E n c r)
  then show ?case
    using length_jws [of r] by (auto simp: jatom_no_fuel split: if_splits option.splits sum.splits)
next
  case (5 E n s)
  show ?case
  proof (cases "jval E n s")
    case (Inl e)
    with 5 show ?thesis by auto
  next
    case (Inr vp)
    obtain v p where vp: "vp = (v, p)" by force
    have "length p < length s" using Inr vp parse_length(1) by blast
    then have "2 * length (jws (drop 1 (jws p))) + 2 \<le> n"
      using "5.prems" length_jws [of p] length_jws [of "drop 1 (jws p)"] by simp
    then show ?thesis using "5.IH"(2) Inr vp by (auto split: if_splits sum.splits)
  qed
next
  case (7 E n s)
  show ?case
  proof (cases "startswith [34] s \<and> (\<exists>k p. jstr (drop 1 s) = Some (k, p))")
    case False
    then show ?thesis by (auto split: option.splits)
  next
    case True
    then obtain k p where k: "startswith [34] s" "jstr (drop 1 s) = Some (k, p)" by blast
    have kp: "Suc (length p) < length s"
      using jstr_length [OF k(2)] k(1) by (cases s) auto
    then have f: "2 * length (jws (drop 1 (jws p))) + 1 \<le> n"
      using "7.prems" length_jws [of p] length_jws [of "drop 1 (jws p)"] by simp
    show ?thesis
    proof (cases "jval E n (jws (drop 1 (jws p)))")
      case (Inl e)
      then show ?thesis using "7.IH"(1) f k by auto
    next
      case (Inr vt)
      obtain v t where vt: "vt = (v, t)" by force
      have "length t < length s"
        using parse_length(1) [of E n "jws (drop 1 (jws p))" v t] Inr vt kp length_jws [of p]
          length_jws [of "drop 1 (jws p)"] by simp
      then have "2 * length (jws (drop 1 (jws t))) + 2 \<le> n"
        using "7.prems" length_jws [of t] length_jws [of "drop 1 (jws t)"] by simp
      then have "startswith [58] (jws p) \<Longrightarrow> \<not> startswith [125] (jws t) \<Longrightarrow> startswith [44] (jws t) \<Longrightarrow>
          jobj E n (jws (drop 1 (jws t))) \<noteq> Inl JFuel"
        using "7.IH"(2) [OF _ k(2) refl] Inr vt k(1) by blast
      then show ?thesis using Inr vt k by (auto split: if_splits sum.splits)
    qed
  qed
qed auto

lemma json_loads_fuel: "json_loads E s \<noteq> Inl JFuel"
  using parse_fuel(1) [of "jws s" "2 * length s + 2" E] length_jws [of s]
  by (auto simp: json_loads_def split: sum.splits)

text \<open>Values all of whose texts have a UTF-8 encoding: their printed form has one too.\<close>

fun text_ok :: "pyval \<Rightarrow> bool"
  and text_ok_list :: "pyval list \<Rightarrow> bool"
  and text_ok_items :: "dict \<Rightarrow> bool" where
  "text_ok (PStr s) = encodable s"
| "text_ok (PList xs) = text_ok_list xs"
| "text_ok (PDict d) = text_ok_items d"
| "text_ok v = True"
| "text_ok_list [] = True"
| "text_ok_list (x # xs) = (text_ok x \<and> text_ok_list xs)"
| "text_ok_items [] = True"
| "text_ok_items ((k, v) # d) = (encodable k \<and> text_ok v \<and> text_ok_items d)"

lemma text_ok_items_iff: "text_ok_items d \<longleftrightarrow> (\<forall>(k, v) \<in> set d. encodable k \<and> text_ok v)"
  by (induction d) auto

lemma hex_digit_ascii: "d < 16 \<Longrightarrow> hex_digit d < 128"
  by (simp add: hex_digit_def)

lemma esc_char_members: "x \<in> set (esc_char c) \<Longrightarrow> x = c \<or> x < 128"
proof -
  have "hex_digit (c mod 16) < 128" by (rule hex_digit_ascii) simp
  moreover have "hex_digit (c div 16) < 128" if "c < 32" using that by (intro hex_digit_ascii) simp
  ultimately show "x \<in> set (esc_char c) \<Longrightarrow> x = c \<or> x < 128"
    unfolding esc_char_def by (auto simp del: One_nat_def split: if_split_asm)
qed

lemma str_json_members: "x \<in> set (str_json s) \<Longrightarrow> x \<in> set s \<or> x < 128"
  by (auto simp: str_json_def dest: esc_char_members)

lemma encodable_subset: "encodable s \<Longrightarrow> (\<And>x. x \<in> set t \<Longrightarrow> x \<in> set s \<or> x < 128) \<Longrightarrow> encodable t"
  unfolding encodable_def surrogate_def by fastforce

lemma encodable_str_json: "encodable s \<Longrightarrow> encodable (str_json s)"
  by (rule encodable_subset) (auto dest: str_json_members)

lemma encodable_int_repr: "encodable (int_repr i)"
  by (auto simp: encodable_def int_repr_def is_digit_def surrogate_def dest!: nat_repr_digit)

lemma encodable_dumps:
  "json_ok v \<Longrightarrow> text_ok v \<Longrightarrow> encodable (dumps E v)"
  "json_ok_list xs \<Longrightarrow> text_ok_list xs \<Longrightarrow> encodable (dumps_list E xs)"
  "json_ok_items d \<Longrightarrow> text_ok_items d \<Longrightarrow> encodable (dumps_items E d)"
proof (induction E v and E xs and E d rule: dumps_dumps_list_dumps_items.induct)
  case (12 E k v d)
  then show ?case by (cases d) (simp_all add: surrogate_def encodable_str_json)
next
  case (10 E x xs)
  then show ?case by (cases xs) (simp_all add: surrogate_def)
qed (simp_all add: surrogate_def encodable_str_json encodable_int_repr)

lemma text_ok_sort_keys:
  "text_ok v \<Longrightarrow> text_ok (sort_keys v)"
  "text_ok_list xs \<Longrightarrow> text_ok_list (sort_keys_list xs)"
  "text_ok_items d \<Longrightarrow> text_ok_items (sort_keys_items d)"
proof (induction v and xs and d rule: sort_keys_sort_keys_list_sort_keys_items.induct)
  case (2 d)
  then show ?case by (auto simp: text_ok_items_iff)
qed auto

end
