(* ===== verification/Base64.thy ===== *)
theory Base64
  imports Prelude
begin

text \<open>
  \<open>base64.b64encode\<close> and \<open>base64.b64decode(s, validate=True)\<close> of the standard library, which the
  program uses for nonces and certificate fingerprints. Decoding is strict: only the
  alphabet, complete groups of four, padding only at the end.
\<close>

definition b64_char :: "nat \<Rightarrow> nat" where
  "b64_char v =
     (if v < 26 then 65 + v else if v < 52 then 71 + v else if v < 62 then v - 4
      else if v = 62 then 43 else 47)"

definition b64_val :: "nat \<Rightarrow> nat option" where
  "b64_val c =
     (if 65 \<le> c \<and> c \<le> 90 then Some (c - 65) else if 97 \<le> c \<and> c \<le> 122 then Some (c - 71)
      else if 48 \<le> c \<and> c \<le> 57 then Some (c + 4)
      else if c = 43 then Some 62 else if c = 47 then Some 63 else None)"

fun b64encode :: "pbytes \<Rightarrow> pstr" where
  "b64encode [] = []"
| "b64encode [x] = [b64_char (x div 4), b64_char (x mod 4 * 16), 61, 61]"
| "b64encode [x, y] = [b64_char (x div 4), b64_char (x mod 4 * 16 + y div 16), b64_char (y mod 16 * 4), 61]"
| "b64encode (x # y # z # r) =
     b64_char (x div 4) # b64_char (x mod 4 * 16 + y div 16) #
     b64_char (y mod 16 * 4 + z div 64) # b64_char (z mod 64) # b64encode r"

text \<open>The bytes of one group, from the values of its two, three or four characters.\<close>

definition b64_group2 :: "nat \<Rightarrow> nat \<Rightarrow> pbytes" where
  "b64_group2 a b = [a * 4 + b div 16]"

definition b64_group3 :: "nat \<Rightarrow> nat \<Rightarrow> nat \<Rightarrow> pbytes" where
  "b64_group3 a b c = [a * 4 + b div 16, b mod 16 * 16 + c div 4]"

definition b64_group4 :: "nat \<Rightarrow> nat \<Rightarrow> nat \<Rightarrow> nat \<Rightarrow> pbytes" where
  "b64_group4 a b c d = [a * 4 + b div 16, b mod 16 * 16 + c div 4, c mod 4 * 64 + d]"

fun b64decode :: "pstr \<Rightarrow> pbytes option" where
  "b64decode [] = Some []"
| "b64decode (p # q # r # s # t) =
     (case (b64_val p, b64_val q) of
        (Some a, Some b) \<Rightarrow>
          if t = [] \<and> r = 61 \<and> s = 61 then Some (b64_group2 a b)
          else (case b64_val r of
                  None \<Rightarrow> None
                | Some c \<Rightarrow>
                    if t = [] \<and> s = 61 then Some (b64_group3 a b c)
                    else (case b64_val s of
                            None \<Rightarrow> None
                          | Some d \<Rightarrow> map_option ((@) (b64_group4 a b c d)) (b64decode t)))
      | _ \<Rightarrow> None)"
| "b64decode _ = None"

lemma b64_val_char: "v < 64 \<Longrightarrow> b64_val (b64_char v) = Some v"
  by (auto simp: b64_val_def b64_char_def)

lemma b64_char_not_pad: "v < 64 \<Longrightarrow> b64_char v \<noteq> 61"
  by (auto simp: b64_char_def)

lemma b64_group_bytes:
  "x < 256 \<Longrightarrow> b64_group2 (x div 4) (x mod 4 * 16) = [x]"
  "x < 256 \<Longrightarrow> y < 256 \<Longrightarrow> b64_group3 (x div 4) (x mod 4 * 16 + y div 16) (y mod 16 * 4) = [x, y]"
  "x < 256 \<Longrightarrow> y < 256 \<Longrightarrow> z < 256 \<Longrightarrow>
     b64_group4 (x div 4) (x mod 4 * 16 + y div 16) (y mod 16 * 4 + z div 64) (z mod 64) = [x, y, z]"
proof -
  have hi: "(x mod 4 * 16 + h) div 16 = x mod 4" if "h < 16" for x h :: nat using that by simp
  have lo: "(m * 16 + h) mod 16 = h" if "h < 16" for m h :: nat using that by simp
  have mid: "(m * 4 + h) div 4 = m" "(m * 4 + h) mod 4 = h" if "h < 4" for m h :: nat using that by simp_all
  show "x < 256 \<Longrightarrow> b64_group2 (x div 4) (x mod 4 * 16) = [x]"
    by (simp add: b64_group2_def)
  show "x < 256 \<Longrightarrow> y < 256 \<Longrightarrow> b64_group3 (x div 4) (x mod 4 * 16 + y div 16) (y mod 16 * 4) = [x, y]"
    by (simp add: b64_group3_def hi lo)
  show "x < 256 \<Longrightarrow> y < 256 \<Longrightarrow> z < 256 \<Longrightarrow>
     b64_group4 (x div 4) (x mod 4 * 16 + y div 16) (y mod 16 * 4 + z div 64) (z mod 64) = [x, y, z]"
    by (simp add: b64_group4_def hi lo mid)
qed

lemma b64_vals:
  "x < 256 \<Longrightarrow> x div 4 < (64::nat)" "x mod 4 * 16 < (64::nat)" "y mod 16 * 4 < (64::nat)"
  "z mod 64 < (64::nat)"
  "y < 256 \<Longrightarrow> x mod 4 * 16 + y div 16 < (64::nat)"
  "z < 256 \<Longrightarrow> y mod 16 * 4 + z div 64 < (64::nat)"
proof -
  have a: "x mod 4 \<le> 3" "y mod 16 \<le> 15" by (simp_all add: less_Suc_eq_le [symmetric])
  show "x mod 4 * 16 < 64" "y mod 16 * 4 < 64" using a by simp_all
  show "x < 256 \<Longrightarrow> x div 4 < 64" "z mod 64 < 64" by simp_all
  show "x mod 4 * 16 + y div 16 < 64" if "y < 256"
  proof -
    have "y div 16 < 16" using that by simp
    then show ?thesis using a(1) by linarith
  qed
  show "y mod 16 * 4 + z div 64 < 64" if "z < 256"
  proof -
    have "z div 64 < 4" using that by simp
    then show ?thesis using a(2) by linarith
  qed
qed

definition bytes_ok :: "pbytes \<Rightarrow> bool" where
  "bytes_ok b \<longleftrightarrow> (\<forall>x \<in> set b. x < 256)"

lemma bytes_ok_simps [simp]: "bytes_ok []" "bytes_ok (x # b) \<longleftrightarrow> x < 256 \<and> bytes_ok b"
  by (simp_all add: bytes_ok_def)

lemma b64decode_encode: "bytes_ok b \<Longrightarrow> b64decode (b64encode b) = Some b"
  by (induction b rule: b64encode.induct)
    (simp_all add: b64_val_char b64_char_not_pad b64_vals b64_group_bytes)

interpretation b64: codec b64encode b64decode bytes_ok
  by unfold_locales (rule b64decode_encode)

lemma length_b64decode: "b64decode s = Some b \<Longrightarrow> length b \<le> 3 * (length s div 4)"
  by (induction s arbitrary: b rule: b64decode.induct)
    (auto simp: b64_group2_def b64_group3_def b64_group4_def split: option.splits if_splits)

lemma b64encode_not_Nil: "b \<noteq> [] \<Longrightarrow> b64encode b \<noteq> []"
  by (cases b rule: b64encode.cases) simp_all

end
