(* ===== verification/Protocol.thy ===== *)
theory Protocol
  imports Json Base64 "HOL-Library.Multiset"
begin

text \<open>
  The wire protocol of \<open>sudo-auth-proxy\<close>: newline-delimited JSON frames
  (\<open>write_message\<close>, \<open>read_message\<close>), the builders and validators of the three frame types, the
  request digest, and the checks a client makes of a response. A function that raises in the
  source returns the exception. Wall-clock time is an argument.
\<close>

section \<open>Constants\<close>

definition PROTOCOL_VERSION :: int where
  "PROTOCOL_VERSION = 1"

definition MAX_MESSAGE_BYTES :: nat where
  "MAX_MESSAGE_BYTES = 64 * 1024"

definition CLIENT_VERSION :: pstr where
  "CLIENT_VERSION = lit ''1''"

definition PENDING_TYPE :: pstr where
  "PENDING_TYPE = lit ''auth_pending''"

definition NONE_IDENTITY :: pstr where
  "NONE_IDENTITY = lit ''none''"

definition DEFAULT_RESPONSE_TTL :: int where
  "DEFAULT_RESPONSE_TTL = 30"

definition DEFAULT_CLOCK_SKEW :: int where
  "DEFAULT_CLOCK_SKEW = 5"

section \<open>The security model a role works with\<close>

text \<open>\<open>Rule\<close>: every selector is a list of glob patterns, the empty one matches anything.\<close>

record rule =
  r_machine :: "pstr list"
  r_listeners :: "pstr list"
  r_service :: "pstr list"
  r_target_user :: "pstr list"
  r_invoking_user :: "pstr list"
  r_policy :: pstr

record security =
  s_transport :: pyval
  transport_encryption :: pstr
  client_auth :: pstr
  server_auth :: pstr
  response_ttl :: int
  clock_skew :: int
  s_rules :: "rule list"
  s_labels :: "(pstr \<times> pstr) list"
  trusted_fingerprints :: "pstr list"
  trusted_names :: "pstr list"

section \<open>Canonical bytes, digest, comparison\<close>

definition canonical_bytes :: "lib \<Rightarrow> dict \<Rightarrow> pbytes res" where
  "canonical_bytes E obj = utf8_encode (dumps E (sort_keys (PDict obj)))"

definition compute_request_digest :: "lib \<Rightarrow> dict \<Rightarrow> pstr res" where
  "compute_request_digest E request =
     (case canonical_bytes E request of Inl e \<Rightarrow> Inl e | Inr b \<Rightarrow> Inr (sha256_hex E b))"

definition secure_equals :: "pyval \<Rightarrow> pyval \<Rightarrow> bool res" where
  "secure_equals left right =
     (case (left, right) of
        (PStr l, PStr r) \<Rightarrow>
          (case utf8_encode l of Inl e \<Rightarrow> Inl e
           | Inr lb \<Rightarrow> (case utf8_encode r of Inl e \<Rightarrow> Inl e | Inr rb \<Rightarrow> Inr (lb = rb)))
      | _ \<Rightarrow> Inr False)"

section \<open>Building frames\<close>

definition build_request ::
  "pstr \<Rightarrow> pstr \<Rightarrow> pstr \<Rightarrow> pstr \<Rightarrow> pstr \<Rightarrow> pstr \<Rightarrow> pstr \<Rightarrow> pyval \<Rightarrow> pyval \<Rightarrow> dict" where
  "build_request nonce service target_user invoking_user rhost tty cwd client_version guest_hint =
     [(lit ''v'', PInt PROTOCOL_VERSION), (lit ''type'', PStr (lit ''auth_request'')),
      (lit ''nonce'', PStr nonce), (lit ''service'', PStr service),
      (lit ''target_user'', PStr target_user), (lit ''invoking_user'', PStr invoking_user),
      (lit ''rhost'', PStr rhost), (lit ''tty'', PStr tty), (lit ''cwd'', PStr cwd),
      (lit ''client_version'', client_version), (lit ''guest_hint'', guest_hint)]"

definition build_response ::
  "lib \<Rightarrow> int \<Rightarrow> pyval \<Rightarrow> pstr \<Rightarrow> dict option \<Rightarrow> security option \<Rightarrow> pyval \<Rightarrow> dict res" where
  "build_response E now nonce decision request security approver =
     (let response = [(lit ''v'', PInt PROTOCOL_VERSION), (lit ''type'', PStr (lit ''auth_response'')),
                      (lit ''nonce'', nonce), (lit ''decision'', PStr decision)];
          digested = (case request of None \<Rightarrow> Inr response
                      | Some req \<Rightarrow> (case compute_request_digest E req of Inl e \<Rightarrow> Inl e
                          | Inr h \<Rightarrow> Inr (response @ [(lit ''request_digest'', PStr h)])))
      in case digested of Inl e \<Rightarrow> Inl e
         | Inr r \<Rightarrow> (case security of None \<Rightarrow> Inr r
             | Some sec \<Rightarrow>
                 Inr (r @ [(lit ''issued_at'', PInt now),
                           (lit ''expires_at'', PInt (now + response_ttl sec))]
                        @ (if truthy approver then [(lit ''approver'', approver)] else []))))"

definition build_pending :: "pyval \<Rightarrow> dict" where
  "build_pending nonce =
     [(lit ''v'', PInt PROTOCOL_VERSION), (lit ''type'', PStr PENDING_TYPE), (lit ''nonce'', nonce)]"

section \<open>Frames on the wire\<close>

text \<open>The bytes \<open>write_message\<close> hands to the file object.\<close>

definition write_message :: "lib \<Rightarrow> dict \<Rightarrow> pbytes res" where
  "write_message E msg =
     (case utf8_encode (dumps E (PDict msg)) of
        Inl e \<Rightarrow> Inl e
      | Inr encoded \<Rightarrow>
          if MAX_MESSAGE_BYTES < length encoded then Inl (ProtocolError ''frame exceeds the limit'')
          else Inr (encoded @ [10]))"

text \<open>
  What a buffered reader still has to deliver: the bytes, and whether the connection then
  fails (a timeout or a reset, an \<open>OSError\<close>) or just ends.
\<close>

record stream =
  st_bytes :: pbytes
  st_fails :: bool

definition readline :: "nat \<Rightarrow> stream \<Rightarrow> (pbytes \<times> stream) res" where
  "readline cap st =
     (let bs = st_bytes st; n = length (takeWhile (\<lambda>b. b \<noteq> 10) bs)
      in if n < length bs \<and> n < cap then Inr (take (Suc n) bs, st\<lparr>st_bytes := drop (Suc n) bs\<rparr>)
         else if cap \<le> length bs then Inr (take cap bs, st\<lparr>st_bytes := drop cap bs\<rparr>)
         else if st_fails st then Inl (OSError ''read failed'')
         else Inr (bs, st\<lparr>st_bytes := []\<rparr>))"

definition read_message :: "lib \<Rightarrow> stream \<Rightarrow> (dict \<times> stream) res" where
  "read_message E st =
     (case readline (MAX_MESSAGE_BYTES + 1) st of
        Inl e \<Rightarrow> Inl e
      | Inr (line, st') \<Rightarrow>
          if line = [] then Inl ConnectionClosed
          else if last line \<noteq> 10 then Inl (ProtocolError ''frame exceeds the limit'')
          else (case utf8_decode (butlast line) of
                  None \<Rightarrow> Inl (ProtocolError ''frame is not valid UTF-8'')
                | Some text \<Rightarrow> (case json_loads E text of
                    Inl JIntDigits \<Rightarrow> Inl (ValueError ''Exceeds the limit for integer string conversion'')
                  | Inl _ \<Rightarrow> Inl (ProtocolError ''frame is not valid JSON'')
                  | Inr (PDict message) \<Rightarrow> Inr (message, st')
                  | Inr _ \<Rightarrow> Inl (ProtocolError ''frame is not a JSON object''))))"

text \<open>\<open>read_frame\<close> only sets the socket timeout first; a timeout is a failing stream.\<close>

definition read_frame :: "lib \<Rightarrow> stream \<Rightarrow> (dict \<times> stream) res" where
  "read_frame E st = read_message E st"

section \<open>Validation\<close>

definition validate_envelope :: "dict \<Rightarrow> pstr \<Rightarrow> unit res" where
  "validate_envelope message expected_type =
     (case dget message (lit ''v'') of
        PInt v \<Rightarrow>
          if v \<noteq> PROTOCOL_VERSION then Inl (ProtocolError ''unsupported protocol version'')
          else if dget message (lit ''type'') \<noteq> PStr expected_type
          then Inl (ProtocolError ''unexpected type'')
          else Inr ()
      | _ \<Rightarrow> Inl (ProtocolError ''missing or non-integer v''))"

definition validate_nonce :: "pyval \<Rightarrow> unit res" where
  "validate_nonce nonce =
     (case nonce of
        PStr s \<Rightarrow>
          if s = [] then Inl (ProtocolError ''missing or invalid nonce'')
          else (case b64decode s of
                  None \<Rightarrow> Inl (ProtocolError ''nonce is not valid base64'')
                | Some raw \<Rightarrow>
                    if length raw < 16 then Inl (ProtocolError ''nonce must decode to at least 16 bytes'')
                    else Inr ())
      | _ \<Rightarrow> Inl (ProtocolError ''missing or invalid nonce''))"

definition REQUEST_REQUIRED_FIELDS :: "pstr list" where
  "REQUEST_REQUIRED_FIELDS =
     [lit ''nonce'', lit ''service'', lit ''target_user'', lit ''invoking_user'', lit ''rhost'',
      lit ''tty'', lit ''cwd'', lit ''client_version'']"

fun check_required :: "pstr list \<Rightarrow> dict \<Rightarrow> unit res" where
  "check_required [] message = Inr ()"
| "check_required (name # names) message =
     (if \<not> dmem name message then Inl (ProtocolError ''missing required field'')
      else if \<not> is_str (dget message name) then Inl (ProtocolError ''field must be a string'')
      else check_required names message)"

definition parse_request :: "dict \<Rightarrow> dict res" where
  "parse_request message =
     (case validate_envelope message (lit ''auth_request'') of Inl e \<Rightarrow> Inl e
      | Inr _ \<Rightarrow> (case check_required REQUEST_REQUIRED_FIELDS message of Inl e \<Rightarrow> Inl e
      | Inr _ \<Rightarrow> (case validate_nonce (dget message (lit ''nonce'')) of Inl e \<Rightarrow> Inl e
      | Inr _ \<Rightarrow>
          if dmem (lit ''guest_hint'') message \<and> \<not> is_str (dget message (lit ''guest_hint''))
          then Inl (ProtocolError ''field guest_hint must be a string'')
          else Inr message)))"

definition is_decision :: "pyval \<Rightarrow> bool" where
  "is_decision d \<longleftrightarrow> d = PStr (lit ''allow'') \<or> d = PStr (lit ''deny'')"

definition parse_response :: "dict \<Rightarrow> pyval \<Rightarrow> pyval res" where
  "parse_response message expected_nonce =
     (case validate_envelope message (lit ''auth_response'') of Inl e \<Rightarrow> Inl e
      | Inr _ \<Rightarrow> (case secure_equals (dget message (lit ''nonce'')) expected_nonce of Inl e \<Rightarrow> Inl e
      | Inr same \<Rightarrow>
          if \<not> same then Inl (ProtocolError ''response nonce does not match the request'')
          else if \<not> is_decision (dget message (lit ''decision''))
          then Inl (ProtocolError ''missing or invalid decision'')
          else Inr (dget message (lit ''decision''))))"

definition parse_pending :: "dict \<Rightarrow> pyval \<Rightarrow> unit res" where
  "parse_pending message expected_nonce =
     (case validate_envelope message PENDING_TYPE of Inl e \<Rightarrow> Inl e
      | Inr _ \<Rightarrow>
          if \<not> is_str (dget message (lit ''nonce'')) \<or> \<not> truthy (dget message (lit ''nonce''))
          then Inl (ProtocolError ''missing or invalid nonce in auth_pending'')
          else (case secure_equals (dget message (lit ''nonce'')) expected_nonce of Inl e \<Rightarrow> Inl e
            | Inr same \<Rightarrow>
                if \<not> same then Inl (ProtocolError ''auth_pending nonce does not match the request'')
                else Inr ()))"

section \<open>Authentication of a request\<close>

definition attach_client_auth :: "dict \<Rightarrow> security \<Rightarrow> dict res" where
  "attach_client_auth request sec =
     (if client_auth sec \<notin> {lit ''transport'', lit ''none''}
      then Inl (AuthError ''unknown client_auth method'')
      else Inr (dset request (lit ''client_auth'')
                  (PDict [(lit ''method'', PStr (client_auth sec))])))"

text \<open>
  \<open>spki\<close> is \<open>spki_fingerprint(_load_der_cert(der).public_key())\<close> of the cryptography package; it
  fails with \<open>AuthError\<close> on bytes that are no certificate.
\<close>

definition authenticate_request ::
  "(pbytes \<Rightarrow> pstr res) \<Rightarrow> dict \<Rightarrow> security \<Rightarrow> pbytes option \<Rightarrow> pstr res" where
  "authenticate_request spki request sec peer_cert_der =
     (case dget request (lit ''client_auth'') of
        PDict block \<Rightarrow>
          if dget block (lit ''method'') \<noteq> PStr (client_auth sec)
          then Inl (AuthError ''client_auth method does not match the configured one'')
          else if dget block (lit ''method'') = PStr (lit ''none'') then Inr NONE_IDENTITY
          else if transport_encryption sec \<noteq> lit ''mtls''
          then Inl (AuthError ''client_auth = transport requires transport_encryption = mtls'')
          else (case peer_cert_der of
                  None \<Rightarrow> Inr (lit ''transport'')
                | Some der \<Rightarrow> if der \<noteq> [] then spki der else Inr (lit ''transport''))
      | _ \<Rightarrow> Inl (AuthError ''missing client_auth block''))"

section \<open>Verification of a response\<close>

definition check_response_freshness :: "int \<Rightarrow> dict \<Rightarrow> security \<Rightarrow> unit res" where
  "check_response_freshness now response sec =
     (case (dget response (lit ''issued_at''), dget response (lit ''expires_at'')) of
        (PInt issued, PInt expires) \<Rightarrow>
          if expires \<le> issued then Inl (ProtocolError ''expires_at is not after issued_at'')
          else if issued > now + clock_skew sec then Inl (ProtocolError ''response is not yet valid'')
          else if now > expires + clock_skew sec then Inl (ProtocolError ''response has expired'')
          else Inr ()
      | _ \<Rightarrow> Inl (ProtocolError ''missing or invalid issued_at/expires_at''))"

definition verify_response ::
  "lib \<Rightarrow> int \<Rightarrow> dict \<Rightarrow> dict \<Rightarrow> security \<Rightarrow> pyval set option \<Rightarrow> (pyval \<times> pyval set option) res" where
  "verify_response E now response request sec consumed_nonces =
     (case validate_envelope response (lit ''auth_response'') of Inl e \<Rightarrow> Inl e
      | Inr _ \<Rightarrow> (case secure_equals (dget response (lit ''nonce'')) (dget request (lit ''nonce'')) of
        Inl e \<Rightarrow> Inl e
      | Inr same \<Rightarrow>
          if \<not> same then Inl (ProtocolError ''response nonce does not match the request'')
          else (case compute_request_digest E request of Inl e \<Rightarrow> Inl e
      | Inr h \<Rightarrow> (case secure_equals (dget response (lit ''request_digest'')) (PStr h) of Inl e \<Rightarrow> Inl e
      | Inr digest_ok \<Rightarrow>
          if \<not> digest_ok then Inl (ProtocolError ''request_digest does not match the request'')
          else if \<not> is_decision (dget response (lit ''decision''))
          then Inl (ProtocolError ''missing or invalid decision'')
          else (case check_response_freshness now response sec of Inl e \<Rightarrow> Inl e
      | Inr _ \<Rightarrow> (case consumed_nonces of
            None \<Rightarrow> Inr (dget response (lit ''decision''), None)
          | Some used \<Rightarrow>
              if dget response (lit ''nonce'') \<in> used
              then Inl (AuthError ''response nonce has already been consumed'')
              else Inr (dget response (lit ''decision''),
                        Some (insert (dget response (lit ''nonce'')) used))))))))"

section \<open>A concrete library instance\<close>

text \<open>
  For witnesses: a stand-in for the digest (the hexadecimal text of the bytes, so that it is
  printable and injective), no text for floats, and the identity as normal form (which it is
  on ASCII text).
\<close>

definition hex_bytes :: "pbytes \<Rightarrow> pstr" where
  "hex_bytes b = concat (map (\<lambda>x. [hex_digit (x div 16 mod 16), hex_digit (x mod 16)]) b)"

definition demo_lib :: lib where
  "demo_lib = \<lparr>sha256_hex = hex_bytes, float_repr = (\<lambda>_. []), float_parse = (\<lambda>_. PFloat 0), float_text = (\<lambda>_. None),
     nfc = (\<lambda>s. s), str_text = (\<lambda>_. [])\<rparr>"

lemma encodable_hex_bytes: "encodable (hex_bytes b)"
proof -
  have "hex_digit (x mod 16) < 128" for x
    by (auto simp: hex_digit_def)
  then have "c < 128" if "c \<in> set (hex_bytes b)" for c
    using that by (auto simp: hex_bytes_def)
  then show ?thesis by (fastforce simp: encodable_def surrogate_def)
qed

section \<open>Comparison and canonical form\<close>

lemma b64_val_ascii: "b64_val c = Some v \<Longrightarrow> c < 128"
  by (auto simp: b64_val_def split: if_splits)

lemma b64decode_ascii: "b64decode s = Some b \<Longrightarrow> c \<in> set s \<Longrightarrow> c < 128"
  by (induction s arbitrary: b rule: b64decode.induct)
    (auto split: option.splits if_splits dest: b64_val_ascii)

lemma ascii_encodable: "(\<And>c. c \<in> set s \<Longrightarrow> c < 128) \<Longrightarrow> encodable s"
  by (fastforce simp: encodable_def surrogate_def)

lemma validate_nonce_ok_iff:
  "validate_nonce v = Inr () \<longleftrightarrow> (\<exists>s raw. v = PStr s \<and> s \<noteq> [] \<and> b64decode s = Some raw \<and> 16 \<le> length raw)"
  by (cases v) (auto simp: validate_nonce_def split: option.splits)

lemma nonce_encodable: "validate_nonce (PStr s) = Inr () \<Longrightarrow> encodable s"
  by (auto simp: validate_nonce_ok_iff dest: b64decode_ascii intro: ascii_encodable)

lemma secure_equals_Inr_True_iff:
  "secure_equals l r = Inr True \<longleftrightarrow> (\<exists>s. l = PStr s \<and> r = PStr s \<and> encodable s)"
proof
  assume a: "secure_equals l r = Inr True"
  obtain s t where s: "l = PStr s" and t: "r = PStr t"
    using a by (cases l; cases r) (auto simp: secure_equals_def)
  obtain b where b: "utf8_encode s = Inr b" "utf8_encode t = Inr b"
    using a s t by (auto simp: secure_equals_def split: sum.splits)
  then have "s = t" using utf8_decode_encode [of s b] utf8_decode_encode [of t b] by simp
  moreover have "encodable s" using b utf8_encode_ok_iff by blast
  ultimately show "\<exists>s. l = PStr s \<and> r = PStr s \<and> encodable s" using s t by blast
next
  assume "\<exists>s. l = PStr s \<and> r = PStr s \<and> encodable s"
  then show "secure_equals l r = Inr True"
    by (auto simp: secure_equals_def utf8_encode_enc)
qed

lemma secure_equals_raises_iff:
  "secure_equals l r = Inl e \<longleftrightarrow>
     e = UnicodeEncodeError \<and> (\<exists>s t. l = PStr s \<and> r = PStr t \<and> \<not> (encodable s \<and> encodable t))"
  by (cases l; cases r; cases "encodable (str_of l)"; cases "encodable (str_of r)")
    (auto simp: secure_equals_def utf8_encode_enc utf8_encode_error)

lemma canonical_bytes_ok:
  "json_ok (PDict r) \<Longrightarrow> text_ok (PDict r) \<Longrightarrow> \<exists>b. canonical_bytes E r = Inr b"
  unfolding canonical_bytes_def utf8_encode_ok_iff
  by (intro encodable_dumps(1) json_ok_sort_keys(1) text_ok_sort_keys(1))

lemma canonical_bytes_inj:
  assumes "canonical_bytes E r = Inr b" "canonical_bytes E r' = Inr b"
    and "json_ok (PDict r)" "json_ok (PDict r')"
  shows "sort_keys (PDict r) = sort_keys (PDict r')"
proof -
  have "dumps E (sort_keys (PDict r)) = dumps E (sort_keys (PDict r'))"
    using assms(1,2) [unfolded canonical_bytes_def, THEN utf8_decode_encode] by simp
  then show ?thesis
    by (rule json.enc_inj [rotated 2]) (intro json_ok_sort_keys assms)+
qed

text \<open>The order in which a request's keys were inserted or arrived does not matter.\<close>

lemma sort_keys_items_map: "sort_keys_items d = map (\<lambda>(k, v). (k, sort_keys v)) d"
  by (induction d) auto

lemma canonical_bytes_perm:
  assumes "mset r = mset r'" and "distinct (map fst r)"
  shows "canonical_bytes E r = canonical_bytes E r'"
proof -
  have "mset (sort_keys_items r) = mset (sort_keys_items r')"
    using assms(1) by (simp add: sort_keys_items_map)
  moreover have "inj_on fst (set (sort_keys_items r))"
    using assms(2) fst_sort_keys_items [of r] by (metis distinct_map)
  ultimately have "sort_key fst (sort_keys_items r) = sort_key fst (sort_keys_items r')"
    by (intro sort_key_inj_key_eq) simp_all
  then show ?thesis by (simp add: canonical_bytes_def)
qed

text \<open>Sorting keys moves entries around and sorts inside the values; a string is left alone.\<close>

lemma map_of_sort_key: "distinct (map fst d) \<Longrightarrow> map_of (sort_key fst d) = map_of d"
proof -
  assume d: "distinct (map fst d)"
  have "distinct (map fst (sort_key fst d))"
    using d by (simp add: distinct_map)
  then show ?thesis using d by (intro map_of_inject_set [THEN iffD2]) simp_all
qed

lemma map_of_sort_keys_items: "map_of (sort_keys_items d) k = map_option sort_keys (map_of d k)"
  by (induction d) auto

lemma sort_keys_str: "sort_keys v = PStr s \<longleftrightarrow> v = PStr s"
  by (cases v) auto

lemma sort_keys_items_str: "(k, PStr s) \<in> set d \<Longrightarrow> (k, PStr s) \<in> set (sort_keys_items d)"
  by (induction d) auto

lemma dumps_items_member:
  "(k, PStr s) \<in> set d \<Longrightarrow> c \<in> set s \<Longrightarrow> 128 \<le> c \<Longrightarrow> c \<in> set (dumps_items E d)"
proof (induction d)
  case (Cons kv d)
  have "c \<in> set (esc_char c)" if "128 \<le> c" using that by (simp add: esc_char_def)
  with Cons show ?case by (cases kv; cases d) (auto simp: str_json_def)
qed simp

lemma sort_keys_dict_strings:
  assumes eq: "sort_keys (PDict r) = sort_keys (PDict r')"
    and "distinct (map fst r)" "distinct (map fst r')"
  shows "dget r k = PStr s \<longleftrightarrow> dget r' k = PStr s"
proof -
  have "map_of (sort_keys_items r) = map_of (sort_keys_items r')"
    using eq assms(2,3) by (metis fst_sort_keys_items map_of_sort_key pyval.inject(7) sort_keys.simps(2))
  then have "map_option sort_keys (map_of r k) = map_option sort_keys (map_of r' k)"
    by (metis map_of_sort_keys_items)
  then show ?thesis
    by (cases "map_of r k"; cases "map_of r' k")
      (auto simp: dget_def, (metis sort_keys_str)+)
qed

section \<open>Frames\<close>

lemma write_message_Inr:
  assumes "write_message E msg = Inr b"
  obtains w where "utf8_encode (dumps E (PDict msg)) = Inr w" "b = w @ [10]" "length w \<le> MAX_MESSAGE_BYTES"
  using assms by (auto simp: write_message_def split: sum.splits if_splits)

lemma readline_line:
  assumes "10 \<notin> set w" "length w < cap"
  shows "readline cap \<lparr>st_bytes = w @ 10 # rest, st_fails = f\<rparr> =
     Inr (w @ [10], \<lparr>st_bytes = rest, st_fails = f\<rparr>)"
proof -
  have "takeWhile (\<lambda>b. b \<noteq> 10) (w @ 10 # rest) = w"
    using assms(1) by (induction w) auto
  then show ?thesis using assms(2) by (simp add: readline_def Let_def)
qed

lemma read_written:
  assumes "json_ok (PDict msg)" and "write_message E msg = Inr b"
  shows "read_message E \<lparr>st_bytes = b @ rest, st_fails = f\<rparr> =
     Inr (msg, \<lparr>st_bytes = rest, st_fails = f\<rparr>)"
proof -
  obtain w where w: "utf8_encode (dumps E (PDict msg)) = Inr w" "b = w @ [10]"
    "length w \<le> MAX_MESSAGE_BYTES"
    using assms(2) by (rule write_message_Inr)
  have "10 \<notin> set w"
    using utf8_encode_bytes [OF w(1), of 10] dumps_no_newline(1) [OF assms(1)] by auto
  then have "readline (MAX_MESSAGE_BYTES + 1) \<lparr>st_bytes = w @ 10 # rest, st_fails = f\<rparr> =
      Inr (w @ [10], \<lparr>st_bytes = rest, st_fails = f\<rparr>)"
    using w(3) by (intro readline_line) simp_all
  then show ?thesis
    using utf8_decode_encode [OF w(1)] json_loads_dumps [OF assms(1)]
    by (simp add: read_message_def w(2) butlast_append)
qed

text \<open>
  Framing round trip. Whatever frame \<open>write_message\<close> emits (every message without floats
  and with distinct keys), \<open>read_message\<close> on the other side returns the same message, and
  leaves exactly the bytes behind the frame in the stream: consecutive frames written into
  one segment are read one by one.
\<close>

theorem frame_roundtrip:
  assumes "json_ok (PDict msg)" and "write_message E msg = Inr b"
  shows "read_message E \<lparr>st_bytes = b @ rest, st_fails = f\<rparr> =
     Inr (msg, \<lparr>st_bytes = rest, st_fails = f\<rparr>)"
  using assms by (rule read_written)

text \<open>Evaluation of concrete frames by the simplifier.\<close>

lemmas frame_eval = write_message_def MAX_MESSAGE_BYTES_def str_json_def esc_char_def int_repr_def
  nat_repr.simps utf8_char_def surrogate_def max_int_digits_def lit_def

theorem frame_roundtrip_witness:
  "read_message demo_lib \<lparr>st_bytes = lit ''{\"a\":7}'' @ [10] @ lit ''tail'', st_fails = True\<rparr> =
     Inr ([(lit ''a'', PInt 7)], \<lparr>st_bytes = lit ''tail'', st_fails = True\<rparr>)"
proof -
  have "write_message demo_lib [(lit ''a'', PInt 7)] = Inr (lit ''{\"a\":7}'' @ [10])"
    by (simp add: frame_eval)
  moreover have "json_ok (PDict [(lit ''a'', PInt 7)])" by (simp add: frame_eval)
  ultimately show ?thesis
    using frame_roundtrip [of "[(lit ''a'', PInt 7)]" demo_lib "lit ''{\"a\":7}'' @ [10]" "lit ''tail''" True]
    by simp
qed

text \<open>
  The limit is the same on both sides: no frame \<open>write_message\<close> emits is refused for its
  length, and a line one byte longer than the longest frame is refused unread, whatever it
  holds.
\<close>

theorem overlong_frame_refused:
  assumes "length bs = MAX_MESSAGE_BYTES + 1" and "10 \<notin> set bs"
  shows "read_message E \<lparr>st_bytes = bs @ rest, st_fails = f\<rparr> =
      Inl (ProtocolError ''frame exceeds the limit'')
    \<and> (write_message E msg = Inr b \<longrightarrow> length b \<le> MAX_MESSAGE_BYTES + 1)"
proof
  have "takeWhile (\<lambda>b. b \<noteq> 10) (bs @ rest) = bs @ takeWhile (\<lambda>b. b \<noteq> 10) rest"
    using assms(2) by (intro takeWhile_append2) auto
  then have "readline (MAX_MESSAGE_BYTES + 1) \<lparr>st_bytes = bs @ rest, st_fails = f\<rparr> =
      Inr (bs, \<lparr>st_bytes = rest, st_fails = f\<rparr>)"
    using assms(1) by (simp add: readline_def Let_def)
  moreover have "bs \<noteq> []" "last bs \<noteq> 10"
    using assms last_in_set [of bs] by (cases bs; auto)+
  ultimately show "read_message E \<lparr>st_bytes = bs @ rest, st_fails = f\<rparr> =
      Inl (ProtocolError ''frame exceeds the limit'')"
    by (simp add: read_message_def)
  show "write_message E msg = Inr b \<longrightarrow> length b \<le> MAX_MESSAGE_BYTES + 1"
    by (auto elim!: write_message_Inr)
qed

theorem overlong_frame_refused_witness:
  "read_message demo_lib \<lparr>st_bytes = replicate (MAX_MESSAGE_BYTES + 1) 32 @ [10], st_fails = False\<rparr> =
     Inl (ProtocolError ''frame exceeds the limit'')"
  using overlong_frame_refused [of "replicate (MAX_MESSAGE_BYTES + 1) 32" demo_lib "[10]" False "[]" "[]"]
  by simp

section \<open>Requests\<close>

text \<open>The declarative reading of a well-formed request.\<close>

definition wf_request :: "dict \<Rightarrow> bool" where
  "wf_request m \<longleftrightarrow>
     dget m (lit ''v'') = PInt PROTOCOL_VERSION \<and>
     dget m (lit ''type'') = PStr (lit ''auth_request'') \<and>
     (\<forall>name \<in> set REQUEST_REQUIRED_FIELDS. \<exists>s. dget m name = PStr s) \<and>
     (\<exists>raw. b64decode (str_of (dget m (lit ''nonce''))) = Some raw \<and> 16 \<le> length raw) \<and>
     (dmem (lit ''guest_hint'') m \<longrightarrow> is_str (dget m (lit ''guest_hint'')))"

lemma validate_envelope_ok_iff:
  "validate_envelope m t = Inr () \<longleftrightarrow> dget m (lit ''v'') = PInt PROTOCOL_VERSION \<and> dget m (lit ''type'') = PStr t"
  by (auto simp: validate_envelope_def split: pyval.splits)

lemma check_required_ok_iff:
  "check_required names m = Inr () \<longleftrightarrow> (\<forall>name \<in> set names. \<exists>s. dget m name = PStr s)"
  by (induction names) (auto elim: is_strE dest: dget_not_mem)

lemma unit_res_cases:
  fixes m :: "unit res"
  obtains (ok) "m = Inr ()" | (err) e where "m = Inl e" "m \<noteq> Inr ()"
  by (cases m) auto

lemma nonce_field_iff:
  assumes "check_required REQUEST_REQUIRED_FIELDS m = Inr ()"
  shows "validate_nonce (dget m (lit ''nonce'')) = Inr () \<longleftrightarrow>
     (\<exists>raw. b64decode (str_of (dget m (lit ''nonce''))) = Some raw \<and> 16 \<le> length raw)"
proof -
  have "lit ''nonce'' \<in> set REQUEST_REQUIRED_FIELDS" by (simp add: REQUEST_REQUIRED_FIELDS_def)
  then obtain n where "dget m (lit ''nonce'') = PStr n"
    using assms check_required_ok_iff by blast
  then show ?thesis by (auto simp: validate_nonce_ok_iff)
qed

lemma wf_request_iff:
  "wf_request m \<longleftrightarrow> validate_envelope m (lit ''auth_request'') = Inr () \<and>
     check_required REQUEST_REQUIRED_FIELDS m = Inr () \<and>
     validate_nonce (dget m (lit ''nonce'')) = Inr () \<and>
     (dmem (lit ''guest_hint'') m \<longrightarrow> is_str (dget m (lit ''guest_hint'')))"
  using nonce_field_iff [of m]
  unfolding wf_request_def validate_envelope_ok_iff check_required_ok_iff by blast

lemma parse_request_Inr_iff: "parse_request m = Inr r \<longleftrightarrow> r = m \<and> wf_request m"
  unfolding wf_request_iff parse_request_def
  by (cases "validate_envelope m (lit ''auth_request'')" rule: unit_res_cases;
      cases "check_required REQUEST_REQUIRED_FIELDS m" rule: unit_res_cases;
      cases "validate_nonce (dget m (lit ''nonce''))" rule: unit_res_cases)
    auto

lemma parse_request_Inl: "parse_request m = Inl e \<Longrightarrow> \<exists>why. e = ProtocolError why"
proof -
  have env: "validate_envelope m t = Inl e \<Longrightarrow> \<exists>why. e = ProtocolError why" for t e
    by (auto simp: validate_envelope_def split: pyval.splits if_splits)
  have req: "check_required ns m = Inl e \<Longrightarrow> \<exists>why. e = ProtocolError why" for ns e
    by (induction ns) (auto split: if_splits)
  have non: "validate_nonce v = Inl e \<Longrightarrow> \<exists>why. e = ProtocolError why" for v e
    by (auto simp: validate_nonce_def split: pyval.splits if_splits option.splits)
  show "parse_request m = Inl e \<Longrightarrow> \<exists>why. e = ProtocolError why"
    by (auto simp: parse_request_def dest: env req non split: sum.splits if_splits)
qed

text \<open>
  The request validator accepts exactly the well-formed requests, and returns them
  unchanged; everything else raises \<open>ProtocolError\<close> and nothing else.
\<close>

theorem parse_request_spec:
  "\<exists>why. parse_request m = (if wf_request m then Inr m else Inl (ProtocolError why))"
  using parse_request_Inr_iff [of m] parse_request_Inl [of m] by (cases "parse_request m") auto

section \<open>Authentication\<close>

text \<open>A concrete mTLS configuration, for the witnesses.\<close>

definition demo_security :: security where
  "demo_security = \<lparr>s_transport = PStr (lit ''tcp''), transport_encryption = lit ''mtls'',
     client_auth = lit ''transport'', server_auth = lit ''transport'', response_ttl = 30, clock_skew = 5,
     s_rules = [], s_labels = [], trusted_fingerprints = [], trusted_names = []\<rparr>"

text \<open>
  C10: There is no way through \<open>authenticate_request\<close> that skips verification. An accepted request
  names the configured method; the identity is the \<open>none\<close> sentinel only when requester
  authentication is switched off in the configuration, and otherwise the channel is mTLS and
  the identity is the fingerprint of the certificate the handshake verified (or the
  placeholder when the handshake left none).
\<close>

theorem authenticate_request_no_bypass:
  assumes "authenticate_request spki request sec der = Inr who"
  shows "\<exists>block. dget request (lit ''client_auth'') = PDict block \<and>
     dget block (lit ''method'') = PStr (client_auth sec) \<and>
     (if client_auth sec = lit ''none'' then who = NONE_IDENTITY
      else transport_encryption sec = lit ''mtls'' \<and>
        (case der of Some d \<Rightarrow> (if d = [] then who = lit ''transport'' else spki d = Inr who)
         | None \<Rightarrow> who = lit ''transport''))"
  using assms
  by (auto simp: authenticate_request_def split: pyval.splits if_splits option.splits)

theorem authenticate_request_no_bypass_witness:
  "authenticate_request (\<lambda>d. Inr (lit ''SHA256:x''))
     [(lit ''client_auth'', PDict [(lit ''method'', PStr (lit ''transport''))])] demo_security (Some [1]) =
     Inr (lit ''SHA256:x'') \<and> transport_encryption demo_security = lit ''mtls''"
proof -
  have a: "authenticate_request (\<lambda>d. Inr (lit ''SHA256:x''))
       [(lit ''client_auth'', PDict [(lit ''method'', PStr (lit ''transport''))])] demo_security (Some [1]) =
       Inr (lit ''SHA256:x'')"
    by (simp add: authenticate_request_def demo_security_def)
  from a authenticate_request_no_bypass [OF a] show ?thesis by (auto simp: demo_security_def)
qed

lemma attach_authenticate:
  assumes "attach_client_auth request csec = Inr marked"
    and "client_auth ssec = client_auth csec"
    and "client_auth ssec = lit ''transport'' \<Longrightarrow> transport_encryption ssec = lit ''mtls''"
    and "der \<noteq> []"
  shows "authenticate_request spki marked ssec (Some der) =
     (if client_auth csec = lit ''none'' then Inr NONE_IDENTITY else spki der)"
  using assms by (auto simp: attach_client_auth_def authenticate_request_def split: if_splits)

text \<open>
  The two ends agree on the marker block: a request the client marked under its own
  configuration authenticates at a server with the same \<open>client_auth\<close>, as the peer's
  fingerprint under mTLS and as \<open>none\<close> otherwise.
\<close>

theorem attach_then_authenticate:
  assumes "attach_client_auth request csec = Inr marked"
    and "client_auth ssec = client_auth csec"
    and "client_auth ssec = lit ''transport'' \<Longrightarrow> transport_encryption ssec = lit ''mtls''"
    and "der \<noteq> []"
  shows "authenticate_request spki marked ssec (Some der) =
     (if client_auth csec = lit ''none'' then Inr NONE_IDENTITY else spki der)"
  using assms by (rule attach_authenticate)

theorem attach_then_authenticate_witness:
  "\<exists>marked. attach_client_auth [] demo_security = Inr marked \<and>
     authenticate_request (\<lambda>d. Inr (lit ''SHA256:x'')) marked demo_security (Some [1]) = Inr (lit ''SHA256:x'')"
proof -
  have "attach_client_auth [] demo_security =
      Inr (dset [] (lit ''client_auth'') (PDict [(lit ''method'', PStr (lit ''transport''))]))"
    by (simp add: attach_client_auth_def demo_security_def)
  from this attach_then_authenticate [OF this, of demo_security "[1]" "\<lambda>d. Inr (lit ''SHA256:x'')"]
  show ?thesis by (simp add: demo_security_def)
qed

section \<open>Responses\<close>

lemma verify_response_InrD:
  assumes "verify_response E now response request sec used = Inr (d, used')"
  obtains n h where
    "dget response (lit ''v'') = PInt PROTOCOL_VERSION"
    "dget response (lit ''type'') = PStr (lit ''auth_response'')"
    "dget response (lit ''nonce'') = PStr n" "dget request (lit ''nonce'') = PStr n"
    "compute_request_digest E request = Inr h" "dget response (lit ''request_digest'') = PStr h"
    "d = dget response (lit ''decision'')" "is_decision d"
    "check_response_freshness now response sec = Inr ()"
    "\<And>U. used = Some U \<Longrightarrow> PStr n \<notin> U \<and> used' = Some (insert (PStr n) U)"
proof -
  have env: "validate_envelope response (lit ''auth_response'') = Inr ()"
    using assms by (auto simp: verify_response_def split: sum.splits)
  have nonce: "secure_equals (dget response (lit ''nonce'')) (dget request (lit ''nonce'')) = Inr True"
    using assms by (auto simp: verify_response_def split: sum.splits if_splits)
  obtain h where h: "compute_request_digest E request = Inr h"
    using assms by (auto simp: verify_response_def split: sum.splits if_splits)
  have dig: "secure_equals (dget response (lit ''request_digest'')) (PStr h) = Inr True"
    using assms h by (auto simp: verify_response_def split: sum.splits if_splits)
  show ?thesis
    using assms env nonce h dig that
    by (auto simp: verify_response_def secure_equals_Inr_True_iff validate_envelope_ok_iff
        split: sum.splits if_splits option.splits)
qed

lemma verify_response_consumes:
  assumes "verify_response E now response request sec (Some used) = Inr (d, used')"
  shows "\<exists>n. dget request (lit ''nonce'') = PStr n \<and> PStr n \<notin> used \<and> used' = Some (insert (PStr n) used)"
  using assms by (rule verify_response_InrD) blast

lemma compute_request_digest_Inr:
  "compute_request_digest E r = Inr h \<longleftrightarrow> (\<exists>b. canonical_bytes E r = Inr b \<and> h = sha256_hex E b)"
  by (auto simp: compute_request_digest_def split: sum.splits)

text \<open>
  A decision is bound to its request. If the client accepts a response for \<open>request\<close>, and
  the server computed the response's digest from \<open>request'\<close>, then the two requests agree on
  every text field (service, users, tty, and the rest), provided SHA-256 does not collide on
  their two canonical encodings. An \<open>allow\<close> obtained for one elevation can not be replayed
  for another one.
\<close>

theorem response_bound_to_request:
  assumes "verify_response E now response request sec used = Inr (d, used')"
    and "compute_request_digest E request' = Inr h" "dget response (lit ''request_digest'') = PStr h"
    and "json_ok (PDict request)" "json_ok (PDict request')"
    and collision_free: "\<And>b b'. canonical_bytes E request = Inr b \<Longrightarrow> canonical_bytes E request' = Inr b' \<Longrightarrow>
        sha256_hex E b = sha256_hex E b' \<Longrightarrow> b = b'"
  shows "dget request k = PStr s \<longleftrightarrow> dget request' k = PStr s"
proof -
  from assms(1,3) have "compute_request_digest E request = Inr h"
    by (auto elim: verify_response_InrD)
  with assms(2) obtain b b' where b: "canonical_bytes E request = Inr b" "canonical_bytes E request' = Inr b'"
    "sha256_hex E b = sha256_hex E b'"
    by (auto simp: compute_request_digest_Inr)
  then have "b = b'" using collision_free by blast
  with b have "canonical_bytes E request = Inr b" "canonical_bytes E request' = Inr b" by simp_all
  then have "sort_keys (PDict request) = sort_keys (PDict request')"
    using assms(4,5) by (rule canonical_bytes_inj)
  then show ?thesis
    using assms(4,5) by (intro sort_keys_dict_strings) simp_all
qed

text \<open>A concrete well-formed request and the answer to it.\<close>

definition demo_nonce :: pstr where
  "demo_nonce = lit ''AAAAAAAAAAAAAAAAAAAAAAAAAAAAAAAAAAAAAAAAAAA=''"

definition demo_request :: dict where
  "demo_request = build_request demo_nonce (lit ''sudo'') (lit ''bob'') (lit ''bob'') [] (lit ''pts/1'')
     (lit ''/tmp'') (PStr CLIENT_VERSION) (PStr (lit ''vm''))
     @ [(lit ''client_auth'', PDict [(lit ''method'', PStr (lit ''transport''))])]"

lemmas demo_request_defs = demo_request_def build_request_def PROTOCOL_VERSION_def CLIENT_VERSION_def

lemma demo_request_nonce [simp]: "dget demo_request (lit ''nonce'') = PStr demo_nonce"
  by (simp add: demo_request_defs)

lemma json_ok_demo_request: "json_ok (PDict demo_request)"
  by (simp add: demo_request_defs nat_repr.simps max_int_digits_def)

lemma wf_demo_request: "wf_request demo_request"
proof -
  have "\<exists>raw. b64decode demo_nonce = Some raw \<and> 16 \<le> length raw"
    by (simp add: demo_nonce_def lit_def b64_val_def b64_group4_def b64_group3_def)
  then show ?thesis
    by (simp add: wf_request_def demo_request_defs REQUEST_REQUIRED_FIELDS_def)
qed

lemma canonical_demo_request: "\<exists>b. canonical_bytes E demo_request = Inr b"
  by (intro canonical_bytes_ok json_ok_demo_request) (simp add: demo_request_defs demo_nonce_def)

definition demo_digest :: pstr where
  "demo_digest = sha256_hex demo_lib (utf8_enc (dumps demo_lib (sort_keys (PDict demo_request))))"

lemma demo_digest: "compute_request_digest demo_lib demo_request = Inr demo_digest"
proof -
  obtain b where b: "canonical_bytes demo_lib demo_request = Inr b"
    using canonical_demo_request by blast
  then have "utf8_enc (dumps demo_lib (sort_keys (PDict demo_request))) = b"
    by (simp add: canonical_bytes_def utf8_enc_def)
  then show ?thesis using b by (simp add: compute_request_digest_def demo_digest_def)
qed

definition demo_response :: dict where
  "demo_response = [(lit ''v'', PInt 1), (lit ''type'', PStr (lit ''auth_response'')),
     (lit ''nonce'', PStr demo_nonce), (lit ''decision'', PStr (lit ''allow'')),
     (lit ''request_digest'', PStr demo_digest),
     (lit ''issued_at'', PInt 100), (lit ''expires_at'', PInt 130)]"

lemma build_demo_response:
  "build_response demo_lib 100 (dget demo_request (lit ''nonce'')) (lit ''allow'') (Some demo_request)
     (Some demo_security) PNone = Inr demo_response"
  by (simp add: build_response_def demo_digest demo_response_def PROTOCOL_VERSION_def demo_security_def)

section \<open>Honest exchanges\<close>

lemma dget_append: "dget (a @ b) k = (if dmem k a then dget a k else dget b k)"
  by (induction a) (auto simp: dget_def dmem_def)

lemma build_response_fields:
  assumes "build_response E now nonce decision (Some request) (Some sec) approver = Inr response"
  obtains h where "compute_request_digest E request = Inr h"
    "dget response (lit ''v'') = PInt PROTOCOL_VERSION"
    "dget response (lit ''type'') = PStr (lit ''auth_response'')"
    "dget response (lit ''nonce'') = nonce" "dget response (lit ''decision'') = PStr decision"
    "dget response (lit ''request_digest'') = PStr h"
    "dget response (lit ''issued_at'') = PInt now"
    "dget response (lit ''expires_at'') = PInt (now + response_ttl sec)"
proof -
  obtain h where h: "compute_request_digest E request = Inr h"
    using assms by (auto simp: build_response_def Let_def split: sum.splits)
  show ?thesis
    using assms by (intro that [OF h]) (auto simp: build_response_def Let_def h dget_append)
qed

lemma verify_honest:
  assumes "parse_request request = Inr request"
    and "build_response E t\<^sub>s (dget request (lit ''nonce'')) decision (Some request) (Some ssec) approver = Inr response"
    and "decision = lit ''allow'' \<or> decision = lit ''deny''"
    and "0 < response_ttl ssec" "t\<^sub>s \<le> t\<^sub>c + clock_skew csec" "t\<^sub>c \<le> t\<^sub>s + response_ttl ssec + clock_skew csec"
    and "\<And>b. encodable (sha256_hex E b)"
    and "dget request (lit ''nonce'') \<notin> used"
  shows "verify_response E t\<^sub>c response request csec (Some used) =
     Inr (PStr decision, Some (insert (dget request (lit ''nonce'')) used))"
proof -
  obtain h where f: "compute_request_digest E request = Inr h"
    "dget response (lit ''v'') = PInt PROTOCOL_VERSION"
    "dget response (lit ''type'') = PStr (lit ''auth_response'')"
    "dget response (lit ''nonce'') = dget request (lit ''nonce'')"
    "dget response (lit ''decision'') = PStr decision"
    "dget response (lit ''request_digest'') = PStr h"
    "dget response (lit ''issued_at'') = PInt t\<^sub>s"
    "dget response (lit ''expires_at'') = PInt (t\<^sub>s + response_ttl ssec)"
    using assms(2) by (rule build_response_fields)
  have "validate_nonce (dget request (lit ''nonce'')) = Inr ()"
    using assms(1) by (simp add: parse_request_Inr_iff wf_request_iff)
  then obtain n where n: "dget request (lit ''nonce'') = PStr n" "encodable n"
    using nonce_encodable by (auto simp: validate_nonce_ok_iff)
  have "encodable h" using f(1) assms(7) by (auto simp: compute_request_digest_Inr)
  then have eqs: "secure_equals (PStr n) (PStr n) = Inr True" "secure_equals (PStr h) (PStr h) = Inr True"
    using n by (simp_all add: secure_equals_Inr_True_iff)
  have env: "validate_envelope response (lit ''auth_response'') = Inr ()"
    using f by (simp add: validate_envelope_ok_iff)
  have fresh: "check_response_freshness t\<^sub>c response csec = Inr ()"
    using f assms(4-6) by (simp add: check_response_freshness_def)
  show ?thesis
    using assms(3,8) f n by (auto simp: verify_response_def env eqs fresh is_decision_def)
qed

text \<open>
  An honest answer is accepted. The response a server builds for a request it parsed
  passes every check of the client that sent it, whatever the approver label, as long as
  the two clocks differ by no more than the skew and the answer arrives within its lifetime,
  and its nonce has not been used; and then the nonce is used up.
\<close>

theorem honest_response_accepted:
  assumes "parse_request request = Inr request"
    and "build_response E t\<^sub>s (dget request (lit ''nonce'')) decision (Some request) (Some ssec) approver = Inr response"
    and "decision = lit ''allow'' \<or> decision = lit ''deny''"
    and "0 < response_ttl ssec" "t\<^sub>s \<le> t\<^sub>c + clock_skew csec" "t\<^sub>c \<le> t\<^sub>s + response_ttl ssec + clock_skew csec"
    and "\<And>b. encodable (sha256_hex E b)"
    and "dget request (lit ''nonce'') \<notin> used"
  shows "verify_response E t\<^sub>c response request csec (Some used) =
     Inr (PStr decision, Some (insert (dget request (lit ''nonce'')) used))"
  using assms by (rule verify_honest)

theorem honest_response_accepted_witness:
  "verify_response demo_lib 102 demo_response demo_request demo_security (Some {}) =
     Inr (PStr (lit ''allow''), Some {PStr demo_nonce})"
  using honest_response_accepted [of demo_request demo_lib 100 "lit ''allow''" demo_security PNone
      demo_response 102 demo_security "{}"] wf_demo_request build_demo_response
  by (simp add: parse_request_Inr_iff demo_security_def demo_lib_def encodable_hex_bytes)

lemma demo_accepted:
  "verify_response demo_lib 102 demo_response demo_request demo_security (Some {}) =
     Inr (PStr (lit ''allow''), Some {PStr demo_nonce})"
proof -
  have e: "encodable demo_nonce" by (simp add: demo_nonce_def)
  have d: "encodable demo_digest" by (simp add: demo_digest_def demo_lib_def encodable_hex_bytes)
  have "secure_equals (PStr demo_nonce) (PStr demo_nonce) = Inr True"
    "secure_equals (PStr demo_digest) (PStr demo_digest) = Inr True"
    using e d by (simp_all add: secure_equals_Inr_True_iff)
  then show ?thesis
    by (simp add: verify_response_def demo_response_def validate_envelope_def PROTOCOL_VERSION_def
        demo_digest is_decision_def
        check_response_freshness_def demo_security_def)
qed

theorem response_bound_to_request_witness:
  "dget demo_request (lit ''service'') = PStr (lit ''sudo'') \<longleftrightarrow>
     dget (rev demo_request) (lit ''service'') = PStr (lit ''sudo'')"
proof (rule response_bound_to_request [OF demo_accepted _ _ json_ok_demo_request])
  have same: "canonical_bytes demo_lib (rev demo_request) = canonical_bytes demo_lib demo_request"
    using json_ok_demo_request by (intro canonical_bytes_perm) (simp_all add: rev_map [symmetric])
  show "compute_request_digest demo_lib (rev demo_request) = Inr demo_digest"
    using demo_digest by (simp add: compute_request_digest_def same)
  show "dget demo_response (lit ''request_digest'') = PStr demo_digest"
    by (simp add: demo_response_def)
  show "json_ok (PDict (rev demo_request))"
    using json_ok_demo_request by (simp add: json_ok_items_iff rev_map [symmetric])
  show "b = b'" if "canonical_bytes demo_lib demo_request = Inr b"
    "canonical_bytes demo_lib (rev demo_request) = Inr b'" for b b'
    using that same by simp
qed

text \<open>
  A nonce is good for one response. Once a response has been accepted, the set of consumed
  nonces it returns makes every later response to the same request raise, whatever that
  response holds and whenever it is checked.
\<close>

theorem nonce_single_use:
  assumes "verify_response E now response request sec (Some used) = Inr (d, used')"
  shows "\<exists>e. verify_response E now2 response2 request sec2 used' = Inl e"
proof (cases "verify_response E now2 response2 request sec2 used'")
  case (Inr x)
  obtain d2 used2 where x: "x = (d2, used2)" by force
  obtain n where n: "dget request (lit ''nonce'') = PStr n" "used' = Some (insert (PStr n) used)"
    using verify_response_consumes [OF assms] by blast
  have "PStr n \<notin> insert (PStr n) used"
    using verify_response_consumes [of E now2 response2 request sec2 "insert (PStr n) used" d2 used2]
      Inr x n by auto
  then show ?thesis by simp
qed auto

theorem nonce_single_use_witness:
  "\<exists>e. verify_response demo_lib 103 demo_response demo_request demo_security (Some {PStr demo_nonce}) = Inl e"
  using nonce_single_use [OF demo_accepted] by simp



section \<open>Inputs the validators do not expect\<close>

text \<open>
  A lone surrogate in a peer's text is not rejected as a mismatch: \<open>json.loads\<close> accepts the
  escape and \<open>str.encode\<close> then raises \<open>UnicodeEncodeError\<close>, which is neither a
  \<open>ProtocolError\<close> nor an \<open>AuthError\<close>. Both the response check and the digest of a request that
  passed \<open>parse_request\<close> are affected.
\<close>

theorem lone_surrogate_raises:
  "\<exists>request response. wf_request request
     \<and> compute_request_digest E request = Inl UnicodeEncodeError
     \<and> verify_response E now response demo_request sec used = Inl UnicodeEncodeError"
proof -
  define evil :: dict where "evil = dset demo_request (lit ''cwd'') (PStr [55296])"
  have wf: "wf_request evil"
    using wf_demo_request by (auto simp: wf_request_def evil_def REQUEST_REQUIRED_FIELDS_def)
  have bad: "\<not> encodable (dumps E (sort_keys (PDict evil)))"
  proof -
    have "(lit ''cwd'', PStr [55296]) \<in> set evil"
      by (simp add: evil_def demo_request_defs dset_def)
    then have "(lit ''cwd'', PStr [55296]) \<in> set (sort_key fst (sort_keys_items evil))"
      by (simp add: sort_keys_items_str)
    then have "55296 \<in> set (dumps_items E (sort_key fst (sort_keys_items evil)))"
      by (rule dumps_items_member) simp_all
    then show ?thesis by (auto simp: encodable_def surrogate_def)
  qed
  have "compute_request_digest E evil = Inl UnicodeEncodeError"
    unfolding compute_request_digest_def canonical_bytes_def utf8_encode_error [OF bad] by simp
  moreover have "verify_response E now [(lit ''v'', PInt 1), (lit ''type'', PStr (lit ''auth_response'')),
      (lit ''nonce'', PStr [55296])] demo_request sec used = Inl UnicodeEncodeError"
  proof -
    have "secure_equals (PStr [55296]) (PStr demo_nonce) = Inl UnicodeEncodeError"
      by (auto simp: secure_equals_raises_iff surrogate_def)
    then show ?thesis
      by (simp add: verify_response_def validate_envelope_def PROTOCOL_VERSION_def)
  qed
  ultimately show ?thesis using wf by blast
qed

text \<open>
  A number of more than 4300 digits makes \<open>read_message\<close> raise a plain \<open>ValueError\<close>, not the
  \<open>ProtocolError\<close> its contract promises for everything that is not a single well-formed object.
\<close>

theorem long_integer_raises_ValueError:
  "read_message E \<lparr>st_bytes = replicate 4301 49 @ [10], st_fails = f\<rparr> =
     Inl (ValueError ''Exceeds the limit for integer string conversion'')"
proof -
  have r: "readline (MAX_MESSAGE_BYTES + 1) \<lparr>st_bytes = replicate 4301 49 @ 10 # [], st_fails = f\<rparr> =
      Inr (replicate 4301 49 @ [10], \<lparr>st_bytes = [], st_fails = f\<rparr>)"
    by (rule readline_line) (auto simp: MAX_MESSAGE_BYTES_def)
  have dec: "utf8_decode (replicate n 49) = Some (replicate n 49)" for n
    by (induction n) (simp_all add: utf8_next_def)
  have num: "jnum E (replicate 4301 49) = Inl JIntDigits"
  proof -
    have "jint_part (replicate 4301 49) = replicate 4301 49"
      by (simp add: jint_part_def startswith_def is_digit_def)
    then show ?thesis
      by (simp add: jnum_def Let_def startswith_def jfrac_def jexp_def max_int_digits_def)
  qed
  have atom: "jatom E (replicate 4301 49) = Inl JIntDigits"
    using num by (simp add: jatom_def lit_words startswith_def)
  obtain n where n: "2 * length (replicate 4301 (49::nat)) + 2 = Suc n" by simp
  have hd: "replicate 4301 (49::nat) = 49 # replicate 4300 49"
    using replicate_Suc [of 4300 "49::nat"] by simp
  have "jval E (Suc n) (replicate 4301 49) = Inl JIntDigits"
    using atom unfolding hd by simp
  moreover have "jws (replicate 4301 49) = replicate 4301 49"
    unfolding hd by (simp add: jws_def)
  ultimately have "json_loads E (replicate 4301 49) = Inl JIntDigits"
    unfolding json_loads_def n by simp
  with r dec [of 4301] show ?thesis
    by (simp add: read_message_def butlast_append)
qed
end
