(* ===== verification/Glob.thy ===== *)
theory Glob
  imports Prelude
begin

text \<open>
  \<open>fnmatch.fnmatchcase\<close> of the standard library, which every rule selector and name pin of the
  proxies is matched with: \<open>*\<close>, \<open>?\<close>, and character sets \<open>[abc]\<close>, \<open>[a-z]\<close>, \<open>[!abc]\<close>; a \<open>[\<close> that is
  never closed stands for itself. One corner of the library is left out: a set that starts
  with an empty range followed by \<open>!\<close> (such as \<open>[z-a!b]\<close>), which it reads as negated.
\<close>

text \<open>The members of a set as ranges; a range whose ends are out of order is empty.\<close>

fun set_items :: "pstr \<Rightarrow> (nat \<times> nat) list" where
  "set_items [] = []"
| "set_items [a] = [(a, a)]"
| "set_items [a, b] = [(a, a), (b, b)]"
| "set_items (a # b # c # r) =
     (if b = 45 then (a, c) # set_items r else (a, a) # set_items (b # c # r))"

definition in_set :: "nat \<Rightarrow> pstr \<Rightarrow> bool" where
  "in_set x body \<longleftrightarrow> (\<exists>(lo, hi) \<in> set (set_items body). lo \<le> x \<and> x \<le> hi)"

text \<open>What follows a \<open>[\<close>: negation, body and the pattern after the closing bracket.\<close>

definition split_set :: "pstr \<Rightarrow> (bool \<times> pstr \<times> pstr) option" where
  "split_set p =
     (let neg = startswith [33] p; p1 = (if neg then drop 1 p else p);
          hd1 = (if startswith [93] p1 then [93] else []); p2 = drop (length hd1) p1;
          body = takeWhile (\<lambda>c. c \<noteq> 93) p2
      in if length body = length p2 then None
         else Some (neg, hd1 @ body, drop (Suc (length body)) p2))"

lemma split_set_length: "split_set p = Some (neg, body, rest) \<Longrightarrow> length rest < length p"
  by (cases p) (auto simp: split_set_def Let_def startswith_def split: if_splits)

function glob :: "pstr \<Rightarrow> pstr \<Rightarrow> bool" where
  "glob [] s = (s = [])"
| "glob (c # p) s =
     (if c = 42 then glob p s \<or> (case s of [] \<Rightarrow> False | x # s' \<Rightarrow> glob (c # p) s')
      else (case s of
        [] \<Rightarrow> False
      | x # s' \<Rightarrow>
          if c = 63 then glob p s'
          else if c = 91 then
            (case split_set p of
               None \<Rightarrow> x = c \<and> glob p s'
             | Some (neg, body, rest) \<Rightarrow> neg \<noteq> in_set x body \<and> glob rest s')
          else x = c \<and> glob p s'))"
  by pat_completeness auto
termination
  by (relation "measure (\<lambda>(p, s). length p + length s)") (auto dest: split_set_length)

definition fnmatchcase :: "pstr \<Rightarrow> pstr \<Rightarrow> bool" where
  "fnmatchcase name pat \<longleftrightarrow> glob pat name"

text \<open>A pattern without metacharacters matches only itself; \<open>*\<close> matches everything.\<close>

definition plain :: "pstr \<Rightarrow> bool" where
  "plain p \<longleftrightarrow> (\<forall>c \<in> set p. c \<noteq> 42 \<and> c \<noteq> 63 \<and> c \<noteq> 91)"

lemma glob_plain: "plain p \<Longrightarrow> glob p s \<longleftrightarrow> s = p"
  by (induction p arbitrary: s) (auto simp: plain_def split: list.splits)

lemma glob_star [simp]: "glob [42] s"
proof (induction s)
  case (Cons x s)
  then show ?case by (subst glob.simps) simp
qed simp

lemma glob_star_prefix: "glob (42 # p) s \<longleftrightarrow> (\<exists>k \<le> length s. glob p (drop k s))"
proof (induction s)
  case Nil
  then show ?case by simp
next
  case (Cons x s)
  have "(\<exists>k \<le> length (x # s). glob p (drop k (x # s))) \<longleftrightarrow>
      glob p (x # s) \<or> (\<exists>k \<le> length s. glob p (drop k s))"
    by (auto simp: drop_Cons' not0_implies_Suc)
  with Cons show ?case by simp
qed

lemma fnmatchcase_plain: "plain p \<Longrightarrow> fnmatchcase s p \<longleftrightarrow> s = p"
  by (simp add: fnmatchcase_def glob_plain)

lemma fnmatchcase_star [simp]: "fnmatchcase s [42]"
  unfolding fnmatchcase_def by (rule glob_star)

lemma plain_lit: "plain (lit s) \<longleftrightarrow> CHR ''*'' \<notin> set s \<and> CHR ''?'' \<notin> set s \<and> CHR 0x5B \<notin> set s"
proof -
  have "of_char c = (of_char d :: nat) \<longleftrightarrow> c = d" for c d by (rule of_char_eq_iff)
  from this [of _ "CHR ''*''"] this [of _ "CHR ''?''"] this [of _ "CHR 0x5B"]
  show ?thesis by (auto simp: plain_def lit_def)
qed

end
