(* ===== verification/Policy.thy ===== *)
theory Policy
  imports Protocol Glob
begin

text \<open>
  The approval rules of \<open>sudo-auth-proxy\<close> (\<open>[[rule]]\<close>): parsing a rule list, matching a rule
  against a connection, and the first-match evaluation. The evaluation interprets the
  first-match interface of the prelude.
\<close>

section \<open>Selectors\<close>

definition as_pattern_list :: "pyval \<Rightarrow> pstr list res" where
  "as_pattern_list value =
     (case value of
        PNone \<Rightarrow> Inr []
      | PStr s \<Rightarrow> Inr (if s \<noteq> [] then [s] else [])
      | PList vs \<Rightarrow>
          if \<forall>p \<in> set vs. is_str p then Inr (map str_of vs)
          else Inl (SecurityConfigError ''rule match selector must be a string or a list of strings'')
      | _ \<Rightarrow> Inl (SecurityConfigError ''rule match selector must be a string or a list of strings''))"

definition matches_any :: "pstr list \<Rightarrow> pstr \<Rightarrow> bool" where
  "matches_any patterns value \<longleftrightarrow>
     (if patterns = [] then True else \<exists>pattern \<in> set patterns. fnmatchcase value pattern)"

definition matches_any_of :: "pstr list \<Rightarrow> pstr list \<Rightarrow> bool" where
  "matches_any_of patterns values \<longleftrightarrow>
     (if patterns = [] then True
      else \<exists>pattern \<in> set patterns. \<exists>value \<in> set values. fnmatchcase value pattern)"

section \<open>Evaluation\<close>

text \<open>The context a request is matched in: the keyword arguments of \<open>Rule.matches\<close>.\<close>

record conn =
  cn_identities :: "pstr list"
  cn_target_user :: pstr
  cn_invoking_user :: pstr
  cn_service :: pstr
  cn_listener :: pstr

definition rule_matches :: "rule \<Rightarrow> conn \<Rightarrow> bool" where
  "rule_matches r c \<longleftrightarrow>
     matches_any_of (r_machine r) (cn_identities c) \<and>
     matches_any (r_target_user r) (cn_target_user c) \<and>
     matches_any (r_invoking_user r) (cn_invoking_user c) \<and>
     matches_any (r_service r) (cn_service c) \<and>
     matches_any (r_listeners r) (cn_listener c)"

fun evaluate_rules :: "rule list \<Rightarrow> conn \<Rightarrow> pstr" where
  "evaluate_rules [] c = lit ''ask''"
| "evaluate_rules (r # rules) c = (if rule_matches r c then r_policy r else evaluate_rules rules c)"

fun identity_candidates_from :: "pstr list \<Rightarrow> pstr list \<Rightarrow> pstr list" where
  "identity_candidates_from [] seen = seen"
| "identity_candidates_from (value # rest) seen =
     identity_candidates_from rest (if value \<noteq> [] \<and> value \<notin> set seen then seen @ [value] else seen)"

definition identity_candidates :: "pstr \<Rightarrow> pstr \<Rightarrow> pstr \<Rightarrow> pstr list" where
  "identity_candidates requester label peer = identity_candidates_from [label, peer, requester] []"

section \<open>Parsing\<close>

definition RULE_POLICIES :: "pstr list" where
  "RULE_POLICIES = [lit ''allow'', lit ''ask'', lit ''deny'']"

definition CONFIG_RULE_KEYS :: "pstr list" where
  "CONFIG_RULE_KEYS = [lit ''match'', lit ''policy'']"

definition CONFIG_RULE_MATCH_KEYS :: "pstr list" where
  "CONFIG_RULE_MATCH_KEYS =
     [lit ''machine'', lit ''listeners'', lit ''service'', lit ''target_user'', lit ''invoking_user'']"

text \<open>The keyword arguments of the \<open>Rule(...)\<close> call are evaluated in this order.\<close>

definition build_rule :: "pstr \<Rightarrow> dict \<Rightarrow> rule res" where
  "build_rule policy match =
     (case map_res (\<lambda>k. as_pattern_list (dget match k)) CONFIG_RULE_MATCH_KEYS of
        Inr [machine, listeners, service, target_user, invoking_user] \<Rightarrow>
          Inr \<lparr>r_machine = machine, r_listeners = listeners, r_service = service,
               r_target_user = target_user, r_invoking_user = invoking_user, r_policy = policy\<rparr>
      | Inr _ \<Rightarrow> Inl TypeError
      | Inl e \<Rightarrow> Inl e)"

definition parse_rule :: "pyval \<Rightarrow> rule res" where
  "parse_rule entry_value =
     (case entry_value of
        PDict entry \<Rightarrow>
          if \<exists>k \<in> set (dkeys entry). k \<notin> set CONFIG_RULE_KEYS
          then Inl (SecurityConfigError ''rule has unknown key(s)'')
          else if dget_or entry (lit ''policy'') (PStr (lit ''ask'')) \<notin> PStr ` set RULE_POLICIES
          then Inl (SecurityConfigError ''rule policy must be one of allow, ask, deny'')
          else (case dget_or entry (lit ''match'') (PDict []) of
                  PDict match \<Rightarrow>
                    if \<exists>k \<in> set (dkeys match). k \<notin> set CONFIG_RULE_MATCH_KEYS
                    then Inl (SecurityConfigError ''rule.match has unknown key(s)'')
                    else build_rule (str_of (dget_or entry (lit ''policy'') (PStr (lit ''ask'')))) match
                | _ \<Rightarrow> Inl (SecurityConfigError ''rule.match must be a table''))
      | _ \<Rightarrow> Inl (SecurityConfigError ''rule must be a table''))"

definition parse_rules :: "pyval \<Rightarrow> rule list res" where
  "parse_rules entries =
     (case entries of
        PNone \<Rightarrow> Inr []
      | PList es \<Rightarrow> map_res parse_rule es
      | _ \<Rightarrow> Inl (SecurityConfigError ''rule must be an array of tables''))"

section \<open>First match\<close>

interpretation rules: first_match evaluate_rules rule_matches r_policy "lit ''ask''"
  by unfold_locales simp_all

text \<open>A rule whose every selector is empty matches every connection.\<close>

definition catch_all :: "pstr \<Rightarrow> rule" where
  "catch_all policy = \<lparr>r_machine = [], r_listeners = [], r_service = [], r_target_user = [],
     r_invoking_user = [], r_policy = policy\<rparr>"

lemma catch_all_policy [simp]: "r_policy (catch_all policy) = policy"
  by (simp add: catch_all_def)

lemma catch_all_matches [simp]: "rule_matches (catch_all policy) c"
  by (simp add: rule_matches_def catch_all_def matches_any_def matches_any_of_def)

text \<open>
  The first matching rule decides and nothing else does: either no rule matches and the
  policy is \<open>ask\<close>, or the policy is that of a matching rule before which no rule matches.
\<close>

theorem evaluate_rules_first_match:
  "(evaluate_rules rs c = lit ''ask'' \<and> (\<forall>r \<in> set rs. \<not> rule_matches r c)) \<or>
   (\<exists>us r vs. rs = us @ r # vs \<and> rule_matches r c \<and> (\<forall>u \<in> set us. \<not> rule_matches u c)
      \<and> evaluate_rules rs c = r_policy r)"
  by (rule rules.eval_decided_by)

theorem evaluate_rules_first_match_witness:
  "\<exists>us r vs. [catch_all (lit ''deny''), catch_all (lit ''allow'')] = us @ r # vs
     \<and> (\<forall>u \<in> set us. \<not> rule_matches u \<lparr>cn_identities = [], cn_target_user = [], cn_invoking_user = [],
          cn_service = [], cn_listener = []\<rparr>) \<and> r_policy r = lit ''deny''"
proof -
  let ?c = "\<lparr>cn_identities = [], cn_target_user = [], cn_invoking_user = [], cn_service = [], cn_listener = []\<rparr>"
  have "evaluate_rules [catch_all (lit ''deny''), catch_all (lit ''allow'')] ?c = lit ''deny''" by simp
  with evaluate_rules_first_match [of "[catch_all (lit ''deny''), catch_all (lit ''allow'')]" ?c]
  show ?thesis by (metis catch_all_matches list.set_intros(1))
qed

text \<open>
  How far a selector reaches. A selector list written as plain names admits exactly those
  names; adding a pattern never shrinks it, except that the first pattern added to an empty
  selector does.
\<close>

lemma matches_any_plain:
  "patterns \<noteq> [] \<Longrightarrow> \<forall>p \<in> set patterns. plain p \<Longrightarrow> matches_any patterns v \<longleftrightarrow> v \<in> set patterns"
  by (auto simp: matches_any_def fnmatchcase_plain)

lemma matches_any_of_single: "matches_any_of patterns [v] \<longleftrightarrow> matches_any patterns v"
  by (auto simp: matches_any_of_def matches_any_def)

lemma matches_any_mono:
  "matches_any patterns v \<Longrightarrow> patterns \<noteq> [] \<Longrightarrow> set patterns \<subseteq> set wider \<Longrightarrow> matches_any wider v"
  by (auto simp: matches_any_def split: if_splits)

lemma matches_any_of_mono:
  "matches_any_of patterns vs \<Longrightarrow> patterns \<noteq> [] \<Longrightarrow> set patterns \<subseteq> set wider \<Longrightarrow> matches_any_of wider vs"
  by (auto simp: matches_any_of_def split: if_splits)

text \<open>
  Order is a security decision. Behind a catch-all rule nothing is reached, so a
  \<open>deny\<close> rule written after a permissive catch-all never fires; and a rule that only matches
  connections an earlier rule already decides can be deleted without changing any decision.
\<close>

theorem shadowed_rule_is_dead:
  assumes "\<And>c. rule_matches s c \<Longrightarrow> \<exists>r \<in> set before. rule_matches r c"
  shows "evaluate_rules (before @ s # after) = evaluate_rules (before @ after)
    \<and> evaluate_rules (catch_all p # rest) c = p"
proof
  show "evaluate_rules (before @ s # after) = evaluate_rules (before @ after)"
    using assms by (intro ext rules.eval_shadowed)
  show "evaluate_rules (catch_all p # rest) c = p"
    by simp
qed

theorem shadowed_rule_is_dead_witness:
  "evaluate_rules [catch_all (lit ''allow''), catch_all (lit ''deny'')] =
     evaluate_rules [catch_all (lit ''allow'')]"
  using shadowed_rule_is_dead [of "catch_all (lit ''deny'')" "[catch_all (lit ''allow'')]" "[]"]
  by simp

text \<open>The parsed rules carry one of the three policies.\<close>

lemma build_rule_policy: "build_rule policy match = Inr r \<Longrightarrow> r_policy r = policy"
  by (auto simp: build_rule_def split: sum.splits list.splits)

lemma parse_rule_policy: "parse_rule e = Inr r \<Longrightarrow> r_policy r \<in> set RULE_POLICIES"
  by (auto simp: parse_rule_def dest!: build_rule_policy split: pyval.splits if_splits)

lemma parse_rules_Inr:
  assumes "parse_rules v = Inr rs"
  shows "v = PNone \<and> rs = [] \<or> (\<exists>es. v = PList es \<and> list_all2 (\<lambda>e r. parse_rule e = Inr r) es rs)"
  using assms by (auto simp: parse_rules_def map_res_Inr_iff split: pyval.splits)

lemma parse_rules_policies: "parse_rules v = Inr rs \<Longrightarrow> r \<in> set rs \<Longrightarrow> r_policy r \<in> set RULE_POLICIES"
  by (auto dest!: parse_rules_Inr simp: list_all2_conv_all_nth in_set_conv_nth [of r rs])
    (metis parse_rule_policy)

lemma evaluate_rules_policy:
  "(\<And>r. r \<in> set rs \<Longrightarrow> r_policy r \<in> set RULE_POLICIES) \<Longrightarrow> evaluate_rules rs c \<in> set RULE_POLICIES"
  by (induction rs) (auto simp: RULE_POLICIES_def)

text \<open>
  Parsing is order-preserving and fail-closed: an accepted rule list has one rule per entry,
  the n-th from the n-th entry; each entry is a table with only the keys the engine reads; and
  whatever the connection, evaluating the list gives \<open>allow\<close>, \<open>ask\<close> or \<open>deny\<close>.
\<close>

theorem parse_rules_sound:
  assumes "parse_rules (PList es) = Inr rs"
  shows "length rs = length es
    \<and> (\<forall>i < length es. parse_rule (es ! i) = Inr (rs ! i)
         \<and> (\<exists>d. es ! i = PDict d \<and> set (dkeys d) \<subseteq> set CONFIG_RULE_KEYS))
    \<and> evaluate_rules rs c \<in> {lit ''allow'', lit ''ask'', lit ''deny''}"
proof -
  have all: "list_all2 (\<lambda>e r. parse_rule e = Inr r) es rs"
    using parse_rules_Inr [OF assms] by simp
  have keys: "parse_rule e = Inr r \<Longrightarrow> \<exists>d. e = PDict d \<and> set (dkeys d) \<subseteq> set CONFIG_RULE_KEYS" for e r
    by (auto simp: parse_rule_def split: pyval.splits if_splits)
  have "evaluate_rules rs c \<in> set RULE_POLICIES"
    using parse_rules_policies [OF assms] by (rule evaluate_rules_policy)
  then show ?thesis
    using all keys by (auto simp: list_all2_conv_all_nth RULE_POLICIES_def)
qed

theorem parse_rules_sound_witness:
  "evaluate_rules [\<lparr>r_machine = [lit ''dev-*''], r_listeners = [], r_service = [], r_target_user = [],
     r_invoking_user = [], r_policy = lit ''allow''\<rparr>]
     \<lparr>cn_identities = [lit ''prod-1''], cn_target_user = [], cn_invoking_user = [], cn_service = [], cn_listener = []\<rparr>
     \<in> {lit ''allow'', lit ''ask'', lit ''deny''}"
proof -
  have "parse_rules (PList [PDict [(lit ''match'', PDict [(lit ''machine'', PStr (lit ''dev-*''))]),
      (lit ''policy'', PStr (lit ''allow''))]]) = Inr [\<lparr>r_machine = [lit ''dev-*''], r_listeners = [],
      r_service = [], r_target_user = [], r_invoking_user = [], r_policy = lit ''allow''\<rparr>]"
    by (simp add: parse_rules_def parse_rule_def build_rule_def CONFIG_RULE_KEYS_def RULE_POLICIES_def
        CONFIG_RULE_MATCH_KEYS_def dkeys_def dget_or_def as_pattern_list_def)
  from parse_rules_sound [OF this] show ?thesis by blast
qed

text \<open>The candidates are the non-empty names, label first, without repetition.\<close>

lemma identity_candidates_from_spec:
  "set (identity_candidates_from vs seen) = set seen \<union> (set vs - {[]}) \<and>
   (distinct seen \<longrightarrow> distinct (identity_candidates_from vs seen))"
  by (induction vs arbitrary: seen) auto

lemma set_identity_candidates:
  "set (identity_candidates requester label peer) = {label, peer, requester} - {[]}"
  "distinct (identity_candidates requester label peer)"
  using identity_candidates_from_spec [of "[label, peer, requester]" "[]"]
  by (auto simp: identity_candidates_def)

text \<open>
  A rule that names machines is only reached through a name the server has for the
  connection: if its machine selector lists plain names, it matches only when one of them is
  the label, the resolved peer name or the verified credential, never through the text the
  requester chose for its user or service fields.
\<close>

theorem machine_rule_needs_identity:
  assumes "r_machine r \<noteq> []" and "\<forall>p \<in> set (r_machine r). plain p"
    and "cn_identities c = identity_candidates requester label peer" and "rule_matches r c"
  shows "\<exists>name \<in> set (r_machine r). name \<in> {label, peer, requester}"
  using assms set_identity_candidates(1) [of requester label peer]
  by (auto simp: rule_matches_def matches_any_of_def fnmatchcase_plain)

theorem machine_rule_needs_identity_witness:
  "\<exists>name \<in> {lit ''vault''}. name \<in> {lit ''vault'', [], lit ''SHA256:k''}"
proof -
  let ?r = "(catch_all (lit ''allow''))\<lparr>r_machine := [lit ''vault'']\<rparr>"
  let ?c = "\<lparr>cn_identities = identity_candidates (lit ''SHA256:k'') (lit ''vault'') [],
     cn_target_user = [], cn_invoking_user = [], cn_service = [], cn_listener = []\<rparr>"
  have "rule_matches ?r ?c"
    by (simp add: rule_matches_def catch_all_def matches_any_def matches_any_of_def
        set_identity_candidates fnmatchcase_plain plain_lit)
  then show ?thesis
    using machine_rule_needs_identity [of ?r ?c "lit ''SHA256:k''" "lit ''vault''" "[]"]
    by (simp add: plain_lit)
qed

end
