(* ===== verification/Config.thy ===== *)
theory Config
  imports Policy
begin

text \<open>
  The configuration of \<open>sudo-auth-proxy\<close>: coercion of single values, the exact key schema of a
  flat and of a multi-listener document, the expansion into listener views, the three security
  knobs, the client's server pin, the label map, and \<open>build_security\<close>.
\<close>

section \<open>Coercions\<close>

definition is_space :: "nat \<Rightarrow> bool" where
  "is_space c \<longleftrightarrow> c = 32 \<or> (9 \<le> c \<and> c \<le> 13)"

definition strip :: "pstr \<Rightarrow> pstr" where
  "strip s = rev (dropWhile is_space (rev (dropWhile is_space s)))"

text \<open>Digits of an \<open>int(text, base)\<close> literal: single underscores may stand between digits.\<close>

fun digits_val :: "nat \<Rightarrow> nat \<Rightarrow> pstr \<Rightarrow> nat option" where
  "digits_val base acc [] = Some acc"
| "digits_val base acc (c # s) =
     (if c = 95 then
        (case s of [] \<Rightarrow> None
         | d # s' \<Rightarrow> if 48 \<le> d \<and> d < 48 + base then digits_val base (base * acc + (d - 48)) s' else None)
      else if 48 \<le> c \<and> c < 48 + base then digits_val base (base * acc + (c - 48)) s
      else None)"

definition unsigned_val :: "nat \<Rightarrow> pstr \<Rightarrow> nat option" where
  "unsigned_val base s =
     (case s of [] \<Rightarrow> None
      | c # _ \<Rightarrow> if 48 \<le> c \<and> c < 48 + base then digits_val base 0 s else None)"

definition int_text :: "nat \<Rightarrow> pstr \<Rightarrow> int option" where
  "int_text base s =
     (case strip s of
        [] \<Rightarrow> None
      | c # r \<Rightarrow>
          (let (sign, body) = (if c = 45 then (-1, r) else if c = 43 then (1, r) else (1, c # r));
               digits = (if base = 8 \<and> (startswith (lit ''0o'') body \<or> startswith (lit ''0O'') body)
                         then (case drop 2 body of [] \<Rightarrow> [] | d # ds \<Rightarrow> if d = 95 then ds else d # ds) else body)
           in map_option (\<lambda>n. sign * int n) (unsigned_val base digits)))"

text \<open>\<open>int(value)\<close>: a float is truncated towards zero; infinities overflow, NaN is a \<open>ValueError\<close>.\<close>

definition py_int :: "pyval \<Rightarrow> int res" where
  "py_int v =
     (case v of
        PInt i \<Rightarrow> Inr i
      | PBool b \<Rightarrow> Inr (if b then 1 else 0)
      | PFloat q \<Rightarrow> Inr (if 0 \<le> q then \<lfloor>q\<rfloor> else \<lceil>q\<rceil>)
      | PNonFinite t \<Rightarrow> if t = lit ''NaN'' then Inl (ValueError ''cannot convert float NaN to integer'') else Inl OverflowError
      | PStr s \<Rightarrow>
          if 4300 < length (filter (\<lambda>c. 48 \<le> c \<and> c \<le> 57) s)
          then Inl (ValueError ''Exceeds the limit for integer string conversion'')
          else (case int_text 10 s of None \<Rightarrow> Inl (ValueError ''invalid literal for int()'') | Some i \<Rightarrow> Inr i)
      | _ \<Rightarrow> Inl TypeError)"

definition py_float :: "lib \<Rightarrow> pyval \<Rightarrow> pyval res" where
  "py_float E v =
     (case v of
        PInt i \<Rightarrow> Inr (PFloat (of_int i))
      | PBool b \<Rightarrow> Inr (PFloat (if b then 1 else 0))
      | PFloat q \<Rightarrow> Inr v
      | PNonFinite t \<Rightarrow> Inr v
      | PStr s \<Rightarrow> (case float_text E s of None \<Rightarrow> Inl (ValueError ''could not convert string to float'') | Some f \<Rightarrow> Inr f)
      | _ \<Rightarrow> Inl TypeError)"

definition float_positive :: "pyval \<Rightarrow> bool" where
  "float_positive v = (case v of PFloat q \<Rightarrow> 0 < q | PNonFinite t \<Rightarrow> t = lit ''Infinity'' | _ \<Rightarrow> False)"

definition parse_mode :: "pyval \<Rightarrow> int \<Rightarrow> int" where
  "parse_mode value dflt =
     (case value of
        PNone \<Rightarrow> dflt
      | PInt i \<Rightarrow> i
      | PStr s \<Rightarrow> (case int_text 8 s of None \<Rightarrow> dflt | Some m \<Rightarrow> m)
      | _ \<Rightarrow> dflt)"

text \<open>A caught exception: only \<open>TypeError\<close> and \<open>ValueError\<close> fall back to the default.\<close>

definition positive_int :: "pyval \<Rightarrow> int \<Rightarrow> int res" where
  "positive_int value dflt =
     (if (\<exists>b. value = PBool b) \<or> value = PNone then Inr dflt
      else (case py_int value of
              Inl TypeError \<Rightarrow> Inr dflt
            | Inl (ValueError _) \<Rightarrow> Inr dflt
            | Inl e \<Rightarrow> Inl e
            | Inr parsed \<Rightarrow> Inr (if 0 < parsed then parsed else dflt)))"

definition positive_float :: "lib \<Rightarrow> pyval \<Rightarrow> pyval \<Rightarrow> pyval res" where
  "positive_float E value dflt =
     (if (\<exists>b. value = PBool b) \<or> value = PNone then Inr dflt
      else (case py_float E value of
              Inl TypeError \<Rightarrow> Inr dflt
            | Inl (ValueError _) \<Rightarrow> Inr dflt
            | Inl e \<Rightarrow> Inl e
            | Inr parsed \<Rightarrow> Inr (if float_positive parsed then parsed else dflt)))"

definition DEFAULT_RECV_TIMEOUT :: pyval where
  "DEFAULT_RECV_TIMEOUT = PFloat (1 / 2)"

definition DEFAULT_DECISION_TIMEOUT :: int where
  "DEFAULT_DECISION_TIMEOUT = 120"

definition DEFAULT_SERVER_READ_TIMEOUT :: pyval where
  "DEFAULT_SERVER_READ_TIMEOUT = PFloat 10"

definition DEFAULT_MAX_CONNECTIONS :: int where
  "DEFAULT_MAX_CONNECTIONS = 64"

text \<open>The pair of read bounds; \<open>PNone\<close> for the second one is an unbounded wait.\<close>

definition resolve_read_timeouts :: "lib \<Rightarrow> dict \<Rightarrow> (pyval \<times> pyval) res" where
  "resolve_read_timeouts E config =
     (let recv = (case py_float E (dget_or config (lit ''recv_timeout'') DEFAULT_RECV_TIMEOUT) of
                    Inl TypeError \<Rightarrow> Inr DEFAULT_RECV_TIMEOUT
                  | Inl (ValueError _) \<Rightarrow> Inr DEFAULT_RECV_TIMEOUT
                  | r \<Rightarrow> r);
          decision = (case py_int (dget_or config (lit ''decision_timeout'') (PInt DEFAULT_DECISION_TIMEOUT)) of
                    Inl TypeError \<Rightarrow> Inr DEFAULT_DECISION_TIMEOUT
                  | Inl (ValueError _) \<Rightarrow> Inr DEFAULT_DECISION_TIMEOUT
                  | r \<Rightarrow> r)
      in case recv of Inl e \<Rightarrow> Inl e
         | Inr first_frame \<Rightarrow> (case decision of Inl e \<Rightarrow> Inl e
             | Inr d \<Rightarrow> Inr (first_frame, if d = 0 then PNone else PFloat (of_int d))))"

definition get_resolution_mode :: "dict \<Rightarrow> pstr" where
  "get_resolution_mode config =
     (if dget config (lit ''resolution'') \<in> PStr ` {lit ''none'', lit ''certificate'', lit ''tartarus'', lit ''mofos''}
      then str_of (dget config (lit ''resolution''))
      else (case dget config (lit ''mtls'') of
              PDict mtls \<Rightarrow> if truthy (dget_or mtls (lit ''enable'') (PBool False))
                            then lit ''certificate'' else lit ''tartarus''
            | _ \<Rightarrow> lit ''tartarus''))"

section \<open>The key schema\<close>

definition CONFIG_ACL_KEYS :: "pstr list" where
  "CONFIG_ACL_KEYS = [lit ''trusted_fingerprints'', lit ''trusted_names'']"

definition CONFIG_TOP_LEVEL_KEYS :: "pstr list" where
  "CONFIG_TOP_LEVEL_KEYS = map lit
     [''mode'', ''transport'', ''cid'', ''host'', ''port'',
      ''socket'', ''socket_dir_mode'', ''socket_mode'', ''name'', ''rule'', ''labels'',
      ''connect_timeout'', ''decision_timeout'', ''recv_timeout'', ''max_connections'',
      ''server_read_timeout'', ''dialog_program'', ''resolution'', ''debug'',
      ''approver'', ''client_version'', ''guest_hint'', ''security'', ''acl'', ''mtls'',
      ''_security'', ''_listener_index'']"

definition CONFIG_SECURITY_KEYS :: "pstr list" where
  "CONFIG_SECURITY_KEYS = map lit
     [''transport_encryption'', ''client_auth'', ''server_auth'', ''response_ttl'', ''clock_skew'']"

definition CONFIG_MTLS_KEYS :: "pstr list" where
  "CONFIG_MTLS_KEYS = map lit
     [''enable'', ''ca_file'', ''cert_file'', ''key_file'', ''required_oid'', ''peer_required_oid'']"

definition CONFIG_TABLE_KEYS :: "(pstr \<times> pstr list) list" where
  "CONFIG_TABLE_KEYS =
     [(lit ''security'', CONFIG_SECURITY_KEYS), (lit ''acl'', CONFIG_ACL_KEYS), (lit ''mtls'', CONFIG_MTLS_KEYS)]"

definition CONFIG_LISTENER_KEYS :: "pstr list" where
  "CONFIG_LISTENER_KEYS = map lit
     [''type'', ''name'', ''port'', ''cid'', ''host'', ''socket'', ''socket_dir_mode'', ''socket_mode'',
      ''connect_timeout'', ''decision_timeout'', ''recv_timeout'', ''max_connections'',
      ''server_read_timeout'', ''resolution'', ''security'', ''mtls'']"

definition CONFIG_DOCUMENT_KEYS :: "pstr list" where
  "CONFIG_DOCUMENT_KEYS = map lit
     [''mode'', ''dialog_program'', ''debug'', ''approver'', ''client_version'', ''guest_hint'',
      ''rule'', ''labels'', ''listeners'']"

definition GLOBAL_KEYS :: "pstr list" where
  "GLOBAL_KEYS = map lit
     [''mode'', ''dialog_program'', ''debug'', ''approver'', ''client_version'', ''guest_hint'',
      ''rule'', ''labels'']"

text \<open>
  Where a key belongs, where it was found, and the sentences of the error message. The
  spelling suggestions (\<open>difflib\<close>) of the message are left out.
\<close>

datatype owner = InTables "pstr list" | TopLevel

datatype place = AtTop | InsideTable pstr

datatype sentence =
    TableExpected pstr
  | AclOnServer
  | Misplaced owner place "pstr list"
  | NearestHeader
  | UnknownKeys place "pstr list"
  | ExactSchema

definition table_names_for :: "pstr \<Rightarrow> pstr list" where
  "table_names_for key = sort (map fst (filter (\<lambda>(name, keys). key \<in> set keys) CONFIG_TABLE_KEYS))"

definition owner_phrase :: "pstr \<Rightarrow> owner option" where
  "owner_phrase key =
     (if table_names_for key \<noteq> [] then Some (InTables (table_names_for key))
      else if key \<in> set CONFIG_TOP_LEVEL_KEYS then Some TopLevel
      else None)"

text \<open>\<open>groups.setdefault(k, []).append(x)\<close> on an insertion-ordered dictionary of lists.\<close>

fun append_group :: "'k \<Rightarrow> 'v \<Rightarrow> ('k \<times> 'v list) list \<Rightarrow> ('k \<times> 'v list) list" where
  "append_group k x [] = [(k, [x])]"
| "append_group k x ((k', xs) # g) = (if k' = k then (k', xs @ [x]) # g else (k', xs) # append_group k x g)"

type_synonym misplaced = "((owner \<times> place) \<times> pstr list) list"

type_synonym unknown = "(place \<times> pstr list) list"

fun inspect_keys :: "place \<Rightarrow> pstr list \<Rightarrow> misplaced \<times> unknown \<Rightarrow> misplaced \<times> unknown" where
  "inspect_keys place [] acc = acc"
| "inspect_keys place (key # keys) (mis, unk) =
     (case owner_phrase key of
        None \<Rightarrow> inspect_keys place keys (mis, append_group place key unk)
      | Some owner \<Rightarrow> inspect_keys place keys (append_group (owner, place) key mis, unk))"

definition inspect :: "dict \<Rightarrow> place \<Rightarrow> pstr list \<Rightarrow> misplaced \<times> unknown \<Rightarrow> misplaced \<times> unknown" where
  "inspect keys place allowed acc =
     inspect_keys place (sort (remdups (filter (\<lambda>k. k \<notin> set allowed) (dkeys keys)))) acc"

fun inspect_tables ::
  "dict \<Rightarrow> (pstr \<times> pstr list) list \<Rightarrow> (misplaced \<times> unknown) \<times> pstr list \<Rightarrow> (misplaced \<times> unknown) \<times> pstr list" where
  "inspect_tables config [] acc = acc"
| "inspect_tables config ((name, allowed) # tables) (acc, broken) =
     (case dget config name of
        PNone \<Rightarrow> inspect_tables config tables (acc, broken)
      | PDict table \<Rightarrow> inspect_tables config tables (inspect table (InsideTable name) allowed acc, broken)
      | _ \<Rightarrow> inspect_tables config tables (acc, broken @ [name]))"

definition schema_sentences :: "dict \<Rightarrow> sentence list" where
  "schema_sentences config =
     (let ((misplaced, unknown), broken) =
            inspect_tables config CONFIG_TABLE_KEYS (inspect config AtTop CONFIG_TOP_LEVEL_KEYS ([], []), [])
      in map TableExpected broken
       @ (if dget config (lit ''mode'') = PStr (lit ''server'') \<and> dget config (lit ''acl'') \<noteq> PNone
          then [AclOnServer] else [])
       @ map (\<lambda>((owner, place), keys). Misplaced owner place keys) misplaced
       @ (if misplaced \<noteq> [] then [NearestHeader] else [])
       @ map (\<lambda>(place, keys). UnknownKeys place keys) unknown
       @ (if unknown \<noteq> [] then [ExactSchema] else []))"

definition validate_config_schema :: "dict \<Rightarrow> unit res" where
  "validate_config_schema config =
     (if schema_sentences config \<noteq> [] then Inl (SecurityConfigError ''schema'') else Inr ())"

fun check_nested_tables :: "dict \<Rightarrow> (pstr \<times> pstr list) list \<Rightarrow> unit res" where
  "check_nested_tables entry [] = Inr ()"
| "check_nested_tables entry ((name, allowed) # tables) =
     (case dget entry name of
        PNone \<Rightarrow> check_nested_tables entry tables
      | PDict table \<Rightarrow>
          if \<exists>k \<in> set (dkeys table). k \<notin> set allowed
          then Inl (SecurityConfigError ''unknown keys inside a listener table'')
          else check_nested_tables entry tables
      | _ \<Rightarrow> Inl (SecurityConfigError ''a listener sub-table must be a table''))"

definition validate_listener_table :: "pyval \<Rightarrow> unit res" where
  "validate_listener_table entry_value =
     (case entry_value of
        PDict entry \<Rightarrow>
          if \<exists>k \<in> set (dkeys entry). k \<notin> set CONFIG_LISTENER_KEYS
          then Inl (SecurityConfigError ''unknown keys in a listener'')
          else if \<not> dmem (lit ''type'') entry
          then Inl (SecurityConfigError ''listener is missing the required type key'')
          else if dget entry (lit ''type'') \<noteq> PNone
             \<and> dget entry (lit ''type'') \<notin> PStr ` {lit ''vsock'', lit ''tcp'', lit ''unix''}
          then Inl (SecurityConfigError ''unknown listener type'')
          else check_nested_tables entry CONFIG_TABLE_KEYS
      | _ \<Rightarrow> Inl (SecurityConfigError ''listener must be a table''))"

fun check_listeners :: "pyval list \<Rightarrow> pstr list \<Rightarrow> unit res" where
  "check_listeners [] seen_names = Inr ()"
| "check_listeners (entry # entries) seen_names =
     (case validate_listener_table entry of Inl e \<Rightarrow> Inl e
      | Inr _ \<Rightarrow>
          (case (case entry of PDict d \<Rightarrow> dget d (lit ''name'') | _ \<Rightarrow> PNone) of
             PNone \<Rightarrow> check_listeners entries seen_names
           | PStr name \<Rightarrow>
               if name = [] then Inl (SecurityConfigError ''listener name must be a non-empty string'')
               else if name \<in> set seen_names then Inl (SecurityConfigError ''duplicate listener name'')
               else check_listeners entries (name # seen_names)
           | _ \<Rightarrow> Inl (SecurityConfigError ''listener name must be a non-empty string'')))"

definition validate_document_schema :: "dict \<Rightarrow> unit res" where
  "validate_document_schema config =
     (if dmem (lit ''transports'') config \<or> dmem (lit ''transport_defaults'') config
      then Inl (SecurityConfigError ''transports was renamed to listeners'')
      else if dmem (lit ''listener_defaults'') config
      then Inl (SecurityConfigError ''listener_defaults was removed'')
      else if \<not> dmem (lit ''listeners'') config then validate_config_schema config
      else if \<exists>k \<in> set (dkeys config). k \<notin> set CONFIG_DOCUMENT_KEYS
      then Inl (SecurityConfigError ''unknown keys at the top level'')
      else (case dget config (lit ''listeners'') of
              PList es \<Rightarrow>
                if es = [] then Inl (SecurityConfigError ''listeners must be a non-empty array of tables'')
                else check_listeners es []
            | _ \<Rightarrow> Inl (SecurityConfigError ''listeners must be a non-empty array of tables'')))"

section \<open>Listener views\<close>

text \<open>\<open>view.setdefault(k, config[k])\<close> for each global key the document has.\<close>

fun carry_globals :: "dict \<Rightarrow> pstr list \<Rightarrow> dict \<Rightarrow> dict" where
  "carry_globals config [] view = view"
| "carry_globals config (k # ks) view =
     carry_globals config ks
       (if dmem k config \<and> \<not> dmem k view then dset view k (dget config k) else view)"

definition ddel :: "dict \<Rightarrow> pstr \<Rightarrow> dict" where
  "ddel d k = filter (\<lambda>(k', v). k' \<noteq> k) d"

definition listener_view :: "dict \<Rightarrow> nat \<Rightarrow> dict \<Rightarrow> dict" where
  "listener_view config index entry =
     (let view = (if dmem (lit ''type'') entry
                  then ddel (dset entry (lit ''transport'') (dget entry (lit ''type''))) (lit ''type'')
                  else entry)
      in dset (carry_globals config GLOBAL_KEYS view) (lit ''_listener_index'') (PInt (int index)))"

text \<open>\<open>dict(entry)\<close> of an entry that is no table raises; the schema check refuses it before.\<close>

fun listener_views_from :: "dict \<Rightarrow> nat \<Rightarrow> pyval list \<Rightarrow> dict list res" where
  "listener_views_from config index [] = Inr []"
| "listener_views_from config index (PDict entry # entries) =
     (case listener_views_from config (Suc index) entries of Inl e \<Rightarrow> Inl e
      | Inr views \<Rightarrow> Inr (listener_view config index entry # views))"
| "listener_views_from config index (entry # entries) = Inl TypeError"

definition listener_views :: "dict \<Rightarrow> dict list res" where
  "listener_views config =
     (case dget config (lit ''listeners'') of
        PList entries \<Rightarrow> if entries = [] then Inr [config] else listener_views_from config 0 entries
      | _ \<Rightarrow> Inr [config])"

section \<open>The security knobs\<close>

datatype warning = InsecureTcp | ServerAuthOff bool | ClientAuthOff bool

record knobs =
  k_encryption :: pstr
  k_client_auth :: pstr
  k_server_auth :: pstr
  k_warnings :: "warning list"

definition mtls_enabled :: "dict \<Rightarrow> bool" where
  "mtls_enabled config =
     (case dget config (lit ''mtls'') of
        PDict mtls \<Rightarrow> truthy (dget_or mtls (lit ''enable'') (PBool False)) | _ \<Rightarrow> False)"

definition resolve_encryption :: "dict \<Rightarrow> dict \<Rightarrow> pstr res" where
  "resolve_encryption config security =
     (let given = dget security (lit ''transport_encryption'');
          chosen = (if given = PNone
                    then (if mtls_enabled config \<or> dget_or config (lit ''transport'') (PStr (lit ''tcp'')) = PStr (lit ''tcp'')
                          then PStr (lit ''mtls'') else PStr (lit ''none''))
                    else given)
      in if chosen \<notin> {PStr (lit ''none''), PStr (lit ''mtls'')}
         then Inl (SecurityConfigError ''unknown transport_encryption'')
         else if mtls_enabled config \<and> chosen \<noteq> PStr (lit ''mtls'')
         then Inl (SecurityConfigError ''mtls.enable conflicts with transport_encryption; refusing to downgrade'')
         else Inr (str_of chosen))"

definition check_auth_methods :: "pyval \<Rightarrow> pyval \<Rightarrow> unit res" where
  "check_auth_methods ca sa =
     (if ca \<noteq> PNone \<and> \<not> is_str ca
      then Inl (SecurityConfigError ''client_auth must be a single string'')
      else if sa \<noteq> PNone \<and> \<not> is_str sa
      then Inl (SecurityConfigError ''server_auth must be a single string'')
      else if ca \<noteq> PNone \<and> ca \<notin> {PStr (lit ''transport''), PStr (lit ''none'')}
      then Inl (SecurityConfigError ''unknown client_auth'')
      else if sa \<noteq> PNone \<and> sa \<notin> {PStr (lit ''transport''), PStr (lit ''none'')}
      then Inl (SecurityConfigError ''unknown server_auth'')
      else Inr ())"

definition knob_warnings :: "dict \<Rightarrow> pstr \<Rightarrow> pstr \<Rightarrow> pstr \<Rightarrow> warning list" where
  "knob_warnings config enc ca sa =
     (let tcp = (dget_or config (lit ''transport'') (PStr (lit ''tcp'')) = PStr (lit ''tcp''))
      in (if enc = lit ''none'' \<and> tcp then [InsecureTcp] else [])
       @ (if sa = lit ''none'' then [ServerAuthOff tcp] else [])
       @ (if ca = lit ''none'' then [ClientAuthOff tcp] else []))"

definition resolve_auth :: "dict \<Rightarrow> pstr \<Rightarrow> pyval \<Rightarrow> pyval \<Rightarrow> knobs res" where
  "resolve_auth config enc ca sa =
     (if enc = lit ''mtls'' then
        (if ca \<notin> {PNone, PStr (lit ''transport'')}
         then Inl (SecurityConfigError ''under mtls, client_auth must be transport'')
         else if sa \<notin> {PNone, PStr (lit ''transport'')}
         then Inl (SecurityConfigError ''under mtls, server_auth must be transport'')
         else Inr \<lparr>k_encryption = enc, k_client_auth = lit ''transport'', k_server_auth = lit ''transport'',
                k_warnings = knob_warnings config enc (lit ''transport'') (lit ''transport'')\<rparr>)
      else if ca = PStr (lit ''transport'')
      then Inl (SecurityConfigError ''client_auth = transport requires mtls'')
      else if sa = PStr (lit ''transport'')
      then Inl (SecurityConfigError ''server_auth = transport requires mtls'')
      else if ca = PNone \<or> sa = PNone
      then Inl (SecurityConfigError ''refusing to disable authentication implicitly'')
      else Inr \<lparr>k_encryption = enc, k_client_auth = str_of ca, k_server_auth = str_of sa,
             k_warnings = knob_warnings config enc (str_of ca) (str_of sa)\<rparr>)"

definition validate_security_config :: "dict \<Rightarrow> knobs res" where
  "validate_security_config config =
     (case (if dget config (lit ''security'') = PNone then PDict [] else dget config (lit ''security'')) of
        PDict security \<Rightarrow>
          (case resolve_encryption config security of Inl e \<Rightarrow> Inl e
           | Inr enc \<Rightarrow>
             (case check_auth_methods (dget security (lit ''client_auth'')) (dget security (lit ''server_auth'')) of
                Inl e \<Rightarrow> Inl e
              | Inr _ \<Rightarrow> resolve_auth config enc (dget security (lit ''client_auth''))
                           (dget security (lit ''server_auth''))))
      | _ \<Rightarrow> Inl (SecurityConfigError ''security must be a table''))"

section \<open>Fingerprints, pin and labels\<close>

definition rstrip_pad :: "pstr \<Rightarrow> pstr" where
  "rstrip_pad s = rev (dropWhile (\<lambda>c. c = 61) (rev s))"

definition normalize_fingerprint :: "pyval \<Rightarrow> pstr res" where
  "normalize_fingerprint fingerprint =
     (case fingerprint of
        PStr s \<Rightarrow>
          if \<not> startswith (lit ''SHA256:'') s
          then Inl (SecurityConfigError ''entries must be SHA256:... fingerprints'')
          else (let body = rstrip_pad (drop 7 s)
                in if body = [] then Inl (SecurityConfigError ''entry has no digest'')
                   else (case b64decode (body @ replicate ((4 - length body mod 4) mod 4) 61) of
                           None \<Rightarrow> Inl (SecurityConfigError ''entry is not valid base64'')
                         | Some raw \<Rightarrow>
                             if length raw \<noteq> 32 then Inl (SecurityConfigError ''entry is not a SHA-256 digest'')
                             else Inr (lit ''SHA256:'' @ body)))
      | _ \<Rightarrow> Inl (SecurityConfigError ''entries must be SHA256:... fingerprints''))"

definition fingerprint_set :: "pyval \<Rightarrow> pstr list res" where
  "fingerprint_set entries =
     (case entries of
        PNone \<Rightarrow> Inr []
      | PList es \<Rightarrow> map_res normalize_fingerprint es
      | _ \<Rightarrow> Inl (SecurityConfigError ''must be a list of fingerprints''))"

definition trusted_names_of :: "pyval \<Rightarrow> pstr list res" where
  "trusted_names_of names =
     (case names of
        PNone \<Rightarrow> Inr []
      | PStr s \<Rightarrow> Inr (if s \<noteq> [] then [s] else [])
      | PList ns \<Rightarrow>
          if \<forall>n \<in> set ns. is_str n then Inr (map str_of ns)
          else Inl (SecurityConfigError ''trusted_names must be a string or a list of strings'')
      | _ \<Rightarrow> Inl (SecurityConfigError ''trusted_names must be a string or a list of strings''))"

definition load_client_acl :: "dict \<Rightarrow> (pstr list \<times> pstr list) res" where
  "load_client_acl config =
     (case dget config (lit ''acl'') of
        PNone \<Rightarrow> Inr ([], [])
      | PDict raw \<Rightarrow>
          if \<exists>k \<in> set (dkeys raw). k \<notin> set CONFIG_ACL_KEYS
          then Inl (SecurityConfigError ''acl has unknown key(s)'')
          else (case fingerprint_set (dget raw (lit ''trusted_fingerprints'')) of Inl e \<Rightarrow> Inl e
            | Inr fps \<Rightarrow> (case trusted_names_of (dget raw (lit ''trusted_names'')) of Inl e \<Rightarrow> Inl e
                | Inr names \<Rightarrow>
                    if fps = [] \<and> names = []
                    then Inl (SecurityConfigError ''acl must set trusted_fingerprints and/or trusted_names'')
                    else Inr (fps, names)))
      | _ \<Rightarrow> Inl (SecurityConfigError ''acl must be a table''))"

fun label_items :: "dict \<Rightarrow> (pstr \<times> pstr) list \<Rightarrow> (pstr \<times> pstr) list res" where
  "label_items [] acc = Inr acc"
| "label_items ((key, value) # raw) acc =
     (case normalize_fingerprint (PStr key) of Inl e \<Rightarrow> Inl e
      | Inr fp \<Rightarrow> label_items raw (AList.update fp (str_of value) acc))"

definition load_labels :: "dict \<Rightarrow> (pstr \<times> pstr) list res" where
  "load_labels config =
     (let raw = (if truthy (dget config (lit ''labels'')) then dget config (lit ''labels'') else PDict [])
      in case raw of
           PDict d \<Rightarrow>
             if \<exists>(k, v) \<in> set d. \<not> is_str v
             then Inl (SecurityConfigError ''labels must be a table of string labels'')
             else label_items d []
         | _ \<Rightarrow> Inl (SecurityConfigError ''labels must be a table of string labels''))"

section \<open>Assembling the model\<close>

text \<open>
  The result is cached on the configuration in the source; the function is deterministic, so
  the cache is not part of the model.
\<close>

definition build_security :: "dict \<Rightarrow> string \<Rightarrow> security res" where
  "build_security config role =
     (case validate_config_schema config of Inl e \<Rightarrow> Inl e
      | Inr _ \<Rightarrow> (case validate_security_config config of Inl e \<Rightarrow> Inl e
      | Inr k \<Rightarrow>
          (let raw = (case dget config (lit ''security'') of PDict d \<Rightarrow> d | _ \<Rightarrow> [])
           in case py_int (dget_or raw (lit ''response_ttl'') (PInt DEFAULT_RESPONSE_TTL)) of Inl e \<Rightarrow> Inl e
              | Inr ttl \<Rightarrow> (case py_int (dget_or raw (lit ''clock_skew'') (PInt DEFAULT_CLOCK_SKEW)) of Inl e \<Rightarrow> Inl e
              | Inr skew \<Rightarrow>
                  (let base = \<lparr>s_transport = dget_or config (lit ''transport'') (PStr (lit ''tcp'')),
                        transport_encryption = k_encryption k, client_auth = k_client_auth k,
                        server_auth = k_server_auth k, response_ttl = ttl, clock_skew = skew,
                        s_rules = [], s_labels = [], trusted_fingerprints = [], trusted_names = []\<rparr>
                   in if role = ''server'' then
                        (case parse_rules (dget config (lit ''rule'')) of Inl e \<Rightarrow> Inl e
                         | Inr rs \<Rightarrow> (case load_labels config of Inl e \<Rightarrow> Inl e
                             | Inr ls \<Rightarrow> Inr (base\<lparr>s_rules := rs, s_labels := ls\<rparr>)))
                      else if role = ''client'' then
                        (case load_client_acl config of Inl e \<Rightarrow> Inl e
                         | Inr (fps, names) \<Rightarrow>
                             Inr (base\<lparr>trusted_fingerprints := fps, trusted_names := names\<rparr>))
                      else Inr base)))))"

end
