(* ===== verification/Schema.thy ===== *)
theory Schema
  imports Config
begin

text \<open>
  What the configuration layer of \<open>sudo-auth-proxy\<close> guarantees: the schema is exact and every
  offending key is reported; an accepted document expands into listener views the flat schema
  accepts; the security knobs are never downgraded; pins and labels are canonical.
\<close>

section \<open>The schema is exact\<close>

text \<open>Where a key is mentioned by the two groups of findings.\<close>

definition mentioned :: "misplaced \<times> unknown \<Rightarrow> place \<Rightarrow> pstr set" where
  "mentioned acc p =
     {k. \<exists>owner ks. ((owner, p), ks) \<in> set (fst acc) \<and> k \<in> set ks} \<union>
     {k. \<exists>ks. (p, ks) \<in> set (snd acc) \<and> k \<in> set ks}"

lemma append_group_members:
  "(\<exists>ks. (p, ks) \<in> set (append_group g x acc) \<and> k \<in> set ks) \<longleftrightarrow>
     (p = g \<and> k = x) \<or> (\<exists>ks. (p, ks) \<in> set acc \<and> k \<in> set ks)"
  by (induction g x acc rule: append_group.induct) auto

lemma mentioned_step:
  "mentioned (append_group (owner, q) k mis, unk) p = mentioned (mis, unk) p \<union> (if p = q then {k} else {})"
  "mentioned (mis, append_group q k unk) p = mentioned (mis, unk) p \<union> (if p = q then {k} else {})"
  by (auto simp: mentioned_def append_group_members)

lemma mentioned_inspect_keys:
  "mentioned (inspect_keys q ks acc) p = mentioned acc p \<union> (if p = q then set ks else {})"
  by (induction q ks acc rule: inspect_keys.induct)
    (auto simp: mentioned_step split: option.split)

lemma mentioned_inspect:
  "mentioned (inspect d q allowed acc) p =
     mentioned acc p \<union> (if p = q then set (dkeys d) - set allowed else {})"
  by (auto simp: inspect_def mentioned_inspect_keys)

definition table_at :: "dict \<Rightarrow> pstr \<Rightarrow> dict" where
  "table_at config name = (case dget config name of PDict t \<Rightarrow> t | _ \<Rightarrow> [])"

definition table_ok :: "dict \<Rightarrow> pstr \<Rightarrow> bool" where
  "table_ok config name \<longleftrightarrow> dget config name = PNone \<or> is_dict (dget config name)"

lemma inspect_tables_spec:
  "mentioned (fst (inspect_tables config tables acc)) p =
     mentioned (fst acc) p \<union>
     (\<Union>(name, allowed) \<in> set tables. if p = InsideTable name then set (dkeys (table_at config name)) - set allowed else {})
   \<and> set (snd (inspect_tables config tables acc)) =
     set (snd acc) \<union> {name \<in> fst ` set tables. \<not> table_ok config name}"
proof (induction config tables acc rule: inspect_tables.induct)
  case (2 config name allowed tables acc broken)
  then show ?case
    by (cases "dget config name")
      (auto simp: mentioned_inspect table_at_def table_ok_def dkeys_def)
qed auto

text \<open>A key is reported at a place when some sentence of the message lists it there.\<close>

definition reported :: "sentence list \<Rightarrow> place \<Rightarrow> pstr \<Rightarrow> bool" where
  "reported ss p k \<longleftrightarrow>
     (\<exists>owner ks. Misplaced owner p ks \<in> set ss \<and> k \<in> set ks) \<or> (\<exists>ks. UnknownKeys p ks \<in> set ss \<and> k \<in> set ks)"

definition allowed_at :: "place \<Rightarrow> pstr list" where
  "allowed_at p =
     (case p of AtTop \<Rightarrow> CONFIG_TOP_LEVEL_KEYS
      | InsideTable name \<Rightarrow> (case map_of CONFIG_TABLE_KEYS name of None \<Rightarrow> [] | Some ks \<Rightarrow> ks))"

definition keys_at :: "dict \<Rightarrow> place \<Rightarrow> pstr list" where
  "keys_at config p =
     (case p of AtTop \<Rightarrow> dkeys config
      | InsideTable name \<Rightarrow> if name \<in> fst ` set CONFIG_TABLE_KEYS then dkeys (table_at config name) else [])"

definition findings :: "dict \<Rightarrow> (misplaced \<times> unknown) \<times> pstr list" where
  "findings config =
     inspect_tables config CONFIG_TABLE_KEYS (inspect config AtTop CONFIG_TOP_LEVEL_KEYS ([], []), [])"

lemma distinct_tables: "distinct (map fst CONFIG_TABLE_KEYS)"
  by (simp add: CONFIG_TABLE_KEYS_def)

lemma table_union:
  "(\<Union>(name, allowed) \<in> set CONFIG_TABLE_KEYS. if q = name then D name - set allowed else {}) =
     (case map_of CONFIG_TABLE_KEYS q of None \<Rightarrow> {} | Some ks \<Rightarrow> D q - set ks)" (is "?U = _")
proof -
  have U: "x \<in> ?U \<longleftrightarrow> (\<exists>ks. (q, ks) \<in> set CONFIG_TABLE_KEYS \<and> x \<in> D q - set ks)" for x
    by (rule iffI) (erule UN_E, clarsimp split: if_splits, blast, force)
  have "(q, ks) \<in> set CONFIG_TABLE_KEYS \<longleftrightarrow> map_of CONFIG_TABLE_KEYS q = Some ks" for ks
    by (rule map_of_eq_Some_iff [OF distinct_tables, symmetric])
  then show ?thesis
    by (intro set_eqI, unfold U, cases "map_of CONFIG_TABLE_KEYS q") simp_all
qed

lemma mentioned_findings: "mentioned (fst (findings config)) p = set (keys_at config p) - set (allowed_at p)"
proof -
  have eq: "mentioned (fst (findings config)) p =
    (if p = AtTop then set (dkeys config) - set CONFIG_TOP_LEVEL_KEYS else {}) \<union>
    (\<Union>(name, allowed) \<in> set CONFIG_TABLE_KEYS.
       if p = InsideTable name then set (dkeys (table_at config name)) - set allowed else {})"
    unfolding findings_def inspect_tables_spec [THEN conjunct1] fst_conv mentioned_inspect
    by (simp add: mentioned_def)
  show ?thesis
  proof (cases p)
    case AtTop
    then show ?thesis using eq by (simp add: keys_at_def allowed_at_def)
  next
    case (InsideTable name)
    have "keys_at config p = (if map_of CONFIG_TABLE_KEYS name = None then [] else dkeys (table_at config name))"
      by (simp add: InsideTable keys_at_def map_of_eq_None_iff del: not_None_eq)
    with InsideTable table_union [of name "\<lambda>n. set (dkeys (table_at config n))"] show ?thesis
      using eq by (simp add: allowed_at_def split: option.split)
  qed
qed

lemma broken_findings: "set (snd (findings config)) = {name \<in> fst ` set CONFIG_TABLE_KEYS. \<not> table_ok config name}"
  by (simp add: findings_def inspect_tables_spec)

lemma reported_iff: "reported (schema_sentences config) p k \<longleftrightarrow> k \<in> mentioned (fst (findings config)) p"
proof -
  obtain mis unk broken where f: "findings config = ((mis, unk), broken)"
    by (metis prod.collapse)
  have "Misplaced owner p ks \<in> set (schema_sentences config) \<longleftrightarrow> ((owner, p), ks) \<in> set mis"
    and "UnknownKeys p ks \<in> set (schema_sentences config) \<longleftrightarrow> (p, ks) \<in> set unk" for owner ks
    by (force simp: schema_sentences_def findings_def [symmetric] f Let_def)+
  then show ?thesis by (simp add: reported_def mentioned_def f)
qed

text \<open>
  Every key the implementation does not read is reported, where it was found, and no
  other key is: a key of the document is named at a level exactly when it occurs there and that
  level does not allow it.
\<close>

theorem every_offending_key_reported:
  "reported (schema_sentences config) p k \<longleftrightarrow> k \<in> set (keys_at config p) \<and> k \<notin> set (allowed_at p)"
  by (simp add: reported_iff mentioned_findings)

lemma group_nonempty: "append_group k x g \<noteq> []"
  by (induction k x g rule: append_group.induct) auto

lemma inspect_keys_empty_iff: "inspect_keys q ks acc = ([], []) \<longleftrightarrow> ks = [] \<and> acc = ([], [])"
  by (induction q ks acc rule: inspect_keys.induct) (auto simp: group_nonempty split: option.split)

lemma inspect_empty_iff:
  "inspect d q allowed acc = ([], []) \<longleftrightarrow> set (dkeys d) \<subseteq> set allowed \<and> acc = ([], [])"
proof -
  have "sort (remdups (filter (\<lambda>k. k \<notin> set allowed) (dkeys d))) = [] \<longleftrightarrow> set (dkeys d) \<subseteq> set allowed"
    by (simp flip: set_empty) auto
  then show ?thesis by (simp add: inspect_def inspect_keys_empty_iff)
qed

lemma inspect_tables_empty_iff:
  "inspect_tables config tables acc = (([], []), []) \<longleftrightarrow>
     acc = (([], []), []) \<and>
     (\<forall>(name, allowed) \<in> set tables. table_ok config name \<and> set (dkeys (table_at config name)) \<subseteq> set allowed)"
proof (induction config tables acc rule: inspect_tables.induct)
  case (2 config name allowed tables acc broken)
  then show ?case
    by (cases "dget config name")
      (auto simp: inspect_empty_iff table_at_def table_ok_def dkeys_def)
qed simp

lemma table_cases:
  "table_ok config name \<and> set (dkeys (table_at config name)) \<subseteq> allowed \<longleftrightarrow>
     dget config name = PNone \<or> (\<exists>t. dget config name = PDict t \<and> set (dkeys t) \<subseteq> allowed)"
  by (cases "dget config name") (auto simp: table_ok_def table_at_def dkeys_def)

lemma schema_accepts:
  "validate_config_schema config = Inr () \<longleftrightarrow>
     set (dkeys config) \<subseteq> set CONFIG_TOP_LEVEL_KEYS
     \<and> (\<forall>(name, allowed) \<in> set CONFIG_TABLE_KEYS.
          dget config name = PNone \<or> (\<exists>t. dget config name = PDict t \<and> set (dkeys t) \<subseteq> set allowed))
     \<and> \<not> (dget config (lit ''mode'') = PStr (lit ''server'') \<and> dget config (lit ''acl'') \<noteq> PNone)"
proof -
  have "validate_config_schema config = Inr () \<longleftrightarrow> findings config = (([], []), [])
      \<and> \<not> (dget config (lit ''mode'') = PStr (lit ''server'') \<and> dget config (lit ''acl'') \<noteq> PNone)"
    by (cases "findings config")
      (auto simp: validate_config_schema_def schema_sentences_def findings_def [symmetric] Let_def)
  then show ?thesis
    by (auto simp: findings_def inspect_tables_empty_iff inspect_empty_iff table_cases)
qed

text \<open>
  C29: The schema check is exact. A flat document is accepted if and only if every top-level key
  is one the implementation reads, each of \<open>[security]\<close>, \<open>[acl]\<close> and \<open>[mtls]\<close> is absent or is
  a table of that table's own keys, and a server has no \<open>[acl]\<close> pin.
\<close>

theorem schema_accepts_iff:
  "validate_config_schema config = Inr () \<longleftrightarrow>
     set (dkeys config) \<subseteq> set CONFIG_TOP_LEVEL_KEYS
     \<and> (\<forall>(name, allowed) \<in> set CONFIG_TABLE_KEYS.
          dget config name = PNone \<or> (\<exists>t. dget config name = PDict t \<and> set (dkeys t) \<subseteq> set allowed))
     \<and> \<not> (dget config (lit ''mode'') = PStr (lit ''server'') \<and> dget config (lit ''acl'') \<noteq> PNone)"
  by (rule schema_accepts)

theorem schema_accepts_iff_witness:
  "set (dkeys [(lit ''mode'', PStr (lit ''client'')), (lit ''mtls'', PDict [(lit ''enable'', PBool True)])])
     \<subseteq> set CONFIG_TOP_LEVEL_KEYS"
proof -
  let ?c = "[(lit ''mode'', PStr (lit ''client'')), (lit ''mtls'', PDict [(lit ''enable'', PBool True)])]"
  have "validate_config_schema ?c = Inr ()"
    by (simp add: validate_config_schema_def schema_sentences_def inspect_def dkeys_def
        CONFIG_TABLE_KEYS_def CONFIG_TOP_LEVEL_KEYS_def CONFIG_MTLS_KEYS_def)
  then show ?thesis using schema_accepts_iff [of ?c] by simp
qed

section \<open>Documents and listener views\<close>

lemma dget_ddel [simp]: "dget (ddel d k) k' = (if k' = k then PNone else dget d k')"
  by (induction d) (auto simp: ddel_def)

lemma dmem_ddel [simp]: "dmem k' (ddel d k) \<longleftrightarrow> k' \<noteq> k \<and> dmem k' d"
  by (induction d) (auto simp: ddel_def)

lemma dmem_iff: "dmem k d \<longleftrightarrow> k \<in> set (dkeys d)"
  by (simp add: dmem_def dkeys_def)

lemma carry_globals_mem: "dmem k (carry_globals config ks view) \<longleftrightarrow> dmem k view \<or> (k \<in> set ks \<and> dmem k config)"
  by (induction ks arbitrary: view) auto

lemma carry_globals_get:
  "dget (carry_globals config ks view) k =
     (if dmem k view then dget view k else if k \<in> set ks then dget config k else PNone)"
  by (induction ks arbitrary: view) (auto simp: dget_not_mem)

lemma type_not_global: "lit ''type'' \<notin> set GLOBAL_KEYS" "lit ''transport'' \<notin> set GLOBAL_KEYS"
  by (simp_all add: GLOBAL_KEYS_def)

lemma listener_view_mem:
  "dmem k (listener_view config i entry) \<longleftrightarrow>
     k = lit ''_listener_index'' \<or> (k = lit ''transport'' \<and> dmem (lit ''type'') entry) \<or>
     (k \<noteq> lit ''type'' \<and> dmem k entry) \<or> (k \<in> set GLOBAL_KEYS \<and> dmem k config)"
  using type_not_global by (auto simp: listener_view_def Let_def carry_globals_mem)

lemma listener_view_get:
  "dget (listener_view config i entry) k =
     (if k = lit ''_listener_index'' then PInt (int i)
      else if dmem (lit ''type'') entry \<and> k = lit ''transport'' then dget entry (lit ''type'')
      else if dmem (lit ''type'') entry \<and> k = lit ''type'' then PNone
      else if dmem k entry then dget entry k
      else if k \<in> set GLOBAL_KEYS then dget config k else PNone)"
  using type_not_global by (auto simp: listener_view_def Let_def carry_globals_get dget_not_mem)

lemma check_nested_tables_Inr:
  "check_nested_tables entry tables = Inr () \<longleftrightarrow>
     (\<forall>(name, allowed) \<in> set tables.
        dget entry name = PNone \<or> (\<exists>t. dget entry name = PDict t \<and> set (dkeys t) \<subseteq> set allowed))"
  by (induction entry tables rule: check_nested_tables.induct) (auto split: pyval.split)

lemma validate_listener_table_Inr:
  "validate_listener_table v = Inr () \<longleftrightarrow>
     (\<exists>entry. v = PDict entry \<and> set (dkeys entry) \<subseteq> set CONFIG_LISTENER_KEYS \<and> dmem (lit ''type'') entry
        \<and> dget entry (lit ''type'') \<in> {PNone, PStr (lit ''vsock''), PStr (lit ''tcp''), PStr (lit ''unix'')}
        \<and> check_nested_tables entry CONFIG_TABLE_KEYS = Inr ())"
  by (cases v) (auto simp: validate_listener_table_def)

definition listener_name :: "pyval \<Rightarrow> pstr option" where
  "listener_name v = (case v of PDict d \<Rightarrow> (case dget d (lit ''name'') of PStr s \<Rightarrow> Some s | _ \<Rightarrow> None) | _ \<Rightarrow> None)"

lemma check_listeners_Inr:
  assumes "check_listeners es seen = Inr ()"
  shows "(\<forall>e \<in> set es. validate_listener_table e = Inr ())
    \<and> distinct (List.map_filter listener_name es)
    \<and> set (List.map_filter listener_name es) \<inter> (set seen \<union> {[]}) = {}"
  using assms
proof (induction es arbitrary: seen)
  case (Cons entry entries)
  then obtain d where d: "entry = PDict d" and ok: "validate_listener_table entry = Inr ()"
    by (auto simp: validate_listener_table_Inr split: sum.splits)
  show ?case
  proof (cases "dget d (lit ''name'')")
    case PNone
    then have "listener_name entry = None" and "check_listeners entries seen = Inr ()"
      using Cons.prems d ok by (simp_all add: listener_name_def)
    with Cons.IH [of seen] ok show ?thesis by simp
  next
    case (PStr name)
    then have n: "listener_name entry = Some name" "name \<noteq> []" "name \<notin> set seen"
      and rest: "check_listeners entries (name # seen) = Inr ()"
      using Cons.prems d ok by (simp_all add: listener_name_def split: if_splits)
    from Cons.IH [OF rest] n ok show ?thesis by simp
  qed (use Cons.prems d ok in simp_all)
qed simp

lemma view_accepted:
  assumes keys: "set (dkeys entry) \<subseteq> set CONFIG_LISTENER_KEYS"
    and tables: "check_nested_tables entry CONFIG_TABLE_KEYS = Inr ()"
  shows "validate_config_schema (listener_view doc i entry) = Inr ()"
proof -
  let ?v = "listener_view doc i entry"
  have sub: "set CONFIG_LISTENER_KEYS - {lit ''type''} \<subseteq> set CONFIG_TOP_LEVEL_KEYS"
    and glob: "set GLOBAL_KEYS \<union> {lit ''_listener_index'', lit ''transport''} \<subseteq> set CONFIG_TOP_LEVEL_KEYS"
    by (simp_all add: CONFIG_LISTENER_KEYS_def CONFIG_TOP_LEVEL_KEYS_def GLOBAL_KEYS_def insert_Diff_if)
  have "k \<in> set CONFIG_TOP_LEVEL_KEYS" if "k \<in> set (dkeys ?v)" for k
    using that keys sub glob by (auto simp: dmem_iff [symmetric] listener_view_mem)
  moreover have get: "dget ?v name = dget entry name" if "name \<in> fst ` set CONFIG_TABLE_KEYS" for name
  proof -
    have "name \<notin> set GLOBAL_KEYS \<and> name \<noteq> lit ''_listener_index'' \<and> name \<noteq> lit ''transport'' \<and> name \<noteq> lit ''type''"
      using that by (auto simp: CONFIG_TABLE_KEYS_def GLOBAL_KEYS_def)
    then show ?thesis by (simp add: listener_view_get dget_not_mem)
  qed
  moreover have "dget ?v (lit ''acl'') = PNone"
  proof -
    have "\<not> dmem (lit ''acl'') entry"
      using keys by (auto simp: dmem_iff CONFIG_LISTENER_KEYS_def)
    then show ?thesis using get [of "lit ''acl''"] by (simp add: CONFIG_TABLE_KEYS_def dget_not_mem)
  qed
  moreover have "dget ?v name = PNone \<or> (\<exists>t. dget ?v name = PDict t \<and> set (dkeys t) \<subseteq> set allowed)"
    if "(name, allowed) \<in> set CONFIG_TABLE_KEYS" for name allowed
    using that get [of name] tables by (force simp: check_nested_tables_Inr)
  ultimately show ?thesis by (auto simp: schema_accepts)
qed

lemma listener_views_from_dicts:
  assumes "\<forall>e \<in> set es. is_dict e"
  shows "\<exists>views. listener_views_from doc n es = Inr views \<and> length views = length es \<and>
    (\<forall>i < length es. \<exists>entry. es ! i = PDict entry \<and> views ! i = listener_view doc (n + i) entry)"
  using assms
proof (induction es arbitrary: n)
  case (Cons e es)
  then obtain d where e: "e = PDict d" by (cases e) auto
  from Cons obtain views where v: "listener_views_from doc (Suc n) es = Inr views" "length views = length es"
    "\<forall>i < length es. \<exists>entry. es ! i = PDict entry \<and> views ! i = listener_view doc (Suc n + i) entry"
    by (metis list.set_intros(2))
  show ?case
    using v e by (auto simp: nth_Cons less_Suc_eq_0_disj split: nat.split)
qed simp

text \<open>
  An accepted multi-listener document is served as written. It expands into exactly one view
  per entry, in order, stamped with its index; the flat schema accepts every view, so building
  a listener's security model never fails on a key; a key the entry sets is never overridden by
  a document-level value, and no listener falls back on another one; listener names are
  non-empty and unique.
\<close>

theorem accepted_document_views:
  assumes "validate_document_schema doc = Inr ()" and "dmem (lit ''listeners'') doc"
  shows "\<exists>es views. dget doc (lit ''listeners'') = PList es \<and> es \<noteq> []
    \<and> listener_views doc = Inr views \<and> length views = length es
    \<and> (\<forall>i < length es. \<exists>entry. es ! i = PDict entry
         \<and> validate_config_schema (views ! i) = Inr ()
         \<and> dget (views ! i) (lit ''_listener_index'') = PInt (int i)
         \<and> dget (views ! i) (lit ''transport'') = dget entry (lit ''type'')
         \<and> (\<forall>k. dmem k entry \<and> k \<noteq> lit ''type'' \<longrightarrow> dget (views ! i) k = dget entry k)
         \<and> (\<forall>k. \<not> dmem k entry \<and> k \<notin> set GLOBAL_KEYS \<union> {lit ''transport'', lit ''_listener_index''}
              \<longrightarrow> dget (views ! i) k = PNone))
    \<and> distinct (List.map_filter listener_name es) \<and> [] \<notin> set (List.map_filter listener_name es)"
proof -
  obtain es where es: "dget doc (lit ''listeners'') = PList es" "es \<noteq> []" and chk: "check_listeners es [] = Inr ()"
    using assms by (auto simp: validate_document_schema_def split: if_splits pyval.splits)
  note ok = check_listeners_Inr [OF chk]
  have dicts: "\<forall>e \<in> set es. is_dict e"
    using ok by (auto simp: validate_listener_table_Inr)
  obtain views where v: "listener_views_from doc 0 es = Inr views" "length views = length es"
    and vi: "\<And>i. i < length es \<Longrightarrow> \<exists>entry. es ! i = PDict entry \<and> views ! i = listener_view doc i entry"
    using listener_views_from_dicts [OF dicts, of doc 0] by auto
  have "\<exists>entry. es ! i = PDict entry
         \<and> validate_config_schema (views ! i) = Inr ()
         \<and> dget (views ! i) (lit ''_listener_index'') = PInt (int i)
         \<and> dget (views ! i) (lit ''transport'') = dget entry (lit ''type'')
         \<and> (\<forall>k. dmem k entry \<and> k \<noteq> lit ''type'' \<longrightarrow> dget (views ! i) k = dget entry k)
         \<and> (\<forall>k. \<not> dmem k entry \<and> k \<notin> set GLOBAL_KEYS \<union> {lit ''transport'', lit ''_listener_index''}
              \<longrightarrow> dget (views ! i) k = PNone)" if i: "i < length es" for i
  proof -
    obtain entry where e: "es ! i = PDict entry" "views ! i = listener_view doc i entry"
      using vi [OF i] by blast
    have "validate_listener_table (PDict entry) = Inr ()"
      using ok i e by (metis nth_mem)
    then have keys: "set (dkeys entry) \<subseteq> set CONFIG_LISTENER_KEYS" and t: "dmem (lit ''type'') entry"
      and nested: "check_nested_tables entry CONFIG_TABLE_KEYS = Inr ()"
      by (auto simp: validate_listener_table_Inr)
    have "lit ''transport'' \<notin> set CONFIG_LISTENER_KEYS" "lit ''_listener_index'' \<notin> set CONFIG_LISTENER_KEYS"
      by (simp_all add: CONFIG_LISTENER_KEYS_def)
    then have own: "\<not> dmem (lit ''transport'') entry" "\<not> dmem (lit ''_listener_index'') entry"
      using keys by (auto simp: dmem_iff)
    show ?thesis
      using e t own view_accepted [OF keys nested] by (auto simp: listener_view_get dget_not_mem)
  qed
  moreover have "listener_views doc = Inr views"
    using es v by (simp add: listener_views_def)
  ultimately show ?thesis using es v(2) ok by auto
qed

theorem accepted_document_views_witness:
  "listener_views [(lit ''listeners'', PList [PDict [(lit ''type'', PStr (lit ''vsock'')), (lit ''name'', PStr (lit ''vms''))]])]
     \<noteq> Inl TypeError"
proof -
  let ?doc = "[(lit ''listeners'', PList [PDict [(lit ''type'', PStr (lit ''vsock'')), (lit ''name'', PStr (lit ''vms''))]])]"
  have "validate_document_schema ?doc = Inr ()"
    by (simp add: validate_document_schema_def dkeys_def CONFIG_DOCUMENT_KEYS_def validate_listener_table_def
        CONFIG_LISTENER_KEYS_def CONFIG_TABLE_KEYS_def)
  from accepted_document_views [OF this] show ?thesis by auto
qed

section \<open>The security knobs\<close>


definition security_table :: "dict \<Rightarrow> dict" where
  "security_table config = (case dget config (lit ''security'') of PDict d \<Rightarrow> d | _ \<Rightarrow> [])"

lemma validate_security_config_InrD:
  assumes "validate_security_config config = Inr k"
  shows "resolve_encryption config (security_table config) = Inr (k_encryption k)"
    and "k_encryption k = lit ''mtls'' \<Longrightarrow>
      k_client_auth k = lit ''transport'' \<and> k_server_auth k = lit ''transport''
      \<and> dget (security_table config) (lit ''client_auth'') \<in> {PNone, PStr (lit ''transport'')}
      \<and> dget (security_table config) (lit ''server_auth'') \<in> {PNone, PStr (lit ''transport'')}"
    and "k_encryption k \<noteq> lit ''mtls'' \<Longrightarrow>
      k_client_auth k = lit ''none'' \<and> k_server_auth k = lit ''none''
      \<and> dget (security_table config) (lit ''client_auth'') = PStr (lit ''none'')
      \<and> dget (security_table config) (lit ''server_auth'') = PStr (lit ''none'')"
    and "k_warnings k = knob_warnings config (k_encryption k) (k_client_auth k) (k_server_auth k)"
proof -
  let ?s = "security_table config"
  let ?ca = "dget ?s (lit ''client_auth'')" and ?sa = "dget ?s (lit ''server_auth'')"
  obtain enc where enc: "resolve_encryption config ?s = Inr enc" and chk: "check_auth_methods ?ca ?sa = Inr ()"
    and k: "resolve_auth config enc ?ca ?sa = Inr k"
    using assms unfolding validate_security_config_def security_table_def
    by (cases "dget config (lit ''security'')") (simp_all split: sum.splits)
  have ca: "?ca \<in> {PNone, PStr (lit ''transport''), PStr (lit ''none'')}"
    and sa: "?sa \<in> {PNone, PStr (lit ''transport''), PStr (lit ''none'')}"
    using chk unfolding check_auth_methods_def by (simp_all split: if_splits)
  consider (mtls) "enc = lit ''mtls''" "?ca \<in> {PNone, PStr (lit ''transport'')}" "?sa \<in> {PNone, PStr (lit ''transport'')}"
      "k = \<lparr>k_encryption = enc, k_client_auth = lit ''transport'', k_server_auth = lit ''transport'',
            k_warnings = knob_warnings config enc (lit ''transport'') (lit ''transport'')\<rparr>"
    | (off) "enc \<noteq> lit ''mtls''" "?ca = PStr (lit ''none'')" "?sa = PStr (lit ''none'')"
      "k = \<lparr>k_encryption = enc, k_client_auth = lit ''none'', k_server_auth = lit ''none'',
            k_warnings = knob_warnings config enc (lit ''none'') (lit ''none'')\<rparr>"
  proof (cases "enc = lit ''mtls''")
    case True
    with k show ?thesis by (intro mtls) (simp_all add: resolve_auth_def split: if_splits)
  next
    case False
    with k ca sa have "?ca = PStr (lit ''none'')" "?sa = PStr (lit ''none'')"
      by (auto simp: resolve_auth_def split: if_splits)
    with k False show ?thesis by (intro off) (simp_all add: resolve_auth_def)
  qed
  note split = this
  show "resolve_encryption config ?s = Inr (k_encryption k)"
    by (rule split) (simp_all add: enc)
  show "k_client_auth k = lit ''transport'' \<and> k_server_auth k = lit ''transport''
      \<and> ?ca \<in> {PNone, PStr (lit ''transport'')} \<and> ?sa \<in> {PNone, PStr (lit ''transport'')}"
    if "k_encryption k = lit ''mtls''"
    by (rule split) (use that in simp_all)
  show "k_client_auth k = lit ''none'' \<and> k_server_auth k = lit ''none''
      \<and> ?ca = PStr (lit ''none'') \<and> ?sa = PStr (lit ''none'')"
    if "k_encryption k \<noteq> lit ''mtls''"
    by (rule split) (use that in simp_all)
  show "k_warnings k = knob_warnings config (k_encryption k) (k_client_auth k) (k_server_auth k)"
    by (rule split) simp_all
qed



section \<open>Fingerprints, pins and labels\<close>

lemma rstrip_pad_snoc [simp]: "rstrip_pad (s @ [61]) = rstrip_pad s"
  by (simp add: rstrip_pad_def)

lemma rstrip_pad_replicate [simp]: "rstrip_pad (s @ replicate n 61) = rstrip_pad s"
proof (induction n)
  case (Suc n)
  have "s @ replicate (Suc n) 61 = (s @ replicate n 61) @ [61]"
    by (simp add: replicate_append_same)
  with Suc show ?case by (simp only: rstrip_pad_snoc)
qed simp

lemma rstrip_pad_idem [simp]: "rstrip_pad (rstrip_pad s) = rstrip_pad s"
  by (simp add: rstrip_pad_def)

lemma drop_SHA: "drop 7 (lit ''SHA256:'' @ s) = s"
  by simp

lemma normalize_fingerprint_Inr:
  "normalize_fingerprint v = Inr fp \<longleftrightarrow>
     (\<exists>s body raw. v = PStr s \<and> startswith (lit ''SHA256:'') s \<and> body = rstrip_pad (drop 7 s) \<and> body \<noteq> []
        \<and> b64decode (body @ replicate ((4 - length body mod 4) mod 4) 61) = Some raw \<and> length raw = 32
        \<and> fp = lit ''SHA256:'' @ body)"
  by (cases v) (auto simp: normalize_fingerprint_def Let_def split: option.splits)

text \<open>
  A fingerprint has one accepted form: however much base64 padding the operator writes, the
  normalised text is the same, it is a fixed point of the normalisation, and it names a digest
  of exactly 32 bytes, so that list entries compare equal to computed fingerprints.
\<close>

theorem fingerprint_canonical:
  assumes "normalize_fingerprint (PStr s) = Inr fp"
  shows "normalize_fingerprint (PStr (s @ replicate n 61)) = Inr fp
    \<and> normalize_fingerprint (PStr fp) = Inr fp
    \<and> (\<exists>body raw. fp = lit ''SHA256:'' @ body \<and> body \<noteq> [] \<and> last body \<noteq> 61
         \<and> b64decode (body @ replicate ((4 - length body mod 4) mod 4) 61) = Some raw \<and> length raw = 32)"
proof -
  obtain t body raw where t: "s = lit ''SHA256:'' @ t" and b: "body = rstrip_pad t" "body \<noteq> []"
    "b64decode (body @ replicate ((4 - length body mod 4) mod 4) 61) = Some raw" "length raw = 32"
    and fp: "fp = lit ''SHA256:'' @ body"
    using assms by (auto simp: normalize_fingerprint_Inr elim!: startswithE)
  have "last body \<noteq> 61"
    using b(1,2) hd_dropWhile [of "\<lambda>c. c = 61" "rev t"]
    by (simp add: rstrip_pad_def last_rev)
  moreover have "normalize_fingerprint (PStr (lit ''SHA256:'' @ u)) = Inr fp" if "rstrip_pad u = body" for u
    using that b(2-) fp by (simp add: normalize_fingerprint_Inr)
  moreover have "rstrip_pad (t @ replicate n 61) = body" "rstrip_pad body = body"
    using b(1) by simp_all
  ultimately have "normalize_fingerprint (PStr (lit ''SHA256:'' @ t @ replicate n 61)) = Inr fp"
    and "normalize_fingerprint (PStr (lit ''SHA256:'' @ body)) = Inr fp" and "last body \<noteq> 61"
    by blast+
  with b(2-) fp t show ?thesis by (intro conjI exI [of _ body] exI [of _ raw]) simp_all
qed

theorem fingerprint_canonical_witness:
  "normalize_fingerprint (PStr (lit ''SHA256:'' @ replicate 43 65)) = Inr (lit ''SHA256:'' @ replicate 43 65)"
proof -
  have "normalize_fingerprint (PStr (lit ''SHA256:AAAAAAAAAAAAAAAAAAAAAAAAAAAAAAAAAAAAAAAAAAA=''))
      = Inr (lit ''SHA256:AAAAAAAAAAAAAAAAAAAAAAAAAAAAAAAAAAAAAAAAAAA'')"
    by code_simp
  from fingerprint_canonical [OF this, of 0]
  have "normalize_fingerprint (PStr (lit ''SHA256:AAAAAAAAAAAAAAAAAAAAAAAAAAAAAAAAAAAAAAAAAAA''))
      = Inr (lit ''SHA256:AAAAAAAAAAAAAAAAAAAAAAAAAAAAAAAAAAAAAAAAAAA'')"
    by blast
  then show ?thesis by (simp add: lit_def numeral_eq_Suc)
qed

text \<open>
  Not every accepted fingerprint can ever match: the unused low bits of the last base64
  character are not checked, so an entry with a stray bit there decodes to 32 bytes and is
  accepted, but differs from the text computed for that very digest.
\<close>

theorem unmatchable_fingerprint_accepted:
  "\<exists>s raw. length raw = 32 \<and> bytes_ok raw
     \<and> b64decode (drop 7 s @ lit ''='') = Some raw
     \<and> normalize_fingerprint (PStr s) = Inr s
     \<and> s \<noteq> lit ''SHA256:'' @ rstrip_pad (b64encode raw)"
proof -
  let ?s = "lit ''SHA256:AAAAAAAAAAAAAAAAAAAAAAAAAAAAAAAAAAAAAAAAAAB''"
  have "b64decode (drop 7 ?s @ lit ''='') = Some (replicate 32 0)" by code_simp
  moreover have "normalize_fingerprint (PStr ?s) = Inr ?s" by code_simp
  moreover have "?s \<noteq> lit ''SHA256:'' @ rstrip_pad (b64encode (replicate 32 0))" by code_simp
  moreover have "length (replicate 32 (0::nat)) = 32" "bytes_ok (replicate 32 0)" by (simp_all add: bytes_ok_def)
  ultimately show ?thesis by blast
qed

lemma load_client_acl_Inr:
  assumes "load_client_acl config = Inr (fps, names)"
  shows "(dget config (lit ''acl'') = PNone \<and> fps = [] \<and> names = []) \<or>
    (\<exists>raw. dget config (lit ''acl'') = PDict raw \<and> set (dkeys raw) \<subseteq> set CONFIG_ACL_KEYS
       \<and> fingerprint_set (dget raw (lit ''trusted_fingerprints'')) = Inr fps
       \<and> trusted_names_of (dget raw (lit ''trusted_names'')) = Inr names \<and> (fps \<noteq> [] \<or> names \<noteq> []))"
  using assms by (auto simp: load_client_acl_def split: pyval.splits if_splits sum.splits)

lemma fingerprint_set_canonical:
  "fingerprint_set v = Inr fps \<Longrightarrow> fp \<in> set fps \<Longrightarrow> \<exists>w. normalize_fingerprint w = Inr fp"
  by (auto simp: fingerprint_set_def map_res_Inr_iff list_all2_conv_all_nth in_set_conv_nth split: pyval.splits)

lemma label_items_Inr:
  "label_items d acc = Inr ls \<Longrightarrow> fp \<in> fst ` set ls \<Longrightarrow>
     fp \<in> fst ` set acc \<or> (\<exists>k \<in> set (dkeys d). normalize_fingerprint (PStr k) = Inr fp)"
  by (induction d acc arbitrary: ls rule: label_items.induct)
    (auto simp: dkeys_def update_keys dom_update split: sum.splits)

text \<open>
  The client's pin is fail-closed: an absent \<open>[acl]\<close> is no pin, but a table that is present
  always pins at least one server identity, with fingerprints in canonical form; a table that
  pins nothing, has an unknown key or an ill-typed entry is refused, never read as no pin.
\<close>

theorem client_pin_fail_closed:
  assumes "load_client_acl config = Inr (fps, names)" and "dget config (lit ''acl'') \<noteq> PNone"
  shows "(fps \<noteq> [] \<or> names \<noteq> [])
    \<and> (\<forall>fp \<in> set fps. \<exists>body. fp = lit ''SHA256:'' @ body \<and> body \<noteq> [])
    \<and> (\<exists>raw. dget config (lit ''acl'') = PDict raw \<and> set (dkeys raw) \<subseteq> set CONFIG_ACL_KEYS)"
  using load_client_acl_Inr [OF assms(1)] assms(2) fingerprint_set_canonical
  by (fastforce simp: normalize_fingerprint_Inr)

theorem client_pin_fail_closed_witness:
  "\<exists>fps names. load_client_acl [(lit ''acl'', PDict [(lit ''trusted_names'', PStr (lit ''sap-*''))])] = Inr (fps, names)
     \<and> (fps \<noteq> [] \<or> names \<noteq> [])"
proof -
  let ?c = "[(lit ''acl'', PDict [(lit ''trusted_names'', PStr (lit ''sap-*''))])]"
  have "load_client_acl ?c = Inr ([], [lit ''sap-*''])"
    by (simp add: load_client_acl_def dkeys_def CONFIG_ACL_KEYS_def fingerprint_set_def trusted_names_of_def)
  with client_pin_fail_closed [OF this] show ?thesis by auto
qed

section \<open>The assembled model\<close>

text \<open>
  Whatever the role, an accepted configuration gives a model whose knobs are one of the two
  consistent triples; rules exist on the server only, a pin on the client only.
\<close>

lemma build_security_InrD:
  assumes "build_security config role = Inr sec"
  obtains k where "validate_config_schema config = Inr ()" and "validate_security_config config = Inr k"
    and "transport_encryption sec = k_encryption k" and "client_auth sec = k_client_auth k"
    and "server_auth sec = k_server_auth k"
    and "role \<noteq> ''server'' \<Longrightarrow> s_rules sec = []"
    and "role = ''server'' \<Longrightarrow> parse_rules (dget config (lit ''rule'')) = Inr (s_rules sec)"
    and "role = ''server'' \<Longrightarrow> load_labels config = Inr (s_labels sec)"
    and "role = ''client'' \<Longrightarrow> load_client_acl config = Inr (trusted_fingerprints sec, trusted_names sec)"
proof -
  obtain k where v: "validate_config_schema config = Inr ()" "validate_security_config config = Inr k"
    using assms by (auto simp: build_security_def split: sum.splits)
  show thesis
    using assms v by (intro that [of k])
      (auto simp: build_security_def Let_def split: sum.splits if_splits prod.splits)
qed

lemma build_security_knobs:
  assumes "build_security config role = Inr sec"
  shows "client_auth sec \<in> {lit ''transport'', lit ''none''}"
    and "client_auth sec = lit ''transport'' \<Longrightarrow> transport_encryption sec = lit ''mtls''"
    and "client_auth sec = lit ''none'' \<Longrightarrow> dget (security_table config) (lit ''client_auth'') = PStr (lit ''none'')"
proof -
  obtain k where k: "validate_security_config config = Inr k" "transport_encryption sec = k_encryption k"
    "client_auth sec = k_client_auth k"
    using build_security_InrD [OF assms] by metis
  note D = validate_security_config_InrD [OF k(1)]
  show "client_auth sec \<in> {lit ''transport'', lit ''none''}"
    and "client_auth sec = lit ''transport'' \<Longrightarrow> transport_encryption sec = lit ''mtls''"
    and "client_auth sec = lit ''none'' \<Longrightarrow> dget (security_table config) (lit ''client_auth'') = PStr (lit ''none'')"
    using D(2,3) k(2,3) by (cases "k_encryption k = lit ''mtls''"; simp)+
qed

section \<open>Values that are not what they should be\<close>

lemma positive_int_ok: "positive_int v dflt = Inr n \<Longrightarrow> 0 < dflt \<Longrightarrow> 0 < n"
  by (auto simp: positive_int_def split: if_splits sum.splits exn.splits)

text \<open>
  A malformed read bound can crash the process: \<open>decision_timeout = inf\<close>, a float TOML
  can write, raises an uncaught \<open>OverflowError\<close> instead of falling back to the default, while
  a NaN and a list fall back to it as documented.
\<close>

theorem infinite_decision_timeout_crashes:
  "resolve_read_timeouts E [(lit ''decision_timeout'', PNonFinite (lit ''Infinity''))] = Inl OverflowError
   \<and> resolve_read_timeouts E [(lit ''decision_timeout'', PNonFinite (lit ''NaN''))] = Inr (PFloat (1 / 2), PFloat 120)
   \<and> resolve_read_timeouts E [(lit ''decision_timeout'', PList [])] = Inr (PFloat (1 / 2), PFloat 120)"
  by (simp add: resolve_read_timeouts_def py_float_def py_int_def dget_or_def
      DEFAULT_RECV_TIMEOUT_def DEFAULT_DECISION_TIMEOUT_def)

end
