(* ===== verification/Text.thy ===== *)
theory Text
  imports Prelude
begin

text \<open>
  The string and path operations of the Python standard library that the program uses:
  \<open>in\<close>, \<open>join\<close>, \<open>split\<close>, \<open>splitlines\<close>, \<open>strip\<close> of \<open>str\<close>, and \<open>os.path.join\<close>, \<open>os.path.basename\<close>,
  \<open>pathlib.PurePosixPath\<close> on POSIX paths.
\<close>

section \<open>Strings\<close>

text \<open>\<open>p in s\<close>.\<close>

fun contains :: "pstr \<Rightarrow> pstr \<Rightarrow> bool" where
  "contains p [] = (p = [])"
| "contains p (c # s) = (startswith p (c # s) \<or> contains p s)"

fun join :: "pstr \<Rightarrow> pstr list \<Rightarrow> pstr" where
  "join sep [] = []"
| "join sep [s] = s"
| "join sep (s # t # r) = s @ sep @ join sep (t # r)"

text \<open>\<open>s.split(c)\<close> for one separator character: never empty.\<close>

fun split_on :: "nat \<Rightarrow> pstr \<Rightarrow> pstr list" where
  "split_on c [] = [[]]"
| "split_on c (x # s) =
     (if x = c then [] # split_on c s
      else (case split_on c s of [] \<Rightarrow> [[x]] | p # ps \<Rightarrow> (x # p) # ps))"

text \<open>\<open>str.isspace\<close>, and the line boundaries of \<open>str.splitlines\<close>.\<close>

definition is_uspace :: "nat \<Rightarrow> bool" where
  "is_uspace c \<longleftrightarrow> (9 \<le> c \<and> c \<le> 13) \<or> (28 \<le> c \<and> c \<le> 32) \<or> c = 133 \<or> c = 160 \<or> c = 5760
     \<or> (8192 \<le> c \<and> c \<le> 8202) \<or> c = 8232 \<or> c = 8233 \<or> c = 8239 \<or> c = 8287 \<or> c = 12288"

definition is_linebreak :: "nat \<Rightarrow> bool" where
  "is_linebreak c \<longleftrightarrow> (10 \<le> c \<and> c \<le> 13) \<or> (28 \<le> c \<and> c \<le> 30) \<or> c = 133 \<or> c = 8232 \<or> c = 8233"

definition py_strip :: "pstr \<Rightarrow> pstr" where
  "py_strip s = rev (dropWhile is_uspace (rev (dropWhile is_uspace s)))"

text \<open>\<open>s.split()\<close>: maximal runs of non-space characters; the accumulator is the current run, reversed.\<close>

fun split_ws_from :: "pstr \<Rightarrow> pstr \<Rightarrow> pstr list" where
  "split_ws_from acc [] = (if acc = [] then [] else [rev acc])"
| "split_ws_from acc (c # s) =
     (if is_uspace c then (if acc = [] then [] else [rev acc]) @ split_ws_from [] s
      else split_ws_from (c # acc) s)"

definition split_ws :: "pstr \<Rightarrow> pstr list" where
  "split_ws s = split_ws_from [] s"

fun splitlines_from :: "pstr \<Rightarrow> pstr \<Rightarrow> pstr list" where
  "splitlines_from acc [] = (if acc = [] then [] else [rev acc])"
| "splitlines_from acc [c] = (if is_linebreak c then [rev acc] else [rev (c # acc)])"
| "splitlines_from acc (c # d # s) =
     (if c = 13 \<and> d = 10 then rev acc # splitlines_from [] s
      else if is_linebreak c then rev acc # splitlines_from [] (d # s)
      else splitlines_from (c # acc) (d # s))"

definition splitlines :: "pstr \<Rightarrow> pstr list" where
  "splitlines s = splitlines_from [] s"

definition nl :: pstr where
  "nl = [10]"

section \<open>Paths\<close>

definition path_join :: "pstr \<Rightarrow> pstr \<Rightarrow> pstr" where
  "path_join a b =
     (if startswith (lit ''/'') b then b
      else if a = [] \<or> endswith (lit ''/'') a then a @ b
      else a @ lit ''/'' @ b)"

definition basename :: "pstr \<Rightarrow> pstr" where
  "basename p = last (split_on 47 p)"

text \<open>
  A \<open>PurePosixPath\<close>: its root (empty, one slash, or exactly two) and its components without
  empty ones and dots.
\<close>

type_synonym ppath = "pstr \<times> pstr list"

definition path_of :: "pstr \<Rightarrow> ppath" where
  "path_of s =
     ((if startswith (lit ''/'') s
       then (if startswith (lit ''//'') s \<and> \<not> startswith (lit ''///'') s then lit ''//'' else lit ''/'')
       else []),
      filter (\<lambda>c. c \<noteq> [] \<and> c \<noteq> lit ''.'') (split_on 47 s))"

definition path_str :: "ppath \<Rightarrow> pstr" where
  "path_str p = (if fst p = [] \<and> snd p = [] then lit ''.'' else fst p @ join (lit ''/'') (snd p))"

definition path_absolute :: "ppath \<Rightarrow> bool" where
  "path_absolute p \<longleftrightarrow> fst p \<noteq> []"

definition path_div :: "ppath \<Rightarrow> ppath \<Rightarrow> ppath" where
  "path_div a b = (if path_absolute b then b else (fst a, snd a @ snd b))"

definition path_parent :: "ppath \<Rightarrow> ppath" where
  "path_parent p = (fst p, butlast (snd p))"

text \<open>
  \<open>os.path.expanduser\<close>: the home directories come from the environment and the password
  database; an unknown user leaves the path as it is.
\<close>

definition expanduser :: "(pstr \<Rightarrow> pstr option) \<Rightarrow> pstr \<Rightarrow> pstr" where
  "expanduser home path =
     (if \<not> startswith (lit ''~'') path then path
      else (let user = takeWhile (\<lambda>c. c \<noteq> 47) (tl path); rest = dropWhile (\<lambda>c. c \<noteq> 47) (tl path)
            in case home user of
                 None \<Rightarrow> path
               | Some dir \<Rightarrow>
                   (let full = rev (dropWhile (\<lambda>c. c = 47) (rev dir)) @ rest
                    in if full = [] then lit ''/'' else full)))"

section \<open>Facts\<close>

lemma startswith_contains: "startswith p s \<Longrightarrow> contains p s"
  by (cases s) (auto simp: startswith_def)

lemma contains_append_left [simp]: "contains p (p @ s)"
  by (simp add: startswith_contains)

lemma contains_appendI: "contains p s \<Longrightarrow> contains p (t @ s)"
  by (induction t) auto

lemma contains_iff: "contains p s \<longleftrightarrow> (\<exists>a b. s = a @ p @ b)"
proof
  show "\<exists>a b. s = a @ p @ b" if "contains p s"
    using that
  proof (induction s)
    case (Cons c s)
    then show ?case
      by (auto elim!: startswithE) (metis append_Nil, metis append_Cons)
  qed simp
next
  assume "\<exists>a b. s = a @ p @ b"
  then show "contains p s" by (auto intro: contains_appendI)
qed

lemma split_on_not_Nil [simp]: "split_on c s \<noteq> []"
  by (induction s) (auto split: list.split)

lemma join_split_on: "join [c] (split_on c s) = s"
proof (induction s)
  case (Cons x s)
  then show ?case by (cases "split_on c s"; cases "tl (split_on c s)") auto
qed simp

lemma split_on_no_sep: "p \<in> set (split_on c s) \<Longrightarrow> c \<notin> set p"
proof (induction s arbitrary: p)
  case (Cons x s)
  then show ?case by (cases "split_on c s") (auto split: if_splits)
qed simp

lemma split_on_plain: "c \<notin> set s \<Longrightarrow> split_on c s = [s]"
  by (induction s) auto

lemma split_on_append: "c \<notin> set p \<Longrightarrow> split_on c (p @ c # s) = p # split_on c s"
  by (induction p) auto

lemma split_on_join:
  "ps \<noteq> [] \<Longrightarrow> \<forall>p \<in> set ps. c \<notin> set p \<Longrightarrow> split_on c (join [c] ps) = ps"
  by (induction "[c]" ps rule: join.induct) (auto simp: split_on_plain split_on_append)

lemma startswith_slash: "startswith (lit ''/'') s \<longleftrightarrow> (\<exists>t. s = 47 # t)"
  by (cases s) (auto simp: startswith_def lit_def)

lemma startswith_slashes: "startswith (lit ''//'') s \<longleftrightarrow> (\<exists>t. s = 47 # 47 # t)"
  by (auto simp: startswith_def lit_def take_Cons' split: if_splits) (metis append_Cons append_Nil append_take_drop_id)

lemma join_Cons: "join sep (c # cs) = c @ (if cs = [] then [] else sep @ join sep cs)"
  by (cases cs) auto

lemma basename_no_slash: "47 \<notin> set (basename p)"
  unfolding basename_def by (rule split_on_no_sep [of _ 47 p]) simp

lemma split_on_sep: "split_on c (d @ c # b) = split_on c d @ split_on c b"
  by (induction d) (auto split: list.split)

lemma basename_dir: "47 \<notin> set b \<Longrightarrow> basename (d @ 47 # b) = b"
  by (simp add: basename_def split_on_sep split_on_plain)

lemma set_join: "set (join sep ps) \<subseteq> set sep \<union> (\<Union>p \<in> set ps. set p)"
  by (induction sep ps rule: join.induct) auto

text \<open>A relative component list appended to a directory stays below that directory.\<close>

lemma path_div_relative: "\<not> path_absolute b \<Longrightarrow> fst (path_div a b) = fst a \<and> take (length (snd a)) (snd (path_div a b)) = snd a"
  by (simp add: path_div_def)

lemma path_div_absolute [simp]: "path_absolute a \<Longrightarrow> path_absolute (path_div a b)"
  by (simp add: path_div_def path_absolute_def)

end
