(* ===== verification/X509.thy ===== *)
theory X509
  imports Schema Text
begin

text \<open>
  Certificates in \<open>sudo-auth-proxy\<close>: the fingerprint of a key, the extension checks, the
  explicit chain builder \<open>verify_x509_chain\<close>, the EKU check of a peer and the client's server
  pin. Parsing and signature verification belong to the \<open>cryptography\<close> package and are a
  parameter, the record \<open>crypto\<close>; a certificate is the record of the attributes the code reads.
\<close>

section \<open>Certificates\<close>

text \<open>
  An extension list is missing (\<open>None\<close>) when its encoding is malformed: reading it raises
  \<open>ValueError\<close> in the package. A key is one of the three kinds the code handles, or another.
\<close>

datatype ext_value =
    BasicConstraints bool "int option"
  | KeyUsage bool bool
  | ExtendedKeyUsage "pstr list"
  | OtherExtension
  | UnrecognizedExtension

datatype public_key = Ed25519Key pbytes | RSAKey pbytes | ECKey pbytes | OtherKey pbytes

record cert =
  c_sha256 :: pbytes
  c_subject :: pbytes
  c_issuer :: pbytes
  c_not_before :: int
  c_not_after :: int
  c_extensions :: "(bool \<times> ext_value) list option"
  c_key :: public_key
  c_signature :: pbytes
  c_tbs :: pbytes
  c_hash :: pbytes
  c_params :: pbytes

record crypto =
  load_der :: "pbytes \<Rightarrow> cert option"
  load_pem :: "pbytes \<Rightarrow> cert option"
  load_pem_all :: "pbytes \<Rightarrow> cert list option"
  spki_der :: "public_key \<Rightarrow> pbytes"
  sha256 :: "pbytes \<Rightarrow> pbytes"
  ed25519_verifies :: "pbytes \<Rightarrow> pbytes \<Rightarrow> pbytes \<Rightarrow> bool"
  rsa_verifies :: "pbytes \<Rightarrow> pbytes \<Rightarrow> pbytes \<Rightarrow> pbytes \<Rightarrow> pbytes \<Rightarrow> bool"
  ecdsa_verifies :: "pbytes \<Rightarrow> pbytes \<Rightarrow> pbytes \<Rightarrow> pbytes \<Rightarrow> bool"

definition b64e :: "pbytes \<Rightarrow> pstr" where
  "b64e data = b64encode data"

definition spki_fingerprint :: "crypto \<Rightarrow> public_key \<Rightarrow> pstr" where
  "spki_fingerprint C key = lit ''SHA256:'' @ rstrip_pad (b64e (sha256 C (spki_der C key)))"

definition load_der_cert :: "crypto \<Rightarrow> pbytes \<Rightarrow> cert res" where
  "load_der_cert C der =
     (case load_der C der of None \<Rightarrow> Inl (AuthError ''cannot parse peer certificate'') | Some cert \<Rightarrow> Inr cert)"

text \<open>The fingerprint of a peer leaf, as \<open>authenticate_request\<close> and \<open>verify_server_acl\<close> compute it.\<close>

definition leaf_spki :: "crypto \<Rightarrow> pbytes \<Rightarrow> pstr res" where
  "leaf_spki C der =
     (case load_der_cert C der of Inl e \<Rightarrow> Inl e | Inr cert \<Rightarrow> Inr (spki_fingerprint C (c_key cert)))"

section \<open>Extension checks\<close>

text \<open>The extension list, and \<open>get_extension_for_class\<close>: the first extension of a class, \<open>None\<close> for \<open>ExtensionNotFound\<close>.\<close>

definition extensions_of :: "cert \<Rightarrow> (bool \<times> ext_value) list res" where
  "extensions_of cert =
     (case c_extensions cert of None \<Rightarrow> Inl (ValueError ''malformed extensions'') | Some es \<Rightarrow> Inr es)"

fun find_basic :: "(bool \<times> ext_value) list \<Rightarrow> (bool \<times> int option) option" where
  "find_basic [] = None"
| "find_basic ((critical, BasicConstraints ca len) # es) = Some (ca, len)"
| "find_basic (e # es) = find_basic es"

fun find_usage :: "(bool \<times> ext_value) list \<Rightarrow> (bool \<times> bool) option" where
  "find_usage [] = None"
| "find_usage ((critical, KeyUsage digital sign) # es) = Some (digital, sign)"
| "find_usage (e # es) = find_usage es"

fun find_eku :: "(bool \<times> ext_value) list \<Rightarrow> pstr list option" where
  "find_eku [] = None"
| "find_eku ((critical, ExtendedKeyUsage oids) # es) = Some oids"
| "find_eku (e # es) = find_eku es"

definition cert_is_ca :: "cert \<Rightarrow> bool res" where
  "cert_is_ca cert =
     (case extensions_of cert of Inl e \<Rightarrow> Inl e
      | Inr es \<Rightarrow> Inr (case find_basic es of None \<Rightarrow> False | Some (ca, len) \<Rightarrow> ca))"

definition cert_path_length :: "cert \<Rightarrow> int option res" where
  "cert_path_length cert =
     (case extensions_of cert of Inl e \<Rightarrow> Inl e
      | Inr es \<Rightarrow> Inr (case find_basic es of None \<Rightarrow> None | Some (ca, len) \<Rightarrow> len))"

definition cert_allows_cert_sign :: "cert \<Rightarrow> bool res" where
  "cert_allows_cert_sign cert =
     (case extensions_of cert of Inl e \<Rightarrow> Inl e
      | Inr es \<Rightarrow> Inr (case find_usage es of None \<Rightarrow> True | Some (digital, sign) \<Rightarrow> sign))"

definition cert_allows_digital_signature :: "cert \<Rightarrow> bool res" where
  "cert_allows_digital_signature cert =
     (case extensions_of cert of Inl e \<Rightarrow> Inl e
      | Inr es \<Rightarrow> Inr (case find_usage es of None \<Rightarrow> True | Some (digital, sign) \<Rightarrow> digital))"

definition cert_has_unrecognized_critical_extension :: "cert \<Rightarrow> bool res" where
  "cert_has_unrecognized_critical_extension cert =
     (case c_extensions cert of None \<Rightarrow> Inl (AuthError ''cannot parse certificate extensions'')
      | Some es \<Rightarrow> Inr (\<exists>(critical, value) \<in> set es. critical \<and> value = UnrecognizedExtension))"

definition cert_has_oid :: "cert \<Rightarrow> pstr \<Rightarrow> bool res" where
  "cert_has_oid cert oid =
     (case extensions_of cert of Inl e \<Rightarrow> Inl e
      | Inr es \<Rightarrow> Inr (case find_eku es of None \<Rightarrow> False | Some oids \<Rightarrow> oid \<in> set oids))"

definition verify_cert_signed_by :: "crypto \<Rightarrow> cert \<Rightarrow> public_key \<Rightarrow> unit res" where
  "verify_cert_signed_by C child issuer_public_key =
     (case issuer_public_key of
        Ed25519Key k \<Rightarrow>
          if ed25519_verifies C k (c_signature child) (c_tbs child) then Inr ()
          else Inl (AuthError ''certificate signature verification failed'')
      | RSAKey k \<Rightarrow>
          if rsa_verifies C k (c_signature child) (c_tbs child) (c_params child) (c_hash child) then Inr ()
          else Inl (AuthError ''certificate signature verification failed'')
      | ECKey k \<Rightarrow>
          if ecdsa_verifies C k (c_signature child) (c_tbs child) (c_hash child) then Inr ()
          else Inl (AuthError ''certificate signature verification failed'')
      | OtherKey k \<Rightarrow> Inl (AuthError ''unsupported certificate signing key type''))"

text \<open>A file is read by \<open>read\<close>, \<open>None\<close> when it cannot be.\<close>

definition load_trusted_ca_certs :: "crypto \<Rightarrow> (pstr \<Rightarrow> pbytes option) \<Rightarrow> pstr \<Rightarrow> cert list res" where
  "load_trusted_ca_certs C read ca_file =
     (case Option.bind (read ca_file) (load_pem_all C) of
        None \<Rightarrow> Inl (SecurityConfigError ''cannot load CA file'') | Some certs \<Rightarrow> Inr certs)"

section \<open>The chain builder\<close>

text \<open>The first candidate whose key verifies the certificate and whose path length allows it.\<close>

fun find_issuer :: "crypto \<Rightarrow> cert \<Rightarrow> nat \<Rightarrow> cert list \<Rightarrow> cert option res" where
  "find_issuer C current depth [] = Inr None"
| "find_issuer C current depth (candidate # candidates) =
     (case verify_cert_signed_by C current (c_key candidate) of
        Inl _ \<Rightarrow> find_issuer C current depth candidates
      | Inr _ \<Rightarrow> (case cert_path_length candidate of Inl e \<Rightarrow> Inl e
          | Inr len \<Rightarrow>
              if (case len of None \<Rightarrow> False | Some l \<Rightarrow> l < int depth)
              then find_issuer C current depth candidates
              else Inr (Some candidate)))"

text \<open>
  The loop \<open>for _ in range(max_depth + 1)\<close>; the number is the iterations left, \<open>seen\<close> the
  fingerprints passed, \<open>pool\<close> the list \<open>chain[1:] + ca_certs\<close>.
\<close>

fun chain_walk :: "crypto \<Rightarrow> int \<Rightarrow> pbytes set \<Rightarrow> cert list \<Rightarrow> nat \<Rightarrow> cert \<Rightarrow> pbytes list \<Rightarrow> unit res" where
  "chain_walk C now trusted pool 0 current seen =
     Inl (AuthError ''certificate chain exceeds the maximum depth'')"
| "chain_walk C now trusted pool (Suc n) current seen =
     (if \<not> (c_not_before current \<le> now \<and> now \<le> c_not_after current)
      then Inl (AuthError ''certificate is outside its validity window'')
      else (case cert_has_unrecognized_critical_extension current of Inl e \<Rightarrow> Inl e
      | Inr bad \<Rightarrow>
        if bad then Inl (AuthError ''certificate carries an unrecognized critical extension'')
        else if c_sha256 current \<in> trusted then Inr ()
        else (case find_issuer C current (length seen) (filter (\<lambda>c. c_subject c = c_issuer current) pool) of
            Inl e \<Rightarrow> Inl e
          | Inr None \<Rightarrow> Inl (AuthError ''no trusted issuer found for certificate'')
          | Inr (Some issuer) \<Rightarrow>
            (case cert_is_ca issuer of Inl e \<Rightarrow> Inl e
             | Inr ca \<Rightarrow>
               if \<not> ca then Inl (AuthError ''certificate issuer does not assert CA'')
               else (case cert_allows_cert_sign issuer of Inl e \<Rightarrow> Inl e
               | Inr sign \<Rightarrow>
                 if \<not> sign then Inl (AuthError ''certificate issuer key usage forbids certificate signing'')
                 else if c_sha256 current \<in> set seen
                 then Inl (AuthError ''certificate chain loop detected'')
                 else chain_walk C now trusted pool n issuer (c_sha256 current # seen))))))"

definition verify_x509_chain :: "crypto \<Rightarrow> int \<Rightarrow> cert list \<Rightarrow> cert list \<Rightarrow> pstr \<Rightarrow> nat \<Rightarrow> cert res" where
  "verify_x509_chain C now chain ca_certs required_oid max_depth =
     (case chain of [] \<Rightarrow> Inl IndexError
      | leaf # rest \<Rightarrow>
        (case cert_is_ca leaf of Inl e \<Rightarrow> Inl e
         | Inr ca \<Rightarrow>
           if ca then Inl (AuthError ''end-entity certificate asserts CA (BasicConstraints CA:TRUE)'')
           else (case cert_allows_digital_signature leaf of Inl e \<Rightarrow> Inl e
           | Inr digital \<Rightarrow>
             if \<not> digital then Inl (AuthError ''end-entity certificate key usage forbids digital signatures'')
             else (case chain_walk C now (c_sha256 ` set ca_certs) (rest @ ca_certs) (max_depth + 1) leaf [] of
                 Inl e \<Rightarrow> Inl e
               | Inr _ \<Rightarrow> (case cert_has_oid leaf required_oid of Inl e \<Rightarrow> Inl e
                   | Inr has \<Rightarrow>
                       if has then Inr leaf
                       else Inl (AuthError ''client certificate missing required EKU OID''))))))"

section \<open>Checks on a TLS peer\<close>

text \<open>
  What a TLS-wrapped socket tells of its peer: the DER leaf, and the parsed certificate, its
  subject as a list of RDNs and its alternative names.
\<close>

record tls_peer =
  peer_der :: "pbytes option"
  peer_cert :: "((pstr \<times> pstr) list list \<times> (pstr \<times> pstr) list) option"

definition verify_cert_file :: "crypto \<Rightarrow> (pstr \<Rightarrow> pbytes option) \<Rightarrow> pstr \<Rightarrow> pstr \<Rightarrow> unit res" where
  "verify_cert_file C read path oid =
     (case read path of None \<Rightarrow> Inl (OSError ''cannot read certificate'')
      | Some text \<Rightarrow> (case load_pem C text of None \<Rightarrow> Inl (ValueError ''cannot parse certificate'')
      | Some cert \<Rightarrow> (case cert_has_oid cert oid of Inl e \<Rightarrow> Inl e
      | Inr has \<Rightarrow> if has then Inr () else Inl (ValueError ''certificate missing required EKU OID''))))"

definition verify_cert_der :: "crypto \<Rightarrow> pbytes \<Rightarrow> pstr \<Rightarrow> unit res" where
  "verify_cert_der C der oid =
     (case load_der C der of None \<Rightarrow> Inl (ValueError ''cannot parse certificate'')
      | Some cert \<Rightarrow> (case cert_has_oid cert oid of Inl e \<Rightarrow> Inl e
      | Inr has \<Rightarrow> if has then Inr () else Inl (ValueError ''certificate missing required EKU OID'')))"

text \<open>A \<open>peer_required_oid\<close> that is no string equals no OID of a certificate.\<close>

definition required_peer_oid :: "dict \<Rightarrow> pyval" where
  "required_peer_oid config =
     (case dget config (lit ''mtls'') of PDict mtls \<Rightarrow> dget mtls (lit ''peer_required_oid'') | _ \<Rightarrow> PNone)"

definition check_peer_oid :: "crypto \<Rightarrow> pbytes option \<Rightarrow> pyval \<Rightarrow> unit res" where
  "check_peer_oid C der_opt peer_oid =
     (if \<not> truthy peer_oid then Inr ()
      else (case der_opt of None \<Rightarrow> Inr ()
      | Some der \<Rightarrow>
          if der = [] then Inr ()
          else (case peer_oid of
                  PStr oid \<Rightarrow> verify_cert_der C der oid
                | _ \<Rightarrow> (case load_der C der of None \<Rightarrow> Inl (ValueError ''cannot parse certificate'')
                   | Some cert \<Rightarrow> (case extensions_of cert of Inl e \<Rightarrow> Inl e
                       | Inr _ \<Rightarrow> Inl (ValueError ''certificate missing required EKU OID''))))))"

definition verify_peer_oid :: "crypto \<Rightarrow> tls_peer \<Rightarrow> dict \<Rightarrow> unit res" where
  "verify_peer_oid C sock config = check_peer_oid C (peer_der sock) (required_peer_oid config)"

text \<open>\<open>dict(pairs).get("commonName")\<close>: the last pair of that name, empty when there is none.\<close>

fun common_name :: "(pstr \<times> pstr) list \<Rightarrow> pstr" where
  "common_name [] = []"
| "common_name ((k, v) # pairs) =
     (if k = lit ''commonName'' \<and> lit ''commonName'' \<notin> fst ` set pairs then v else common_name pairs)"

definition dns_sans :: "(pstr \<times> pstr) list \<Rightarrow> pstr list" where
  "dns_sans sans = map snd (filter (\<lambda>(san_type, value). san_type = lit ''DNS'') sans)"

definition server_cert_names :: "tls_peer \<Rightarrow> pstr list" where
  "server_cert_names sock =
     (case peer_cert sock of None \<Rightarrow> []
      | Some (subject, sans) \<Rightarrow>
          (let cn = common_name (concat subject) in (if cn \<noteq> [] then [cn] else []) @ dns_sans sans))"

definition verify_server_acl :: "crypto \<Rightarrow> tls_peer \<Rightarrow> dict \<Rightarrow> unit res" where
  "verify_server_acl C sock config =
     (case build_security config ''client'' of Inl e \<Rightarrow> Inl e
      | Inr sec \<Rightarrow>
        if trusted_fingerprints sec = [] \<and> trusted_names sec = [] then Inr ()
        else (case peer_der sock of
            None \<Rightarrow> Inl (AuthError ''no peer certificate to pin'')
          | Some der \<Rightarrow>
            if der = [] then Inl (AuthError ''no peer certificate to pin'')
            else (case leaf_spki C der of Inl e \<Rightarrow> Inl e
            | Inr spki \<Rightarrow>
              if spki \<in> set (trusted_fingerprints sec) then Inr ()
              else if trusted_names sec \<noteq> [] \<and>
                (\<exists>name \<in> set (server_cert_names sock). \<exists>pattern \<in> set (trusted_names sec). fnmatchcase name pattern)
              then Inr ()
              else Inl (AuthError ''server certificate is not in the client acl''))))"

end
