(* ===== verification/Chain.thy ===== *)
theory Chain
  imports X509
begin

text \<open>
  What certificate verification guarantees: an accepted leaf is linked to the trust store by a
  chain of valid, signed, CA-asserting certificates of bounded length; a leaf issued directly by
  a trusted CA is accepted; and a pinned client only talks to the server it pinned.
\<close>

section \<open>The specification of a chain\<close>

text \<open>A certificate the walk may stand on, and one step from a certificate to its issuer.\<close>

definition node_ok :: "int \<Rightarrow> cert \<Rightarrow> bool" where
  "node_ok now c \<longleftrightarrow> c_not_before c \<le> now \<and> now \<le> c_not_after c
     \<and> cert_has_unrecognized_critical_extension c = Inr False"

definition link_ok :: "crypto \<Rightarrow> nat \<Rightarrow> cert \<Rightarrow> cert \<Rightarrow> bool" where
  "link_ok C depth child issuer \<longleftrightarrow> c_subject issuer = c_issuer child
     \<and> verify_cert_signed_by C child (c_key issuer) = Inr ()
     \<and> cert_is_ca issuer = Inr True \<and> cert_allows_cert_sign issuer = Inr True
     \<and> (\<exists>len. cert_path_length issuer = Inr len \<and> (\<forall>l. len = Some l \<longrightarrow> int depth \<le> l))"

text \<open>A path from a certificate at a depth to a trusted one, through issuers of a pool.\<close>

fun trust_path :: "crypto \<Rightarrow> int \<Rightarrow> pbytes set \<Rightarrow> cert set \<Rightarrow> nat \<Rightarrow> cert list \<Rightarrow> bool" where
  "trust_path C now trusted pool depth [] = False"
| "trust_path C now trusted pool depth [c] = (node_ok now c \<and> c_sha256 c \<in> trusted)"
| "trust_path C now trusted pool depth (c # d # p) =
     (node_ok now c \<and> c_sha256 c \<notin> trusted \<and> d \<in> pool \<and> link_ok C depth c d
      \<and> trust_path C now trusted pool (Suc depth) (d # p))"

lemma find_issuer_Some:
  "find_issuer C current depth cs = Inr (Some issuer) \<Longrightarrow>
     issuer \<in> set cs \<and> verify_cert_signed_by C current (c_key issuer) = Inr ()
     \<and> (\<exists>len. cert_path_length issuer = Inr len \<and> (\<forall>l. len = Some l \<longrightarrow> int depth \<le> l))"
  by (induction C current depth cs rule: find_issuer.induct)
    (auto split: sum.splits if_splits option.splits)

lemma chain_walk_step:
  assumes "chain_walk C now trusted pool (Suc n) current seen = Inr ()" and "c_sha256 current \<notin> trusted"
  obtains issuer where "issuer \<in> set pool" "link_ok C (length seen) current issuer" "c_sha256 current \<notin> set seen"
    "chain_walk C now trusted pool n issuer (c_sha256 current # seen) = Inr ()"
proof -
  let ?cs = "filter (\<lambda>c. c_subject c = c_issuer current) pool"
  obtain issuer where i: "find_issuer C current (length seen) ?cs = Inr (Some issuer)"
    "cert_is_ca issuer = Inr True" "cert_allows_cert_sign issuer = Inr True" "c_sha256 current \<notin> set seen"
    "chain_walk C now trusted pool n issuer (c_sha256 current # seen) = Inr ()"
    using assms by (auto split: if_splits sum.splits option.splits)
  then show thesis
    using find_issuer_Some [OF i(1)] by (intro that [of issuer]) (auto simp: link_ok_def)
qed

lemma chain_walk_node:
  "chain_walk C now trusted pool (Suc n) current seen = Inr () \<Longrightarrow> node_ok now current"
  by (auto simp: node_ok_def split: if_splits sum.splits)

lemma chain_walk_path:
  "chain_walk C now trusted pool n current seen = Inr () \<Longrightarrow>
     \<exists>p. trust_path C now trusted (set pool) (length seen) (current # p) \<and> length (current # p) \<le> n
       \<and> distinct (map c_sha256 (current # p))
       \<and> (c_sha256 current \<in> trusted \<or> set (map c_sha256 (current # p)) \<inter> set seen \<subseteq> trusted)"
proof (induction n arbitrary: current seen)
  case (Suc n)
  note node = chain_walk_node [OF Suc.prems]
  show ?case
  proof (cases "c_sha256 current \<in> trusted")
    case True
    with node show ?thesis by (intro exI [of _ "[]"]) simp
  next
    case False
    then obtain issuer where i: "issuer \<in> set pool" "link_ok C (length seen) current issuer"
      "c_sha256 current \<notin> set seen"
      and rest: "chain_walk C now trusted pool n issuer (c_sha256 current # seen) = Inr ()"
      by (rule chain_walk_step [OF Suc.prems])
    from Suc.IH [OF rest] obtain p where p:
      "trust_path C now trusted (set pool) (Suc (length seen)) (issuer # p)" "length (issuer # p) \<le> n"
      "distinct (map c_sha256 (issuer # p))"
      "c_sha256 issuer \<in> trusted \<or> set (map c_sha256 (issuer # p)) \<inter> set (c_sha256 current # seen) \<subseteq> trusted"
      by auto
    have tail: "c_sha256 issuer \<in> trusted \<Longrightarrow> p = []"
      using p(1) by (cases p) auto
    have "c_sha256 current \<notin> set (map c_sha256 (issuer # p))"
      using p(4) tail False by auto
    moreover have "set (map c_sha256 (issuer # p)) \<inter> set seen \<subseteq> trusted"
      using p(4) tail by auto
    ultimately show ?thesis
      using node False i p by (intro exI [of _ "issuer # p"]) auto
  qed
qed simp

text \<open>
  C16: An accepted leaf is trusted for a reason. It is the first certificate presented, an end
  entity allowed to sign and carrying the required EKU; and from it a path of at most
  \<open>max_depth + 1\<close> distinct certificates leads to one in the trust store, where every
  certificate is in its validity window without an unknown critical extension, and every step
  goes to a certificate presented or trusted, of the issuer's name, whose key verifies the
  signature, that asserts CA and certificate signing and whose path length allows the depth.
\<close>

theorem verify_x509_chain_sound:
  assumes "verify_x509_chain C now chain ca_certs oid max_depth = Inr leaf"
  shows "\<exists>rest p. chain = leaf # rest \<and> cert_is_ca leaf = Inr False
    \<and> cert_allows_digital_signature leaf = Inr True \<and> cert_has_oid leaf oid = Inr True
    \<and> trust_path C now (c_sha256 ` set ca_certs) (set rest \<union> set ca_certs) 0 (leaf # p)
    \<and> length (leaf # p) \<le> max_depth + 1 \<and> distinct (map c_sha256 (leaf # p))"
proof -
  obtain rest where chain: "chain = leaf # rest" and leaf: "cert_is_ca leaf = Inr False"
    "cert_allows_digital_signature leaf = Inr True" "cert_has_oid leaf oid = Inr True"
    and walk: "chain_walk C now (c_sha256 ` set ca_certs) (rest @ ca_certs) (max_depth + 1) leaf [] = Inr ()"
    using assms by (auto simp: verify_x509_chain_def simp del: chain_walk.simps split: list.splits sum.splits if_splits)
  from chain_walk_path [OF walk] show ?thesis
    using chain leaf by (auto simp del: trust_path.simps)
qed

text \<open>A CA for the witnesses: an unrestricted one, whose key verifies everything.\<close>

definition demo_ca :: cert where
  "demo_ca = \<lparr>c_sha256 = [1], c_subject = [7], c_issuer = [7], c_not_before = 0, c_not_after = 100,
     c_extensions = Some [(True, BasicConstraints True (Some 0)), (True, KeyUsage False True)],
     c_key = Ed25519Key [9], c_signature = [], c_tbs = [], c_hash = [], c_params = []\<rparr>"

definition demo_leaf :: cert where
  "demo_leaf = \<lparr>c_sha256 = [2], c_subject = [8], c_issuer = [7], c_not_before = 0, c_not_after = 100,
     c_extensions = Some [(False, ExtendedKeyUsage [lit ''1.3.6.1''])],
     c_key = Ed25519Key [5], c_signature = [3], c_tbs = [3], c_hash = [], c_params = []\<rparr>"

definition demo_crypto :: crypto where
  "demo_crypto = \<lparr>load_der = (\<lambda>b. if b = [42] then Some demo_leaf else None),
     load_pem = (\<lambda>b. if b = [42] then Some demo_leaf else None), load_pem_all = (\<lambda>b. Some [demo_ca]),
     spki_der = (\<lambda>k. case k of Ed25519Key b \<Rightarrow> b | _ \<Rightarrow> []), sha256 = (\<lambda>b. b),
     ed25519_verifies = (\<lambda>k sig msg. k = [9] \<and> sig = msg),
     rsa_verifies = (\<lambda>_ _ _ _ _. False), ecdsa_verifies = (\<lambda>_ _ _ _. False)\<rparr>"

lemmas cert_checks = cert_is_ca_def cert_path_length_def cert_allows_cert_sign_def
  cert_allows_digital_signature_def cert_has_unrecognized_critical_extension_def cert_has_oid_def
  extensions_of_def

theorem verify_x509_chain_sound_witness:
  "trust_path demo_crypto 50 {[1]} {demo_ca} 0 [demo_leaf, demo_ca]"
proof -
  have "verify_x509_chain demo_crypto 50 [demo_leaf] [demo_ca] (lit ''1.3.6.1'') 8 = Inr demo_leaf"
    by (simp add: verify_x509_chain_def cert_checks demo_leaf_def demo_ca_def demo_crypto_def
        verify_cert_signed_by_def eval_nat_numeral)
  then obtain p where p: "trust_path demo_crypto 50 (c_sha256 ` {demo_ca}) ({} \<union> {demo_ca}) 0 (demo_leaf # p)"
    and d: "distinct (map c_sha256 (demo_leaf # p))"
    using verify_x509_chain_sound [of demo_crypto 50 "[demo_leaf]" "[demo_ca]" "lit ''1.3.6.1''" 8 demo_leaf] by auto
  have ca: "c_sha256 demo_ca = [1]" and leaf: "c_sha256 demo_leaf = [2]" by (simp_all add: demo_ca_def demo_leaf_def)
  obtain q where q: "p = demo_ca # q" using p ca leaf by (cases p) auto
  have "q = []" using p ca leaf by (cases q) (auto simp: q)
  with p q ca show ?thesis by simp
qed

text \<open>
  The honest case is accepted: an end entity in its validity window, with the required EKU
  and issued by a trusted CA in its own window, verifies, provided no other certificate
  presented or trusted bears the issuer's name, whatever else is presented.
\<close>

theorem direct_issuance_accepted:
  assumes "node_ok now leaf" "cert_is_ca leaf = Inr False" "cert_allows_digital_signature leaf = Inr True"
    and "cert_has_oid leaf oid = Inr True"
    and "ca \<in> set ca_certs" "node_ok now ca" "link_ok C 0 leaf ca"
    and "\<And>c. c \<in> set rest \<union> set ca_certs \<Longrightarrow> c_subject c = c_issuer leaf \<Longrightarrow> c = ca"
    and "1 \<le> max_depth"
  shows "verify_x509_chain C now (leaf # rest) ca_certs oid max_depth = Inr leaf"
proof -
  let ?cs = "filter (\<lambda>c. c_subject c = c_issuer leaf) (rest @ ca_certs)"
  obtain len where len: "cert_path_length ca = Inr len" "\<And>l. len = Some l \<Longrightarrow> 0 \<le> l"
    and link: "c_subject ca = c_issuer leaf" "verify_cert_signed_by C leaf (c_key ca) = Inr ()"
      "cert_is_ca ca = Inr True" "cert_allows_cert_sign ca = Inr True"
    using assms(7) by (auto simp: link_ok_def)
  have "ca \<in> set ?cs" and all: "\<forall>c \<in> set ?cs. c = ca" using assms(5,8) link(1) by auto
  then obtain cs' where cs: "?cs = ca # cs'"
    by (cases ?cs) (metis empty_iff list.set(1), metis list.set_intros(1))
  have found: "find_issuer C leaf 0 ?cs = Inr (Some ca)"
    unfolding cs using len link(2) by (cases len) auto
  obtain m where m: "max_depth = Suc m" using assms(9) by (cases max_depth) auto
  have "chain_walk C now (c_sha256 ` set ca_certs) (rest @ ca_certs) (max_depth + 1) leaf [] = Inr ()"
  proof (cases "c_sha256 leaf \<in> c_sha256 ` set ca_certs")
    case True
    with assms(1) show ?thesis by (simp add: node_ok_def)
  next
    case False
    with assms(1,5,6) found link show ?thesis
      by (simp add: m node_ok_def del: filter_append)
  qed
  with assms(2-4) show ?thesis by (simp add: verify_x509_chain_def del: chain_walk.simps)
qed

theorem direct_issuance_accepted_witness:
  "verify_x509_chain demo_crypto 50 [demo_leaf] [demo_ca] (lit ''1.3.6.1'') 1 = Inr demo_leaf"
  by (rule direct_issuance_accepted [where ca = demo_ca])
    (auto simp: node_ok_def link_ok_def cert_checks demo_leaf_def demo_ca_def demo_crypto_def verify_cert_signed_by_def)

text \<open>
  A pinned client only proceeds with the server it pinned. With an \<open>[acl]\<close> in its
  configuration, the check passes only when the peer presented a certificate that parses and
  whose key fingerprint is listed or one of whose names matches a listed pattern.
\<close>

theorem pinned_server_only:
  assumes "verify_server_acl C sock config = Inr ()" and "dget config (lit ''acl'') \<noteq> PNone"
  shows "\<exists>sec der spki. build_security config ''client'' = Inr sec
    \<and> peer_der sock = Some der \<and> leaf_spki C der = Inr spki
    \<and> (spki \<in> set (trusted_fingerprints sec)
       \<or> (\<exists>name \<in> set (server_cert_names sock). \<exists>pat \<in> set (trusted_names sec). fnmatchcase name pat))"
proof -
  obtain sec where sec: "build_security config ''client'' = Inr sec"
    using assms(1) by (auto simp: verify_server_acl_def split: sum.splits)
  then have "load_client_acl config = Inr (trusted_fingerprints sec, trusted_names sec)"
    by (rule build_security_InrD) simp
  then have "\<not> (trusted_fingerprints sec = [] \<and> trusted_names sec = [])"
    using load_client_acl_Inr assms(2) by blast
  with assms(1) sec show ?thesis
    by (auto simp: verify_server_acl_def split: sum.splits if_splits option.splits)
qed

theorem pinned_server_only_witness:
  "\<exists>der spki. Some [42] = Some der \<and> leaf_spki demo_crypto der = Inr spki"
proof -
  let ?c = "[(lit ''mtls'', PDict [(lit ''enable'', PBool True)]),
    (lit ''acl'', PDict [(lit ''trusted_names'', PStr (lit ''sap''))])]"
  let ?s = "\<lparr>peer_der = Some [42], peer_cert = Some ([[(lit ''commonName'', lit ''sap'')]], [])\<rparr>"
  have schema: "validate_config_schema ?c = Inr ()"
    by (simp add: schema_accepts dkeys_def CONFIG_TABLE_KEYS_def CONFIG_TOP_LEVEL_KEYS_def CONFIG_MTLS_KEYS_def
        CONFIG_ACL_KEYS_def)
  have acl: "load_client_acl ?c = Inr ([], [lit ''sap''])"
    by (simp add: load_client_acl_def dkeys_def CONFIG_ACL_KEYS_def fingerprint_set_def trusted_names_of_def)
  obtain k where k: "validate_security_config ?c = Inr k"
    by (simp add: validate_security_config_def resolve_encryption_def mtls_enabled_def dget_or_def
        check_auth_methods_def resolve_auth_def)
  obtain sec where sec: "build_security ?c ''client'' = Inr sec" "trusted_fingerprints sec = []"
    "trusted_names sec = [lit ''sap'']"
    by (simp add: build_security_def schema acl k dget_or_def py_int_def)
  have leaf: "leaf_spki demo_crypto [42] = Inr (spki_fingerprint demo_crypto (c_key demo_leaf))"
    by (simp add: leaf_spki_def load_der_cert_def demo_crypto_def)
  have "verify_server_acl demo_crypto ?s ?c = Inr ()"
    by (simp add: verify_server_acl_def sec leaf server_cert_names_def dns_sans_def fnmatchcase_plain plain_lit)
  from pinned_server_only [OF this] show ?thesis by auto
qed

end
