(* ===== verification/Display.thy ===== *)
theory Display
  imports Policy Text
begin

text \<open>
  What the approver sees: the allow-list sanitiser, the dialog context built from a request, its
  two renderings, and the three dialog back ends of \<open>sudo-auth-proxy\<close>. Running a dialog program
  is a parameter: the exit code and standard output of the n-th program run of a prompt.
\<close>

section \<open>Sanitising\<close>

definition SANITIZE_ALLOWED :: "pstr" where
  "SANITIZE_ALLOWED =
     lit ''ABCDEFGHIJKLMNOPQRSTUVWXYZ'' @ lit ''abcdefghijklmnopqrstuvwxyz'' @ lit ''0123456789'' @ lit ''_.:/@- ''"

definition SANITIZE_MAX_LENGTH :: nat where
  "SANITIZE_MAX_LENGTH = 256"

definition sanitize_text :: "nat \<Rightarrow> pstr \<Rightarrow> pstr" where
  "sanitize_text max_length normalized =
     take max_length (map (\<lambda>c. if c \<in> set SANITIZE_ALLOWED then c else 63) normalized)"

definition sanitize_field :: "lib \<Rightarrow> pyval \<Rightarrow> pstr" where
  "sanitize_field E value =
     (case value of
        PNone \<Rightarrow> []
      | PStr s \<Rightarrow> sanitize_text SANITIZE_MAX_LENGTH (nfc E s)
      | v \<Rightarrow> sanitize_text SANITIZE_MAX_LENGTH (nfc E (str_text E v)))"

text \<open>\<open>text.replace(c, "\\" + c)\<close>, for each markup character in turn.\<close>

definition escape_char :: "pstr \<Rightarrow> nat \<Rightarrow> pstr" where
  "escape_char text c = concat (map (\<lambda>x. if x = c then [92, c] else [x]) text)"

definition escape_swiftdialog_markup :: "pstr \<Rightarrow> pstr" where
  "escape_swiftdialog_markup text = foldl escape_char text (lit ''*[]()'')"

definition SANITIZED_REQUEST_FIELDS :: "pstr list" where
  "SANITIZED_REQUEST_FIELDS =
     [lit ''service'', lit ''target_user'', lit ''invoking_user'', lit ''rhost'', lit ''tty'', lit ''cwd'',
      lit ''client_version'', lit ''guest_hint'']"

definition sanitize_request_fields :: "lib \<Rightarrow> dict \<Rightarrow> (pstr \<times> pstr) list" where
  "sanitize_request_fields E request =
     map (\<lambda>field. (field, sanitize_field E (dget request field))) SANITIZED_REQUEST_FIELDS"

definition effective_target_user :: "pstr \<Rightarrow> pstr \<Rightarrow> pstr \<Rightarrow> pstr" where
  "effective_target_user service target_user invoking_user =
     (if service = lit ''sudo'' \<and> (target_user = [] \<or> target_user = invoking_user) then lit ''root''
      else target_user)"

section \<open>The dialog context\<close>

record confirmation =
  cf_peer :: pstr
  cf_identity :: pstr
  cf_label :: pstr
  cf_invoking_user :: pstr
  cf_target_user :: pstr
  cf_service :: pstr
  cf_tty :: pstr
  cf_rhost :: pstr
  cf_cwd :: pstr
  cf_request_id :: pstr
  cf_timestamp :: pstr
  cf_transport :: pstr

text \<open>\<open>time.gmtime\<close> and \<open>strftime("%Y-%m-%dT%H:%M:%SZ")\<close> for seconds since the epoch.\<close>

definition gm_date :: "int \<Rightarrow> int \<times> int \<times> int" where
  "gm_date days =
     (let z = days + 719468; era = z div 146097; doe = z mod 146097;
          yoe = (doe - doe div 1460 + doe div 36524 - doe div 146096) div 365;
          doy = doe - (365 * yoe + yoe div 4 - yoe div 100);
          mp = (5 * doy + 2) div 153;
          d = doy - (153 * mp + 2) div 5 + 1;
          m = (if mp < 10 then mp + 3 else mp - 9);
          y = yoe + era * 400
      in (if m \<le> 2 then y + 1 else y, m, d))"

definition two_digits :: "int \<Rightarrow> pstr" where
  "two_digits n = (if 0 \<le> n \<and> n < 10 then 48 # int_repr n else int_repr n)"

definition timestamp_text :: "int \<Rightarrow> pstr" where
  "timestamp_text now =
     (let (y, m, d) = gm_date (now div 86400); s = now mod 86400
      in int_repr y @ lit ''-'' @ two_digits m @ lit ''-'' @ two_digits d @ lit ''T''
         @ two_digits (s div 3600) @ lit '':'' @ two_digits (s div 60 mod 60) @ lit '':''
         @ two_digits (s mod 60) @ lit ''Z'')"

text \<open>The context; a request field that is no string counts as empty where the code checks it.\<close>

definition build_confirmation ::
  "lib \<Rightarrow> pstr \<Rightarrow> pstr \<Rightarrow> pstr \<Rightarrow> dict \<Rightarrow> pstr \<Rightarrow> int \<Rightarrow> confirmation" where
  "build_confirmation E peer identity label request transport now =
     (let request_id = take 8 (str_of (dget request (lit ''nonce'')));
          service_text = str_of (dget request (lit ''service''));
          invoking_text = str_of (dget request (lit ''invoking_user''));
          target_text = str_of (dget request (lit ''target_user''))
      in \<lparr>cf_peer = sanitize_field E (PStr peer),
          cf_identity = sanitize_field E (PStr identity),
          cf_label = sanitize_field E (PStr label),
          cf_invoking_user = sanitize_field E (PStr invoking_text),
          cf_target_user = sanitize_field E (PStr (effective_target_user service_text target_text invoking_text)),
          cf_service = sanitize_field E (dget request (lit ''service'')),
          cf_tty = sanitize_field E (dget request (lit ''tty'')),
          cf_rhost = sanitize_field E (dget request (lit ''rhost'')),
          cf_cwd = sanitize_field E (dget request (lit ''cwd'')),
          cf_request_id = sanitize_field E (PStr request_id),
          cf_timestamp = sanitize_field E (PStr (timestamp_text now)),
          cf_transport = sanitize_field E (PStr transport)\<rparr>)"

definition requester_of :: "confirmation \<Rightarrow> pstr" where
  "requester_of c =
     (if cf_identity c = [] \<or> cf_identity c = NONE_IDENTITY then lit ''Unauthenticated requester''
      else if cf_label c \<noteq> [] then cf_label c else cf_identity c)"

definition summary_lines :: "confirmation \<Rightarrow> pstr list" where
  "summary_lines c =
     (let peer = (if cf_peer c \<noteq> [] then cf_peer c else lit ''unknown peer'');
          place = (if cf_rhost c \<noteq> [] \<and> cf_rhost c \<noteq> cf_peer c
                   then peer @ lit '' (from '' @ cf_rhost c @ lit '')'' else peer)
      in [requester_of c @ lit '' requests '' @ cf_target_user c @ lit '' via '' @ cf_service c,
          lit ''on '' @ place @ lit '' ('' @ cf_transport c @ lit '')''])"

definition confirmation_summary :: "confirmation \<Rightarrow> pstr" where
  "confirmation_summary c = join nl (summary_lines c)"

definition confirmation_lines :: "confirmation \<Rightarrow> pstr list" where
  "confirmation_lines c =
     (let identity = (if cf_identity c = [] \<or> cf_identity c = NONE_IDENTITY
                      then lit ''unverified (client_auth = none)'' else cf_identity c)
      in [lit ''Requester  '' @ requester_of c,
          lit ''Identity   '' @ identity,
          lit ''Request    '' @ cf_invoking_user c @ lit '' -> '' @ cf_target_user c @ lit '' via '' @ cf_service c,
          lit ''Peer       '' @ cf_peer c,
          lit ''Transport  '' @ cf_transport c]
         @ (if cf_rhost c \<noteq> [] then [lit ''Remote     '' @ cf_rhost c] else [])
         @ (if cf_tty c \<noteq> [] then [lit ''TTY        '' @ cf_tty c] else [])
         @ (if cf_cwd c \<noteq> [] then [lit ''CWD        '' @ cf_cwd c] else [])
         @ [lit ''Request id '' @ cf_request_id c @ lit '' ('' @ cf_timestamp c @ lit '')''])"

definition confirmation_message :: "confirmation \<Rightarrow> pstr" where
  "confirmation_message c = join nl (confirmation_lines c)"

section \<open>The dialog back ends\<close>

type_synonym dialogs = "nat \<Rightarrow> pstr list \<Rightarrow> (int \<times> pbytes) res"

definition ZENITY_DETAILS_LABEL :: pstr where
  "ZENITY_DETAILS_LABEL = lit ''Details''"

definition ZENITY_DIALOG_WIDTH :: int where
  "ZENITY_DIALOG_WIDTH = 520"

text \<open>The output of \<open>zenity --help-all\<close>, or \<open>None\<close> when it cannot be run in time.\<close>

definition zenity_supports_extra_button :: "pbytes option \<Rightarrow> bool" where
  "zenity_supports_extra_button probe =
     (case probe of None \<Rightarrow> False | Some out \<Rightarrow> contains (lit ''--extra-button'') out)"

text \<open>\<open>json.dumps\<close> of a string with its default, ASCII-only output.\<close>

definition hex4_text :: "nat \<Rightarrow> pstr" where
  "hex4_text n = [92, 117, hex_digit (n div 4096 mod 16), hex_digit (n div 256 mod 16),
     hex_digit (n div 16 mod 16), hex_digit (n mod 16)]"

definition esc_ascii :: "nat \<Rightarrow> pstr" where
  "esc_ascii c =
     (if c < 127 then esc_char c
      else if c < 65536 then hex4_text c
      else hex4_text (55296 + (c - 65536) div 1024) @ hex4_text (56320 + (c - 65536) mod 1024))"

definition json_text :: "pstr \<Rightarrow> pstr" where
  "json_text s = 34 # concat (map esc_ascii s) @ [34]"

definition swiftdialog_argv :: "pstr \<Rightarrow> pstr \<Rightarrow> pstr list" where
  "swiftdialog_argv summary details =
     [lit ''dialog'', lit ''--title'', lit ''Privilege Elevation'',
      lit ''--message'', escape_swiftdialog_markup summary,
      lit ''--info'', escape_swiftdialog_markup details,
      lit ''--infobuttontext'', lit ''Details'',
      lit ''--icon'', lit ''SF=lock.shield.fill,colour=accent,weight=medium'',
      lit ''--iconsize'', lit ''80'', lit ''--iconalttext'', lit ''Authentication required'',
      lit ''--button1text'', lit ''Authorize'', lit ''--button2text'', lit ''Deny'',
      lit ''--width'', lit ''520'', lit ''--height'', lit ''240'', lit ''--ontop'', lit ''--blurscreen'',
      lit ''--messagefont'', lit ''size=16'', lit ''--titlefont'', lit ''size=22,weight=heavy'',
      lit ''--centericon'', lit ''--messagealignment'', lit ''center'', lit ''--position'', lit ''center'']"

definition osascript_argv :: "pstr \<Rightarrow> pstr \<Rightarrow> pstr \<Rightarrow> pstr list" where
  "osascript_argv text title buttons =
     [lit ''osascript'', lit ''-e'',
      lit ''display dialog '' @ json_text text @ lit '' with title '' @ json_text title @ buttons]"

definition osascript_first_buttons :: pstr where
  "osascript_first_buttons = lit '' with icon caution buttons {\"Deny\", \"Details\", \"Authorize\"} default button \"Authorize\" cancel button \"Deny\"''"

definition osascript_second_buttons :: pstr where
  "osascript_second_buttons = lit '' with icon caution buttons {\"Deny\", \"Authorize\"} default button \"Deny\" cancel button \"Deny\"''"

definition zenity_argv :: "pstr \<Rightarrow> pstr \<Rightarrow> pstr list" where
  "zenity_argv title text =
     [lit ''zenity'', lit ''--title'', title, lit ''--question'', lit ''--no-markup'',
      lit ''--width'', int_repr ZENITY_DIALOG_WIDTH, lit ''--text'', text,
      lit ''--ok-label'', lit ''Authorize'', lit ''--cancel-label'', lit ''Deny'']"

definition dialog_title :: "confirmation \<Rightarrow> pstr" where
  "dialog_title c = lit ''sudo authentication for '' @ cf_peer c"

definition prompt_swiftdialog :: "dialogs \<Rightarrow> pstr \<Rightarrow> pstr \<Rightarrow> bool res" where
  "prompt_swiftdialog run summary details =
     (case run 0 (swiftdialog_argv summary details) of Inl e \<Rightarrow> Inl e
      | Inr (code, out) \<Rightarrow> Inr (code = 0))"

definition prompt_osascript :: "dialogs \<Rightarrow> confirmation \<Rightarrow> pstr \<Rightarrow> pstr \<Rightarrow> bool res" where
  "prompt_osascript run c summary details =
     (case run 0 (osascript_argv summary (dialog_title c) osascript_first_buttons) of Inl e \<Rightarrow> Inl e
      | Inr (code, out) \<Rightarrow>
          if code \<noteq> 0 then Inr False
          else if contains (lit ''Details'') out then
            (case run 1 (osascript_argv details (dialog_title c) osascript_second_buttons) of Inl e \<Rightarrow> Inl e
             | Inr (code2, out2) \<Rightarrow> Inr (code2 = 0 \<and> contains (lit ''Authorize'') out2))
          else Inr (contains (lit ''Authorize'') out))"

definition prompt_zenity :: "dialogs \<Rightarrow> pbytes option \<Rightarrow> confirmation \<Rightarrow> pstr \<Rightarrow> pstr \<Rightarrow> bool res" where
  "prompt_zenity run probe c summary details =
     (let argv = zenity_argv (dialog_title c) summary
      in if \<not> zenity_supports_extra_button probe then
           (case run 0 argv of Inl e \<Rightarrow> Inl e | Inr (code, out) \<Rightarrow> Inr (code = 0))
         else (case run 0 (argv @ [lit ''--extra-button'', ZENITY_DETAILS_LABEL]) of Inl e \<Rightarrow> Inl e
           | Inr (code, out) \<Rightarrow>
               if \<not> contains ZENITY_DETAILS_LABEL out then Inr (code = 0)
               else (case run 1 (zenity_argv (dialog_title c @ lit '' -- details'') details @ [lit ''--default-cancel'']) of
                   Inl e \<Rightarrow> Inl e
                 | Inr (code2, out2) \<Rightarrow> Inr (code2 = 0))))"

definition prompt_for_confirmation :: "dialogs \<Rightarrow> pbytes option \<Rightarrow> confirmation \<Rightarrow> pstr \<Rightarrow> bool res" where
  "prompt_for_confirmation run probe c dialog_program =
     (let summary = confirmation_summary c; details = confirmation_message c
      in if dialog_program = lit ''swiftdialog'' then prompt_swiftdialog run summary details
         else if dialog_program = lit ''osascript'' then prompt_osascript run c summary details
         else if dialog_program = lit ''zenity'' then prompt_zenity run probe c summary details
         else Inl (ValueError ''unknown dialog_program''))"

end
