(* ===== verification/Prompt.thy ===== *)
theory Prompt
  imports Display
begin

text \<open>
  What the dialog layer guarantees: no request field can reach the approver outside the
  allow-list, add a line to a prompt, break out of a script literal or inject markup; and a
  prompt only approves on the approver's explicit choice.
\<close>

section \<open>The alphabet of a sanitised field\<close>

definition safe :: "pstr \<Rightarrow> bool" where
  "safe s \<longleftrightarrow> set s \<subseteq> insert 63 (set SANITIZE_ALLOWED)"

lemma allowed_chars: "\<forall>c \<in> insert 63 (set SANITIZE_ALLOWED). 32 \<le> c \<and> c < 127 \<and> c \<noteq> 34 \<and> c \<noteq> 92 \<and> c \<notin> set (lit ''*[]()'')"
  by (simp add: SANITIZE_ALLOWED_def lit_def)

lemma safe_char: "safe s \<Longrightarrow> c \<in> set s \<Longrightarrow> 32 \<le> c \<and> c < 127 \<and> c \<noteq> 34 \<and> c \<noteq> 92 \<and> c \<notin> set (lit ''*[]()'')"
  using allowed_chars by (auto simp: safe_def)

lemma safe_no_newline: "safe s \<Longrightarrow> 10 \<notin> set s"
  using safe_char by fastforce

lemma safe_Nil [simp]: "safe []"
  by (simp add: safe_def)

lemma sanitize_text_safe: "safe (sanitize_text n s)"
  by (auto simp: safe_def sanitize_text_def dest!: in_set_takeD split: if_splits)

lemma sanitize_text_length: "length (sanitize_text n s) \<le> n"
  by (simp add: sanitize_text_def)

lemma sanitize_text_id: "safe s \<Longrightarrow> length s \<le> n \<Longrightarrow> sanitize_text n s = s"
proof -
  assume s: "safe s" "length s \<le> n"
  have "map (\<lambda>c. if c \<in> set SANITIZE_ALLOWED then c else 63) s = map (\<lambda>c. c) s"
    using s(1) by (intro map_cong) (auto simp: safe_def)
  with s(2) show ?thesis by (simp add: sanitize_text_def)
qed

lemma sanitize_field_cases: "sanitize_field E v = [] \<or> (\<exists>s. sanitize_field E v = sanitize_text 256 s)"
  by (cases v) (auto simp: sanitize_field_def SANITIZE_MAX_LENGTH_def)

lemma sanitize_field_safe [simp]: "safe (sanitize_field E v)"
  using sanitize_field_cases [of E v] sanitize_text_safe by auto

text \<open>
  Whatever a requester sends, a sanitised field is at most 256 characters of the display
  alphabet: printable ASCII, without a quote, a backslash, a newline or a character of the
  dialog markup; and sanitising twice changes nothing, given that normalisation leaves ASCII
  text alone.
\<close>

theorem sanitised_field_is_inert:
  assumes "\<And>s. \<forall>c \<in> set s. c < 128 \<Longrightarrow> nfc E s = s"
  shows "length (sanitize_field E v) \<le> 256
    \<and> (\<forall>c \<in> set (sanitize_field E v). 32 \<le> c \<and> c < 127 \<and> c \<noteq> 34 \<and> c \<noteq> 92 \<and> c \<notin> set (lit ''*[]()''))
    \<and> sanitize_field E (PStr (sanitize_field E v)) = sanitize_field E v"
proof -
  have len: "length (sanitize_field E v) \<le> 256"
    using sanitize_field_cases [of E v] sanitize_text_length by auto
  have "nfc E (sanitize_field E v) = sanitize_field E v"
    using safe_char [OF sanitize_field_safe] by (intro assms) fastforce
  with len show ?thesis
    using safe_char [OF sanitize_field_safe]
    by (simp add: sanitize_field_def [of E "PStr _"] SANITIZE_MAX_LENGTH_def sanitize_text_id)
qed

theorem sanitised_field_is_inert_witness:
  "length (sanitize_field demo_lib (PStr [27, 91, 8238, 10])) \<le> 256
   \<and> sanitize_field demo_lib (PStr [27, 91, 8238, 10]) = lit ''????''"
  using sanitised_field_is_inert [of demo_lib "PStr [27, 91, 8238, 10]"]
  by (simp add: demo_lib_def sanitize_field_def sanitize_text_def SANITIZE_MAX_LENGTH_def SANITIZE_ALLOWED_def lit_def)

section \<open>A prompt has the lines it was given\<close>

definition inert :: "confirmation \<Rightarrow> bool" where
  "inert c \<longleftrightarrow> safe (cf_peer c) \<and> safe (cf_identity c) \<and> safe (cf_label c) \<and> safe (cf_invoking_user c)
     \<and> safe (cf_target_user c) \<and> safe (cf_service c) \<and> safe (cf_tty c) \<and> safe (cf_rhost c)
     \<and> safe (cf_cwd c) \<and> safe (cf_request_id c) \<and> safe (cf_timestamp c) \<and> safe (cf_transport c)"

lemma build_confirmation_inert [simp]: "inert (build_confirmation E peer identity label request transport now)"
  by (simp add: inert_def build_confirmation_def Let_def)

text \<open>The characters of a rendered prompt: printable ASCII, and the newlines the code put there.\<close>

definition printable :: "pstr \<Rightarrow> bool" where
  "printable s \<longleftrightarrow> (\<forall>c \<in> set s. 32 \<le> c \<and> c < 127)"

lemma printable_append [simp]: "printable (s @ t) \<longleftrightarrow> printable s \<and> printable t"
  by (auto simp: printable_def)

lemma printable_Nil [simp]: "printable []"
  by (simp add: printable_def)

lemma printable_lit: "(\<forall>c \<in> set s. 32 \<le> (of_char c :: nat) \<and> (of_char c :: nat) < 127) \<Longrightarrow> printable (lit s)"
  by (auto simp: printable_def lit_def)

lemma safe_printable: "safe s \<Longrightarrow> printable s"
  using safe_char by (auto simp: printable_def)

lemma printable_literals:
  "printable (lit ''Unauthenticated requester'')" "printable (lit '' requests '')" "printable (lit '' via '')"
  "printable (lit ''on '')" "printable (lit '' ('')" "printable (lit '')'')" "printable (lit ''unknown peer'')"
  "printable (lit '' (from '')" "printable (lit ''unverified (client_auth = none)'')"
  "printable (lit ''Requester  '')" "printable (lit ''Identity   '')" "printable (lit ''Request    '')"
  "printable (lit '' -> '')" "printable (lit ''Peer       '')" "printable (lit ''Transport  '')"
  "printable (lit ''Remote     '')" "printable (lit ''TTY        '')" "printable (lit ''CWD        '')"
  "printable (lit ''Request id '')" "printable (lit ''sudo authentication for '')"
  by (rule printable_lit, simp)+

lemma requester_printable: "inert c \<Longrightarrow> printable (requester_of c)"
  by (simp add: requester_of_def inert_def safe_printable printable_literals)

lemma summary_lines_printable:
  assumes "inert c"
  shows "length (summary_lines c) = 2 \<and> (\<forall>l \<in> set (summary_lines c). printable l)"
  using assms requester_printable [OF assms]
  by (simp add: summary_lines_def Let_def inert_def safe_printable printable_literals)

lemma message_lines:
  assumes "inert c"
  shows "6 \<le> length (confirmation_lines c) \<and> length (confirmation_lines c) \<le> 9 \<and> (\<forall>l \<in> set (confirmation_lines c). printable l)"
  using assms requester_printable [OF assms]
  by (simp add: confirmation_lines_def Let_def inert_def safe_printable printable_literals)

lemma printable_no_newline: "printable s \<Longrightarrow> 10 \<notin> set s"
  by (auto simp: printable_def)

text \<open>
  C33: A requester cannot add, remove or forge a line of the prompt: whatever the request, the
  peer name and the label are, the summary has exactly two lines, and the detail block has
  exactly the rows the code wrote, between six and nine.
\<close>

theorem prompt_lines_fixed:
  "length (split_on 10 (confirmation_summary (build_confirmation E peer identity label request transport now))) = 2
   \<and> split_on 10 (confirmation_message (build_confirmation E peer identity label request transport now))
       = confirmation_lines (build_confirmation E peer identity label request transport now)
   \<and> length (confirmation_lines (build_confirmation E peer identity label request transport now)) \<in> {6..9}"
proof -
  let ?c = "build_confirmation E peer identity label request transport now"
  note s = summary_lines_printable [of ?c] and m = message_lines [of ?c]
  have "split_on 10 (join nl (summary_lines ?c)) = summary_lines ?c"
    unfolding nl_def using s by (intro split_on_join) (auto dest: printable_no_newline)
  moreover have "split_on 10 (join nl (confirmation_lines ?c)) = confirmation_lines ?c"
    unfolding nl_def using m by (intro split_on_join) (auto dest: printable_no_newline)
  ultimately show ?thesis
    using s m by (simp add: confirmation_message_def confirmation_summary_def)
qed

section \<open>No injection into the back ends\<close>

text \<open>A back end that reads the AppleScript literal gets the text back, whatever follows it.\<close>

definition dialog_text :: "pstr \<Rightarrow> bool" where
  "dialog_text s \<longleftrightarrow> (\<forall>c \<in> set s. c < 127)"

lemma json_text_ascii: "dialog_text s \<Longrightarrow> json_text s = str_json s"
proof -
  assume "dialog_text s"
  then have "concat (map esc_ascii s) = concat (map esc_char s)"
    by (intro arg_cong [where f = concat] map_cong) (auto simp: dialog_text_def esc_ascii_def)
  then show ?thesis by (simp add: json_text_def str_json_def)
qed

lemma set_join_nl: "(\<forall>p \<in> set ps. printable p) \<Longrightarrow> dialog_text (join nl ps)"
  using set_join [of nl ps] by (fastforce simp: dialog_text_def nl_def printable_def)

lemma json_text_literal: "dialog_text s \<Longrightarrow> jstr (tl (json_text s) @ r) = Some (s, r)"
  by (simp add: json_text_ascii str_json_def jstr_str_json)

text \<open>
  The three texts of a macOS prompt are complete script literals: reading one from its
  opening quote yields exactly the text and stops at its closing quote, so no field can end the
  literal and continue as script.
\<close>

theorem script_literals_intact:
  "jstr (tl (json_text (confirmation_summary (build_confirmation E peer identity label request transport now))) @ r)
     = Some (confirmation_summary (build_confirmation E peer identity label request transport now), r)
   \<and> jstr (tl (json_text (confirmation_message (build_confirmation E peer identity label request transport now))) @ r)
     = Some (confirmation_message (build_confirmation E peer identity label request transport now), r)
   \<and> jstr (tl (json_text (dialog_title (build_confirmation E peer identity label request transport now))) @ r)
     = Some (dialog_title (build_confirmation E peer identity label request transport now), r)"
proof -
  let ?c = "build_confirmation E peer identity label request transport now"
  have "dialog_text (confirmation_summary ?c)"
    unfolding confirmation_summary_def using summary_lines_printable [of ?c] by (intro set_join_nl) simp
  moreover have "dialog_text (confirmation_message ?c)"
    unfolding confirmation_message_def using message_lines [of ?c] by (intro set_join_nl) simp
  moreover have "dialog_text (dialog_title ?c)"
    using build_confirmation_inert [of E peer identity label request transport now]
    by (auto simp: dialog_title_def dialog_text_def inert_def dest: safe_char
        intro: printable_literals(20) [unfolded printable_def, THEN bspec, THEN conjunct2])
  ultimately show ?thesis by (simp add: json_text_literal)
qed

text \<open>A text is guarded when every markup character follows a backslash of its own.\<close>

fun guarded :: "pstr \<Rightarrow> bool" where
  "guarded [] = True"
| "guarded [c] = (c \<notin> set (lit ''*[]()''))"
| "guarded (c # d # s) = (if c = 92 then guarded s else c \<notin> set (lit ''*[]()'') \<and> guarded (d # s))"

lemma escape_char_concat: "escape_char (concat (map f s)) c = concat (map (\<lambda>x. escape_char (f x) c) s)"
  by (induction s) (auto simp: escape_char_def)

lemma escape_single_pass:
  "escape_swiftdialog_markup s = concat (map (\<lambda>x. if x \<in> set (lit ''*[]()'') then [92, x] else [x]) s)"
proof -
  have "escape_swiftdialog_markup (concat (map (\<lambda>x. [x]) s))
      = concat (map (\<lambda>x. foldl escape_char [x] (lit ''*[]()'')) s)"
    by (simp add: escape_swiftdialog_markup_def lit_def escape_char_concat del: concat_map_singleton)
  moreover have "foldl escape_char [x] (lit ''*[]()'') = (if x \<in> set (lit ''*[]()'') then [92, x] else [x])" for x
    by (simp add: lit_def escape_char_def)
  ultimately show ?thesis by simp
qed

lemma guarded_escape_step: "guarded t \<Longrightarrow> x \<notin> set (lit ''*[]()'') \<Longrightarrow> x \<noteq> 92 \<Longrightarrow> guarded (x # t)"
  by (cases t) auto

text \<open>
  No markup reaches swiftDialog: in an escaped text every markup character is preceded by its
  own backslash, removing the backslashes gives the text back, and a sanitised field passes
  unchanged.
\<close>

theorem escaped_markup_is_inert:
  assumes "92 \<notin> set s"
  shows "guarded (escape_swiftdialog_markup s)
    \<and> filter (\<lambda>c. c \<noteq> 92) (escape_swiftdialog_markup s) = s
    \<and> escape_swiftdialog_markup (sanitize_field E v) = sanitize_field E v"
proof (intro conjI)
  show "guarded (escape_swiftdialog_markup s)"
    using assms unfolding escape_single_pass
  proof (induction s)
    case (Cons x s)
    then show ?case
      by (cases "x \<in> set (lit ''*[]()'')") (simp_all add: guarded_escape_step)
  qed simp
  have m: "92 \<notin> set (lit ''*[]()'')" by (simp add: lit_def)
  show "filter (\<lambda>c. c \<noteq> 92) (escape_swiftdialog_markup s) = s"
    using assms m unfolding escape_single_pass by (induction s) auto
  have "concat (map (\<lambda>x. if x \<in> set (lit ''*[]()'') then [92, x] else [x]) (sanitize_field E v))
      = concat (map (\<lambda>x. [x]) (sanitize_field E v))"
    using safe_char [OF sanitize_field_safe] by (intro arg_cong [where f = concat] map_cong) auto
  then show "escape_swiftdialog_markup (sanitize_field E v) = sanitize_field E v"
    unfolding escape_single_pass by simp
qed

theorem escaped_markup_is_inert_witness:
  "guarded (escape_swiftdialog_markup (lit ''a*(b)''))
   \<and> filter (\<lambda>c. c \<noteq> 92) (escape_swiftdialog_markup (lit ''a*(b)'')) = lit ''a*(b)''"
  using escaped_markup_is_inert [of "lit ''a*(b)''"] by (simp add: lit_def)

section \<open>Approval is explicit\<close>

text \<open>
  C32: A prompt approves only on an explicit choice. Some dialog was shown and its program
  exited with 0; on \<open>osascript\<close> the button text was \<open>Authorize\<close>; and if the approver pressed
  \<open>Details\<close> in the first dialog of \<open>osascript\<close> or of a \<open>zenity\<close> with the extra button, that press
  alone never approves: it is the second dialog that does.
\<close>

theorem approval_is_explicit:
  assumes "prompt_for_confirmation run probe c dialog_program = Inr True"
  shows "\<exists>argv code out. run 0 argv = Inr (code, out) \<and>
    (dialog_program = lit ''swiftdialog'' \<and> code = 0
     \<or> dialog_program = lit ''osascript'' \<and> code = 0 \<and>
        (if contains (lit ''Details'') out
         then \<exists>argv2 out2. run 1 argv2 = Inr (0, out2) \<and> contains (lit ''Authorize'') out2
         else contains (lit ''Authorize'') out)
     \<or> dialog_program = lit ''zenity'' \<and>
        (if zenity_supports_extra_button probe \<and> contains ZENITY_DETAILS_LABEL out
         then \<exists>argv2 out2. run 1 argv2 = Inr (0, out2) else code = 0))"
proof -
  consider (s) "dialog_program = lit ''swiftdialog''" "prompt_swiftdialog run (confirmation_summary c) (confirmation_message c) = Inr True"
    | (o) "dialog_program = lit ''osascript''" "prompt_osascript run c (confirmation_summary c) (confirmation_message c) = Inr True"
    | (z) "dialog_program = lit ''zenity''" "prompt_zenity run probe c (confirmation_summary c) (confirmation_message c) = Inr True"
    using assms by (auto simp: prompt_for_confirmation_def Let_def split: if_splits)
  then show ?thesis
  proof cases
    case s
    then show ?thesis by (auto simp: prompt_swiftdialog_def split: sum.splits)
  next
    case o
    then show ?thesis by (auto simp: prompt_osascript_def split: sum.splits if_splits) blast+
  next
    case z
    then show ?thesis by (auto simp: prompt_zenity_def Let_def split: sum.splits if_splits) blast+
  qed
qed

definition demo_dialogs :: dialogs where
  "demo_dialogs n argv = Inr (0, lit (if n = 0 then ''button returned:Details'' else ''button returned:Authorize''))"

theorem approval_is_explicit_witness:
  "\<exists>argv2 out2. demo_dialogs 1 argv2 = Inr (0, out2) \<and> contains (lit ''Authorize'') out2"
proof -
  have c: "contains (lit ''Details'') (lit ''button returned:Details'')"
    "contains (lit ''Authorize'') (lit ''button returned:Authorize'')"
    by code_simp+
  have p: "prompt_for_confirmation demo_dialogs None c (lit ''osascript'') = Inr True" for c
    by (simp add: prompt_for_confirmation_def prompt_osascript_def demo_dialogs_def c)
  from approval_is_explicit [OF p] show ?thesis
    using c(1) by (auto simp: demo_dialogs_def)
qed

end
