(* ===== verification/Peers.thy ===== *)
theory Peers
  imports X509 Display
begin

text \<open>
  How \<open>sudo-auth-proxy\<close> finds out who its peer is: friendly names from the VM bookkeeping of
  \<open>tartarus\<close> and \<open>mofos\<close>, the default gateway, the credentials of a Unix socket peer, the
  \<open>sshd\<close> check, and the checks on socket paths. What the operating system answers is a record.
\<close>

section \<open>The machine\<close>

datatype ftype = Regular | Directory | Symlink | SocketFile | OtherFile

record finfo =
  st_type :: ftype
  st_mode :: int
  st_uid :: int
  st_gid :: int
  st_ino :: nat

text \<open>
  A file of a VM's state directory, and the answers of the system: the platform, the process,
  the environment, \<open>lstat\<close>, \<open>stat\<close> and \<open>readlink\<close> of a path, and the output of the programs run
  for name resolution (\<open>None\<close> when they cannot be run).
\<close>

datatype cid_file = NoCidFile | UnreadableCid | CidFile pbytes

record host =
  h_darwin :: bool
  h_has_peercred :: bool
  h_has_vsock :: bool
  h_uid :: int
  h_env :: "pstr \<Rightarrow> pstr option"
  h_home :: "pstr \<Rightarrow> pstr option"
  h_lstat :: "pstr \<Rightarrow> finfo option"
  h_stat :: "pstr \<Rightarrow> finfo option"
  h_exe :: "int \<Rightarrow> pstr option"
  h_getconf :: "(int \<times> pstr) option"
  h_route :: "pstr list"
  h_arp :: "pstr option"
  h_vm_states :: "(pstr \<times> cid_file) list option"
  h_mofos :: "(int \<times> pstr) option"
  h_hostname :: pstr
  h_cwd :: "pstr option"

text \<open>What a connected socket answers about its peer.\<close>

datatype sock_name = VsockName int | InetName pstr | UnixName pstr | NoName

record sock = tls_peer +
  sk_tls :: bool
  sk_peername :: sock_name
  sk_ucred :: "(int \<times> int \<times> int) option"
  sk_getpeereid :: "int option"
  sk_local_peercred :: "int option"

section \<open>Names of virtual machines\<close>

datatype peer_id = PeerCid int | PeerIp pstr

fun cid_scan :: "(pstr \<times> cid_file) list \<Rightarrow> int \<Rightarrow> pstr option" where
  "cid_scan [] vm_id = None"
| "cid_scan ((name, NoCidFile) # entries) vm_id = cid_scan entries vm_id"
| "cid_scan ((name, UnreadableCid) # entries) vm_id = None"
| "cid_scan ((name, CidFile content) # entries) vm_id =
     (case utf8_decode content of None \<Rightarrow> cid_scan entries vm_id
      | Some text \<Rightarrow> (case py_int (PStr (py_strip text)) of
            Inl _ \<Rightarrow> cid_scan entries vm_id
          | Inr n \<Rightarrow> if n = vm_id then Some name else cid_scan entries vm_id))"

definition tartarus_name_for_id :: "host \<Rightarrow> int \<Rightarrow> pstr option" where
  "tartarus_name_for_id H vm_id =
     (case h_vm_states H of None \<Rightarrow> None | Some entries \<Rightarrow> cid_scan entries vm_id)"

text \<open>The value of a non-empty run of hexadecimal digits.\<close>

fun hex_num_from :: "nat \<Rightarrow> pstr \<Rightarrow> nat option" where
  "hex_num_from acc [] = Some acc"
| "hex_num_from acc (c # s) =
     (case hex_val c of None \<Rightarrow> None | Some d \<Rightarrow> hex_num_from (16 * acc + d) s)"

definition hex_num :: "pstr \<Rightarrow> nat option" where
  "hex_num s = (if s = [] then None else hex_num_from 0 s)"

definition mac_char :: "nat \<Rightarrow> bool" where
  "mac_char c \<longleftrightarrow> c = 58 \<or> hex_val c \<noteq> None"

text \<open>\<open>re.search(r"at ([0-9a-fA-F:]+)", line)\<close>: the leftmost match.\<close>

fun search_mac :: "pstr \<Rightarrow> pstr option" where
  "search_mac [] = None"
| "search_mac (c # s) =
     (if startswith (lit ''at '') (c # s) \<and> takeWhile mac_char (drop 3 (c # s)) \<noteq> []
      then Some (takeWhile mac_char (drop 3 (c # s)))
      else search_mac s)"

definition arp_mac :: "pstr \<Rightarrow> pstr \<Rightarrow> pstr option" where
  "arp_mac output ip =
     (case filter (contains (lit ''('' @ ip @ lit '')'')) (splitlines output) of
        [] \<Rightarrow> None | line # _ \<Rightarrow> search_mac line)"

definition tartarus_id_for_ip :: "host \<Rightarrow> pstr \<Rightarrow> int option" where
  "tartarus_id_for_ip H ip =
     (let prefix = lit ''10.200.0.''; rest = drop (length prefix) ip
      in if startswith prefix ip \<and> rest \<noteq> [] \<and> (\<forall>c \<in> set rest. is_digit c)
         then Some (int (nat_of_digits rest))
         else (case h_arp H of None \<Rightarrow> None
           | Some output \<Rightarrow> (case arp_mac output ip of None \<Rightarrow> None
               | Some mac \<Rightarrow> map_option int (hex_num (last (split_on 58 mac))))))"

definition resolve_tartarus_name :: "host \<Rightarrow> peer_id \<Rightarrow> pstr option" where
  "resolve_tartarus_name H peer =
     (case peer of
        PeerCid cid \<Rightarrow> tartarus_name_for_id H cid
      | PeerIp ip \<Rightarrow> (case tartarus_id_for_ip H ip of None \<Rightarrow> None | Some vm_id \<Rightarrow> tartarus_name_for_id H vm_id))"

definition MOFOS_CACHE_TTL :: int where
  "MOFOS_CACHE_TTL = 30"

type_synonym mofos_cache = "(int \<times> dict list) option"

fun only_dicts :: "pyval list \<Rightarrow> dict list" where
  "only_dicts [] = []"
| "only_dicts (PDict d # vs) = d # only_dicts vs"
| "only_dicts (v # vs) = only_dicts vs"

definition mofos_vms :: "lib \<Rightarrow> host \<Rightarrow> int \<Rightarrow> mofos_cache \<Rightarrow> dict list \<times> mofos_cache" where
  "mofos_vms E H now cache =
     (let run = (case h_mofos H of None \<Rightarrow> []
                 | Some (code, stdout) \<Rightarrow>
                     if code \<noteq> 0 then []
                     else (case json_loads E stdout of Inr (PList vs) \<Rightarrow> only_dicts vs | _ \<Rightarrow> []))
      in case cache of
           Some (stamp, vms) \<Rightarrow> if now - stamp < MOFOS_CACHE_TTL then (vms, cache) else (run, Some (now, run))
         | None \<Rightarrow> (run, Some (now, run)))"

text \<open>\<open>==\<close> of a JSON value with an \<open>int\<close> and with a \<open>str\<close>: Python compares numbers by value.\<close>

definition eq_int :: "pyval \<Rightarrow> int \<Rightarrow> bool" where
  "eq_int v n =
     (case v of PInt i \<Rightarrow> i = n | PBool b \<Rightarrow> (if b then 1 else 0) = n | PFloat q \<Rightarrow> q = of_int n | _ \<Rightarrow> False)"

definition mofos_matches :: "peer_id \<Rightarrow> dict \<Rightarrow> bool" where
  "mofos_matches peer vm =
     (case peer of PeerCid cid \<Rightarrow> eq_int (dget vm (lit ''cid'')) cid
      | PeerIp ip \<Rightarrow> dget vm (lit ''ipv4_address'') = PStr ip)"

fun mofos_find :: "peer_id \<Rightarrow> dict list \<Rightarrow> pstr option" where
  "mofos_find peer [] = None"
| "mofos_find peer (vm # vms) =
     (if mofos_matches peer vm \<and> is_str (dget vm (lit ''name'')) \<and> truthy (dget vm (lit ''name''))
      then Some (str_of (dget vm (lit ''name''))) else mofos_find peer vms)"

definition resolve_mofos_name :: "lib \<Rightarrow> host \<Rightarrow> int \<Rightarrow> mofos_cache \<Rightarrow> peer_id option \<Rightarrow> pstr option \<times> mofos_cache" where
  "resolve_mofos_name E H now cache peer =
     (case peer of None \<Rightarrow> (None, cache)
      | Some p \<Rightarrow> (let (vms, cache') = mofos_vms E H now cache in (mofos_find p vms, cache')))"

section \<open>The default gateway\<close>

text \<open>
  The lines of \<open>/proc/net/route\<close>; the gateway column is the hexadecimal text the kernel writes,
  in little-endian order.
\<close>

definition inet_ntoa_le :: "nat \<Rightarrow> pstr" where
  "inet_ntoa_le v =
     join (lit ''.'') (map nat_repr [v mod 256, v div 256 mod 256, v div 65536 mod 256, v div 16777216 mod 256])"

fun gateway_scan :: "pstr list \<Rightarrow> pstr res" where
  "gateway_scan [] = Inl (RuntimeError ''no default gateway found in /proc/net/route'')"
| "gateway_scan (line # lines) =
     (case split_ws line of
        iface # dest # gateway # _ \<Rightarrow>
          if dest = lit ''00000000'' then
            (case hex_num gateway of None \<Rightarrow> Inl (ValueError ''invalid literal for int() with base 16'')
             | Some v \<Rightarrow> if v < 4294967296 then Inr (inet_ntoa_le v) else Inl StructError)
          else gateway_scan lines
      | _ \<Rightarrow> gateway_scan lines)"

definition resolve_default_gateway :: "host \<Rightarrow> pstr res" where
  "resolve_default_gateway H =
     (case h_route H of [] \<Rightarrow> Inl StopIteration | header # lines \<Rightarrow> gateway_scan lines)"

section \<open>Credentials of a Unix socket peer\<close>

definition darwin_peer_uid :: "sock \<Rightarrow> int option" where
  "darwin_peer_uid s = (case sk_getpeereid s of Some uid \<Rightarrow> Some uid | None \<Rightarrow> sk_local_peercred s)"

definition unix_peer_cred :: "host \<Rightarrow> sock \<Rightarrow> (int \<times> int \<times> int) option" where
  "unix_peer_cred H s =
     (if \<not> h_darwin H \<and> h_has_peercred H then sk_ucred s
      else if h_darwin H then map_option (\<lambda>uid. (-1, uid, -1)) (darwin_peer_uid s)
      else None)"

definition unix_peer_uid :: "host \<Rightarrow> sock \<Rightarrow> int option" where
  "unix_peer_uid H s = map_option (\<lambda>(pid, uid, gid). uid) (unix_peer_cred H s)"

definition authorize_unix_peer :: "host \<Rightarrow> sock \<Rightarrow> int option res" where
  "authorize_unix_peer H s =
     (case unix_peer_cred H s of
        None \<Rightarrow>
          if h_darwin H \<or> \<not> h_has_peercred H then Inr None
          else Inl (RuntimeError ''cannot read the unix peer credentials; refusing the connection'')
      | Some (pid, uid, gid) \<Rightarrow>
          if uid \<noteq> h_uid H then Inl (RuntimeError ''unix peer uid is not the server user uid'')
          else Inr (Some uid))"

text \<open>Mode bits: \<open>S_IWGRP\<close> is 16, \<open>S_IWOTH\<close> is 2.\<close>

definition mode_bit :: "int \<Rightarrow> int \<Rightarrow> bool" where
  "mode_bit mode b \<longleftrightarrow> odd (mode div b)"

definition peer_cannot_replace :: "host \<Rightarrow> pstr \<Rightarrow> int \<Rightarrow> int \<Rightarrow> bool" where
  "peer_cannot_replace H path peer_uid peer_gid =
     (case h_stat H path of
        None \<Rightarrow> False
      | Some info \<Rightarrow>
          if st_type info \<noteq> Regular then False
          else if st_uid info = peer_uid then False
          else if st_uid info \<noteq> 0 then False
          else if st_gid info = peer_gid \<and> mode_bit (st_mode info) 16 then False
          else \<not> mode_bit (st_mode info) 2)"

text \<open>\<open>None\<close> when the check is unavailable.\<close>

definition verify_unix_peer_is_sshd :: "host \<Rightarrow> sock \<Rightarrow> pstr list option \<Rightarrow> bool option" where
  "verify_unix_peer_is_sshd H s sshd_allowlist =
     (if \<not> h_has_peercred H then None
      else (case sk_ucred s of None \<Rightarrow> None
        | Some (pid, peer_uid, peer_gid) \<Rightarrow>
            if pid \<le> 0 then None
            else (case h_exe H pid of None \<Rightarrow> None
              | Some exe \<Rightarrow>
                  if endswith (lit '' (deleted)'') exe then Some False
                  else if basename exe \<noteq> lit ''sshd'' then Some False
                  else (case sshd_allowlist of
                      Some allowed \<Rightarrow> Some (exe \<in> set allowed)
                    | None \<Rightarrow> Some (peer_cannot_replace H exe peer_uid peer_gid)))))"

section \<open>Socket paths\<close>

definition expand_socket_path :: "host \<Rightarrow> pstr \<Rightarrow> pstr" where
  "expand_socket_path H path =
     (if startswith (lit ''~'') path then expanduser (h_home H) path
      else if startswith (lit ''%t/'') path then
        (let runtime_dir =
               (if h_darwin H then
                  (case h_getconf H of None \<Rightarrow> lit ''/tmp''
                   | Some (code, out) \<Rightarrow> if code = 0 then py_strip out else lit ''/tmp'')
                else (case h_env H (lit ''XDG_RUNTIME_DIR'') of
                        Some dir \<Rightarrow> dir | None \<Rightarrow> lit ''/run/user/'' @ int_repr (h_uid H)))
         in path_join runtime_dir (drop 3 path))
      else path)"

text \<open>The owner the selector socket must have: \<open>SUDO_UID\<close> if it is set and not empty.\<close>

definition selector_owner :: "host \<Rightarrow> int res" where
  "selector_owner H =
     (case h_env H (lit ''SUDO_UID'') of
        Some text \<Rightarrow> if text \<noteq> [] then py_int (PStr text) else Inr (h_uid H)
      | None \<Rightarrow> Inr (h_uid H))"

definition verify_selector_socket :: "host \<Rightarrow> pstr \<Rightarrow> unit res" where
  "verify_selector_socket H path =
     (case selector_owner H of Inl e \<Rightarrow> Inl e
      | Inr expected_uid \<Rightarrow> (case h_lstat H path of
          None \<Rightarrow> Inl (RuntimeError ''cannot stat selector socket'')
        | Some info \<Rightarrow>
            if st_type info = Symlink then Inl (RuntimeError ''refusing selector: path is a symlink'')
            else if st_type info \<noteq> SocketFile then Inl (RuntimeError ''refusing selector: path is not a socket'')
            else if st_uid info \<noteq> expected_uid then Inl (RuntimeError ''refusing selector: not owned by the expected uid'')
            else Inr ()))"

end
