(* ===== verification/Identity.thy ===== *)
theory Identity
  imports Peers
begin

text \<open>
  What the peer checks guarantee: on Linux a Unix socket peer is the server's own user, a tunnel
  is only used through a root-owned \<open>sshd\<close>, a selector socket belongs to the invoking user, and
  name resolution only ever returns a name that is on record for the peer.
\<close>

section \<open>Unix socket peers\<close>

text \<open>
  A Unix socket peer is only let in as the server's user. On Linux the kernel credential
  must exist and carry the server's uid; on Darwin a credential that can be read must carry it
  too, and only an unreadable one passes, reported as unknown and never as a uid.
\<close>

theorem unix_peer_is_server_user:
  assumes "authorize_unix_peer H s = Inr r"
  shows "(r = Some (h_uid H) \<and> unix_peer_uid H s = Some (h_uid H))
    \<or> (r = None \<and> unix_peer_cred H s = None \<and> (h_darwin H \<or> \<not> h_has_peercred H))"
  using assms by (auto simp: authorize_unix_peer_def unix_peer_uid_def split: option.splits if_splits)

definition demo_host :: host where
  "demo_host = \<lparr>h_darwin = False, h_has_peercred = True, h_has_vsock = True, h_uid = 1000,
     h_env = (\<lambda>_. None), h_home = (\<lambda>_. None),
     h_lstat = (\<lambda>p. if p = lit ''/run/s'' then Some \<lparr>st_type = SocketFile, st_mode = 384, st_uid = 1000, st_gid = 1000, st_ino = 5\<rparr> else None),
     h_stat = (\<lambda>p. if p = lit ''/usr/sbin/sshd'' then Some \<lparr>st_type = Regular, st_mode = 493, st_uid = 0, st_gid = 0, st_ino = 7\<rparr> else None),
     h_exe = (\<lambda>pid. if pid = 77 then Some (lit ''/usr/sbin/sshd'') else None),
     h_getconf = None, h_route = [], h_arp = None, h_vm_states = None, h_mofos = None,
     h_hostname = lit ''guest'', h_cwd = None\<rparr>"

definition demo_sock :: sock where
  "demo_sock = \<lparr>peer_der = None, peer_cert = None, sk_tls = False, sk_peername = UnixName [],
     sk_ucred = Some (77, 1000, 1000), sk_getpeereid = None, sk_local_peercred = None\<rparr>"

theorem unix_peer_is_server_user_witness:
  "unix_peer_uid demo_host demo_sock = Some 1000"
proof -
  have "authorize_unix_peer demo_host demo_sock = Inr (Some 1000)"
    by (simp add: authorize_unix_peer_def unix_peer_cred_def demo_host_def demo_sock_def)
  from unix_peer_is_server_user [OF this] show ?thesis by (simp add: demo_host_def)
qed

text \<open>
  The tunnel check only says yes for a real system \<open>sshd\<close>. Without an allow-list, the peer's
  executable is named \<open>sshd\<close>, is not a replaced (deleted) file, and is a regular file owned by root
  and not by the peer, that neither everybody nor the peer's group can write; a peer running as
  root is never accepted.
\<close>

theorem trusted_sshd_is_root_owned:
  assumes "verify_unix_peer_is_sshd H s None = Some True"
  shows "\<exists>pid uid gid exe info. sk_ucred s = Some (pid, uid, gid) \<and> 0 < pid \<and> h_exe H pid = Some exe
    \<and> basename exe = lit ''sshd'' \<and> \<not> endswith (lit '' (deleted)'') exe
    \<and> h_stat H exe = Some info \<and> st_type info = Regular \<and> st_uid info = 0 \<and> uid \<noteq> 0
    \<and> \<not> mode_bit (st_mode info) 2 \<and> (st_gid info = gid \<longrightarrow> \<not> mode_bit (st_mode info) 16)"
  using assms
  by (auto simp: verify_unix_peer_is_sshd_def peer_cannot_replace_def not_le split: option.splits if_splits)

lemma demo_tunnel: "verify_unix_peer_is_sshd demo_host demo_sock None = Some True"
proof -
  have "\<not> endswith (lit '' (deleted)'') (lit ''/usr/sbin/sshd'')" "basename (lit ''/usr/sbin/sshd'') = lit ''sshd''"
    by code_simp+
  then show ?thesis
    by (simp add: verify_unix_peer_is_sshd_def peer_cannot_replace_def demo_host_def demo_sock_def mode_bit_def)
qed

theorem trusted_sshd_is_root_owned_witness:
  "\<exists>exe info. h_stat demo_host exe = Some info \<and> st_uid info = 0 \<and> \<not> mode_bit (st_mode info) 2"
  using trusted_sshd_is_root_owned [OF demo_tunnel] by blast

text \<open>
  A client dials a selector socket only if it is a socket, not a symbolic link to one, and
  belongs to the invoking user: the one \<open>SUDO_UID\<close> names, otherwise the process's own.
\<close>

theorem selector_socket_owned:
  assumes "verify_selector_socket H path = Inr ()"
  shows "\<exists>info uid. h_lstat H path = Some info \<and> st_type info = SocketFile \<and> selector_owner H = Inr uid \<and> st_uid info = uid
    \<and> (h_env H (lit ''SUDO_UID'') = None \<longrightarrow> uid = h_uid H)"
  using assms
  by (auto simp: verify_selector_socket_def selector_owner_def split: sum.splits option.splits if_splits)

theorem selector_socket_owned_witness:
  "\<exists>info. h_lstat demo_host (lit ''/run/s'') = Some info \<and> st_uid info = 1000"
proof -
  have "verify_selector_socket demo_host (lit ''/run/s'') = Inr ()"
    by (simp add: verify_selector_socket_def selector_owner_def demo_host_def)
  from selector_socket_owned [OF this] show ?thesis by (auto simp: demo_host_def)
qed

section \<open>Name resolution\<close>

lemma cid_scan_sound:
  "cid_scan entries vm_id = Some name \<Longrightarrow>
     \<exists>content text. (name, CidFile content) \<in> set entries \<and> utf8_decode content = Some text
       \<and> py_int (PStr (py_strip text)) = Inr vm_id"
  by (induction entries vm_id rule: cid_scan.induct) (fastforce split: option.splits sum.splits if_splits)+

lemma mofos_find_sound:
  "mofos_find peer vms = Some name \<Longrightarrow> \<exists>vm \<in> set vms. mofos_matches peer vm \<and> dget vm (lit ''name'') = PStr name \<and> name \<noteq> []"
proof (induction peer vms rule: mofos_find.induct)
  case (2 peer vm vms)
  then show ?case by (cases "dget vm (lit ''name'')") (auto split: if_splits)
qed simp

text \<open>
  A cached listing is used for 30 seconds and no longer: within that time a second lookup
  does not run \<open>mofos\<close> again, whatever it would print, and after it the listing is the one the
  program prints then.
\<close>

theorem mofos_cache_expires:
  assumes "mofos_vms E H t0 None = (vms, cache)"
  shows "(now < t0 + 30 \<longrightarrow> mofos_vms E H' now cache = (vms, cache))
    \<and> (t0 + 30 \<le> now \<longrightarrow> mofos_vms E H' now cache = mofos_vms E H' now None)"
  using assms by (auto simp: mofos_vms_def Let_def MOFOS_CACHE_TTL_def)

theorem mofos_cache_expires_witness:
  "mofos_vms demo_lib (demo_host\<lparr>h_mofos := Some (1, [])\<rparr>) 29 (Some (0, [])) = ([], Some (0, []))"
  using mofos_cache_expires [of demo_lib demo_host 0 "[]" "Some (0, [])" 29 "demo_host\<lparr>h_mofos := Some (1, [])\<rparr>"]
  by (simp add: mofos_vms_def demo_host_def)

lemma le_bytes:
  assumes "v < (4294967296::nat)"
  shows "v = v mod 256 + 256 * (v div 256 mod 256) + 65536 * (v div 65536 mod 256) + 16777216 * (v div 16777216 mod 256)"
proof -
  have d: "v div 65536 = v div 256 div 256" "v div 16777216 = v div 65536 div 256"
    by (simp_all flip: div_mult2_eq)
  have "v div 16777216 mod 256 = v div 16777216"
    using assms by simp
  moreover have "v = 256 * (v div 256) + v mod 256" "v div 256 = 256 * (v div 65536) + v div 256 mod 256"
    "v div 65536 = 256 * (v div 16777216) + v div 65536 mod 256"
    unfolding d by simp_all
  ultimately show ?thesis by linarith
qed

lemma inet_ntoa_le_bytes:
  assumes "v < 4294967296"
  shows "\<exists>a b c d. a < 256 \<and> b < 256 \<and> c < 256 \<and> d < 256 \<and> v = a + 256 * b + 65536 * c + 16777216 * d
    \<and> inet_ntoa_le v = join (lit ''.'') [nat_repr a, nat_repr b, nat_repr c, nat_repr d]"
  by (rule exI [of _ "v mod 256"], rule exI [of _ "v div 256 mod 256"], rule exI [of _ "v div 65536 mod 256"],
      rule exI [of _ "v div 16777216 mod 256"], intro conjI)
    (simp_all only: le_bytes [OF assms, symmetric], simp_all add: inet_ntoa_le_def)

lemma gateway_scan_sound:
  "gateway_scan lines = Inr text \<Longrightarrow> \<exists>line \<in> set lines. \<exists>iface gateway more v.
     split_ws line = iface # lit ''00000000'' # gateway # more \<and> hex_num gateway = Some v
     \<and> v < 4294967296 \<and> text = inet_ntoa_le v"
  by (induction lines rule: gateway_scan.induct) (auto split: list.splits if_splits option.splits)

text \<open>
  The gateway is the little-endian address the kernel lists: the four bytes of the dotted
  text recompose to the column of the first default route.
\<close>

theorem gateway_text_sound:
  assumes "resolve_default_gateway H = Inr text"
  shows "\<exists>line fields gateway v a b c d. line \<in> set (tl (h_route H)) \<and> split_ws line = fields
    \<and> 3 \<le> length fields \<and> fields ! 1 = lit ''00000000'' \<and> gateway = fields ! 2 \<and> hex_num gateway = Some v
    \<and> a < 256 \<and> b < 256 \<and> c < 256 \<and> d < 256 \<and> v = a + 256 * b + 65536 * c + 16777216 * d
    \<and> text = join (lit ''.'') [nat_repr a, nat_repr b, nat_repr c, nat_repr d]"
proof -
  obtain line iface gateway more v where l: "line \<in> set (tl (h_route H))" "split_ws line = iface # lit ''00000000'' # gateway # more"
    "hex_num gateway = Some v" "v < 4294967296" "text = inet_ntoa_le v"
    using assms by (auto simp: resolve_default_gateway_def split: list.splits dest!: gateway_scan_sound)
  obtain a b c d where "a < 256" "b < 256" "c < 256" "d < 256" "v = a + 256 * b + 65536 * c + 16777216 * d"
    "text = join (lit ''.'') [nat_repr a, nat_repr b, nat_repr c, nat_repr d]"
    using inet_ntoa_le_bytes [OF l(4)] l(5) by auto
  moreover have "3 \<le> length (split_ws line)" "split_ws line ! 1 = lit ''00000000''" "hex_num (split_ws line ! 2) = Some v"
    by (simp_all add: l(2,3))
  ultimately show ?thesis using l(1) by blast
qed

text \<open>
  On the static bridge an address names its VM: the id is read off \<open>10.200.0.n\<close> exactly,
  without asking any program, and the name found is that of a state directory recording that id.
\<close>

theorem static_bridge_name:
  assumes "resolve_tartarus_name H (PeerIp (lit ''10.200.0.'' @ nat_repr n)) = Some name"
  shows "\<exists>entries content text. h_vm_states H = Some entries \<and> (name, CidFile content) \<in> set entries
    \<and> utf8_decode content = Some text \<and> py_int (PStr (py_strip text)) = Inr (int n)"
proof -
  have "tartarus_id_for_ip H (lit ''10.200.0.'' @ nat_repr n) = Some (int n)"
    by (auto simp: tartarus_id_for_ip_def Let_def nat_repr_digit simp del: nat_repr.simps)
  with assms obtain entries where "h_vm_states H = Some entries" "cid_scan entries (int n) = Some name"
    by (auto simp: resolve_tartarus_name_def tartarus_name_for_id_def split: option.splits)
  with cid_scan_sound [OF this(2)] show ?thesis by auto
qed

definition demo_guest :: host where
  "demo_guest = demo_host\<lparr>h_vm_states := Some [(lit ''vault'', CidFile (lit ''7'' @ [10]))],
     h_route := [lit ''Iface'', lit ''eth0 00000000 0140A8C0 0003'']\<rparr>"

theorem gateway_text_sound_witness:
  "\<exists>a b c d. a < 256 \<and> b < 256 \<and> c < 256 \<and> d < (256::nat) \<and> lit ''192.168.64.1'' = join (lit ''.'') [nat_repr a, nat_repr b, nat_repr c, nat_repr d]"
proof -
  have "split_ws (lit ''eth0 00000000 0140A8C0 0003'') = [lit ''eth0'', lit ''00000000'', lit ''0140A8C0'', lit ''0003'']"
    by (simp add: split_ws_def lit_def is_uspace_def)
  moreover have "hex_num (lit ''0140A8C0'') = Some 21014720"
    by (simp add: hex_num_def lit_def hex_val_def is_digit_def)
  moreover have "inet_ntoa_le 21014720 = lit ''192.168.64.1''"
    by (simp add: inet_ntoa_le_def lit_def nat_repr.simps [of 192] nat_repr.simps [of 168] nat_repr.simps [of 64]
        nat_repr.simps [of 19] nat_repr.simps [of 16] nat_repr.simps [of 6] nat_repr.simps [of "Suc 0"])
  ultimately have "resolve_default_gateway demo_guest = Inr (lit ''192.168.64.1'')"
    by (simp add: resolve_default_gateway_def demo_guest_def)
  from gateway_text_sound [OF this] show ?thesis by blast
qed

theorem static_bridge_name_witness:
  "\<exists>content text. (lit ''vault'', CidFile content) \<in> {(lit ''vault'', CidFile (lit ''7'' @ [10]))}
     \<and> utf8_decode content = Some text \<and> py_int (PStr (py_strip text)) = Inr 7"
proof -
  have "tartarus_id_for_ip demo_guest (lit ''10.200.0.'' @ nat_repr 7) = Some 7"
    by (simp add: tartarus_id_for_ip_def is_digit_def nat_of_digits_def lit_def nat_repr.simps [of 7] startswith_def)
  moreover have "py_int (PStr (py_strip (lit ''7'' @ [10]))) = Inr 7" "utf8_decode (lit ''7'' @ [10]) = Some (lit ''7'' @ [10])"
    by (simp_all add: lit_def py_int_def py_strip_def is_uspace_def int_text_def strip_def is_space_def unsigned_val_def
        utf8_decode.simps utf8_next_def)
  ultimately have "resolve_tartarus_name demo_guest (PeerIp (lit ''10.200.0.'' @ nat_repr 7)) = Some (lit ''vault'')"
    by (simp add: resolve_tartarus_name_def tartarus_name_for_id_def demo_guest_def)
  from static_bridge_name [OF this] show ?thesis by (simp add: demo_guest_def)
qed

end
