(* ===== verification/Transport.thy ===== *)
theory Transport
  imports Peers
begin

text \<open>
  The transports of \<open>sudo-auth-proxy\<close>: building one from a configuration, its address, the TLS
  context, dialling, and binding a listener. The network is a record of answers; the file system
  a Unix listener works on is an explicit state, returned with every result, so that what a
  failed operation leaves behind is part of the model.
\<close>

section \<open>Constants\<close>

definition DEFAULT_SOCKET :: pstr where
  "DEFAULT_SOCKET = lit ''%t/sudo-auth-proxy/server.sock''"

text \<open>The modes \<open>0o600\<close> and \<open>0o700\<close>.\<close>

definition DEFAULT_SOCKET_MODE :: int where
  "DEFAULT_SOCKET_MODE = 384"

definition DEFAULT_SOCKET_DIR_MODE :: int where
  "DEFAULT_SOCKET_DIR_MODE = 448"

definition DEFAULT_CONNECT_TIMEOUT :: pyval where
  "DEFAULT_CONNECT_TIMEOUT = PFloat (1 / 5)"

section \<open>Building a transport\<close>

record transport =
  tr_name :: pstr
  tr_config :: dict
  tr_connect_timeout :: pyval
  tr_recv_timeout :: pyval
  tr_decision_timeout :: pyval
  tr_path :: pstr
  tr_bound_ino :: "nat option"

definition is_callback :: "transport \<Rightarrow> bool" where
  "is_callback tr \<longleftrightarrow> tr_name tr \<noteq> lit ''unix''"

definition transport_init :: "lib \<Rightarrow> pstr \<Rightarrow> dict \<Rightarrow> transport res" where
  "transport_init E name config =
     (case py_float E (dget_or config (lit ''connect_timeout'') DEFAULT_CONNECT_TIMEOUT) of Inl e \<Rightarrow> Inl e
      | Inr timeout \<Rightarrow> (case resolve_read_timeouts E config of Inl e \<Rightarrow> Inl e
      | Inr (recv, decision) \<Rightarrow>
          Inr \<lparr>tr_name = name, tr_config = config, tr_connect_timeout = timeout, tr_recv_timeout = recv,
               tr_decision_timeout = decision, tr_path = [], tr_bound_ino = None\<rparr>))"

definition callback_transport :: "lib \<Rightarrow> host \<Rightarrow> dict \<Rightarrow> pstr \<Rightarrow> transport res" where
  "callback_transport E H config name =
     (case transport_init E name config of Inl e \<Rightarrow> Inl e
      | Inr tr \<Rightarrow>
          if name = lit ''vsock'' \<and> \<not> h_has_vsock H
          then Inl (RuntimeError ''VSOCK not supported on this platform'') else Inr tr)"

text \<open>The path is given by the caller or taken from the configuration.\<close>

definition unix_transport :: "lib \<Rightarrow> host \<Rightarrow> dict \<Rightarrow> pstr option \<Rightarrow> transport res" where
  "unix_transport E H config path =
     (case transport_init E (lit ''unix'') config of Inl e \<Rightarrow> Inl e
      | Inr tr \<Rightarrow>
          (case path of
             Some p \<Rightarrow> Inr (tr\<lparr>tr_path := p\<rparr>)
           | None \<Rightarrow>
               (case (if truthy (dget config (lit ''socket'')) then dget config (lit ''socket'') else PStr DEFAULT_SOCKET) of
                  PStr s \<Rightarrow> Inr (tr\<lparr>tr_path := expand_socket_path H s\<rparr>)
                | _ \<Rightarrow> Inl AttributeError)))"

definition make_transport :: "lib \<Rightarrow> host \<Rightarrow> dict \<Rightarrow> transport res" where
  "make_transport E H config =
     (let name = dget_or config (lit ''transport'') (PStr (lit ''tcp''))
      in if name = PStr (lit ''unix'') then unix_transport E H config None
         else if name \<in> {PStr (lit ''tcp''), PStr (lit ''vsock'')} then callback_transport E H config (str_of name)
         else Inl (ValueError ''unknown transport''))"

definition read_timeouts :: "lib \<Rightarrow> transport \<Rightarrow> (pyval \<times> pyval) res" where
  "read_timeouts E tr = resolve_read_timeouts E (tr_config tr)"

datatype address = VsockAddr int int | InetAddr pyval int | UnixAddr pstr

definition callback_address :: "host \<Rightarrow> transport \<Rightarrow> address res" where
  "callback_address H tr =
     (case py_int (dget_or (tr_config tr) (lit ''port'') (PInt 65001)) of Inl e \<Rightarrow> Inl e
      | Inr port \<Rightarrow>
          if tr_name tr = lit ''vsock'' then
            (case py_int (dget_or (tr_config tr) (lit ''cid'') (PInt 2)) of Inl e \<Rightarrow> Inl e
             | Inr cid \<Rightarrow> Inr (VsockAddr cid port))
          else (let hostval = dget_or (tr_config tr) (lit ''host'') (PStr (lit ''127.0.0.1''))
                in if hostval = PStr (lit ''_gateway'') then
                     (case resolve_default_gateway H of Inl e \<Rightarrow> Inl e | Inr gw \<Rightarrow> Inr (InetAddr (PStr gw) port))
                   else Inr (InetAddr hostval port)))"

definition address_of :: "host \<Rightarrow> transport \<Rightarrow> address res" where
  "address_of H tr = (if is_callback tr then callback_address H tr else Inr (UnixAddr (tr_path tr)))"

text \<open>\<open>describe\<close> formats the address; only that it can fail matters to its callers.\<close>

definition describe :: "host \<Rightarrow> transport \<Rightarrow> unit res" where
  "describe H tr = (case address_of H tr of Inl e \<Rightarrow> Inl e | Inr _ \<Rightarrow> Inr ())"

definition tls_server_name :: "lib \<Rightarrow> host \<Rightarrow> transport \<Rightarrow> pstr option res" where
  "tls_server_name E H tr =
     (if tr_name tr = lit ''tcp'' then
        (case address_of H tr of
           Inl e \<Rightarrow> Inl e
         | Inr (InetAddr h port) \<Rightarrow> Inr (Some (case h of PStr s \<Rightarrow> s | v \<Rightarrow> str_text E v))
         | Inr _ \<Rightarrow> Inr None)
      else Inr None)"

section \<open>Who the peer is\<close>

definition callback_peer_label :: "sock \<Rightarrow> pstr res" where
  "callback_peer_label s =
     (case sk_peername s of
        VsockName cid \<Rightarrow> Inr (lit ''cid '' @ int_repr cid)
      | InetName ip \<Rightarrow> Inr ip
      | UnixName p \<Rightarrow> Inr p
      | NoName \<Rightarrow> Inl (OSError ''getpeername failed''))"

definition unix_peer_label :: "sock \<Rightarrow> pstr" where
  "unix_peer_label s = (case sk_peername s of UnixName p \<Rightarrow> if p \<noteq> [] then p else lit ''local'' | _ \<Rightarrow> lit ''local'')"

definition peer_label :: "transport \<Rightarrow> sock \<Rightarrow> pstr res" where
  "peer_label tr s = (if is_callback tr then callback_peer_label s else Inr (unix_peer_label s))"

definition tartarus_peer :: "transport \<Rightarrow> sock \<Rightarrow> peer_id option res" where
  "tartarus_peer tr s =
     (if is_callback tr then
        (case sk_peername s of
           VsockName cid \<Rightarrow> Inr (Some (PeerCid cid))
         | InetName ip \<Rightarrow> Inr (Some (PeerIp ip))
         | UnixName p \<Rightarrow> Inr (Some (PeerIp p))
         | NoName \<Rightarrow> Inl (OSError ''getpeername failed''))
      else Inr None)"

definition authorize_peer :: "host \<Rightarrow> transport \<Rightarrow> sock \<Rightarrow> int option res" where
  "authorize_peer H tr s = (if is_callback tr then Inr None else authorize_unix_peer H s)"

definition peer_uid :: "host \<Rightarrow> transport \<Rightarrow> sock \<Rightarrow> int option" where
  "peer_uid H tr s = (if is_callback tr then None else unix_peer_uid H s)"

text \<open>
  The name from a certificate: the CN among the first pairs of the RDNs, else the first DNS
  alternative name.
\<close>

definition certificate_name :: "sock \<Rightarrow> pstr option" where
  "certificate_name s =
     (if \<not> sk_tls s then None
      else (case peer_cert s of None \<Rightarrow> None
        | Some (subject, sans) \<Rightarrow>
            (let cn = common_name (map hd subject)
             in if cn \<noteq> [] then Some cn
                else (case dns_sans sans of [] \<Rightarrow> None | san # _ \<Rightarrow> Some san))))"

definition nonempty :: "pstr option \<Rightarrow> pstr option" where
  "nonempty name = (case name of Some n \<Rightarrow> if n \<noteq> [] then Some n else None | None \<Rightarrow> None)"

definition get_peer_name ::
  "lib \<Rightarrow> host \<Rightarrow> int \<Rightarrow> mofos_cache \<Rightarrow> sock \<Rightarrow> pstr \<Rightarrow> transport \<Rightarrow> (pstr \<times> mofos_cache) res" where
  "get_peer_name E H now cache s resolution tr =
     (case peer_label tr s of Inl e \<Rightarrow> Inl e
      | Inr raw \<Rightarrow>
          if resolution = lit ''none'' then Inr (raw, cache)
          else if resolution = lit ''certificate'' then
            Inr (case certificate_name s of Some n \<Rightarrow> n | None \<Rightarrow> raw, cache)
          else if resolution = lit ''tartarus'' then
            (case tartarus_peer tr s of
               Inl e \<Rightarrow> Inl e
             | Inr None \<Rightarrow> Inr (raw, cache)
             | Inr (Some p) \<Rightarrow>
                 Inr (case nonempty (resolve_tartarus_name H p) of Some n \<Rightarrow> n | None \<Rightarrow> raw, cache))
          else if resolution = lit ''mofos'' then
            (case tartarus_peer tr s of
               Inl e \<Rightarrow> Inl e
             | Inr None \<Rightarrow> Inr (raw, cache)
             | Inr (Some p) \<Rightarrow>
                 (let (name, cache') = resolve_mofos_name E H now cache (Some p)
                  in Inr (case nonempty name of Some n \<Rightarrow> n | None \<Rightarrow> raw, cache')))
          else Inr (raw, cache))"

section \<open>The TLS context and dialling\<close>

record ssl_ctx =
  ctx_server :: bool
  ctx_check_hostname :: bool
  ctx_cert_required :: bool
  ctx_ca :: pstr
  ctx_cert :: pstr
  ctx_key :: pstr

text \<open>
  What the network and the TLS library answer: dialling an address, loading the certificate
  files of a context, the handshake on a connected socket, binding an address.
\<close>

record net =
  net_dial :: "address \<Rightarrow> sock res"
  net_load :: "ssl_ctx \<Rightarrow> unit res"
  net_wrap :: "ssl_ctx \<Rightarrow> pstr option \<Rightarrow> sock \<Rightarrow> sock res"
  net_bind :: "address \<Rightarrow> unit res"

definition path_text :: "pyval \<Rightarrow> bool" where
  "path_text v \<longleftrightarrow> is_str v \<and> truthy v"

text \<open>A certificate without the required OID, or one that cannot be parsed, ends the process.\<close>

definition check_local_oid :: "crypto \<Rightarrow> (pstr \<Rightarrow> pbytes option) \<Rightarrow> pstr \<Rightarrow> pyval \<Rightarrow> unit res" where
  "check_local_oid C read cert_file required_oid =
     (if \<not> truthy required_oid then Inr ()
      else (case verify_cert_file C read cert_file (str_of required_oid) of
              Inl (ValueError _) \<Rightarrow> Inl (SystemExit 1)
            | Inl (RuntimeError _) \<Rightarrow> Inl (SystemExit 1)
            | Inl e \<Rightarrow> Inl e
            | Inr _ \<Rightarrow> if is_str required_oid then Inr () else Inl (SystemExit 1)))"

definition create_ssl_context ::
  "crypto \<Rightarrow> (pstr \<Rightarrow> pbytes option) \<Rightarrow> net \<Rightarrow> dict \<Rightarrow> bool \<Rightarrow> ssl_ctx option res" where
  "create_ssl_context C read N config server =
     (case validate_security_config config of
        Inl (SecurityConfigError _) \<Rightarrow> Inl (SystemExit 1)
      | Inl e \<Rightarrow> Inl e
      | Inr k \<Rightarrow>
          if k_encryption k \<noteq> lit ''mtls'' then Inr None
          else (case dget config (lit ''mtls'') of
              PDict mtls \<Rightarrow>
                (let ca = dget mtls (lit ''ca_file''); cert = dget mtls (lit ''cert_file''); key = dget mtls (lit ''key_file'')
                 in if \<not> (path_text ca \<and> path_text cert \<and> path_text key) then Inl (SystemExit 1)
                    else (case check_local_oid C read (str_of cert) (dget mtls (lit ''required_oid'')) of Inl e \<Rightarrow> Inl e
                      | Inr _ \<Rightarrow>
                          (let ctx = \<lparr>ctx_server = server, ctx_check_hostname = False, ctx_cert_required = True,
                                 ctx_ca = str_of ca, ctx_cert = str_of cert, ctx_key = str_of key\<rparr>
                           in case net_load N ctx of Inl e \<Rightarrow> Inl e | Inr _ \<Rightarrow> Inr (Some ctx))))
            | _ \<Rightarrow> Inl (SystemExit 1)))"

definition connect ::
  "lib \<Rightarrow> crypto \<Rightarrow> (pstr \<Rightarrow> pbytes option) \<Rightarrow> net \<Rightarrow> host \<Rightarrow> transport \<Rightarrow> sock res" where
  "connect E C read N H tr =
     (case address_of H tr of Inl e \<Rightarrow> Inl e
      | Inr addr \<Rightarrow> (case net_dial N addr of Inl e \<Rightarrow> Inl e
      | Inr s \<Rightarrow> (case create_ssl_context C read N (tr_config tr) False of Inl e \<Rightarrow> Inl e
      | Inr None \<Rightarrow> Inr s
      | Inr (Some ctx) \<Rightarrow> (case tls_server_name E H tr of Inl e \<Rightarrow> Inl e
      | Inr name \<Rightarrow> (case net_wrap N ctx name s of Inl e \<Rightarrow> Inl e
      | Inr wrapped \<Rightarrow> (case verify_peer_oid C (tls_peer.truncate wrapped) (tr_config tr) of Inl e \<Rightarrow> Inl e
      | Inr _ \<Rightarrow> (case verify_server_acl C (tls_peer.truncate wrapped) (tr_config tr) of Inl e \<Rightarrow> Inl e
      | Inr _ \<Rightarrow> Inr wrapped)))))))"

section \<open>Binding\<close>

text \<open>
  The file system a listener works on: the node of each path as \<open>lstat\<close> sees it (its mode holds
  the twelve permission bits), whether a symbolic link leads anywhere, the paths on which a
  change is refused, the mode of a new directory and the next inode number.
\<close>

record fs =
  fs_node :: "pstr \<Rightarrow> finfo option"
  fs_live :: "pstr \<Rightarrow> bool"
  fs_denied :: "pstr \<Rightarrow> bool"
  fs_dirmode :: int
  fs_next :: nat

definition put_node :: "pstr \<Rightarrow> finfo \<Rightarrow> fs \<Rightarrow> fs" where
  "put_node p info F = F\<lparr>fs_node := (fs_node F)(p \<mapsto> info)\<rparr>"

definition drop_node :: "pstr \<Rightarrow> fs \<Rightarrow> fs" where
  "drop_node p F = F\<lparr>fs_node := (fs_node F)(p := None)\<rparr>"

definition new_node :: "pstr \<Rightarrow> ftype \<Rightarrow> int \<Rightarrow> int \<Rightarrow> fs \<Rightarrow> fs" where
  "new_node p ft mode uid F =
     (put_node p \<lparr>st_type = ft, st_mode = mode, st_uid = uid, st_gid = uid, st_ino = fs_next F\<rparr> F)
       \<lparr>fs_next := Suc (fs_next F)\<rparr>"

text \<open>\<open>_chmod\<close> only reports a failure; a mode that is no C \<open>int\<close> is refused by the interpreter.\<close>

definition chmod :: "pstr \<Rightarrow> int \<Rightarrow> fs \<Rightarrow> unit res \<times> fs" where
  "chmod path mode F =
     (if \<not> (-2147483648 \<le> mode \<and> mode < 2147483648) then (Inl OverflowError, F)
      else (case fs_node F path of None \<Rightarrow> (Inr (), F)
        | Some info \<Rightarrow>
            if fs_denied F path then (Inr (), F)
            else (Inr (), put_node path (info\<lparr>st_mode := mode mod 4096\<rparr>) F)))"

definition assert_owner_only :: "host \<Rightarrow> pstr \<Rightarrow> int \<Rightarrow> bool \<Rightarrow> fs \<Rightarrow> unit res" where
  "assert_owner_only H path mode expect_dir F =
     (case fs_node F path of None \<Rightarrow> Inl (RuntimeError ''cannot stat'')
      | Some info \<Rightarrow>
          if st_uid info \<noteq> h_uid H then Inl (RuntimeError ''not owned by us'')
          else if st_mode info \<noteq> mode then Inl (RuntimeError ''unexpected mode'')
          else if expect_dir \<and> st_type info \<noteq> Directory then Inl (RuntimeError ''not a directory'')
          else Inr ())"

text \<open>\<open>Path.mkdir(parents=True, exist_ok=True)\<close>: every missing prefix, outermost first.\<close>

fun make_dirs :: "host \<Rightarrow> pstr list \<Rightarrow> fs \<Rightarrow> unit res \<times> fs" where
  "make_dirs H [] F = (Inr (), F)"
| "make_dirs H (p # ps) F =
     (case fs_node F p of
        Some info \<Rightarrow> if st_type info = Symlink \<and> \<not> fs_live F p then (Inl (OSError ''file exists''), F) else make_dirs H ps F
      | None \<Rightarrow>
          if fs_denied F p then (Inl (OSError ''permission denied''), F)
          else make_dirs H ps (new_node p Directory (fs_dirmode F) (h_uid H) F))"

definition path_prefixes :: "ppath \<Rightarrow> pstr list" where
  "path_prefixes p = map (\<lambda>n. path_str (fst p, take (Suc n) (snd p))) [0..<length (snd p)]"

definition path_exists :: "pstr \<Rightarrow> fs \<Rightarrow> bool" where
  "path_exists p F =
     (case fs_node F p of None \<Rightarrow> False | Some info \<Rightarrow> st_type info \<noteq> Symlink \<or> fs_live F p)"

definition clear_bind_target :: "host \<Rightarrow> pstr \<Rightarrow> fs \<Rightarrow> unit res \<times> fs" where
  "clear_bind_target H path F =
     (case fs_node F path of None \<Rightarrow> (Inr (), F)
      | Some info \<Rightarrow>
          if st_type info = Symlink then (Inl (RuntimeError ''refusing to bind: path is a symlink''), F)
          else if st_type info \<noteq> SocketFile then (Inl (RuntimeError ''refusing to bind: path is not a socket''), F)
          else if st_uid info \<noteq> h_uid H then (Inl (RuntimeError ''refusing to bind: socket is not ours''), F)
          else if fs_denied F path then (Inl (OSError ''permission denied''), F)
          else (Inr (), drop_node path F))"

definition prepare_unix_socket :: "host \<Rightarrow> pstr \<Rightarrow> int \<Rightarrow> fs \<Rightarrow> unit res \<times> fs" where
  "prepare_unix_socket H path dir_mode F =
     (let parent_path = path_parent (path_of path); parent = path_str parent_path;
          (made, F1) = (if path_exists parent F then (Inr (), F) else make_dirs H (path_prefixes parent_path) F)
      in case made of Inl e \<Rightarrow> (Inl e, F1)
         | Inr _ \<Rightarrow>
             if (case fs_node F1 parent of Some info \<Rightarrow> st_type info = Symlink | None \<Rightarrow> False)
             then (Inl (RuntimeError ''refusing to bind: parent is a symlink''), F1)
             else (case chmod parent dir_mode F1 of
                 (Inl e, F2) \<Rightarrow> (Inl e, F2)
               | (Inr _, F2) \<Rightarrow> (case assert_owner_only H parent dir_mode True F2 of
                     Inl e \<Rightarrow> (Inl e, F2)
                   | Inr _ \<Rightarrow> clear_bind_target H path F2)))"

text \<open>\<open>bind\<close> under the umask \<open>0177\<close> creates the socket with mode \<open>0600\<close>.\<close>

definition bind_unix :: "host \<Rightarrow> pstr \<Rightarrow> fs \<Rightarrow> unit res \<times> fs" where
  "bind_unix H path F =
     (if fs_node F path \<noteq> None then (Inl (OSError ''address already in use''), F)
      else if fs_denied F path then (Inl (OSError ''permission denied''), F)
      else (Inr (), new_node path SocketFile 384 (h_uid H) F))"

definition post_bind_unix :: "host \<Rightarrow> transport \<Rightarrow> fs \<Rightarrow> transport res \<times> fs" where
  "post_bind_unix H tr F =
     (let mode = parse_mode (dget (tr_config tr) (lit ''socket_mode'')) DEFAULT_SOCKET_MODE
      in case chmod (tr_path tr) mode F of
           (Inl e, F1) \<Rightarrow> (Inl e, F1)
         | (Inr _, F1) \<Rightarrow> (case assert_owner_only H (tr_path tr) mode False F1 of
               Inl e \<Rightarrow> (Inl e, F1)
             | Inr _ \<Rightarrow> (Inr (tr\<lparr>tr_bound_ino := map_option st_ino (fs_node F1 (tr_path tr))\<rparr>), F1)))"

definition prepare_bind :: "host \<Rightarrow> transport \<Rightarrow> fs \<Rightarrow> unit res \<times> fs" where
  "prepare_bind H tr F =
     (if is_callback tr then (Inr (), F)
      else prepare_unix_socket H (tr_path tr)
             (parse_mode (dget (tr_config tr) (lit ''socket_dir_mode'')) DEFAULT_SOCKET_DIR_MODE) F)"

definition bind_address :: "net \<Rightarrow> host \<Rightarrow> transport \<Rightarrow> fs \<Rightarrow> unit res \<times> fs" where
  "bind_address N H tr F =
     (case address_of H tr of
        Inl e \<Rightarrow> (Inl e, F)
      | Inr (UnixAddr p) \<Rightarrow> bind_unix H p F
      | Inr a \<Rightarrow> (net_bind N a, F))"

definition post_bind :: "host \<Rightarrow> transport \<Rightarrow> fs \<Rightarrow> transport res \<times> fs" where
  "post_bind H tr F = (if is_callback tr then (Inr tr, F) else post_bind_unix H tr F)"

record listener =
  ls_transport :: transport
  ls_ctx :: "ssl_ctx option"
  ls_max_connections :: int
  ls_read_timeout :: pyval

definition listen ::
  "lib \<Rightarrow> crypto \<Rightarrow> (pstr \<Rightarrow> pbytes option) \<Rightarrow> net \<Rightarrow> host \<Rightarrow> transport \<Rightarrow> fs \<Rightarrow> listener res \<times> fs" where
  "listen E C read N H tr F =
     (case create_ssl_context C read N (tr_config tr) True of Inl e \<Rightarrow> (Inl e, F)
      | Inr ctx \<Rightarrow> (case prepare_bind H tr F of
          (Inl e, F1) \<Rightarrow> (Inl e, F1)
        | (Inr _, F1) \<Rightarrow>
          (case positive_int (dget (tr_config tr) (lit ''max_connections'')) DEFAULT_MAX_CONNECTIONS of
             Inl e \<Rightarrow> (Inl e, F1)
           | Inr max_connections \<Rightarrow>
             (case positive_float E (dget (tr_config tr) (lit ''server_read_timeout'')) DEFAULT_SERVER_READ_TIMEOUT of
                Inl e \<Rightarrow> (Inl e, F1)
              | Inr read_timeout \<Rightarrow> (case bind_address N H tr F1 of
                    (Inl e, F2) \<Rightarrow> (Inl e, F2)
                  | (Inr _, F2) \<Rightarrow> (case post_bind H tr F2 of
                        (Inl e, F3) \<Rightarrow> (Inl e, F3)
                      | (Inr tr', F3) \<Rightarrow>
                          (Inr \<lparr>ls_transport = tr', ls_ctx = ctx, ls_max_connections = max_connections,
                                ls_read_timeout = read_timeout\<rparr>, F3)))))))"

definition cleanup :: "transport \<Rightarrow> fs \<Rightarrow> fs" where
  "cleanup tr F =
     (if is_callback tr then F
      else (case fs_node F (tr_path tr) of None \<Rightarrow> F
        | Some info \<Rightarrow>
            if tr_bound_ino tr = Some (st_ino info) \<and> st_type info = SocketFile \<and> \<not> fs_denied F (tr_path tr)
            then drop_node (tr_path tr) F else F))"

section \<open>Starting the server\<close>

definition close_listeners :: "listener list \<Rightarrow> fs \<Rightarrow> fs" where
  "close_listeners ls F = fold (\<lambda>l. cleanup (ls_transport l)) ls F"

fun bind_views ::
  "lib \<Rightarrow> crypto \<Rightarrow> (pstr \<Rightarrow> pbytes option) \<Rightarrow> net \<Rightarrow> host \<Rightarrow> dict list \<Rightarrow> (listener \<times> security) list \<Rightarrow> fs
    \<Rightarrow> (listener \<times> security) list \<times> unit res \<times> fs" where
  "bind_views E C read N H [] bound F = (bound, Inr (), F)"
| "bind_views E C read N H (view # views) bound F =
     (case validate_config_schema view of Inl e \<Rightarrow> (bound, Inl e, F)
      | Inr _ \<Rightarrow> (case build_security view ''server'' of Inl e \<Rightarrow> (bound, Inl e, F)
      | Inr sec \<Rightarrow> (case make_transport E H view of Inl e \<Rightarrow> (bound, Inl e, F)
      | Inr tr \<Rightarrow> (case listen E C read N H tr F of
            (Inl e, F1) \<Rightarrow> (bound, Inl e, F1)
          | (Inr l, F1) \<Rightarrow> bind_views E C read N H views (bound @ [(l, sec)]) F1))))"

definition check_document :: "dict \<Rightarrow> unit res" where
  "check_document config =
     (case dget config (lit ''listeners'') of PList _ \<Rightarrow> validate_document_schema config | _ \<Rightarrow> Inr ())"

text \<open>\<open>run_server\<close> up to serving: every listener is bound, or none stays bound.\<close>

definition run_server ::
  "lib \<Rightarrow> crypto \<Rightarrow> (pstr \<Rightarrow> pbytes option) \<Rightarrow> net \<Rightarrow> host \<Rightarrow> dict \<Rightarrow> fs \<Rightarrow> (listener \<times> security) list res \<times> fs" where
  "run_server E C read N H config F =
     (case check_document config of
        Inl e \<Rightarrow> (Inl e, F)
      | Inr _ \<Rightarrow> (case listener_views config of Inl e \<Rightarrow> (Inl e, F)
      | Inr views \<Rightarrow> (case bind_views E C read N H views [] F of
            (bound, Inr _, F1) \<Rightarrow> (Inr bound, F1)
          | (bound, Inl e, F1) \<Rightarrow>
              (let F2 = close_listeners (map fst bound) F1
               in case e of
                    SecurityConfigError _ \<Rightarrow> (Inl (SystemExit 1), F2)
                  | AuthError _ \<Rightarrow> (Inl (SystemExit 1), F2)
                  | _ \<Rightarrow> (Inl e, F2)))))"

end
