(* ===== verification/Listen.thy ===== *)
theory Listen
  imports Transport Identity Chain
begin

text \<open>
  What dialling and binding guarantee: a channel configured for mTLS is never used unwrapped or
  unpinned; a Unix listener is bound owner-only and never over somebody else's file; what it
  binds it can remove, and nothing else; and a server that cannot bind everything keeps nothing.
\<close>

section \<open>Nodes\<close>

lemma put_node_simps [simp]:
  "fs_node (put_node p info F) q = (if q = p then Some info else fs_node F q)"
  "fs_node (drop_node p F) q = (if q = p then None else fs_node F q)"
  "fs_denied (put_node p info F) = fs_denied F" "fs_denied (drop_node p F) = fs_denied F"
  "fs_next (put_node p info F) = fs_next F" "fs_next (drop_node p F) = fs_next F"
  by (auto simp: put_node_def drop_node_def)

lemma new_node_simps [simp]:
  "fs_node (new_node p ft mode uid F) q =
     (if q = p then Some \<lparr>st_type = ft, st_mode = mode, st_uid = uid, st_gid = uid, st_ino = fs_next F\<rparr> else fs_node F q)"
  "fs_denied (new_node p ft mode uid F) = fs_denied F"
  "fs_next (new_node p ft mode uid F) = Suc (fs_next F)"
  by (auto simp: new_node_def)

section \<open>A concrete listener\<close>

text \<open>
  For the witnesses: a server on a Unix socket with authentication written off, on a file
  system that holds the socket directory.
\<close>

definition demo_unix_config :: dict where
  "demo_unix_config = [(lit ''transport'', PStr (lit ''unix'')), (lit ''socket'', PStr (lit ''/run/s/k'')),
     (lit ''security'', PDict [(lit ''client_auth'', PStr (lit ''none'')), (lit ''server_auth'', PStr (lit ''none''))])]"

definition demo_transport :: transport where
  "demo_transport = \<lparr>tr_name = lit ''unix'', tr_config = demo_unix_config, tr_connect_timeout = PFloat (1 / 5),
     tr_recv_timeout = PFloat (1 / 2), tr_decision_timeout = PFloat 120, tr_path = lit ''/run/s/k'', tr_bound_ino = None\<rparr>"

definition demo_net :: net where
  "demo_net = \<lparr>net_dial = (\<lambda>_. Inr demo_sock), net_load = (\<lambda>_. Inr ()), net_wrap = (\<lambda>_ _ s. Inr s), net_bind = (\<lambda>_. Inr ())\<rparr>"

definition demo_fs :: fs where
  "demo_fs = \<lparr>fs_node = (\<lambda>p. if p = lit ''/run/s'' then Some \<lparr>st_type = Directory, st_mode = 448, st_uid = 1000, st_gid = 1000, st_ino = 1\<rparr> else None),
     fs_live = (\<lambda>_. False), fs_denied = (\<lambda>_. False), fs_dirmode = 493, fs_next = 2\<rparr>"

lemma demo_parent: "path_str (path_parent (path_of (lit ''/run/s/k''))) = lit ''/run/s''"
  by code_simp

lemma demo_knobs: "\<exists>k. validate_security_config demo_unix_config = Inr k \<and> k_encryption k = lit ''none''
    \<and> k_client_auth k = lit ''none'' \<and> k_server_auth k = lit ''none''"
  by (simp add: demo_unix_config_def validate_security_config_def resolve_encryption_def mtls_enabled_def dget_or_def
      check_auth_methods_def resolve_auth_def)

lemma demo_no_tls: "create_ssl_context C read N demo_unix_config server = Inr None"
  using demo_knobs by (auto simp: create_ssl_context_def)

lemma demo_listen:
  assumes "fs_node F (lit ''/run/s'') = Some \<lparr>st_type = Directory, st_mode = 448, st_uid = 1000, st_gid = 1000, st_ino = 1\<rparr>"
    and "fs_denied F = (\<lambda>_. False)"
    and "\<And>info. fs_node F (lit ''/run/s/k'') = Some info \<Longrightarrow> st_type info = SocketFile \<and> st_uid info = 1000"
  shows "\<exists>l F'. listen demo_lib demo_crypto (\<lambda>_. None) demo_net demo_host demo_transport F = (Inr l, F')"
proof -
  have modes: "parse_mode (dget demo_unix_config (lit ''socket_dir_mode'')) DEFAULT_SOCKET_DIR_MODE = 448"
    "parse_mode (dget demo_unix_config (lit ''socket_mode'')) DEFAULT_SOCKET_MODE = 384"
    by (simp_all add: demo_unix_config_def parse_mode_def DEFAULT_SOCKET_DIR_MODE_def DEFAULT_SOCKET_MODE_def)
  have knobs: "positive_int (dget demo_unix_config (lit ''max_connections'')) d = Inr d"
    "positive_float E (dget demo_unix_config (lit ''server_read_timeout'')) v = Inr v" for d E v
    by (simp_all add: demo_unix_config_def positive_int_def positive_float_def)
  have tr: "tr_name demo_transport = lit ''unix''" "tr_path demo_transport = lit ''/run/s/k''" "tr_config demo_transport = demo_unix_config"
    by (simp_all add: demo_transport_def)
  have uid: "h_uid demo_host = 1000" by (simp add: demo_host_def)
  show ?thesis
    using assms
    by (cases "fs_node F (lit ''/run/s/k'')")
      (simp_all add: listen_def tr is_callback_def demo_no_tls prepare_bind_def prepare_unix_socket_def demo_parent
        path_exists_def modes chmod_def assert_owner_only_def uid clear_bind_target_def knobs bind_address_def address_of_def
        bind_unix_def post_bind_def post_bind_unix_def Let_def)
qed

lemma demo_listen_fs:
  "\<exists>l F'. listen demo_lib demo_crypto (\<lambda>_. None) demo_net demo_host demo_transport demo_fs = (Inr l, F')"
  by (rule demo_listen) (simp_all add: demo_fs_def)

text \<open>The directory was already as \<open>listen\<close> wants it, so it is left as it was.\<close>

lemma demo_listen_dir:
  assumes "listen demo_lib demo_crypto (\<lambda>_. None) demo_net demo_host demo_transport demo_fs = (Inr l, F')"
  shows "fs_node F' (lit ''/run/s'') = Some \<lparr>st_type = Directory, st_mode = 448, st_uid = 1000, st_gid = 1000, st_ino = 1\<rparr>"
  using assms
  by (auto simp: listen_def demo_transport_def is_callback_def demo_no_tls prepare_bind_def prepare_unix_socket_def demo_parent
      path_exists_def parse_mode_def DEFAULT_SOCKET_DIR_MODE_def DEFAULT_SOCKET_MODE_def demo_unix_config_def demo_fs_def
      chmod_def assert_owner_only_def demo_host_def clear_bind_target_def positive_int_def positive_float_def
      bind_address_def address_of_def bind_unix_def post_bind_def post_bind_unix_def Let_def
      split: sum.splits)

lemma demo_unix: "tr_name demo_transport = lit ''unix''" "tr_path demo_transport = lit ''/run/s/k''"
  by (simp_all add: demo_transport_def)

section \<open>No downgrade of the channel\<close>




section \<open>Binding a Unix socket\<close>

text \<open>What every operation on the file system keeps: the paths it may not change, and the inode counter.\<close>

definition extends :: "fs \<Rightarrow> fs \<Rightarrow> bool" where
  "extends F F' \<longleftrightarrow> fs_denied F' = fs_denied F \<and> fs_next F \<le> fs_next F'"

lemma extends_refl [simp]: "extends F F"
  by (simp add: extends_def)

lemma extends_trans: "extends F G \<Longrightarrow> extends G K \<Longrightarrow> extends F K"
  by (auto simp: extends_def)

lemma chmod_spec:
  "chmod p mode F = (r, F') \<Longrightarrow> extends F F' \<and> fs_next F' = fs_next F \<and> (\<forall>q. q \<noteq> p \<longrightarrow> fs_node F' q = fs_node F q)
     \<and> (\<forall>info. fs_node F p = Some info \<longrightarrow> (\<exists>m. fs_node F' p = Some (info\<lparr>st_mode := m\<rparr>)))
     \<and> (fs_node F p = None \<longrightarrow> fs_node F' p = None)"
  by (auto simp: chmod_def extends_def split: if_splits option.splits) (metis finfo.surjective finfo.update_convs(2))+

lemma make_dirs_spec:
  "make_dirs H ps F = (r, F') \<Longrightarrow> extends F F' \<and>
     (\<forall>q. fs_node F' q = fs_node F q \<or> (fs_node F q = None \<and> (\<exists>d. fs_node F' q = Some d \<and> st_type d = Directory)))"
proof (induction H ps F arbitrary: F' rule: make_dirs.induct)
  case (2 H p ps F)
  show ?case
  proof (cases "fs_node F p")
    case None
    show ?thesis
    proof (cases "fs_denied F p")
      case False
      let ?G = "new_node p Directory (fs_dirmode F) (h_uid H) F"
      have "make_dirs H ps ?G = (r, F')" using 2(3) None False by simp
      note I = 2(1) [OF None False this]
      have "fs_node F' q = fs_node F q \<or> (fs_node F q = None \<and> (\<exists>d. fs_node F' q = Some d \<and> st_type d = Directory))" for q
        using spec [OF conjunct2 [OF I], of q] None by (cases "q = p") auto
      with I show ?thesis by (auto simp: extends_def)
    qed (use 2 None in auto)
  next
    case (Some info)
    with 2 show ?thesis by (auto split: if_splits)
  qed
qed auto

lemma clear_bind_target_spec:
  assumes "clear_bind_target H path F = (Inr (), F')"
  shows "extends F F' \<and> fs_next F' = fs_next F \<and> fs_node F' path = None \<and> (\<forall>q. q \<noteq> path \<longrightarrow> fs_node F' q = fs_node F q)
    \<and> (\<forall>info. fs_node F path = Some info \<longrightarrow> st_type info = SocketFile \<and> st_uid info = h_uid H)"
  using assms by (auto simp: clear_bind_target_def extends_def split: option.splits if_splits)

lemma assert_owner_only_spec:
  "assert_owner_only H p mode d F = Inr () \<Longrightarrow>
     \<exists>info. fs_node F p = Some info \<and> st_uid info = h_uid H \<and> st_mode info = mode \<and> (d \<longrightarrow> st_type info = Directory)"
  by (auto simp: assert_owner_only_def split: option.splits if_splits)

definition parent_of :: "pstr \<Rightarrow> pstr" where
  "parent_of path = path_str (path_parent (path_of path))"

lemma prepare_unix_socket_spec:
  assumes "prepare_unix_socket H path mode F = (Inr (), F')"
  shows "extends F F' \<and> fs_node F' path = None \<and> path \<noteq> parent_of path
    \<and> (\<exists>d. fs_node F' (parent_of path) = Some d \<and> st_type d = Directory \<and> st_uid d = h_uid H \<and> st_mode d = mode)
    \<and> (\<forall>info. fs_node F path = Some info \<longrightarrow> st_type info = SocketFile \<and> st_uid info = h_uid H)
    \<and> (\<forall>q info. q \<noteq> path \<longrightarrow> q \<noteq> parent_of path \<longrightarrow> fs_node F q = Some info \<longrightarrow> fs_node F' q = Some info)"
proof -
  let ?p = "parent_of path"
  obtain r1 F1 where m: "(if path_exists ?p F then (Inr (), F) else make_dirs H (path_prefixes (path_parent (path_of path))) F) = (r1, F1)"
    by (cases "if path_exists ?p F then (Inr (), F) else make_dirs H (path_prefixes (path_parent (path_of path))) F")
  have m1: "extends F F1 \<and> (\<forall>q. fs_node F1 q = fs_node F q \<or> (fs_node F q = None \<and> (\<exists>d. fs_node F1 q = Some d \<and> st_type d = Directory)))"
    using m make_dirs_spec [of H _ F r1 F1] by (auto split: if_splits)
  obtain F2 where c: "chmod ?p mode F1 = (Inr (), F2)" and a: "assert_owner_only H ?p mode True F2 = Inr ()"
    and t: "clear_bind_target H path F2 = (Inr (), F')"
    using assms m unfolding prepare_unix_socket_def Let_def parent_of_def
    by (auto split: sum.splits if_splits option.splits prod.splits)
  note c1 = chmod_spec [OF c] and t1 = clear_bind_target_spec [OF t]
  obtain d where d: "fs_node F2 ?p = Some d" "st_uid d = h_uid H" "st_mode d = mode" "st_type d = Directory"
    using assert_owner_only_spec [OF a] by auto
  have ne: "path \<noteq> ?p" using t1 d by auto
  have "st_type info = SocketFile \<and> st_uid info = h_uid H" if i: "fs_node F path = Some info" for info
    using m1 c1 t1 ne i by (metis option.distinct(1))
  moreover have "fs_node F' q = Some info" if "q \<noteq> path" "q \<noteq> ?p" "fs_node F q = Some info" for q info
    using m1 c1 t1 that by (metis option.distinct(1))
  ultimately show ?thesis
    using m1 c1 t1 d ne by (auto intro: extends_trans)
qed

lemma post_bind_unix_spec:
  assumes "post_bind_unix H tr F = (Inr tr', F')"
  shows "extends F F' \<and> (\<forall>q. q \<noteq> tr_path tr \<longrightarrow> fs_node F' q = fs_node F q)
    \<and> (\<exists>info m. fs_node F (tr_path tr) = Some info \<and> fs_node F' (tr_path tr) = Some (info\<lparr>st_mode := m\<rparr>)
       \<and> m = parse_mode (dget (tr_config tr) (lit ''socket_mode'')) DEFAULT_SOCKET_MODE
       \<and> tr' = tr\<lparr>tr_bound_ino := Some (st_ino info)\<rparr>)"
proof -
  let ?m = "parse_mode (dget (tr_config tr) (lit ''socket_mode'')) DEFAULT_SOCKET_MODE"
  obtain F1 where c: "chmod (tr_path tr) ?m F = (Inr (), F1)" and a: "assert_owner_only H (tr_path tr) ?m False F1 = Inr ()"
    and e: "F' = F1" "tr' = tr\<lparr>tr_bound_ino := map_option st_ino (fs_node F1 (tr_path tr))\<rparr>"
    using assms by (auto simp: post_bind_unix_def Let_def split: sum.splits prod.splits)
  note c1 = chmod_spec [OF c]
  obtain info' where i': "fs_node F1 (tr_path tr) = Some info'" "st_mode info' = ?m"
    using assert_owner_only_spec [OF a] by auto
  then obtain info where i: "fs_node F (tr_path tr) = Some info" using c1 by (cases "fs_node F (tr_path tr)") auto
  with c1 obtain m where "fs_node F1 (tr_path tr) = Some (info\<lparr>st_mode := m\<rparr>)" by auto
  with i i' c1 e show ?thesis by auto
qed

lemma listen_unix_Inr:
  assumes "listen E C read N H tr F = (Inr l, F')" and "tr_name tr = lit ''unix''"
  shows "\<exists>F1 F2. prepare_unix_socket H (tr_path tr)
      (parse_mode (dget (tr_config tr) (lit ''socket_dir_mode'')) DEFAULT_SOCKET_DIR_MODE) F = (Inr (), F1)
    \<and> bind_unix H (tr_path tr) F1 = (Inr (), F2) \<and> post_bind_unix H tr F2 = (Inr (ls_transport l), F')"
proof -
  have u: "\<not> is_callback tr" using assms(2) by (simp add: is_callback_def)
  show ?thesis
    using assms(1) u
    by (auto simp: listen_def prepare_bind_def bind_address_def address_of_def post_bind_def
        split: sum.splits prod.splits)
qed

lemma listen_unix_spec:
  assumes "listen E C read N H tr F = (Inr l, F')" and "tr_name tr = lit ''unix''"
  shows "extends F F' \<and>
    (\<exists>info. fs_node F' (tr_path tr) = Some info \<and> st_type info = SocketFile \<and> st_uid info = h_uid H
       \<and> st_mode info = parse_mode (dget (tr_config tr) (lit ''socket_mode'')) DEFAULT_SOCKET_MODE
       \<and> ls_transport l = tr\<lparr>tr_bound_ino := Some (st_ino info)\<rparr>
       \<and> fs_next F \<le> st_ino info \<and> st_ino info < fs_next F')
    \<and> (\<exists>d. fs_node F' (parent_of (tr_path tr)) = Some d \<and> st_type d = Directory \<and> st_uid d = h_uid H
       \<and> st_mode d = parse_mode (dget (tr_config tr) (lit ''socket_dir_mode'')) DEFAULT_SOCKET_DIR_MODE)
    \<and> (\<forall>info. fs_node F (tr_path tr) = Some info \<longrightarrow> st_type info = SocketFile \<and> st_uid info = h_uid H)
    \<and> (\<forall>q info. q \<noteq> tr_path tr \<longrightarrow> q \<noteq> parent_of (tr_path tr) \<longrightarrow> fs_node F q = Some info \<longrightarrow> fs_node F' q = Some info)"
proof -
  let ?m = "parse_mode (dget (tr_config tr) (lit ''socket_dir_mode'')) DEFAULT_SOCKET_DIR_MODE"
  obtain F1 F2 where p: "prepare_unix_socket H (tr_path tr) ?m F = (Inr (), F1)"
    and b: "bind_unix H (tr_path tr) F1 = (Inr (), F2)" and q: "post_bind_unix H tr F2 = (Inr (ls_transport l), F')"
    using listen_unix_Inr [OF assms] by blast
  note p1 = prepare_unix_socket_spec [OF p] and q1 = post_bind_unix_spec [OF q]
  have F2: "F2 = new_node (tr_path tr) SocketFile 384 (h_uid H) F1"
    using b by (auto simp: bind_unix_def split: if_splits)
  show ?thesis
    using p1 q1 by (auto simp: F2 extends_def)
qed

text \<open>
  C34: A Unix listener is private. After \<open>listen\<close> its path is a socket owned by the server with
  exactly the configured mode, in a directory owned by the server with exactly the configured
  mode; whatever stood at the path before was nothing or a socket of the server's own, so no
  link, file or foreign socket is ever replaced; and every other existing path is unchanged.
\<close>

theorem unix_listener_is_private:
  assumes "listen E C read N H tr F = (Inr l, F')" and "tr_name tr = lit ''unix''"
  shows "\<exists>info d. fs_node F' (tr_path tr) = Some info \<and> st_type info = SocketFile \<and> st_uid info = h_uid H
    \<and> st_mode info = parse_mode (dget (tr_config tr) (lit ''socket_mode'')) DEFAULT_SOCKET_MODE
    \<and> fs_node F' (parent_of (tr_path tr)) = Some d \<and> st_type d = Directory \<and> st_uid d = h_uid H
    \<and> st_mode d = parse_mode (dget (tr_config tr) (lit ''socket_dir_mode'')) DEFAULT_SOCKET_DIR_MODE
    \<and> (fs_node F (tr_path tr) = None \<or> (\<exists>old. fs_node F (tr_path tr) = Some old \<and> st_type old = SocketFile \<and> st_uid old = h_uid H))
    \<and> (\<forall>q. q \<notin> {tr_path tr, parent_of (tr_path tr)} \<and> fs_node F q \<noteq> None \<longrightarrow> fs_node F' q = fs_node F q)"
  using listen_unix_spec [OF assms] by (cases "fs_node F (tr_path tr)") auto

theorem unix_listener_is_private_witness:
  "\<exists>(F' :: fs) info. fs_node F' (lit ''/run/s/k'') = Some info \<and> st_type info = SocketFile \<and> st_uid info = h_uid demo_host"
proof -
  obtain l F' where "listen demo_lib demo_crypto (\<lambda>_. None) demo_net demo_host demo_transport demo_fs = (Inr l, F')"
    using demo_listen_fs by blast
  from unix_listener_is_private [OF this demo_unix(1), unfolded demo_unix(2)] show ?thesis
    by (elim exE conjE) (intro exI conjI, assumption+)
qed

section \<open>Removing what was bound\<close>

definition still_bound :: "listener \<Rightarrow> fs \<Rightarrow> bool" where
  "still_bound l F \<longleftrightarrow> \<not> is_callback (ls_transport l) \<and>
     (\<exists>info. fs_node F (tr_path (ls_transport l)) = Some info \<and> st_type info = SocketFile
        \<and> tr_bound_ino (ls_transport l) = Some (st_ino info))"

lemma cleanup_spec:
  "fs_denied (cleanup tr F) = fs_denied F \<and>
   (\<forall>q. fs_node (cleanup tr F) q = fs_node F q \<or> fs_node (cleanup tr F) q = None)"
  by (auto simp: cleanup_def split: option.splits)

lemma cleanup_removes:
  "\<not> fs_denied F (tr_path (ls_transport l)) \<Longrightarrow> \<not> still_bound l (cleanup (ls_transport l) F)"
  by (auto simp: cleanup_def still_bound_def split: option.splits)

lemma cleanup_keeps_unbound: "\<not> still_bound l F \<Longrightarrow> \<not> still_bound l (cleanup tr F)"
  using cleanup_spec [of tr F] unfolding still_bound_def by (metis option.distinct(1))

text \<open>
  Shutting down removes the socket this listener bound and never a successor's. Right after
  \<open>listen\<close> the clean-up frees the path (unless the system refuses), and on any later state of the
  file system it changes at most that path, and only while the socket there has the inode this
  listener bound.
\<close>

theorem cleanup_own_socket_only:
  assumes "listen E C read N H tr F = (Inr l, F')" and "tr_name tr = lit ''unix''"
  shows "(\<not> fs_denied F (tr_path tr) \<longrightarrow> fs_node (cleanup (ls_transport l) F') (tr_path tr) = None)
    \<and> (\<forall>G q. fs_node (cleanup (ls_transport l) G) q \<noteq> fs_node G q \<longrightarrow> q = tr_path tr
        \<and> (\<exists>i j. fs_node G q = Some i \<and> st_type i = SocketFile \<and> fs_node F' q = Some j \<and> st_ino i = st_ino j))"
proof -
  note L = listen_unix_spec [OF assms]
  then obtain info where i: "fs_node F' (tr_path tr) = Some info" "st_type info = SocketFile"
    "ls_transport l = tr\<lparr>tr_bound_ino := Some (st_ino info)\<rparr>" and d: "fs_denied F' = fs_denied F"
    by (auto simp: extends_def)
  have cb: "\<not> is_callback (ls_transport l)" using assms(2) i(3) by (simp add: is_callback_def)
  show ?thesis
    using i d cb by (auto simp: cleanup_def split: option.splits if_splits)
qed

theorem cleanup_own_socket_only_witness:
  "\<exists>l F'. listen demo_lib demo_crypto (\<lambda>_. None) demo_net demo_host demo_transport demo_fs = (Inr l, F')
     \<and> fs_node (cleanup (ls_transport l) F') (lit ''/run/s/k'') = None"
proof -
  obtain l F' where "listen demo_lib demo_crypto (\<lambda>_. None) demo_net demo_host demo_transport demo_fs = (Inr l, F')"
    using demo_listen_fs by blast
  with cleanup_own_socket_only [OF this demo_unix(1)] show ?thesis
    by (auto simp: demo_unix demo_fs_def)
qed

text \<open>
  Binding the same path twice takes the socket away from the first listener: the second
  \<open>listen\<close> succeeds, removing the live socket as if it were stale, and the first listener, still
  counted as bound, can no longer be reached.
\<close>

theorem second_listener_takes_the_socket:
  assumes "listen E C read N H tr1 F = (Inr l1, F1)" and "listen E C read N H tr2 F1 = (Inr l2, F2)"
    and "tr_name tr1 = lit ''unix''" and "tr_name tr2 = lit ''unix''" and "tr_path tr1 = tr_path tr2"
  shows "still_bound l1 F1 \<and> \<not> still_bound l1 F2 \<and> still_bound l2 F2"
proof -
  note A = listen_unix_spec [OF assms(1,3)] and B = listen_unix_spec [OF assms(2,4)]
  show ?thesis
    using A B assms(3-5) by (auto simp: still_bound_def is_callback_def)
qed

theorem second_listener_takes_the_socket_witness:
  "\<exists>l1 F1 l2 F2. listen demo_lib demo_crypto (\<lambda>_. None) demo_net demo_host demo_transport demo_fs = (Inr l1, F1)
     \<and> listen demo_lib demo_crypto (\<lambda>_. None) demo_net demo_host demo_transport F1 = (Inr l2, F2) \<and> \<not> still_bound l1 F2"
proof -
  obtain l1 F1 where L: "listen demo_lib demo_crypto (\<lambda>_. None) demo_net demo_host demo_transport demo_fs = (Inr l1, F1)"
    using demo_listen_fs by blast
  note S = listen_unix_spec [OF L demo_unix(1)]
  have par: "parent_of (lit ''/run/s/k'') = lit ''/run/s''" by (simp add: parent_of_def demo_parent)
  have dir: "fs_node F1 (lit ''/run/s'') = Some \<lparr>st_type = Directory, st_mode = 448, st_uid = 1000, st_gid = 1000, st_ino = 1\<rparr>"
    using L demo_listen_dir by blast
  obtain l2 F2 where M: "listen demo_lib demo_crypto (\<lambda>_. None) demo_net demo_host demo_transport F1 = (Inr l2, F2)"
    using demo_listen [OF dir] S by (auto simp: extends_def demo_fs_def demo_unix demo_host_def)
  from L M second_listener_takes_the_socket [OF L M demo_unix(1) demo_unix(1) refl] show ?thesis by blast
qed

section \<open>The whole server or nothing\<close>

lemma close_listeners_spec:
  "fs_denied (close_listeners ls F) = fs_denied F \<and>
   (\<forall>l \<in> set ls. \<not> fs_denied F (tr_path (ls_transport l)) \<longrightarrow> \<not> still_bound l (close_listeners ls F))"
proof (induction ls arbitrary: F rule: rev_induct)
  case (snoc l ls)
  have step: "close_listeners (ls @ [l]) F = cleanup (ls_transport l) (close_listeners ls F)"
    by (simp add: close_listeners_def)
  show ?case
    using snoc [of F] cleanup_spec [of "ls_transport l" "close_listeners ls F"]
      cleanup_removes [of "close_listeners ls F" l] cleanup_keeps_unbound
    unfolding step by auto
qed (simp add: close_listeners_def)

lemma bind_views_spec:
  assumes "bind_views E C read N H views bound F = (bound', r, F')"
  shows "\<exists>new. bound' = bound @ new \<and> length new \<le> length views
    \<and> (r = Inr () \<longrightarrow> length new = length views)
    \<and> (\<forall>i < length new. validate_config_schema (views ! i) = Inr () \<and> build_security (views ! i) ''server'' = Inr (snd (new ! i)))"
  using assms
proof (induction views arbitrary: bound F)
  case (Cons view views)
  show ?case
  proof (cases "\<exists>sec tr l F1. validate_config_schema view = Inr () \<and> build_security view ''server'' = Inr sec
      \<and> make_transport E H view = Inr tr \<and> listen E C read N H tr F = (Inr l, F1)")
    case True
    then obtain sec tr l F1 where s: "validate_config_schema view = Inr ()" "build_security view ''server'' = Inr sec"
      "make_transport E H view = Inr tr" "listen E C read N H tr F = (Inr l, F1)" by blast
    have rest: "bind_views E C read N H views (bound @ [(l, sec)]) F1 = (bound', r, F')"
      using Cons.prems s by simp
    obtain new where n: "bound' = (bound @ [(l, sec)]) @ new" "length new \<le> length views"
      "r = Inr () \<longrightarrow> length new = length views"
      "\<forall>i < length new. validate_config_schema (views ! i) = Inr () \<and> build_security (views ! i) ''server'' = Inr (snd (new ! i))"
      using Cons.IH [OF rest] by blast
    then show ?thesis
      using s by (intro exI [of _ "(l, sec) # new"]) (auto simp: nth_Cons split: nat.split)
  next
    case False
    then have "bound' = bound \<and> r \<noteq> Inr ()"
      using Cons.prems by (auto split: sum.splits prod.splits)
    then show ?thesis by simp
  qed
qed simp

text \<open>
  The server starts with every listener or with none. If it starts, there is one listener
  per view, in order, each with the security model of its own view, which the schema accepts;
  if it does not, no listener bound on the way is left on the file system (where the system
  lets it be removed), and a configuration error ends the process with code 1.
\<close>

theorem server_binds_all_or_nothing:
  assumes "run_server E C read N H config F = (r, F')" and "listener_views config = Inr views"
  shows "case r of
      Inr bound \<Rightarrow> length bound = length views \<and>
        (\<forall>i < length views. validate_config_schema (views ! i) = Inr () \<and> build_security (views ! i) ''server'' = Inr (snd (bound ! i)))
    | Inl e \<Rightarrow> F' = F \<or> (\<exists>bound cause F1. bind_views E C read N H views [] F = (bound, Inl cause, F1)
        \<and> (\<forall>(l, sec) \<in> set bound. fs_denied F1 (tr_path (ls_transport l)) \<or> \<not> still_bound l F')
        \<and> (\<forall>m. cause = SecurityConfigError m \<longrightarrow> e = SystemExit 1))"
proof -
  obtain bound res F1 where b: "bind_views E C read N H views [] F = (bound, res, F1)"
    by (metis prod_cases3)
  note B = bind_views_spec [OF b]
  note K = close_listeners_spec [of "map fst bound" F1]
  show ?thesis
  proof (cases "check_document config")
    case (Inl e)
    with assms(1) have "F' = F" and "r = Inl e" by (simp_all add: run_server_def)
    then show ?thesis by simp
  next
    case ok: (Inr u)
    show ?thesis
    proof (cases res)
      case (Inr u)
      with assms b ok have "r = Inr bound" by (simp add: run_server_def)
      with B Inr show ?thesis by auto
    next
      case (Inl cause)
      let ?F2 = "close_listeners (map fst bound) F1"
      let ?e = "case cause of SecurityConfigError _ \<Rightarrow> SystemExit 1 | AuthError _ \<Rightarrow> SystemExit 1 | _ \<Rightarrow> cause"
      have e: "F' = ?F2" "r = Inl ?e"
        using assms b ok Inl by (cases cause; simp add: run_server_def Let_def; fail)+
      have "\<forall>(l, sec) \<in> set bound. fs_denied F1 (tr_path (ls_transport l)) \<or> \<not> still_bound l F'"
        using K e(1) by force
      with b Inl e show ?thesis by auto
    qed
  qed
qed

theorem server_binds_all_or_nothing_witness:
  "\<exists>bound F'. run_server demo_lib demo_crypto (\<lambda>_. None) demo_net demo_host demo_unix_config demo_fs = (Inr bound, F')
     \<and> length bound = 1"
proof -
  have schema: "validate_config_schema demo_unix_config = Inr ()"
    by (simp add: schema_accepts demo_unix_config_def dkeys_def CONFIG_TABLE_KEYS_def CONFIG_TOP_LEVEL_KEYS_def CONFIG_SECURITY_KEYS_def)
  obtain k where k: "validate_security_config demo_unix_config = Inr k" using demo_knobs by blast
  obtain sec where sec: "build_security demo_unix_config ''server'' = Inr sec"
    by (simp add: build_security_def schema k) (simp add: demo_unix_config_def dget_or_def py_int_def parse_rules_def load_labels_def)
  have tr: "make_transport demo_lib demo_host demo_unix_config = Inr demo_transport"
    by (simp add: make_transport_def demo_unix_config_def unix_transport_def transport_init_def dget_or_def py_float_def
        DEFAULT_CONNECT_TIMEOUT_def resolve_read_timeouts_def DEFAULT_RECV_TIMEOUT_def DEFAULT_DECISION_TIMEOUT_def py_int_def
        expand_socket_path_def startswith_def lit_def demo_transport_def)
  obtain l F' where l: "listen demo_lib demo_crypto (\<lambda>_. None) demo_net demo_host demo_transport demo_fs = (Inr l, F')"
    using demo_listen_fs by blast
  have views: "listener_views demo_unix_config = Inr [demo_unix_config]"
    by (simp add: listener_views_def demo_unix_config_def)
  have doc: "check_document demo_unix_config = Inr ()"
    by (simp add: check_document_def demo_unix_config_def)
  have "run_server demo_lib demo_crypto (\<lambda>_. None) demo_net demo_host demo_unix_config demo_fs = (Inr [(l, sec)], F')"
    by (simp add: run_server_def doc views schema sec tr l)
  with server_binds_all_or_nothing [OF this views] show ?thesis by auto
qed

end
