(* ===== verification/Server.thy ===== *)
theory Server
  imports Transport
begin

text \<open>
  The server side of \<open>sudo-auth-proxy\<close>: what \<open>Handler\<close> does with one accepted connection, as the
  list of its visible events, and the connection slots of \<open>server_process_request\<close> and
  \<open>server_shutdown_request\<close> as a state machine. What one connection meets (its messages arrive
  as a stream; the dialogs, the clock and the outcome of each write are given per message) is
  the record \<open>session\<close>.
\<close>

section \<open>One connection\<close>

text \<open>
  Everything a connection depends on. \<open>se_dialogs\<close>, \<open>se_clock\<close> and \<open>se_writes\<close> are indexed by the
  number of the message; a message has at most two writes and two clock readings, the
  acknowledgement's and the answer's.
\<close>

record session =
  se_lib :: lib
  se_crypto :: crypto
  se_host :: host
  se_config :: dict
  se_security :: security
  se_transport :: transport
  se_sock :: sock
  se_dialogs :: "nat \<Rightarrow> dialogs"
  se_probe :: "pbytes option"
  se_clock :: "nat \<Rightarrow> bool \<Rightarrow> int"
  se_writes :: "nat \<Rightarrow> bool \<Rightarrow> bool"

text \<open>A frame sent, and a dialog shown with its outcome.\<close>

datatype event = EvSent dict | EvPrompt confirmation bool

text \<open>After a message the loop goes on, ends, or an exception leaves the handler.\<close>

datatype outcome = Again | Stop | Raise exn

definition send :: "session \<Rightarrow> nat \<Rightarrow> bool \<Rightarrow> dict \<Rightarrow> unit res" where
  "send V n answer msg =
     (case write_message (se_lib V) msg of Inl e \<Rightarrow> Inl e
      | Inr _ \<Rightarrow> if se_writes V n answer then Inr () else Inl (OSError ''write failed''))"

text \<open>A failed write ends the loop quietly only for the two exceptions the handler expects.\<close>

definition write_failed :: "exn \<Rightarrow> outcome" where
  "write_failed e = (case e of ProtocolError _ \<Rightarrow> Stop | OSError _ \<Rightarrow> Stop | _ \<Rightarrow> Raise e)"

definition approver_of :: "session \<Rightarrow> pyval" where
  "approver_of V =
     (if truthy (dget (se_config V) (lit ''approver'')) then dget (se_config V) (lit ''approver'')
      else PStr (case h_env (se_host V) (lit ''USER'') of Some u \<Rightarrow> u | None \<Rightarrow> []))"

definition dialog_program_of :: "session \<Rightarrow> pstr" where
  "dialog_program_of V =
     (if truthy (dget (se_config V) (lit ''dialog_program'')) then str_of (dget (se_config V) (lit ''dialog_program''))
      else if h_darwin (se_host V) then lit ''swiftdialog'' else lit ''zenity'')"

definition label_of :: "session \<Rightarrow> pstr \<Rightarrow> pstr" where
  "label_of V requester =
     (case map_of (s_labels (se_security V)) requester of Some l \<Rightarrow> l | None \<Rightarrow> [])"

text \<open>A listener name that is no string can only come from a flat document; it counts as empty.\<close>

definition request_conn :: "session \<Rightarrow> pstr \<Rightarrow> pstr \<Rightarrow> dict \<Rightarrow> conn" where
  "request_conn V peer requester request =
     (let service = str_of (dget request (lit ''service'')); target = str_of (dget request (lit ''target_user''));
          invoking = str_of (dget request (lit ''invoking_user''))
      in \<lparr>cn_identities = identity_candidates requester (label_of V requester) peer,
          cn_target_user = effective_target_user service target invoking,
          cn_invoking_user = invoking, cn_service = service,
          cn_listener = str_of (dget (se_config V) (lit ''name''))\<rparr>)"

definition peer_cert_der :: "session \<Rightarrow> pbytes option" where
  "peer_cert_der V =
     (if transport_encryption (se_security V) = lit ''mtls'' \<and> sk_tls (se_sock V) then peer_der (se_sock V) else None)"

definition authenticate :: "session \<Rightarrow> dict \<Rightarrow> pstr res" where
  "authenticate V request =
     authenticate_request (leaf_spki (se_crypto V)) request (se_security V) (peer_cert_der V)"

definition answer :: "session \<Rightarrow> nat \<Rightarrow> dict \<Rightarrow> pstr \<Rightarrow> dict res" where
  "answer V n request decision =
     build_response (se_lib V) (se_clock V n True) (dget request (lit ''nonce'')) decision (Some request)
       (Some (se_security V)) (approver_of V)"

text \<open>A rule decided: answer, and end the connection whether or not the answer could be written.\<close>

definition auto_reply :: "session \<Rightarrow> nat \<Rightarrow> dict \<Rightarrow> pstr \<Rightarrow> event list \<times> outcome" where
  "auto_reply V n request policy =
     (case answer V n request policy of Inl e \<Rightarrow> ([], Raise e)
      | Inr response \<Rightarrow> (case send V n True response of
          Inl e \<Rightarrow> ([], write_failed e)
        | Inr _ \<Rightarrow> ([EvSent response], Stop)))"

definition confirmation_of :: "session \<Rightarrow> pstr \<Rightarrow> nat \<Rightarrow> pstr \<Rightarrow> dict \<Rightarrow> confirmation" where
  "confirmation_of V peer n requester request =
     build_confirmation (se_lib V) peer requester (label_of V requester) request (tr_name (se_transport V))
       (se_clock V n False)"

text \<open>No rule decided: acknowledge, ask, answer.\<close>

definition ask :: "session \<Rightarrow> pstr \<Rightarrow> nat \<Rightarrow> pstr \<Rightarrow> dict \<Rightarrow> event list \<times> outcome" where
  "ask V peer n requester request =
     (let pending = build_pending (dget request (lit ''nonce'')) in
      case send V n False pending of
        Inl e \<Rightarrow> ([], write_failed e)
      | Inr _ \<Rightarrow>
          (let c = confirmation_of V peer n requester request in
           case prompt_for_confirmation (se_dialogs V n) (se_probe V) c (dialog_program_of V) of
             Inl e \<Rightarrow> ([EvSent pending], Raise e)
           | Inr allowed \<Rightarrow>
               (case answer V n request (if allowed then lit ''allow'' else lit ''deny'') of
                  Inl e \<Rightarrow> ([EvSent pending, EvPrompt c allowed], Raise e)
                | Inr response \<Rightarrow> (case send V n True response of
                    Inl e \<Rightarrow> ([EvSent pending, EvPrompt c allowed], write_failed e)
                  | Inr _ \<Rightarrow> ([EvSent pending, EvPrompt c allowed, EvSent response], Again)))))"

definition decide :: "session \<Rightarrow> pstr \<Rightarrow> pstr \<Rightarrow> dict \<Rightarrow> pstr" where
  "decide V peer requester request = evaluate_rules (s_rules (se_security V)) (request_conn V peer requester request)"

definition handle_request :: "session \<Rightarrow> pstr \<Rightarrow> nat \<Rightarrow> dict \<Rightarrow> event list \<times> outcome" where
  "handle_request V peer n request =
     (case authenticate V request of
        Inl (AuthError _) \<Rightarrow> ([], Stop)
      | Inl e \<Rightarrow> ([], Raise e)
      | Inr requester \<Rightarrow>
          (let policy = decide V peer requester request
           in if policy \<in> {lit ''allow'', lit ''deny''} then auto_reply V n request policy
              else ask V peer n requester request))"

text \<open>The exceptions of \<open>read_message\<close> and \<open>parse_request\<close> the loop expects.\<close>

definition read_failed :: "exn \<Rightarrow> outcome" where
  "read_failed e =
     (case e of ConnectionClosed \<Rightarrow> Stop | ProtocolError _ \<Rightarrow> Stop | OSError _ \<Rightarrow> Stop | _ \<Rightarrow> Raise e)"

definition parse_failed :: "exn \<Rightarrow> outcome" where
  "parse_failed e = (case e of ProtocolError _ \<Rightarrow> Stop | _ \<Rightarrow> Raise e)"

definition handle_message :: "session \<Rightarrow> pstr \<Rightarrow> nat \<Rightarrow> dict \<Rightarrow> event list \<times> outcome" where
  "handle_message V peer n message =
     (case parse_request message of
        Inl e \<Rightarrow> ([], parse_failed e)
      | Inr request \<Rightarrow> handle_request V peer n request)"

text \<open>Every message takes bytes off the stream, so the loop ends.\<close>

lemma readline_shorter:
  "readline cap st = Inr (line, st') \<Longrightarrow> line \<noteq> [] \<Longrightarrow> length (st_bytes st') < length (st_bytes st)"
  by (auto simp: readline_def Let_def split: if_splits)

lemma read_message_shorter:
  "read_message E st = Inr (m, st') \<Longrightarrow> length (st_bytes st') < length (st_bytes st)"
  by (auto simp: read_message_def split: sum.splits if_splits option.splits jerr.splits pyval.splits dest: readline_shorter)

function handle_loop :: "session \<Rightarrow> pstr \<Rightarrow> nat \<Rightarrow> stream \<Rightarrow> event list \<times> outcome" where
  "handle_loop V peer n st =
     (case read_message (se_lib V) st of
        Inl e \<Rightarrow> ([], read_failed e)
      | Inr (message, st') \<Rightarrow>
          (case handle_message V peer n message of
             (events, Again) \<Rightarrow>
               (case handle_loop V peer (Suc n) st' of (later, out) \<Rightarrow> (events @ later, out))
           | (events, out) \<Rightarrow> (events, out)))"
  by auto
termination
  by (relation "measure (\<lambda>(V, peer, n, st). length (st_bytes st))") (auto dest: read_message_shorter)

declare handle_loop.simps [simp del]

text \<open>
  \<open>Handler.handle\<close>: the checks made once per connection, then the loop. The name cache of the
  process is threaded through. Failed peer checks end the connection without an event.
\<close>

definition check_connection :: "session \<Rightarrow> unit res" where
  "check_connection V =
     (case check_peer_oid (se_crypto V) (peer_cert_der V) (required_peer_oid (se_config V)) of
        Inl e \<Rightarrow> Inl e
      | Inr _ \<Rightarrow> Inr ())"

definition refused :: "exn \<Rightarrow> outcome" where
  "refused e = (case e of ValueError _ \<Rightarrow> Stop | RuntimeError _ \<Rightarrow> Stop | _ \<Rightarrow> Raise e)"

definition unauthorized :: "exn \<Rightarrow> outcome" where
  "unauthorized e = (case e of RuntimeError _ \<Rightarrow> Stop | _ \<Rightarrow> Raise e)"

definition handle :: "session \<Rightarrow> int \<Rightarrow> mofos_cache \<Rightarrow> stream \<Rightarrow> (event list \<times> outcome) \<times> mofos_cache" where
  "handle V now cache st =
     (case check_connection V of
        Inl e \<Rightarrow> (([], refused e), cache)
      | Inr _ \<Rightarrow> (case get_peer_name (se_lib V) (se_host V) now cache (se_sock V)
                     (get_resolution_mode (se_config V)) (se_transport V) of
          Inl e \<Rightarrow> (([], Raise e), cache)
        | Inr (name, cache') \<Rightarrow>
            (let peer = sanitize_field (se_lib V) (PStr name)
             in case authorize_peer (se_host V) (se_transport V) (se_sock V) of
                  Inl e \<Rightarrow> (([], unauthorized e), cache')
                | Inr _ \<Rightarrow> (handle_loop V peer 0 st, cache'))))"

text \<open>\<open>Handler.setup\<close>: the handshake in the handler's thread.\<close>

definition setup_conn :: "net \<Rightarrow> ssl_ctx option \<Rightarrow> sock \<Rightarrow> sock res" where
  "setup_conn N ctx s =
     (case ctx of None \<Rightarrow> Inr s
      | Some c \<Rightarrow> (case net_wrap N c None s of Inl e \<Rightarrow> Inl e | Inr wrapped \<Rightarrow> Inr wrapped))"

text \<open>A handler thread: the handshake, then \<open>handle\<close> on the socket it left.\<close>

definition serve_connection ::
  "net \<Rightarrow> ssl_ctx option \<Rightarrow> session \<Rightarrow> int \<Rightarrow> mofos_cache \<Rightarrow> stream \<Rightarrow> (event list \<times> outcome) \<times> mofos_cache" where
  "serve_connection N ctx V now cache st =
     (case setup_conn N ctx (se_sock V) of
        Inl e \<Rightarrow> (([], Raise e), cache)
      | Inr s \<Rightarrow> handle (V\<lparr>se_sock := s\<rparr>) now cache st)"

section \<open>Connection slots\<close>

text \<open>
  The bounded semaphore and the requests being handled. \<open>Accept\<close> is \<open>server_process_request\<close> of a
  new connection, \<open>Finish\<close> is \<open>server_shutdown_request\<close> at the end of its handler or after its
  thread could not be started.
\<close>

record slots =
  sl_free :: nat
  sl_active :: "nat list"
  sl_refused :: "nat list"

datatype slot_event = Accept nat | Finish nat

definition process_request :: "nat \<Rightarrow> slots \<Rightarrow> slots" where
  "process_request conn s =
     (if sl_free s = 0 then s\<lparr>sl_refused := conn # sl_refused s\<rparr>
      else s\<lparr>sl_free := sl_free s - 1, sl_active := conn # sl_active s\<rparr>)"

text \<open>A bounded semaphore refuses to be released above its initial value.\<close>

definition shutdown_request :: "nat \<Rightarrow> nat \<Rightarrow> slots \<Rightarrow> slots res" where
  "shutdown_request bound conn s =
     (if bound \<le> sl_free s then Inl (ValueError ''Semaphore released too many times'')
      else Inr (s\<lparr>sl_free := Suc (sl_free s), sl_active := remove1 conn (sl_active s)\<rparr>))"

inductive slot_step :: "nat \<Rightarrow> slots \<Rightarrow> slot_event \<Rightarrow> slots \<Rightarrow> bool" for bound where
  accept: "conn \<notin> set (sl_active s) \<Longrightarrow> slot_step bound s (Accept conn) (process_request conn s)"
| finish: "conn \<in> set (sl_active s) \<Longrightarrow> shutdown_request bound conn s = Inr s' \<Longrightarrow> slot_step bound s (Finish conn) s'"

inductive slot_reach :: "nat \<Rightarrow> slots \<Rightarrow> bool" for bound where
  start: "slot_reach bound \<lparr>sl_free = bound, sl_active = [], sl_refused = []\<rparr>"
| step: "slot_reach bound s \<Longrightarrow> slot_step bound s e s' \<Longrightarrow> slot_reach bound s'"

inductive_cases slot_acceptE: "slot_step bound s (Accept conn) s'"
inductive_cases slot_finishE: "slot_step bound s (Finish conn) s'"

end
