(* ===== verification/Client.thy ===== *)
theory Client
  imports Transport
begin

text \<open>
  The client side of \<open>sudo-auth-proxy\<close>, the PAM hook: \<open>run_client\<close>, which always leaves by an
  exception, and whose exit code 0 is the only answer that lets the elevation through. What the
  run meets is the record \<open>client_env\<close>.
\<close>

text \<open>
  The nonce bytes are those of \<open>os.urandom(32)\<close>; \<open>ce_send\<close> is the outcome of \<open>sendall\<close>, \<open>ce_reply\<close>
  what then arrives on the connection, \<open>ce_now\<close> the clock when the response is verified.
\<close>

record client_env =
  ce_lib :: lib
  ce_crypto :: crypto
  ce_read :: "pstr \<Rightarrow> pbytes option"
  ce_net :: net
  ce_host :: host
  ce_config :: dict
  ce_random :: pbytes
  ce_send :: "pbytes \<Rightarrow> unit res"
  ce_reply :: "pbytes \<Rightarrow> stream"
  ce_now :: int

datatype client_event = GuardSet | Connected | SentRequest pbytes

definition RECURSION_GUARD_ENV :: pstr where
  "RECURSION_GUARD_ENV = lit ''SUDO_AUTH_PROXY_ACTIVE''"

definition env_get :: "host \<Rightarrow> string \<Rightarrow> pstr" where
  "env_get H name = (case h_env H (lit name) of Some v \<Rightarrow> v | None \<Rightarrow> [])"

definition recursion_guard_active :: "host \<Rightarrow> bool" where
  "recursion_guard_active H \<longleftrightarrow> (case h_env H RECURSION_GUARD_ENV of Some v \<Rightarrow> v \<noteq> [] | None \<Rightarrow> False)"

definition activate_recursion_guard :: "host \<Rightarrow> host" where
  "activate_recursion_guard H = H\<lparr>h_env := (h_env H)(RECURSION_GUARD_ENV \<mapsto> lit ''1'')\<rparr>"

fun first_nonempty :: "pstr list \<Rightarrow> pstr" where
  "first_nonempty [] = []"
| "first_nonempty (s # ss) = (if s \<noteq> [] then s else first_nonempty ss)"

record request_fields =
  rf_service :: pstr
  rf_target_user :: pstr
  rf_invoking_user :: pstr
  rf_rhost :: pstr
  rf_tty :: pstr
  rf_cwd :: pstr

definition collect_request_fields :: "host \<Rightarrow> request_fields" where
  "collect_request_fields H =
     \<lparr>rf_service = env_get H ''PAM_SERVICE'', rf_target_user = env_get H ''PAM_USER'',
      rf_invoking_user = first_nonempty [env_get H ''PAM_RUSER'', env_get H ''SUDO_USER'', env_get H ''USER'', env_get H ''LOGNAME''],
      rf_rhost = env_get H ''PAM_RHOST'', rf_tty = env_get H ''PAM_TTY'',
      rf_cwd = (case h_cwd H of Some d \<Rightarrow> d | None \<Rightarrow> [])\<rparr>"

definition or_else :: "pyval \<Rightarrow> pyval \<Rightarrow> pyval" where
  "or_else v dflt = (if truthy v then v else dflt)"

definition client_request :: "client_env \<Rightarrow> host \<Rightarrow> dict" where
  "client_request V H =
     (let f = collect_request_fields H
      in build_request (b64encode (ce_random V)) (rf_service f) (rf_target_user f) (rf_invoking_user f) (rf_rhost f)
           (rf_tty f) (rf_cwd f) (or_else (dget (ce_config V) (lit ''client_version'')) (PStr CLIENT_VERSION))
           (or_else (dget (ce_config V) (lit ''guest_hint'')) (PStr (h_hostname H))))"

text \<open>The frames after the request: an optional acknowledgement, then the response.\<close>

definition read_decision :: "lib \<Rightarrow> dict \<Rightarrow> stream \<Rightarrow> dict res" where
  "read_decision E request st =
     (case read_frame E st of Inl e \<Rightarrow> Inl e
      | Inr (first, st') \<Rightarrow>
          if dget first (lit ''type'') = PStr PENDING_TYPE then
            (case parse_pending first (dget request (lit ''nonce'')) of Inl e \<Rightarrow> Inl e
             | Inr _ \<Rightarrow> (case read_frame E st' of Inl e \<Rightarrow> Inl e | Inr (response, _) \<Rightarrow> Inr response))
          else Inr first)"

definition exchange :: "client_env \<Rightarrow> host \<Rightarrow> security \<Rightarrow> transport \<Rightarrow> (dict \<times> dict) res \<times> client_event list" where
  "exchange V H sec tr =
     (case attach_client_auth (client_request V H) sec of Inl e \<Rightarrow> (Inl e, [])
      | Inr request \<Rightarrow> (case write_message (ce_lib V) request of Inl e \<Rightarrow> (Inl e, [])
      | Inr outbound \<Rightarrow> (case ce_send V outbound of Inl e \<Rightarrow> (Inl e, [])
      | Inr _ \<Rightarrow> (case read_timeouts (ce_lib V) tr of Inl e \<Rightarrow> (Inl e, [SentRequest outbound])
      | Inr _ \<Rightarrow> (case read_decision (ce_lib V) request (ce_reply V outbound) of
          Inl e \<Rightarrow> (Inl e, [SentRequest outbound])
        | Inr response \<Rightarrow> (Inr (request, response), [SentRequest outbound]))))))"

text \<open>\<open>_fail_unavailable\<close> ends the process with code 1; an unexpected exception goes through.\<close>

definition unavailable :: "exn \<Rightarrow> exn" where
  "unavailable e =
     (case e of ProtocolError _ \<Rightarrow> SystemExit 1 | AuthError _ \<Rightarrow> SystemExit 1 | ConnectionClosed \<Rightarrow> SystemExit 1
      | OSError _ \<Rightarrow> SystemExit 1 | _ \<Rightarrow> e)"

definition rejected :: "exn \<Rightarrow> exn" where
  "rejected e = (case e of ProtocolError _ \<Rightarrow> SystemExit 1 | AuthError _ \<Rightarrow> SystemExit 1 | _ \<Rightarrow> e)"

definition misconfigured :: "exn \<Rightarrow> exn" where
  "misconfigured e = (case e of SecurityConfigError _ \<Rightarrow> SystemExit 1 | AuthError _ \<Rightarrow> SystemExit 1 | _ \<Rightarrow> e)"

definition connect_failed :: "exn \<Rightarrow> exn" where
  "connect_failed e = (case e of SystemExit n \<Rightarrow> SystemExit n | _ \<Rightarrow> SystemExit 1)"

text \<open>On \<open>unix\<close> the path comes from the selector and is checked before the connection is made.\<close>

definition client_transport :: "client_env \<Rightarrow> host \<Rightarrow> transport res" where
  "client_transport V H =
     (case make_transport (ce_lib V) H (ce_config V) of Inl e \<Rightarrow> Inl e
      | Inr tr \<Rightarrow>
          if tr_name tr \<noteq> lit ''unix'' then Inr tr
          else if env_get H ''SUDO_AUTH_PROXY_SOCK'' = [] then Inl (SystemExit 1)
          else (case unix_transport (ce_lib V) H (ce_config V) (Some (env_get H ''SUDO_AUTH_PROXY_SOCK'')) of Inl e \<Rightarrow> Inl e
            | Inr tr' \<Rightarrow> (case verify_selector_socket H (tr_path tr') of
                Inl (RuntimeError _) \<Rightarrow> Inl (SystemExit 1)
              | Inl e \<Rightarrow> Inl e
              | Inr _ \<Rightarrow> Inr tr')))"

definition decide_exit :: "client_env \<Rightarrow> security \<Rightarrow> dict \<Rightarrow> dict \<Rightarrow> exn" where
  "decide_exit V sec request response =
     (case verify_response (ce_lib V) (ce_now V) response request sec (Some {}) of
        Inl e \<Rightarrow> rejected e
      | Inr (decision, _) \<Rightarrow> if decision = PStr (lit ''allow'') then SystemExit 0 else SystemExit 1)"

definition run_connected :: "client_env \<Rightarrow> host \<Rightarrow> security \<Rightarrow> transport \<Rightarrow> sock \<Rightarrow> exn \<times> client_event list" where
  "run_connected V H sec tr s =
     (if tr_name tr = lit ''unix'' \<and> verify_unix_peer_is_sshd H s None = Some False then (SystemExit 1, [])
      else (case exchange V H sec tr of
          (Inl e, events) \<Rightarrow> (unavailable e, events)
        | (Inr (request, response), events) \<Rightarrow> (decide_exit V sec request response, events)))"

definition run_client :: "client_env \<Rightarrow> exn \<times> client_event list" where
  "run_client V =
     (if recursion_guard_active (ce_host V) then (SystemExit 1, [])
      else (let H = activate_recursion_guard (ce_host V) in
        case client_transport V H of Inl e \<Rightarrow> (e, [GuardSet])
        | Inr tr \<Rightarrow> (case build_security (ce_config V) ''client'' of Inl e \<Rightarrow> (misconfigured e, [GuardSet])
        | Inr sec \<Rightarrow> (case describe H tr of Inl e \<Rightarrow> (e, [GuardSet])
        | Inr _ \<Rightarrow> (case connect (ce_lib V) (ce_crypto V) (ce_read V) (ce_net V) H tr of
            Inl e \<Rightarrow> (connect_failed e, [GuardSet])
          | Inr s \<Rightarrow>
              (let (e, events) = run_connected V H sec tr s
               in (e, GuardSet # Connected # events)))))))"

text \<open>The exit code of the process: an exception that is no \<open>SystemExit\<close> is a traceback and code 1.\<close>

definition exit_code :: "exn \<Rightarrow> int" where
  "exit_code e = (case e of SystemExit n \<Rightarrow> n | _ \<Rightarrow> 1)"

section \<open>The whole program\<close>

text \<open>
  \<open>load_config\<close>: the certificate paths of \<open>[mtls]\<close>, in the document and in every listener entry, are
  resolved against the directory of the configuration file. The parsed document is given.
\<close>

definition resolve_path :: "(pstr \<Rightarrow> pstr option) \<Rightarrow> ppath \<Rightarrow> pyval \<Rightarrow> pyval" where
  "resolve_path home config_dir value =
     (case value of
        PStr s \<Rightarrow>
          if startswith (lit ''~/'') s then PStr (expanduser home s)
          else if \<not> path_absolute (path_of s) then PStr (path_str (path_div config_dir (path_of s)))
          else PStr (path_str (path_of s))
      | v \<Rightarrow> v)"

fun resolve_keys :: "(pstr \<Rightarrow> pstr option) \<Rightarrow> ppath \<Rightarrow> pstr list \<Rightarrow> dict \<Rightarrow> dict" where
  "resolve_keys home config_dir [] mtls = mtls"
| "resolve_keys home config_dir (key # keys) mtls =
     resolve_keys home config_dir keys
       (if truthy (dget mtls key) then dset mtls key (resolve_path home config_dir (dget mtls key)) else mtls)"

definition MTLS_PATH_KEYS :: "pstr list" where
  "MTLS_PATH_KEYS = [lit ''ca_file'', lit ''cert_file'', lit ''key_file'']"

definition resolve_tables :: "(pstr \<Rightarrow> pstr option) \<Rightarrow> ppath \<Rightarrow> dict \<Rightarrow> dict" where
  "resolve_tables home config_dir container =
     (case dget container (lit ''mtls'') of
        PDict mtls \<Rightarrow> dset container (lit ''mtls'') (PDict (resolve_keys home config_dir MTLS_PATH_KEYS mtls))
      | _ \<Rightarrow> container)"

definition resolve_entry :: "(pstr \<Rightarrow> pstr option) \<Rightarrow> ppath \<Rightarrow> pyval \<Rightarrow> pyval" where
  "resolve_entry home config_dir entry =
     (case entry of PDict d \<Rightarrow> PDict (resolve_tables home config_dir d) | v \<Rightarrow> v)"

definition resolve_config :: "(pstr \<Rightarrow> pstr option) \<Rightarrow> ppath \<Rightarrow> dict \<Rightarrow> dict" where
  "resolve_config home config_dir config =
     (let top = resolve_tables home config_dir config
      in case dget top (lit ''listeners'') of
           PList entries \<Rightarrow> dset top (lit ''listeners'') (PList (map (resolve_entry home config_dir) entries))
         | _ \<Rightarrow> top)"

text \<open>What \<open>main\<close> does with a loaded configuration: refuse it, serve, or run the client.\<close>

datatype program = Exits exn | Serves dict | RunsClient dict

definition main_program :: "dict \<Rightarrow> program" where
  "main_program config =
     (case validate_document_schema config of
        Inl (SecurityConfigError _) \<Rightarrow> Exits (SystemExit 1)
      | Inl e \<Rightarrow> Exits e
      | Inr _ \<Rightarrow>
          (let mode = dget config (lit ''mode'')
           in if mode = PNone then Exits (SystemExit 1)
              else if mode = PStr (lit ''server'') then Serves config
              else if mode = PStr (lit ''client'') then RunsClient config
              else Exits (SystemExit 1)))"

end
