(* ===== verification/Demo.thy ===== *)
theory Demo
  imports Server Listen Policy Prompt
begin

text \<open>
  A concrete connection, used to show that the hypotheses of the properties of a connection can
  hold: one request on the wire, a listener that identifies nobody, a rule or an approver.
\<close>

section \<open>A concrete session\<close>

definition short_lib :: lib where
  "short_lib = demo_lib\<lparr>sha256_hex := (\<lambda>_. lit ''5a'')\<rparr>"

text \<open>A listener without certificates, one rule, an approver who presses the right buttons.\<close>

definition demo_open :: security where
  "demo_open = demo_security\<lparr>transport_encryption := lit ''none'', client_auth := lit ''none'', server_auth := lit ''none''\<rparr>"

definition demo_session :: "rule list \<Rightarrow> session" where
  "demo_session rules = \<lparr>se_lib = short_lib, se_crypto = demo_crypto, se_host = demo_host,
     se_config = [(lit ''name'', PStr (lit ''k'')), (lit ''dialog_program'', PStr (lit ''osascript'')),
        (lit ''resolution'', PStr (lit ''none''))],
     se_security = demo_open\<lparr>s_rules := rules\<rparr>, se_transport = demo_transport, se_sock = demo_sock,
     se_dialogs = (\<lambda>_. demo_dialogs), se_probe = None, se_clock = (\<lambda>_ _. 100), se_writes = (\<lambda>_ _. True)\<rparr>"

definition marked_request :: dict where
  "marked_request = build_request demo_nonce (lit ''sudo'') (lit ''bob'') (lit ''bob'') [] [] [] (PStr CLIENT_VERSION) (PStr (lit ''vm''))
     @ [(lit ''client_auth'', PDict [(lit ''method'', PStr (lit ''none''))])]"

lemmas marked_request_defs = marked_request_def build_request_def PROTOCOL_VERSION_def CLIENT_VERSION_def demo_nonce_def

definition demo_bytes :: pbytes where
  "demo_bytes = (case write_message short_lib marked_request of Inl e \<Rightarrow> [] | Inr b \<Rightarrow> b)"

lemma demo_bytes: "write_message short_lib marked_request = Inr demo_bytes"
proof -
  have "\<exists>b. write_message short_lib marked_request = Inr b"
    by (simp add: frame_eval marked_request_defs)
  then show ?thesis by (auto simp: demo_bytes_def)
qed

lemma json_ok_marked_request: "json_ok (PDict marked_request)"
  by (simp add: marked_request_defs nat_repr.simps max_int_digits_def)

lemma marked_request_nonce [simp]: "dget marked_request (lit ''nonce'') = PStr demo_nonce"
  by (simp add: marked_request_defs)

lemma wf_marked_request: "wf_request marked_request"
proof -
  have "wf_request demo_request" by (rule wf_demo_request)
  then have "\<exists>raw. b64decode demo_nonce = Some raw \<and> 16 \<le> length raw"
    by (simp add: wf_request_def)
  then show ?thesis
    by (simp add: wf_request_def marked_request_def build_request_def PROTOCOL_VERSION_def CLIENT_VERSION_def REQUEST_REQUIRED_FIELDS_def)
qed

lemma demo_message:
  "read_message short_lib \<lparr>st_bytes = demo_bytes @ rest, st_fails = f\<rparr> = Inr (marked_request, \<lparr>st_bytes = rest, st_fails = f\<rparr>)"
  by (rule read_written [OF json_ok_marked_request demo_bytes])

lemma demo_authenticates: "authenticate (demo_session rules) marked_request = Inr NONE_IDENTITY"
  by (simp add: authenticate_def authenticate_request_def demo_session_def demo_open_def demo_security_def marked_request_def
      build_request_def)

lemma demo_answer:
  "\<exists>frame. answer (demo_session rules) n marked_request decision = Inr frame
     \<and> frame = [(lit ''v'', PInt 1), (lit ''type'', PStr (lit ''auth_response'')), (lit ''nonce'', PStr demo_nonce),
         (lit ''decision'', PStr decision), (lit ''request_digest'', PStr (lit ''5a'')),
         (lit ''issued_at'', PInt 100), (lit ''expires_at'', PInt 130)]"
proof -
  have "\<exists>b. canonical_bytes short_lib marked_request = Inr b"
    by (intro canonical_bytes_ok json_ok_marked_request) (simp add: marked_request_defs)
  then have "compute_request_digest short_lib marked_request = Inr (lit ''5a'')"
    by (auto simp: compute_request_digest_Inr short_lib_def)
  then show ?thesis
    by (simp add: answer_def build_response_def demo_session_def demo_open_def demo_security_def approver_of_def
        demo_host_def PROTOCOL_VERSION_def)
qed

lemma demo_writes:
  "\<exists>b. write_message short_lib (build_pending (PStr demo_nonce)) = Inr b"
  "\<exists>b. write_message short_lib [(lit ''v'', PInt 1), (lit ''type'', PStr (lit ''auth_response'')), (lit ''nonce'', PStr demo_nonce),
         (lit ''decision'', PStr (lit ''allow'')), (lit ''request_digest'', PStr (lit ''5a'')),
         (lit ''issued_at'', PInt 100), (lit ''expires_at'', PInt 130)] = Inr b"
  subgoal by (simp add: frame_eval build_pending_def PENDING_TYPE_def PROTOCOL_VERSION_def demo_nonce_def)
  subgoal by (simp add: frame_eval PENDING_TYPE_def PROTOCOL_VERSION_def demo_nonce_def)
  done

text \<open>The first message of the demo stream, under a rule and under none.\<close>

lemma demo_ruled:
  assumes "rules = [catch_all (lit ''allow'')]"
  shows "\<exists>frame. handle_loop (demo_session rules) [] 0 \<lparr>st_bytes = demo_bytes, st_fails = False\<rparr> = ([EvSent frame], Stop)
    \<and> dget frame (lit ''decision'') = PStr (lit ''allow'')"
proof -
  have m: "read_message short_lib \<lparr>st_bytes = demo_bytes, st_fails = False\<rparr> = Inr (marked_request, \<lparr>st_bytes = [], st_fails = False\<rparr>)"
    using demo_message [of "[]" False] by simp
  have d: "decide (demo_session rules) [] NONE_IDENTITY marked_request = lit ''allow''"
    using assms by (simp add: decide_def demo_session_def)
  obtain frame where f: "answer (demo_session rules) 0 marked_request (lit ''allow'') = Inr frame"
    "dget frame (lit ''decision'') = PStr (lit ''allow'')" "is_ok (write_message short_lib frame)"
    using demo_answer [of rules 0 "lit ''allow''"] demo_writes(2) by auto
  then have "send (demo_session rules) 0 True frame = Inr ()"
    by (cases "write_message short_lib frame") (simp_all add: send_def demo_session_def)
  with f m d show ?thesis
    using wf_marked_request demo_authenticates [of rules]
    by (simp add: handle_loop.simps handle_message_def handle_request_def parse_request_Inr_iff [THEN iffD2] auto_reply_def
        demo_session_def [of rules, THEN arg_cong [where f = se_lib]])
qed

lemma demo_dialog:
  "prompt_for_confirmation demo_dialogs None c (lit ''osascript'') = Inr True"
proof -
  have "contains (lit ''Details'') (lit ''button returned:Details'')"
    "contains (lit ''Authorize'') (lit ''button returned:Authorize'')"
    by code_simp+
  then show ?thesis
    by (simp add: prompt_for_confirmation_def prompt_osascript_def demo_dialogs_def)
qed

lemma demo_asked:
  "\<exists>c frame. handle_loop (demo_session []) peer 0 \<lparr>st_bytes = demo_bytes, st_fails = False\<rparr> =
     ([EvSent (build_pending (PStr demo_nonce)), EvPrompt c True, EvSent frame], Stop)"
proof -
  have m: "read_message short_lib \<lparr>st_bytes = demo_bytes, st_fails = False\<rparr> = Inr (marked_request, \<lparr>st_bytes = [], st_fails = False\<rparr>)"
    using demo_message [of "[]" False] by simp
  have e: "read_message short_lib \<lparr>st_bytes = [], st_fails = False\<rparr> = Inl ConnectionClosed"
    by (simp add: read_message_def readline_def MAX_MESSAGE_BYTES_def)
  have d: "decide (demo_session []) peer NONE_IDENTITY marked_request = lit ''ask''"
    by (simp add: decide_def demo_session_def)
  have lib: "se_lib (demo_session rules) = short_lib" for rules by (simp add: demo_session_def)
  obtain frame where f: "answer (demo_session []) 0 marked_request (lit ''allow'') = Inr frame"
    "is_ok (write_message short_lib frame)"
    using demo_answer [of "[]" 0 "lit ''allow''"] demo_writes(2) by auto
  then have s: "send (demo_session []) 0 True frame = Inr ()"
    by (cases "write_message short_lib frame") (simp_all add: send_def demo_session_def)
  have p: "send (demo_session []) 0 False (build_pending (PStr demo_nonce)) = Inr ()"
    using demo_writes(1) by (auto simp: send_def demo_session_def)
  have q: "prompt_for_confirmation (se_dialogs (demo_session []) 0) (se_probe (demo_session [])) c
      (dialog_program_of (demo_session [])) = Inr True" for c
    using demo_dialog by (simp add: dialog_program_of_def demo_session_def)
  have "handle_message (demo_session []) peer 0 marked_request =
     ([EvSent (build_pending (PStr demo_nonce)), EvPrompt (confirmation_of (demo_session []) peer 0 NONE_IDENTITY marked_request) True,
       EvSent frame], Again)"
    using wf_marked_request demo_authenticates [of "[]"] d
    by (simp add: handle_message_def handle_request_def parse_request_Inr_iff [THEN iffD2] ask_def q f s p)
  then show ?thesis
    by (simp add: handle_loop.simps lib m e read_failed_def)
qed

end
