(* ===== verification/Decisions.thy ===== *)
theory Decisions
  imports Demo
begin

text \<open>
  What one connection of \<open>sudo-auth-proxy\<close>'s server may show: the abstract conversation every
  run of the handler is an instance of, and the safety properties that follow from it by rule
  induction; the invariant of the connection slots.
\<close>

section \<open>The abstract conversation\<close>

text \<open>An answer to a request that could be written: the request's own nonce and digest, a decision.\<close>

definition answers :: "session \<Rightarrow> dict \<Rightarrow> pstr \<Rightarrow> dict \<Rightarrow> bool" where
  "answers V request decision frame \<longleftrightarrow>
     (\<exists>n. answer V n request decision = Inr frame) \<and> is_ok (write_message (se_lib V) frame)"

definition acknowledges :: "session \<Rightarrow> dict \<Rightarrow> dict \<Rightarrow> bool" where
  "acknowledges V request frame \<longleftrightarrow>
     frame = build_pending (dget request (lit ''nonce'')) \<and> is_ok (write_message (se_lib V) frame)"

definition admitted :: "session \<Rightarrow> dict \<Rightarrow> pstr \<Rightarrow> bool" where
  "admitted V request requester \<longleftrightarrow> wf_request request \<and> authenticate V request = Inr requester"

definition asked :: "session \<Rightarrow> pstr \<Rightarrow> dict \<Rightarrow> pstr \<Rightarrow> confirmation \<Rightarrow> bool \<Rightarrow> bool" where
  "asked V peer request requester c allowed \<longleftrightarrow>
     admitted V request requester \<and>
     decide V peer requester request \<notin> {lit ''allow'', lit ''deny''} \<and>
     (\<exists>n. c = confirmation_of V peer n requester request \<and>
        prompt_for_confirmation (se_dialogs V n) (se_probe V) c (dialog_program_of V) = Inr allowed)"

text \<open>The messages that can be read off a stream, in order.\<close>

function received :: "lib \<Rightarrow> stream \<Rightarrow> dict list" where
  "received E st = (case read_message E st of Inl e \<Rightarrow> [] | Inr (message, st') \<Rightarrow> message # received E st')"
  by auto
termination
  by (relation "measure (\<lambda>(E, st). length (st_bytes st))") (auto dest: read_message_shorter)

declare received.simps [simp del]

text \<open>
  A connection is a sequence of rounds, one per message. A round a rule decides is one answer,
  and it is the last. Any other round is the acknowledgement, the dialog and the answer that
  dialog gave; it may break off after each of the three, and only a whole one may be followed
  by the round of the next message.
\<close>

inductive conversation :: "session \<Rightarrow> pstr \<Rightarrow> dict list \<Rightarrow> event list \<Rightarrow> bool" for V peer where
  silent: "conversation V peer messages []"
| ruled: "admitted V request requester \<Longrightarrow> decide V peer requester request = decision \<Longrightarrow>
     decision \<in> {lit ''allow'', lit ''deny''} \<Longrightarrow> answers V request decision frame \<Longrightarrow>
     conversation V peer (request # messages) [EvSent frame]"
| unanswered: "admitted V request requester \<Longrightarrow>
     decide V peer requester request \<notin> {lit ''allow'', lit ''deny''} \<Longrightarrow> acknowledges V request pending \<Longrightarrow>
     conversation V peer (request # messages) [EvSent pending]"
| unreported: "asked V peer request requester c allowed \<Longrightarrow> acknowledges V request pending \<Longrightarrow>
     conversation V peer (request # messages) [EvSent pending, EvPrompt c allowed]"
| round: "asked V peer request requester c allowed \<Longrightarrow> acknowledges V request pending \<Longrightarrow>
     answers V request (if allowed then lit ''allow'' else lit ''deny'') frame \<Longrightarrow>
     conversation V peer messages later \<Longrightarrow>
     conversation V peer (request # messages) (EvSent pending # EvPrompt c allowed # EvSent frame # later)"

section \<open>The handler implements it\<close>

text \<open>The events of a message after which the loop goes on.\<close>

definition whole_round :: "session \<Rightarrow> pstr \<Rightarrow> dict \<Rightarrow> event list \<Rightarrow> bool" where
  "whole_round V peer request events \<longleftrightarrow>
     (\<exists>requester c allowed pending frame. asked V peer request requester c allowed
        \<and> acknowledges V request pending
        \<and> answers V request (if allowed then lit ''allow'' else lit ''deny'') frame
        \<and> events = [EvSent pending, EvPrompt c allowed, EvSent frame])"

definition conforms :: "session \<Rightarrow> pstr \<Rightarrow> dict \<Rightarrow> event list \<times> outcome \<Rightarrow> bool" where
  "conforms V peer request run \<longleftrightarrow>
     (if snd run = Again then whole_round V peer request (fst run)
      else \<forall>messages. conversation V peer (request # messages) (fst run))"

lemma failed_not_again [simp]:
  "write_failed e \<noteq> Again" "read_failed e \<noteq> Again" "parse_failed e \<noteq> Again" "refused e \<noteq> Again" "unauthorized e \<noteq> Again"
  by (cases e; simp add: write_failed_def read_failed_def parse_failed_def refused_def unauthorized_def)+

lemma send_Inr: "send V n w frame = Inr () \<Longrightarrow> is_ok (write_message (se_lib V) frame)"
  by (auto simp: send_def split: sum.splits)

lemma answerI:
  "answer V n request decision = Inr frame \<Longrightarrow> send V n' w frame = Inr () \<Longrightarrow> answers V request decision frame"
  by (auto simp: answers_def dest: send_Inr)

lemma silent_conforms [simp]: "out \<noteq> Again \<Longrightarrow> conforms V peer request ([], out)"
  by (simp add: conforms_def conversation.silent)

lemma auto_reply_conforms:
  assumes "admitted V request requester" and "decide V peer requester request = decision"
    and "decision \<in> {lit ''allow'', lit ''deny''}"
  shows "conforms V peer request (auto_reply V n request decision)"
proof (cases "answer V n request decision")
  case (Inr frame)
  show ?thesis
  proof (cases "send V n True frame")
    case sent: (Inr u)
    have "conversation V peer (request # messages) [EvSent frame]" for messages
      by (rule conversation.ruled [OF assms answerI [OF Inr]]) (use sent in simp)
    with Inr sent show ?thesis by (simp add: auto_reply_def conforms_def)
  qed (use Inr in \<open>simp add: auto_reply_def\<close>)
qed (simp add: auto_reply_def)

lemma ask_conforms:
  assumes "admitted V request requester" and "decide V peer requester request \<notin> {lit ''allow'', lit ''deny''}"
  shows "conforms V peer request (ask V peer n requester request)"
proof (cases "send V n False (build_pending (dget request (lit ''nonce'')))")
  case (Inl e)
  then show ?thesis by (simp add: ask_def)
next
  case pending: (Inr u)
  let ?pending = "build_pending (dget request (lit ''nonce''))"
  have ack: "acknowledges V request ?pending"
    using send_Inr [of V n False ?pending] pending by (simp add: acknowledges_def)
  let ?c = "confirmation_of V peer n requester request"
  show ?thesis
  proof (cases "prompt_for_confirmation (se_dialogs V n) (se_probe V) ?c (dialog_program_of V)")
    case (Inl e)
    then show ?thesis
      using conversation.unanswered [OF assms ack] pending by (simp add: ask_def Let_def conforms_def)
  next
    case dialog: (Inr allowed)
    then have asked: "asked V peer request requester ?c allowed"
      using assms by (auto simp: asked_def)
    let ?decision = "if allowed then lit ''allow'' else lit ''deny''"
    note part = conversation.unreported [OF asked ack]
    show ?thesis
    proof (cases "answer V n request ?decision")
      case (Inl e)
      then show ?thesis
        using part by (simp add: ask_def Let_def pending dialog conforms_def)
    next
      case (Inr frame)
      show ?thesis
      proof (cases "send V n True frame")
        case sent: (Inr u)
        then have "answers V request ?decision frame" using answerI [OF Inr, of n True] by simp
        then have "whole_round V peer request [EvSent ?pending, EvPrompt ?c allowed, EvSent frame]"
          unfolding whole_round_def using asked ack by blast
        then show ?thesis using Inr sent by (simp add: ask_def Let_def pending dialog conforms_def)
      qed (use part Inr in \<open>simp add: ask_def Let_def pending dialog conforms_def\<close>)
    qed
  qed
qed

lemma handle_message_conforms: "conforms V peer message (handle_message V peer n message)"
proof (cases "parse_request message")
  case (Inl e)
  then show ?thesis by (simp add: handle_message_def)
next
  case (Inr request)
  then have r: "parse_request message = Inr message" "wf_request message" by (simp_all add: parse_request_Inr_iff)
  show ?thesis
  proof (cases "authenticate V message")
    case (Inl e)
    then show ?thesis using r by (cases e) (simp_all add: handle_message_def handle_request_def)
  next
    case who: (Inr requester)
    then have adm: "admitted V message requester" using r by (simp add: admitted_def)
    show ?thesis
      using auto_reply_conforms [OF adm refl] ask_conforms [OF adm, of peer] r who
      by (simp add: handle_message_def handle_request_def Let_def)
  qed
qed

lemma handle_loop_again:
  assumes "read_message (se_lib V) st = Inr (message, st')" and "handle_message V peer n message = (events, out)"
  shows "handle_loop V peer n st =
     (if out = Again then (events @ fst (handle_loop V peer (Suc n) st'), snd (handle_loop V peer (Suc n) st'))
      else (events, out))"
  using assms by (cases out; cases "handle_loop V peer (Suc n) st'") (simp_all add: handle_loop.simps [of V peer n st])

lemma handle_loop_conversation:
  "conversation V peer (received (se_lib V) st) (fst (handle_loop V peer n st)) \<and> snd (handle_loop V peer n st) \<noteq> Again"
proof (induction V peer n st rule: handle_loop.induct)
  case (1 V peer n st)
  show ?case
  proof (cases "read_message (se_lib V) st")
    case (Inl e)
    then show ?thesis by (simp add: handle_loop.simps conversation.silent)
  next
    case (Inr ms)
    obtain message st' where ms: "read_message (se_lib V) st = Inr (message, st')" using Inr by (cases ms) simp
    have rest: "received (se_lib V) st = message # received (se_lib V) st'" using ms by (simp add: received.simps [of _ st])
    obtain events out where h: "handle_message V peer n message = (events, out)" by force
    have c: "conforms V peer message (events, out)" using handle_message_conforms [of V peer message n] h by simp
    show ?thesis
    proof (cases "out = Again")
      case True
      have "conversation V peer (received (se_lib V) st') (fst (handle_loop V peer (Suc n) st')) \<and> snd (handle_loop V peer (Suc n) st') \<noteq> Again"
        using "1.IH" [OF ms refl h [symmetric] True] .
      moreover have "whole_round V peer message events" using c True by (simp add: conforms_def)
      ultimately show ?thesis
        unfolding handle_loop_again [OF ms h] rest using True
        by (auto simp: whole_round_def intro: conversation.round)
    next
      case False
      then show ?thesis using c by (simp add: handle_loop_again [OF ms h] rest conforms_def)
    qed
  qed
qed

section \<open>Properties of a connection\<close>

text \<open>
  C6: Every connection follows the abstract protocol, and ends. A connection that shows anything
  at all passed the certificate pin and the peer check and had its name resolved; what it shows
  is a conversation about the messages of its stream, one round per message in order, and the
  handler returns after finitely many of them.
\<close>

theorem handler_follows_protocol:
  assumes "handle V now cache st = ((events, out), cache')"
  shows "out \<noteq> Again \<and> (events = [] \<or>
     check_connection V = Inr () \<and> is_ok (authorize_peer (se_host V) (se_transport V) (se_sock V)) \<and>
     (\<exists>name. get_peer_name (se_lib V) (se_host V) now cache (se_sock V)
          (get_resolution_mode (se_config V)) (se_transport V) = Inr (name, cache')
        \<and> conversation V (sanitize_field (se_lib V) (PStr name)) (received (se_lib V) st) events))"
proof (cases "check_connection V")
  case (Inl e)
  then show ?thesis using assms by (auto simp: handle_def)
next
  case (Inr u)
  show ?thesis
  proof (cases "get_peer_name (se_lib V) (se_host V) now cache (se_sock V)
      (get_resolution_mode (se_config V)) (se_transport V)")
    case (Inl e)
    then show ?thesis using assms Inr by (auto simp: handle_def)
  next
    case name: (Inr nc)
    then show ?thesis
      using assms Inr handle_loop_conversation [of V "sanitize_field (se_lib V) (PStr (fst nc))" st 0]
      by (cases "authorize_peer (se_host V) (se_transport V) (se_sock V)"; cases nc)
        (auto simp: handle_def Let_def)
  qed
qed

theorem handler_follows_protocol_witness:
  "\<exists>events out cache. handle (demo_session []) 0 None \<lparr>st_bytes = demo_bytes, st_fails = False\<rparr> = ((events, out), cache)
     \<and> events \<noteq> [] \<and> out \<noteq> Again \<and> is_ok (authorize_peer demo_host demo_transport demo_sock)"
proof -
  let ?run = "handle (demo_session []) 0 None \<lparr>st_bytes = demo_bytes, st_fails = False\<rparr>"
  have "authorize_peer demo_host demo_transport demo_sock = Inr (Some 1000)"
    by (simp add: authorize_peer_def is_callback_def demo_unix(1) authorize_unix_peer_def unix_peer_cred_def demo_host_def demo_sock_def)
  moreover have "peer_label demo_transport demo_sock = Inr (unix_peer_label demo_sock)"
    by (simp add: peer_label_def is_callback_def demo_unix)
  ultimately have "fst (fst ?run) \<noteq> []"
    using demo_asked [of "sanitize_field short_lib (PStr (unix_peer_label demo_sock))"]
    by (auto simp: handle_def demo_session_def check_connection_def check_peer_oid_def required_peer_oid_def
        get_resolution_mode_def get_peer_name_def Let_def)
  with handler_follows_protocol [of "demo_session []" 0 None "\<lparr>st_bytes = demo_bytes, st_fails = False\<rparr>" "fst (fst ?run)" "snd (fst ?run)" "snd ?run"]
  show ?thesis by (cases ?run) (auto simp: demo_session_def)
qed

text \<open>The two reasons to allow a request: a rule, or the human who was shown it.\<close>

definition justified :: "session \<Rightarrow> pstr \<Rightarrow> dict \<Rightarrow> pstr \<Rightarrow> bool" where
  "justified V peer request requester \<longleftrightarrow>
     decide V peer requester request = lit ''allow''
     \<or> decide V peer requester request \<noteq> lit ''deny'' \<and>
       (\<exists>n. prompt_for_confirmation (se_dialogs V n) (se_probe V) (confirmation_of V peer n requester request)
          (dialog_program_of V) = Inr True)"

lemma ruled_justified: "decide V peer requester request = lit ''allow'' \<Longrightarrow> justified V peer request requester"
  by (simp add: justified_def)

lemma asked_justified: "asked V peer request requester c True \<Longrightarrow> justified V peer request requester"
  by (auto simp: justified_def asked_def)

lemma answers_fields:
  assumes "answers V request decision frame"
  shows "dget frame (lit ''decision'') = PStr decision" "dget frame (lit ''nonce'') = dget request (lit ''nonce'')"
    "\<exists>h. compute_request_digest (se_lib V) request = Inr h \<and> dget frame (lit ''request_digest'') = PStr h"
  using assms by (auto simp: answers_def answer_def elim: build_response_fields)

lemma allow_justified:
  assumes "EvSent frame \<in> set (fst (handle_loop V peer n st))"
    and "dget frame (lit ''decision'') = PStr (lit ''allow'')"
  shows "\<exists>request \<in> set (received (se_lib V) st). \<exists>requester.
     wf_request request \<and> authenticate V request = Inr requester \<and>
     dget frame (lit ''nonce'') = dget request (lit ''nonce'') \<and>
     (\<exists>h. compute_request_digest (se_lib V) request = Inr h \<and> dget frame (lit ''request_digest'') = PStr h) \<and>
     justified V peer request requester"
proof -
  have pending: "acknowledges V request frame \<Longrightarrow> dget frame (lit ''decision'') \<noteq> PStr (lit ''allow'')" for request frame
    by (auto simp: acknowledges_def build_pending_def)
  have "conversation V peer (received (se_lib V) st) (fst (handle_loop V peer n st))"
    using handle_loop_conversation by blast
  then show ?thesis
    using assms
  proof induction
    case (ruled request requester decision frame' messages)
    then have "answers V request decision frame" by simp
    from answers_fields [OF this] ruled show ?case
      by (intro bexI [of _ request] exI [of _ requester]) (auto simp: admitted_def intro: ruled_justified)
  next
    case (round request requester c allowed pending frame' messages later)
    consider "EvSent frame \<in> set later" | (this) "frame = frame'" using round.prems round.hyps pending by auto
    then show ?case
    proof cases
      case this
      then have a: "answers V request (if allowed then lit ''allow'' else lit ''deny'') frame" using round by simp
      have "allowed" using answers_fields(1) [OF a] round.prems by (cases allowed) simp_all
      then have "justified V peer request requester" "admitted V request requester"
        using round.hyps(1) by (auto intro: asked_justified) (simp add: asked_def)
      then show ?thesis
        using answers_fields(2,3) [OF a]
        by (intro bexI [of _ request] exI [of _ requester]) (simp_all add: admitted_def)
    qed (use round in auto)
  qed (use pending in auto)
qed

text \<open>
  C2: Nothing is allowed without a reason. Every \<open>allow\<close> the handler sends echoes the nonce and
  carries the digest of a well-formed, authenticated request of this very connection, and
  either the first matching rule says \<open>allow\<close>, or no rule says \<open>deny\<close> and the human was shown
  that request's own confirmation and approved it.
\<close>

theorem allow_is_justified:
  assumes "EvSent frame \<in> set (fst (handle_loop V peer n st))"
    and "dget frame (lit ''decision'') = PStr (lit ''allow'')"
  shows "\<exists>request \<in> set (received (se_lib V) st). \<exists>requester.
     wf_request request \<and> authenticate V request = Inr requester \<and>
     dget frame (lit ''nonce'') = dget request (lit ''nonce'') \<and>
     (\<exists>h. compute_request_digest (se_lib V) request = Inr h \<and> dget frame (lit ''request_digest'') = PStr h) \<and>
     justified V peer request requester"
  using assms by (rule allow_justified)

theorem allow_is_justified_witness:
  "\<exists>request \<in> set (received short_lib \<lparr>st_bytes = demo_bytes, st_fails = False\<rparr>). \<exists>requester.
     justified (demo_session [catch_all (lit ''allow'')]) [] request requester"
proof -
  obtain frame where "EvSent frame \<in> set (fst (handle_loop (demo_session [catch_all (lit ''allow'')]) [] 0
       \<lparr>st_bytes = demo_bytes, st_fails = False\<rparr>))" "dget frame (lit ''decision'') = PStr (lit ''allow'')"
    using demo_ruled [OF refl] by auto
  moreover have "se_lib (demo_session rules) = short_lib" for rules by (simp add: demo_session_def)
  ultimately show ?thesis using allow_is_justified by metis
qed

text \<open>A dialog with what was shown before and after it, as the protocol wants them.\<close>

definition own_dialog ::
  "session \<Rightarrow> pstr \<Rightarrow> dict list \<Rightarrow> event list \<Rightarrow> confirmation \<Rightarrow> bool \<Rightarrow> event list \<Rightarrow> bool" where
  "own_dialog V peer messages before c allowed after \<longleftrightarrow>
     (\<exists>request \<in> set messages. \<exists>requester earlier m.
        wf_request request \<and> authenticate V request = Inr requester \<and>
        c = confirmation_of V peer m requester request \<and>
        before = earlier @ [EvSent (build_pending (dget request (lit ''nonce'')))] \<and>
        (after = [] \<or> (\<exists>frame later. after = EvSent frame # later \<and>
           dget frame (lit ''nonce'') = dget request (lit ''nonce'') \<and>
           dget frame (lit ''decision'') = PStr (if allowed then lit ''allow'' else lit ''deny''))))"

lemma own_dialog_later:
  "own_dialog V peer messages before c allowed after \<Longrightarrow> own_dialog V peer (m # messages) (early @ before) c allowed after"
  unfolding own_dialog_def by fastforce

lemma asked_own_dialog:
  assumes "asked V peer request requester c allowed" and "acknowledges V request pending"
    and "after = [] \<or> (\<exists>frame later. after = EvSent frame # later
      \<and> answers V request (if allowed then lit ''allow'' else lit ''deny'') frame)"
  shows "own_dialog V peer (request # messages) [EvSent pending] c allowed after"
proof -
  have "dget frame (lit ''nonce'') = dget request (lit ''nonce'') \<and> dget frame (lit ''decision'') = PStr d"
    if "answers V request d frame" for d frame
    using that by (auto simp: answers_def answer_def elim: build_response_fields)
  with assms show ?thesis
    unfolding own_dialog_def asked_def admitted_def acknowledges_def by force
qed

lemma conversation_dialog:
  "conversation V peer messages events \<Longrightarrow> events = before @ EvPrompt c allowed # after \<Longrightarrow>
   own_dialog V peer messages before c allowed after"
proof (induction arbitrary: before rule: conversation.induct)
  case (unreported request requester c' allowed' pending messages)
  then show ?case
    by (auto simp: Cons_eq_append_conv intro: asked_own_dialog)
next
  case (round request requester c' allowed' pending frame messages later)
  from round.prems consider "before = [EvSent pending]" "c' = c" "allowed' = allowed" "after = EvSent frame # later"
    | early where "before = [EvSent pending, EvPrompt c' allowed', EvSent frame] @ early"
        "later = early @ EvPrompt c allowed # after"
    by (auto simp: Cons_eq_append_conv)
  then show ?case
  proof cases
    case 1
    then show ?thesis using round.hyps by (auto intro: asked_own_dialog)
  next
    case 2
    then show ?thesis using own_dialog_later round.IH by metis
  qed
qed (auto simp: Cons_eq_append_conv)

text \<open>
  C14: The human's choice is what is sent, and nothing is asked silently. Every dialog directly
  follows the acknowledgement of its request, shows the confirmation of that request, and if
  anything follows it, it is the answer to that request with exactly the decision the dialog
  gave.
\<close>

theorem dialog_decides_its_request:
  assumes "fst (handle_loop V peer n st) = before @ EvPrompt c allowed # after"
  shows "\<exists>request \<in> set (received (se_lib V) st). \<exists>requester earlier m.
     wf_request request \<and> authenticate V request = Inr requester \<and>
     c = confirmation_of V peer m requester request \<and>
     before = earlier @ [EvSent (build_pending (dget request (lit ''nonce'')))] \<and>
     (after = [] \<or> (\<exists>frame later. after = EvSent frame # later \<and>
        dget frame (lit ''nonce'') = dget request (lit ''nonce'') \<and>
        dget frame (lit ''decision'') = PStr (if allowed then lit ''allow'' else lit ''deny'')))"
  using conversation_dialog [of V peer "received (se_lib V) st" "fst (handle_loop V peer n st)"]
    handle_loop_conversation [of V peer st n] assms
  by (simp add: own_dialog_def)

theorem dialog_decides_its_request_witness:
  "\<exists>request \<in> set (received short_lib \<lparr>st_bytes = demo_bytes, st_fails = False\<rparr>). wf_request request"
proof -
  obtain c frame where "fst (handle_loop (demo_session []) [] 0 \<lparr>st_bytes = demo_bytes, st_fails = False\<rparr>) =
     [EvSent (build_pending (PStr demo_nonce))] @ EvPrompt c True # [EvSent frame]"
    using demo_asked [of "[]"] by auto
  from dialog_decides_its_request [OF this] show ?thesis
    by (auto simp: demo_session_def)
qed

text \<open>
  A rule is final. A request whose first matching rule says \<open>allow\<close> or \<open>deny\<close> is never put to
  the human: the only thing that may be sent is that very decision, and the connection ends.
\<close>

theorem rule_decision_is_final:
  assumes "authenticate V request = Inr requester"
    and "decide V peer requester request = decision" "decision = lit ''allow'' \<or> decision = lit ''deny''"
  shows "snd (handle_request V peer n request) \<noteq> Again \<and>
     (fst (handle_request V peer n request) = [] \<or>
      (\<exists>frame. fst (handle_request V peer n request) = [EvSent frame] \<and>
         dget frame (lit ''decision'') = PStr decision \<and> dget frame (lit ''nonce'') = dget request (lit ''nonce'')))"
proof -
  have run: "handle_request V peer n request = auto_reply V n request decision"
    using assms by (auto simp: handle_request_def Let_def)
  show ?thesis
  proof (cases "answer V n request decision")
    case (Inr frame)
    then have "dget frame (lit ''decision'') = PStr decision" "dget frame (lit ''nonce'') = dget request (lit ''nonce'')"
      by (auto simp: answer_def elim: build_response_fields)
    then show ?thesis
      unfolding run using Inr by (cases "send V n True frame") (simp_all add: auto_reply_def)
  qed (simp add: run auto_reply_def)
qed

theorem rule_decision_is_final_witness:
  "snd (handle_request (demo_session [catch_all (lit ''deny'')]) [] 0 marked_request) \<noteq> Again"
proof -
  have "decide (demo_session [catch_all (lit ''deny'')]) [] NONE_IDENTITY marked_request = lit ''deny''"
    by (simp add: decide_def demo_session_def)
  from rule_decision_is_final [OF demo_authenticates this] show ?thesis by simp
qed

text \<open>
  Nothing is sent, and nothing is asked, before a request is authenticated. When the first
  message of a connection can not be read, is no well-formed request, or does not authenticate,
  the connection ends without an event, whatever else the peer has already sent.
\<close>

theorem silent_before_authentication:
  assumes "case read_message (se_lib V) st of Inl _ \<Rightarrow> True
     | Inr (message, _) \<Rightarrow> \<not> wf_request message \<or> (\<forall>requester. authenticate V message \<noteq> Inr requester)"
  shows "fst (handle_loop V peer n st) = [] \<and> snd (handle_loop V peer n st) \<noteq> Again"
proof (cases "read_message (se_lib V) st")
  case (Inl e)
  then show ?thesis by (simp add: handle_loop.simps)
next
  case (Inr ms)
  then obtain message st' where ms: "read_message (se_lib V) st = Inr (message, st')" by (cases ms) simp
  have "fst (handle_message V peer n message) = [] \<and> snd (handle_message V peer n message) \<noteq> Again"
  proof (cases "parse_request message")
    case (Inr request)
    then have "request = message" "wf_request message" by (simp_all add: parse_request_Inr_iff)
    then obtain e where "authenticate V message = Inl e" using assms ms by (cases "authenticate V message") auto
    then show ?thesis using Inr \<open>request = message\<close> by (cases e) (simp_all add: handle_message_def handle_request_def)
  qed (simp add: handle_message_def)
  then show ?thesis
    using handle_loop_again [OF ms, of peer n] by (cases "handle_message V peer n message") simp
qed

theorem silent_before_authentication_witness:
  "fst (handle_loop (demo_session []) [] 0 \<lparr>st_bytes = lit ''x'', st_fails = False\<rparr>) = []"
proof -
  have "read_message (se_lib (demo_session [])) \<lparr>st_bytes = lit ''x'', st_fails = False\<rparr> =
      Inl (ProtocolError ''frame exceeds the limit'')"
    by (simp add: read_message_def readline_def MAX_MESSAGE_BYTES_def lit_def)
  then show ?thesis using silent_before_authentication [of "demo_session []" _ "[]" 0] by simp
qed

text \<open>
  C39: Machine rules bind without a credential. Under \<open>client_auth = none\<close> nothing about the
  requester is verified, and still a rule whose machine selector names the resolved peer, or
  the sentinel \<open>none\<close> that stands for every unverified requester, decides the request.
\<close>

theorem machine_rule_without_credential:
  assumes "client_auth (se_security V) = lit ''none''" and "authenticate V request = Inr requester"
    and "s_rules (se_security V) = rule # rest"
    and "r_machine rule = [name]" "plain name" "name \<noteq> []" "name = peer \<or> name = NONE_IDENTITY"
    and "r_service rule = []" "r_target_user rule = []" "r_invoking_user rule = []" "r_listeners rule = []"
  shows "requester = NONE_IDENTITY \<and> decide V peer requester request = r_policy rule"
proof -
  have who: "requester = NONE_IDENTITY"
    using assms(1,2) by (auto simp: authenticate_def authenticate_request_def split: pyval.splits if_splits)
  have "name \<in> set (cn_identities (request_conn V peer requester request))"
    using assms(6,7) who by (auto simp: request_conn_def Let_def set_identity_candidates)
  then have "rule_matches rule (request_conn V peer requester request)"
    using assms(4,5,8-) by (simp add: rule_matches_def matches_any_def matches_any_of_def fnmatchcase_plain)
  with who show ?thesis by (simp add: decide_def assms(3))
qed

theorem machine_rule_without_credential_witness:
  "decide (demo_session [(catch_all (lit ''allow''))\<lparr>r_machine := [lit ''vault'']\<rparr>]) (lit ''vault'') NONE_IDENTITY marked_request =
     lit ''allow''"
  using machine_rule_without_credential [OF _ demo_authenticates, of
      "[(catch_all (lit ''allow''))\<lparr>r_machine := [lit ''vault'']\<rparr>]" "(catch_all (lit ''allow''))\<lparr>r_machine := [lit ''vault'']\<rparr>"
      "[]" "lit ''vault''" "lit ''vault''"]
  by (simp add: demo_session_def demo_open_def catch_all_def plain_lit)

section \<open>Connection slots\<close>

definition slots_ok :: "nat \<Rightarrow> slots \<Rightarrow> bool" where
  "slots_ok bound s \<longleftrightarrow> sl_free s + length (sl_active s) = bound \<and> distinct (sl_active s)"

lemma slots_ok_step: "slot_step bound s e s' \<Longrightarrow> slots_ok bound s \<Longrightarrow> slots_ok bound s'"
proof (induction rule: slot_step.induct)
  case (accept conn s)
  then show ?case by (auto simp: slots_ok_def process_request_def)
next
  case (finish conn s s')
  then show ?case
    by (auto simp: slots_ok_def shutdown_request_def length_remove1 distinct_remove1 split: if_splits
        dest: length_pos_if_in_set)
qed

lemma slots_ok_reach: "slot_reach bound s \<Longrightarrow> slots_ok bound s"
  by (induction rule: slot_reach.induct) (simp_all add: slots_ok_def slots_ok_step [unfolded slots_ok_def])

text \<open>
  Connection slots neither leak nor overflow. In every reachable state the free slots and the
  connections being handled add up to the configured bound; a new connection is handled
  exactly when fewer than that are; and the end of a handled connection always gives its slot
  back, without the error of a semaphore released too often.
\<close>

theorem connection_slots:
  assumes "slot_reach bound s"
  shows "sl_free s + length (sl_active s) = bound
    \<and> (conn \<notin> set (sl_active s) \<longrightarrow>
        (conn \<in> set (sl_active (process_request conn s)) \<longleftrightarrow> length (sl_active s) < bound))
    \<and> (conn \<in> set (sl_active s) \<longrightarrow>
        (\<exists>s'. shutdown_request bound conn s = Inr s' \<and> sl_free s' = Suc (sl_free s) \<and> conn \<notin> set (sl_active s')))"
proof (intro conjI impI)
  note inv = slots_ok_reach [OF assms, unfolded slots_ok_def]
  show "sl_free s + length (sl_active s) = bound" using inv by simp
  show "conn \<in> set (sl_active (process_request conn s)) \<longleftrightarrow> length (sl_active s) < bound"
    if "conn \<notin> set (sl_active s)" using inv that by (auto simp: process_request_def)
  show "\<exists>s'. shutdown_request bound conn s = Inr s' \<and> sl_free s' = Suc (sl_free s) \<and> conn \<notin> set (sl_active s')"
    if "conn \<in> set (sl_active s)"
    using inv that length_pos_if_in_set [OF that] by (auto simp: shutdown_request_def)
qed

theorem connection_slots_witness:
  "\<exists>s'. shutdown_request 1 7 \<lparr>sl_free = 0, sl_active = [7], sl_refused = []\<rparr> = Inr s' \<and> sl_free s' = Suc 0"
proof -
  have "slot_step 1 \<lparr>sl_free = 1, sl_active = [], sl_refused = []\<rparr> (Accept 7)
      (process_request 7 \<lparr>sl_free = 1, sl_active = [], sl_refused = []\<rparr>)"
    by (rule slot_step.accept) simp
  then have "slot_reach 1 (process_request 7 \<lparr>sl_free = 1, sl_active = [], sl_refused = []\<rparr>)"
    using slot_reach.start slot_reach.step by blast
  from connection_slots [OF this, of 7] show ?thesis by (simp add: process_request_def) blast
qed

end
