(* ===== verification/Elevation.thy ===== *)
theory Elevation
  imports Client Demo
begin

text \<open>
  What an exit code of 0 of \<open>sudo-auth-proxy\<close>'s client proves. The PAM stack lets the elevation
  through on that code alone, so the theory first shows that no operation the client calls
  leaves by \<open>SystemExit 0\<close>, and then what the one place that does requires.
\<close>

section \<open>No other way to exit with 0\<close>

definition calm :: "'a res \<Rightarrow> bool" where
  "calm r \<longleftrightarrow> r \<noteq> Inl (SystemExit 0)"

named_theorems calm \<open>operations that never leave by SystemExit 0\<close>

lemma calm_Inl [simp]: "calm (Inl e) \<longleftrightarrow> e \<noteq> SystemExit 0"
  by (simp add: calm_def)

lemma calm_Inr [simp]: "calm (Inr x)"
  by (simp add: calm_def)

lemma calmD: "calm r \<Longrightarrow> r = Inl e \<Longrightarrow> e \<noteq> SystemExit 0"
  by (simp add: calm_def)

lemma calm_bind [calm]: "calm r \<Longrightarrow> (\<And>x. r = Inr x \<Longrightarrow> calm (k x)) \<Longrightarrow> calm (case r of Inl e \<Rightarrow> Inl e | Inr x \<Rightarrow> k x)"
  by (cases r) simp_all

lemma calm_split [calm]: "(b \<Longrightarrow> calm r) \<Longrightarrow> (\<not> b \<Longrightarrow> calm r') \<Longrightarrow> calm (if b then r else r')"
  by simp

lemma calm_option [calm]: "calm r \<Longrightarrow> (\<And>x. calm (k x)) \<Longrightarrow> calm (case v of None \<Rightarrow> r | Some x \<Rightarrow> k x)"
  by (cases v) simp_all

lemma calm_pair [calm]: "(\<And>x y. calm (k x y)) \<Longrightarrow> calm (case p of (x, y) \<Rightarrow> k x y)"
  by (cases p) simp

lemma calm_map_res [calm]: "(\<And>x. calm (f x)) \<Longrightarrow> calm (map_res f xs)"
  by (induction xs) (simp_all, intro calm calm_Inr, simp_all)

lemma calm_py_int [calm]: "calm (py_int v)"
  unfolding py_int_def by (auto split: pyval.split option.split)

lemma calm_py_float [calm]: "calm (py_float E v)"
  unfolding py_float_def by (auto split: pyval.split option.split)

lemma calm_default [calm]: "calm r \<Longrightarrow> calm (case r of Inl TypeError \<Rightarrow> Inr d | Inl (ValueError _) \<Rightarrow> Inr d | r \<Rightarrow> r)"
  by (auto split: sum.split exn.split)

lemma calm_read_timeouts [calm]: "calm (resolve_read_timeouts E config)"
  unfolding resolve_read_timeouts_def Let_def by (intro calm calm_Inr)

lemma calm_transport_init [calm]: "calm (transport_init E name config)"
  unfolding transport_init_def by (intro calm calm_Inr)

lemma calm_unix_transport [calm]: "calm (unix_transport E H config path)"
  unfolding unix_transport_def
  by (rule calm_bind [OF calm_transport_init], rule calm_option) (auto split: pyval.split)

lemma calm_make_transport [calm]: "calm (make_transport E H config)"
  unfolding make_transport_def callback_transport_def Let_def
  by (intro calm calm_Inr) simp_all

lemma calm_verify_selector_socket [calm]: "calm (verify_selector_socket H path)"
proof -
  have "calm (selector_owner H)" unfolding selector_owner_def by (intro calm calm_Inr)
  then show ?thesis unfolding verify_selector_socket_def by (intro calm calm_Inr) simp_all
qed

lemma calm_callback_address [calm]: "calm (callback_address H tr)"
proof -
  have scan: "calm (gateway_scan lines)" for lines
    by (induction lines) (auto split: option.split list.split)
  have "calm (resolve_default_gateway H)"
    using scan by (simp add: resolve_default_gateway_def split: list.split)
  then show ?thesis unfolding callback_address_def Let_def by (intro calm calm_Inr)
qed

lemma calm_address_of [calm]: "calm (address_of H tr)"
  unfolding address_of_def by (intro calm calm_Inr)

lemma calm_validate_security_config [calm]: "calm (validate_security_config config)"
proof -
  have "calm (resolve_encryption config sec)" for sec
    unfolding resolve_encryption_def Let_def by (intro calm calm_Inr) simp_all
  moreover have "calm (check_auth_methods ca sa)" for ca sa
    unfolding check_auth_methods_def by (intro calm calm_Inr) simp_all
  moreover have "calm (resolve_auth config enc ca sa)" for enc ca sa
    unfolding resolve_auth_def by (intro calm calm_Inr) simp_all
  ultimately show ?thesis
    unfolding validate_security_config_def by (cases "if dget config (lit ''security'') = PNone then PDict [] else dget config (lit ''security'')")
      (auto intro!: calm)
qed

lemma calm_fingerprint_set [calm]: "calm (fingerprint_set v)"
proof -
  have "calm (normalize_fingerprint f)" for f
    unfolding normalize_fingerprint_def by (auto simp: Let_def split: pyval.split option.split)
  then show ?thesis unfolding fingerprint_set_def by (auto split: pyval.split intro!: calm)
qed

lemma calm_load_client_acl [calm]: "calm (load_client_acl config)"
proof -
  have "calm (trusted_names_of v)" for v
    unfolding trusted_names_of_def by (simp split: pyval.split)
  then show ?thesis
    unfolding load_client_acl_def by (cases "dget config (lit ''acl'')") (auto intro!: calm)
qed

lemma calm_build_security_client [calm]: "calm (build_security config ''client'')"
proof -
  have "calm (validate_config_schema config)" by (simp add: validate_config_schema_def)
  then show ?thesis unfolding build_security_def Let_def by (intro calm calm_Inr) simp_all
qed

lemma calm_cert_has_oid [calm]: "calm (cert_has_oid cert oid)"
  unfolding cert_has_oid_def extensions_of_def by (intro calm calm_Inr) simp

lemma calm_check_local_oid [calm]: "calm (check_local_oid C read cert_file oid)"
proof -
  have "calm (verify_cert_file C read path oid)" for path oid
    unfolding verify_cert_file_def by (intro calm calm_Inr) simp_all
  then show ?thesis
    unfolding check_local_oid_def calm_def by (auto split: sum.split exn.split)
qed

lemma calm_verify_peer_oid [calm]: "calm (verify_peer_oid C s config)"
proof -
  have "calm (verify_cert_der C der oid)" for der oid
    unfolding verify_cert_der_def by (intro calm calm_Inr) simp_all
  then show ?thesis
    unfolding verify_peer_oid_def check_peer_oid_def extensions_of_def
    by (intro calm calm_Inr) (auto split: pyval.split option.split intro!: calm)
qed

lemma calm_verify_server_acl [calm]: "calm (verify_server_acl C s config)"
proof -
  have "calm (leaf_spki C der)" for der
    unfolding leaf_spki_def load_der_cert_def by (intro calm calm_Inr) simp
  then show ?thesis
    unfolding verify_server_acl_def by (intro calm calm_Inr) simp_all
qed

text \<open>The operating system does not exit for the client either.\<close>

definition os_calm :: "client_env \<Rightarrow> bool" where
  "os_calm V \<longleftrightarrow>
     (\<forall>addr. calm (net_dial (ce_net V) addr)) \<and> (\<forall>ctx. calm (net_load (ce_net V) ctx)) \<and>
     (\<forall>ctx name s. calm (net_wrap (ce_net V) ctx name s)) \<and> (\<forall>b. calm (ce_send V b))"

lemma calm_create_ssl_context:
  assumes "os_calm V"
  shows "calm (create_ssl_context C read (ce_net V) config server)"
proof -
  have os: "calm (net_load (ce_net V) ctx)" for ctx using assms by (simp add: os_calm_def)
  show ?thesis
  proof (cases "validate_security_config config")
    case (Inl e)
    then have "e \<noteq> SystemExit 0" using calm_validate_security_config calmD by blast
    then show ?thesis using Inl by (cases e) (simp_all add: create_ssl_context_def)
  next
    case (Inr k)
    then show ?thesis
      by (cases "dget config (lit ''mtls'')") (auto simp: create_ssl_context_def Let_def intro!: calm os)
  qed
qed

lemma calm_connect:
  assumes "os_calm V"
  shows "calm (connect E C read (ce_net V) H tr)"
proof -
  have os: "calm (net_dial (ce_net V) addr)" "calm (net_wrap (ce_net V) ctx name s)" for addr ctx name s
    using assms by (simp_all add: os_calm_def)
  have name: "calm (tls_server_name E H tr)"
    unfolding tls_server_name_def using calmD [OF calm_address_of]
    by (auto simp: calm_def split: sum.split address.split)
  have ssl: "calm (case r of Inl e \<Rightarrow> Inl e | Inr None \<Rightarrow> Inr s | Inr (Some ctx) \<Rightarrow> k ctx)"
    if "calm r" "\<And>ctx. calm (k ctx)" for r and s :: sock and k :: "ssl_ctx \<Rightarrow> sock res"
    using that by (auto split: sum.split option.split)
  show ?thesis
    unfolding connect_def
    by (rule calm_bind [OF calm_address_of], rule calm_bind [OF os(1)], rule ssl [OF calm_create_ssl_context [OF assms]])
      (intro calm calm_Inr name os(2))
qed

lemma calm_client_transport [calm]: "calm (client_transport V H)"
proof -
  have sel: "calm (case r of Inl (RuntimeError _) \<Rightarrow> Inl (SystemExit 1) | Inl e \<Rightarrow> Inl e | Inr _ \<Rightarrow> Inr tr)"
    if "calm r" for r :: "unit res" and tr :: transport
    using that by (auto split: sum.split exn.split)
  show ?thesis
    unfolding client_transport_def by (intro calm sel calm_Inr) simp_all
qed

text \<open>The exchange and the verdict.\<close>

lemma calm_utf8_encode [calm]: "calm (utf8_encode s)"
  by (cases "encodable s") (simp_all add: utf8_encode_enc utf8_encode_error)

lemma calm_write_message [calm]: "calm (write_message E msg)"
  unfolding write_message_def by (intro calm calm_Inr) simp

lemma calm_secure_equals [calm]: "calm (secure_equals l r)"
  using secure_equals_raises_iff [of l r] by (auto simp: calm_def)

lemma calm_read_frame [calm]: "calm (read_frame E st)"
proof -
  have "calm (readline cap st)" for cap st by (auto simp: readline_def Let_def)
  moreover have "calm (case json_loads E t of
          Inl JIntDigits \<Rightarrow> Inl (ValueError b) | Inl _ \<Rightarrow> Inl (ProtocolError c)
        | Inr (PDict message) \<Rightarrow> Inr (message, st') | Inr _ \<Rightarrow> Inl (ProtocolError d))" for t b c d st'
    by (auto split: sum.split jerr.split pyval.split)
  ultimately show ?thesis
    unfolding read_frame_def read_message_def by (intro calm) simp_all
qed

lemma calm_validate_envelope [calm]: "calm (validate_envelope m t)"
  by (simp add: validate_envelope_def split: pyval.split)

lemma calm_read_decision [calm]: "calm (read_decision E request st)"
proof -
  have "calm (parse_pending m n)" for m n
    unfolding parse_pending_def by (intro calm calm_Inr) simp_all
  then show ?thesis unfolding read_decision_def by (intro calm calm_Inr)
qed

lemma calm_verify_response [calm]: "calm (verify_response E now response request sec used)"
proof -
  have "calm (canonical_bytes E r)" for r unfolding canonical_bytes_def by (intro calm)
  then have "calm (compute_request_digest E r)" for r unfolding compute_request_digest_def by (intro calm calm_Inr)
  moreover have "calm (check_response_freshness now response sec)"
    unfolding check_response_freshness_def by (simp split: pyval.split)
  ultimately show ?thesis
    unfolding verify_response_def by (intro calm calm_Inr) simp_all
qed

lemma calm_exchange: "os_calm V \<Longrightarrow> calm (fst (exchange V H sec tr))"
proof -
  assume os: "os_calm V"
  have fst_bind: "calm (fst (case r of Inl e \<Rightarrow> (Inl e, ev) | Inr x \<Rightarrow> k x))"
    if "calm r" "\<And>x. calm (fst (k x))" for r :: "'x res" and ev and k :: "'x \<Rightarrow> 'y res \<times> 'z"
    using that by (cases r) simp_all
  have "calm (attach_client_auth m sec)" for m unfolding attach_client_auth_def by (intro calm calm_Inr) simp
  then show ?thesis
    using os unfolding exchange_def read_timeouts_def os_calm_def
    by (intro fst_bind calm) simp_all
qed

section \<open>What an exit code of 0 proves\<close>

lemma exchange_InrD:
  assumes "exchange V H sec tr = (Inr (request, response), events)"
  obtains outbound where "attach_client_auth (client_request V H) sec = Inr request"
    "write_message (ce_lib V) request = Inr outbound" "events = [SentRequest outbound]"
    "read_decision (ce_lib V) request (ce_reply V outbound) = Inr response"
  using assms unfolding exchange_def
  by (cases "attach_client_auth (client_request V H) sec"; simp;
      cases "write_message (ce_lib V) request"; simp split: sum.splits)

lemma decide_exit_zero:
  assumes "decide_exit V sec request response = SystemExit 0"
  shows "\<exists>used. verify_response (ce_lib V) (ce_now V) response request sec (Some {}) = Inr (PStr (lit ''allow''), used)"
proof (cases "verify_response (ce_lib V) (ce_now V) response request sec (Some {})")
  case (Inl e)
  then have "e \<noteq> SystemExit 0" using calmD [OF calm_verify_response] by blast
  then show ?thesis using assms Inl by (cases e) (simp_all add: decide_exit_def rejected_def)
next
  case (Inr du)
  then show ?thesis using assms by (cases du) (auto simp: decide_exit_def split: if_splits)
qed

lemma run_connected_zero:
  assumes "os_calm V" and "run_connected V H sec tr s = (SystemExit 0, events)"
  obtains request response where "exchange V H sec tr = (Inr (request, response), events)"
    "decide_exit V sec request response = SystemExit 0"
    "tr_name tr = lit ''unix'' \<Longrightarrow> verify_unix_peer_is_sshd H s None \<noteq> Some False"
proof (cases "exchange V H sec tr")
  case (Pair r ev)
  show ?thesis
  proof (cases r)
    case (Inl e)
    then have "e \<noteq> SystemExit 0" using calmD [OF calm_exchange [OF assms(1)]] Pair by (metis fst_conv)
    then show ?thesis
      using assms(2) Pair Inl by (cases e) (auto simp: run_connected_def unavailable_def split: if_splits)
  next
    case (Inr rr)
    then show ?thesis
      using assms(2) Pair that by (cases rr) (auto simp: run_connected_def split: if_splits)
  qed
qed

text \<open>The stages before the connection is used.\<close>

lemma run_client_zero:
  assumes "os_calm V" and "run_client V = (SystemExit 0, events)"
  obtains tr sec s rest where "\<not> recursion_guard_active (ce_host V)"
    "client_transport V (activate_recursion_guard (ce_host V)) = Inr tr"
    "build_security (ce_config V) ''client'' = Inr sec"
    "connect (ce_lib V) (ce_crypto V) (ce_read V) (ce_net V) (activate_recursion_guard (ce_host V)) tr = Inr s"
    "run_connected V (activate_recursion_guard (ce_host V)) sec tr s = (SystemExit 0, rest)"
    "events = GuardSet # Connected # rest"
proof -
  let ?H = "activate_recursion_guard (ce_host V)"
  let ?connect = "\<lambda>tr. connect (ce_lib V) (ce_crypto V) (ce_read V) (ce_net V) ?H tr"
  have guard: "\<not> recursion_guard_active (ce_host V)"
    using assms(2) by (auto simp: run_client_def)
  note run = assms(2) [unfolded run_client_def Let_def if_not_P [OF guard]]
  obtain tr where tr: "client_transport V ?H = Inr tr"
    using run calmD [OF calm_client_transport] by (cases "client_transport V ?H") auto
  have mis: "misconfigured e \<noteq> SystemExit 0" if "e \<noteq> SystemExit 0" for e
    using that by (cases e) (simp_all add: misconfigured_def)
  obtain sec where sec: "build_security (ce_config V) ''client'' = Inr sec"
    using run tr calmD [OF calm_build_security_client] mis by (cases "build_security (ce_config V) ''client''") auto
  have "calm (describe ?H tr)" unfolding describe_def by (intro calm calm_Inr)
  then obtain u where d: "describe ?H tr = Inr u"
    using run tr sec calmD by (cases "describe ?H tr") auto
  have con: "connect_failed e \<noteq> SystemExit 0" if "e \<noteq> SystemExit 0" for e
    using that by (cases e) (simp_all add: connect_failed_def)
  obtain s where s: "?connect tr = Inr s"
    using run tr sec d calmD [OF calm_connect [OF assms(1)]] con by (cases "?connect tr") auto
  obtain e rest where rc: "run_connected V ?H sec tr s = (e, rest)" by force
  then have "e = SystemExit 0" "events = GuardSet # Connected # rest"
    using run tr sec d s by simp_all
  with rc show ?thesis using that [OF guard tr sec s] by simp
qed

lemma client_transport_unix:
  assumes "client_transport V H = Inr tr" and "tr_name tr = lit ''unix''"
  shows "verify_selector_socket H (tr_path tr) = Inr ()"
proof (cases "make_transport (ce_lib V) H (ce_config V)")
  case (Inl e)
  then show ?thesis using assms by (simp add: client_transport_def)
next
  case (Inr tr0)
  show ?thesis
  proof (cases "tr_name tr0 = lit ''unix''")
    case False
    then show ?thesis using assms Inr by (simp add: client_transport_def)
  next
    case True
    then show ?thesis
      using assms Inr
      by (auto simp: client_transport_def split: sum.splits if_splits exn.splits)
  qed
qed

text \<open>
  C5: The PAM hook is fail-closed. It exits with 0 only if the recursion guard was off, its
  configuration built, on \<open>unix\<close> the selector socket was verified and the peer is not known to
  be anything but \<open>sshd\<close>, the connection (TLS and pin included) succeeded, exactly one request
  went out, and the frame read back verifies against that very request as an \<open>allow\<close>. Every
  other course of events, errors of any kind included, ends with another code.
\<close>

theorem client_fails_closed:
  assumes "os_calm V" and "run_client V = (e, events)" and "exit_code e = 0"
  shows "\<exists>tr sec s request response outbound used.
     \<not> recursion_guard_active (ce_host V) \<and>
     build_security (ce_config V) ''client'' = Inr sec \<and>
     (tr_name tr = lit ''unix'' \<longrightarrow>
        verify_selector_socket (activate_recursion_guard (ce_host V)) (tr_path tr) = Inr () \<and>
        verify_unix_peer_is_sshd (activate_recursion_guard (ce_host V)) s None \<noteq> Some False) \<and>
     connect (ce_lib V) (ce_crypto V) (ce_read V) (ce_net V) (activate_recursion_guard (ce_host V)) tr = Inr s \<and>
     attach_client_auth (client_request V (activate_recursion_guard (ce_host V))) sec = Inr request \<and>
     write_message (ce_lib V) request = Inr outbound \<and>
     events = [GuardSet, Connected, SentRequest outbound] \<and>
     read_decision (ce_lib V) request (ce_reply V outbound) = Inr response \<and>
     verify_response (ce_lib V) (ce_now V) response request sec (Some {}) = Inr (PStr (lit ''allow''), used)"
proof -
  have e: "e = SystemExit 0" using assms(3) by (cases e) (simp_all add: exit_code_def)
  obtain tr sec s rest where r: "\<not> recursion_guard_active (ce_host V)"
    "client_transport V (activate_recursion_guard (ce_host V)) = Inr tr"
    "build_security (ce_config V) ''client'' = Inr sec"
    "connect (ce_lib V) (ce_crypto V) (ce_read V) (ce_net V) (activate_recursion_guard (ce_host V)) tr = Inr s"
    "run_connected V (activate_recursion_guard (ce_host V)) sec tr s = (SystemExit 0, rest)"
    "events = GuardSet # Connected # rest"
    using run_client_zero [OF assms(1) assms(2) [unfolded e]] by blast
  obtain request response where x:
    "exchange V (activate_recursion_guard (ce_host V)) sec tr = (Inr (request, response), rest)"
    "decide_exit V sec request response = SystemExit 0"
    "tr_name tr = lit ''unix'' \<Longrightarrow> verify_unix_peer_is_sshd (activate_recursion_guard (ce_host V)) s None \<noteq> Some False"
    using run_connected_zero [OF assms(1) r(5)] by blast
  obtain outbound where o: "attach_client_auth (client_request V (activate_recursion_guard (ce_host V))) sec = Inr request"
    "write_message (ce_lib V) request = Inr outbound" "rest = [SentRequest outbound]"
    "read_decision (ce_lib V) request (ce_reply V outbound) = Inr response"
    using exchange_InrD [OF x(1)] by blast
  show ?thesis
    using r o x(3) decide_exit_zero [OF x(2)] client_transport_unix [OF r(2)] by blast
qed

text \<open>
  The recursion guard. A client started while another one is running (the approver's own
  tools may need privileges) contacts nobody and is refused, and a client that runs sets the
  guard before anything else, so that its children find it.
\<close>

theorem recursion_is_refused:
  "(recursion_guard_active (ce_host V) \<longrightarrow> run_client V = (SystemExit 1, []))
   \<and> (\<not> recursion_guard_active (ce_host V) \<longrightarrow> hd (snd (run_client V)) = GuardSet)
   \<and> recursion_guard_active (activate_recursion_guard (ce_host V))"
proof (intro conjI impI)
  show "run_client V = (SystemExit 1, [])" if "recursion_guard_active (ce_host V)"
    using that by (simp add: run_client_def)
  show "hd (snd (run_client V)) = GuardSet" if "\<not> recursion_guard_active (ce_host V)"
    using that by (simp add: run_client_def Let_def split: sum.split prod.split)
  show "recursion_guard_active (activate_recursion_guard (ce_host V))"
    by (simp add: recursion_guard_active_def activate_recursion_guard_def RECURSION_GUARD_ENV_def lit_def)
qed

end
