(* ===== verification/Agreement.thy ===== *)
theory Agreement
  imports Elevation Decisions
begin

text \<open>
  The client and the server of \<open>sudo-auth-proxy\<close> put together over the bytes they exchange: the
  client's request is the server's stream, and the frames the handler sends are what the client
  reads.
\<close>

section \<open>The wire between the two\<close>

fun sent :: "event list \<Rightarrow> dict list" where
  "sent [] = []"
| "sent (EvSent frame # events) = frame # sent events"
| "sent (EvPrompt c allowed # events) = sent events"

fun wire :: "lib \<Rightarrow> dict list \<Rightarrow> pbytes" where
  "wire E [] = []"
| "wire E (frame # frames) = (case write_message E frame of Inl e \<Rightarrow> [] | Inr b \<Rightarrow> b) @ wire E frames"

definition server_reply :: "session \<Rightarrow> pstr \<Rightarrow> pbytes \<Rightarrow> stream" where
  "server_reply S peer outbound =
     \<lparr>st_bytes = wire (se_lib S) (sent (fst (handle_loop S peer 0 \<lparr>st_bytes = outbound, st_fails = False\<rparr>))),
      st_fails = False\<rparr>"

lemma sent_iff: "frame \<in> set (sent events) \<longleftrightarrow> EvSent frame \<in> set events"
  by (induction events rule: sent.induct) auto

definition deliverable :: "lib \<Rightarrow> dict \<Rightarrow> bool" where
  "deliverable E frame \<longleftrightarrow> json_ok (PDict frame) \<and> is_ok (write_message E frame)"

lemma read_wire:
  assumes "deliverable E frame"
  shows "read_message E \<lparr>st_bytes = wire E (frame # frames), st_fails = f\<rparr> =
     Inr (frame, \<lparr>st_bytes = wire E frames, st_fails = f\<rparr>)"
proof -
  obtain b where "write_message E frame = Inr b"
    using assms by (cases "write_message E frame") (simp_all add: deliverable_def)
  then show ?thesis using assms by (simp add: deliverable_def read_written)
qed

lemma read_nothing: "read_message E \<lparr>st_bytes = [], st_fails = False\<rparr> = Inl ConnectionClosed"
  by (simp add: read_message_def readline_def MAX_MESSAGE_BYTES_def)

lemma read_decision_sent:
  assumes "\<forall>frame \<in> set frames. deliverable E frame"
    and "read_decision E request \<lparr>st_bytes = wire E frames, st_fails = False\<rparr> = Inr response"
  shows "response \<in> set frames"
proof (cases frames)
  case Nil
  then show ?thesis using assms(2) by (simp add: read_decision_def read_frame_def read_nothing)
next
  case (Cons first rest)
  note c = Cons
  have first: "read_message E \<lparr>st_bytes = wire E frames, st_fails = False\<rparr> = Inr (first, \<lparr>st_bytes = wire E rest, st_fails = False\<rparr>)"
    unfolding c using assms(1) c by (intro read_wire) simp
  show ?thesis
  proof (cases "dget first (lit ''type'') = PStr PENDING_TYPE")
    case False
    then show ?thesis using assms(2) first c by (simp add: read_decision_def read_frame_def)
  next
    case True
    then have r: "\<exists>st. read_message E \<lparr>st_bytes = wire E rest, st_fails = False\<rparr> = Inr (response, st)"
      using assms(2) first by (auto simp: read_decision_def read_frame_def split: sum.splits)
    show ?thesis
    proof (cases rest)
      case Nil
      then show ?thesis using r by (simp add: read_nothing)
    next
      case (Cons second more)
      then have "read_message E \<lparr>st_bytes = wire E rest, st_fails = False\<rparr> = Inr (second, \<lparr>st_bytes = wire E more, st_fails = False\<rparr>)"
        unfolding Cons using assms(1) c Cons by (intro read_wire) simp
      then show ?thesis using r c Cons by simp
    qed
  qed
qed

section \<open>What the server sends can be read back\<close>

text \<open>The answer's own fields are no floats and no overlong integers.\<close>

definition plain_answers :: "session \<Rightarrow> bool" where
  "plain_answers S \<longleftrightarrow> json_ok (approver_of S) \<and>
     (\<forall>n. json_ok (PInt (se_clock S n True)) \<and> json_ok (PInt (se_clock S n True + response_ttl (se_security S))))"

lemma json_ok_version: "json_ok (PInt PROTOCOL_VERSION)"
  by (simp add: PROTOCOL_VERSION_def nat_repr.simps [of "Suc 0"] nat_repr.simps [of 1] max_int_digits_def)

lemma request_nonce: "wf_request request \<Longrightarrow> \<exists>s. dget request (lit ''nonce'') = PStr s"
  by (simp add: wf_request_def REQUEST_REQUIRED_FIELDS_def)

lemma answers_deliverable:
  assumes "plain_answers S" "wf_request request" "answers S request decision frame"
  shows "deliverable (se_lib S) frame"
proof -
  obtain n where n: "answer S n request decision = Inr frame" using assms(3) by (auto simp: answers_def)
  obtain s where s: "dget request (lit ''nonce'') = PStr s" using request_nonce [OF assms(2)] by blast
  have "json_ok (PDict frame)"
    using n assms(1) json_ok_version
    by (auto simp: answer_def build_response_def Let_def s plain_answers_def split: sum.splits)
  then show ?thesis using assms(3) by (simp add: deliverable_def answers_def)
qed

lemma acknowledges_deliverable:
  assumes "wf_request request" "acknowledges S request pending"
  shows "deliverable (se_lib S) pending"
proof -
  obtain s where "dget request (lit ''nonce'') = PStr s" using request_nonce [OF assms(1)] by blast
  then show ?thesis
    using assms(2) json_ok_version by (auto simp: acknowledges_def deliverable_def build_pending_def)
qed

lemma conversation_deliverable:
  "conversation S peer messages events \<Longrightarrow> plain_answers S \<Longrightarrow> frame \<in> set (sent events) \<Longrightarrow> deliverable (se_lib S) frame"
  by (induction rule: conversation.induct)
    (auto simp: admitted_def asked_def intro: answers_deliverable acknowledges_deliverable)

section \<open>Safety of the whole exchange\<close>

lemma received_one:
  assumes "json_ok (PDict request)" and "write_message E request = Inr outbound"
  shows "received E \<lparr>st_bytes = outbound, st_fails = False\<rparr> = [request]"
proof -
  have "read_message E \<lparr>st_bytes = outbound, st_fails = False\<rparr> = Inr (request, \<lparr>st_bytes = [], st_fails = False\<rparr>)"
    using read_written [OF assms, of "[]"] by simp
  then show ?thesis by (simp add: received.simps [of E "\<lparr>st_bytes = outbound, st_fails = False\<rparr>"]
        received.simps [of E "\<lparr>st_bytes = [], st_fails = False\<rparr>"] read_nothing)
qed

lemma end_to_end:
  assumes "exchange V H sec tr = (Inr (request, response), events)"
    and "verify_response (ce_lib V) (ce_now V) response request sec used = Inr (PStr (lit ''allow''), used')"
    and "\<And>outbound. ce_reply V outbound = server_reply S peer outbound" and "se_lib S = ce_lib V"
    and "json_ok (PDict request)" and "plain_answers S"
  shows "\<exists>requester. authenticate S request = Inr requester \<and>
     justified S peer request requester"
proof -
  obtain outbound where o: "write_message (ce_lib V) request = Inr outbound"
    "read_decision (ce_lib V) request (ce_reply V outbound) = Inr response"
    using assms(1) by (rule exchange_InrD)
  let ?run = "handle_loop S peer 0 \<lparr>st_bytes = outbound, st_fails = False\<rparr>"
  have "conversation S peer (received (se_lib S) \<lparr>st_bytes = outbound, st_fails = False\<rparr>) (fst ?run)"
    using handle_loop_conversation by blast
  then have "\<forall>frame \<in> set (sent (fst ?run)). deliverable (ce_lib V) frame"
    using conversation_deliverable assms(4,6) by metis
  then have "response \<in> set (sent (fst ?run))"
    using o(2) assms(3,4) by (intro read_decision_sent) (simp_all add: server_reply_def)
  moreover have "dget response (lit ''decision'') = PStr (lit ''allow'')"
    using assms(2) by (rule verify_response_InrD) simp
  moreover have "received (se_lib S) \<lparr>st_bytes = outbound, st_fails = False\<rparr> = [request]"
    using received_one [OF assms(5) o(1)] assms(4) by simp
  ultimately show ?thesis
    using allow_justified [of response S peer 0 "\<lparr>st_bytes = outbound, st_fails = False\<rparr>"] by (auto simp: sent_iff)
qed

text \<open>
  C1: End to end, nobody is let through without a reason. When the client talks to the server
  and exits with 0, the server has authenticated exactly the request this client sent, and
  either its rules allow that request, or no rule denies it and the human at the server was
  shown its confirmation and approved it.
\<close>

theorem elevation_is_authorised:
  assumes "os_calm V" and "run_client V = (e, events)" and "exit_code e = 0"
    and "\<And>outbound. ce_reply V outbound = server_reply S peer outbound" and "se_lib S = ce_lib V"
    and "\<And>sec request. build_security (ce_config V) ''client'' = Inr sec \<Longrightarrow>
      attach_client_auth (client_request V (activate_recursion_guard (ce_host V))) sec = Inr request \<Longrightarrow> json_ok (PDict request)"
    and "plain_answers S"
  shows "\<exists>sec request requester. build_security (ce_config V) ''client'' = Inr sec \<and>
     attach_client_auth (client_request V (activate_recursion_guard (ce_host V))) sec = Inr request \<and>
     authenticate S request = Inr requester \<and>
     justified S peer request requester"
proof -
  let ?H = "activate_recursion_guard (ce_host V)"
  have e: "e = SystemExit 0" using assms(3) by (cases e) (simp_all add: exit_code_def)
  obtain tr sec s rest where b: "build_security (ce_config V) ''client'' = Inr sec"
    and r: "run_connected V ?H sec tr s = (SystemExit 0, rest)"
    by (rule run_client_zero [OF assms(1) assms(2) [unfolded e]])
  obtain request response where x: "exchange V ?H sec tr = (Inr (request, response), rest)"
    "decide_exit V sec request response = SystemExit 0"
    by (rule run_connected_zero [OF assms(1) r])
  obtain used where v: "verify_response (ce_lib V) (ce_now V) response request sec (Some {}) = Inr (PStr (lit ''allow''), used)"
    using decide_exit_zero [OF x(2)] by blast
  have a: "attach_client_auth (client_request V ?H) sec = Inr request"
    using x(1) by (rule exchange_InrD)
  obtain requester where "authenticate S request = Inr requester" "justified S peer request requester"
    using end_to_end [OF x(1) v assms(4,5) assms(6) [OF b a] assms(7)] by blast
  with a b show ?thesis by (intro exI conjI)
qed

section \<open>The honest exchange\<close>

text \<open>What the server decides about an authenticated request it receives first.\<close>

definition verdict :: "session \<Rightarrow> pstr \<Rightarrow> dict \<Rightarrow> bool option" where
  "verdict S peer request =
     (case authenticate S request of Inl e \<Rightarrow> None
      | Inr requester \<Rightarrow>
          (let policy = decide S peer requester request
           in if policy = lit ''allow'' then Some True
              else if policy = lit ''deny'' then Some False
              else (case prompt_for_confirmation (se_dialogs S 0) (se_probe S) (confirmation_of S peer 0 requester request)
                      (dialog_program_of S) of
                      Inl e \<Rightarrow> None | Inr allowed \<Rightarrow> Some allowed)))"

lemma handle_message_verdict:
  assumes "wf_request request" "verdict S peer request = Some allowed"
    and "answer S 0 request (if allowed then lit ''allow'' else lit ''deny'') = Inr frame"
    and "send S 0 True frame = Inr ()" "send S 0 False (build_pending (dget request (lit ''nonce''))) = Inr ()"
  shows "\<exists>c. handle_message S peer 0 request \<in>
     {([EvSent frame], Stop),
      ([EvSent (build_pending (dget request (lit ''nonce''))), EvPrompt c allowed, EvSent frame], Again)}"
proof -
  obtain who where who: "authenticate S request = Inr who"
    using assms(2) by (cases "authenticate S request") (simp_all add: verdict_def)
  have m: "handle_message S peer 0 request = handle_request S peer 0 request"
    using assms(1) by (simp add: handle_message_def parse_request_Inr_iff [THEN iffD2])
  show ?thesis
  proof (cases "decide S peer who request \<in> {lit ''allow'', lit ''deny''}")
    case True
    then have "decide S peer who request = (if allowed then lit ''allow'' else lit ''deny'')"
      using assms(2) who by (auto simp: verdict_def split: if_splits)
    then show ?thesis
      using True assms(3,4) who by (simp add: m handle_request_def auto_reply_def)
  next
    case False
    then have "prompt_for_confirmation (se_dialogs S 0) (se_probe S) (confirmation_of S peer 0 who request) (dialog_program_of S)
        = Inr allowed"
      using assms(2) who by (auto simp: verdict_def split: sum.splits)
    then show ?thesis
      using False assms(3-5) who by (simp add: m handle_request_def ask_def Let_def)
  qed
qed

lemma handle_loop_one:
  assumes "json_ok (PDict request)" "write_message (se_lib S) request = Inr outbound"
    and "handle_message S peer 0 request = (events, out)"
  shows "fst (handle_loop S peer 0 \<lparr>st_bytes = outbound, st_fails = False\<rparr>) = events"
proof -
  have m: "read_message (se_lib S) \<lparr>st_bytes = outbound, st_fails = False\<rparr> = Inr (request, \<lparr>st_bytes = [], st_fails = False\<rparr>)"
    using read_written [OF assms(1,2), of "[]"] by simp
  have "handle_loop S peer (Suc 0) \<lparr>st_bytes = [], st_fails = False\<rparr> = ([], Stop)"
    by (simp add: handle_loop.simps read_nothing read_failed_def)
  then show ?thesis using handle_loop_again [OF m assms(3)] by simp
qed

lemma pending_type: "dget (build_pending nonce) (lit ''type'') = PStr PENDING_TYPE"
  by (simp add: build_pending_def)

lemma parse_own_pending:
  assumes "wf_request request"
  shows "parse_pending (build_pending (dget request (lit ''nonce''))) (dget request (lit ''nonce'')) = Inr ()"
proof -
  have "validate_nonce (dget request (lit ''nonce'')) = Inr ()" using assms by (simp add: wf_request_iff)
  then obtain n where n: "dget request (lit ''nonce'') = PStr n" "n \<noteq> []" "encodable n"
    using nonce_encodable by (auto simp: validate_nonce_ok_iff)
  then have "secure_equals (PStr n) (PStr n) = Inr True" by (simp add: secure_equals_Inr_True_iff)
  then show ?thesis
    using n by (simp add: parse_pending_def validate_envelope_ok_iff [THEN iffD2] build_pending_def)
qed

lemma read_decision_honest:
  assumes "wf_request request" "deliverable E frame" "deliverable E (build_pending (dget request (lit ''nonce'')))"
    and "dget frame (lit ''type'') = PStr (lit ''auth_response'')"
    and "frames = [frame] \<or> frames = [build_pending (dget request (lit ''nonce'')), frame]"
  shows "read_decision E request \<lparr>st_bytes = wire E frames, st_fails = False\<rparr> = Inr frame"
  using assms(5)
proof
  have t: "dget frame (lit ''type'') \<noteq> PStr PENDING_TYPE"
    using assms(4) by (simp add: PENDING_TYPE_def)
  assume "frames = [frame]"
  then show ?thesis
    using t read_wire [OF assms(2), of "[]" False] by (simp add: read_decision_def read_frame_def del: wire.simps)
next
  assume "frames = [build_pending (dget request (lit ''nonce'')), frame]"
  then show ?thesis
    using read_wire [OF assms(2), of "[]" False] read_wire [OF assms(3), of "[frame]" False] parse_own_pending [OF assms(1)]
    by (simp add: read_decision_def read_frame_def pending_type del: wire.simps)
qed

lemma server_reply_honest:
  assumes "wf_request request" "json_ok (PDict request)" "write_message (se_lib S) request = Inr outbound"
    and "verdict S peer request = Some allowed"
    and "answer S 0 request (if allowed then lit ''allow'' else lit ''deny'') = Inr frame"
    and "send S 0 True frame = Inr ()" "send S 0 False (build_pending (dget request (lit ''nonce''))) = Inr ()"
  shows "\<exists>frames. server_reply S peer outbound = \<lparr>st_bytes = wire (se_lib S) frames, st_fails = False\<rparr>
     \<and> (frames = [frame] \<or> frames = [build_pending (dget request (lit ''nonce'')), frame])"
proof -
  obtain c where "handle_message S peer 0 request \<in>
     {([EvSent frame], Stop),
      ([EvSent (build_pending (dget request (lit ''nonce''))), EvPrompt c allowed, EvSent frame], Again)}"
    using handle_message_verdict [OF assms(1,4-7)] by blast
  then obtain events out where h: "handle_message S peer 0 request = (events, out)"
    and "sent events = [frame] \<or> sent events = [build_pending (dget request (lit ''nonce'')), frame]"
    by force
  then show ?thesis
    using handle_loop_one [OF assms(2,3) h] by (auto simp: server_reply_def)
qed

lemma sent_deliverable:
  assumes "plain_answers S" "wf_request request" "answer S 0 request decision = Inr frame" "send S 0 True frame = Inr ()"
    and "send S 0 False (build_pending (dget request (lit ''nonce''))) = Inr ()"
  shows "deliverable (se_lib S) frame" "deliverable (se_lib S) (build_pending (dget request (lit ''nonce'')))"
  subgoal using assms answerI [OF assms(3,4)] by (intro answers_deliverable)
  subgoal using assms send_Inr [OF assms(5)] by (intro acknowledges_deliverable) (simp_all add: acknowledges_def)
  done

lemma honest_run:
  assumes "attach_client_auth (client_request V H) sec = Inr request" "write_message (ce_lib V) request = Inr outbound"
    and "ce_send V outbound = Inr ()" "read_timeouts (ce_lib V) tr = Inr timeouts"
    and "tr_name tr = lit ''unix'' \<Longrightarrow> verify_unix_peer_is_sshd H s None \<noteq> Some False"
    and "ce_reply V outbound = server_reply S peer outbound" "se_lib S = ce_lib V" "plain_answers S"
    and "wf_request request" "json_ok (PDict request)" "verdict S peer request = Some allowed"
    and "answer S 0 request (if allowed then lit ''allow'' else lit ''deny'') = Inr frame"
    and "send S 0 True frame = Inr ()" "send S 0 False (build_pending (dget request (lit ''nonce''))) = Inr ()"
    and "0 < response_ttl (se_security S)" "se_clock S 0 True \<le> ce_now V + clock_skew sec"
    and "ce_now V \<le> se_clock S 0 True + response_ttl (se_security S) + clock_skew sec"
    and "\<And>b. encodable (sha256_hex (ce_lib V) b)"
  shows "run_connected V H sec tr s = (SystemExit (if allowed then 0 else 1), [SentRequest outbound])"
proof -
  let ?decision = "if allowed then lit ''allow'' else lit ''deny''"
  obtain frames where f: "server_reply S peer outbound = \<lparr>st_bytes = wire (ce_lib V) frames, st_fails = False\<rparr>"
    "frames = [frame] \<or> frames = [build_pending (dget request (lit ''nonce'')), frame]"
    using server_reply_honest [OF assms(9,10) _ assms(11-14)] assms(2,7) by auto
  have frame: "build_response (ce_lib V) (se_clock S 0 True) (dget request (lit ''nonce'')) ?decision (Some request)
      (Some (se_security S)) (approver_of S) = Inr frame"
    using assms(12,7) by (simp add: answer_def)
  have "dget frame (lit ''type'') = PStr (lit ''auth_response'')"
    using frame by (rule build_response_fields)
  then have "read_decision (ce_lib V) request (server_reply S peer outbound) = Inr frame"
    unfolding f(1) using f(2) sent_deliverable [OF assms(8,9,12-14)] assms(7,9)
    by (intro read_decision_honest) simp_all
  then have x: "exchange V H sec tr = (Inr (request, frame), [SentRequest outbound])"
    using assms(1-4,6) by (simp add: exchange_def)
  have "verify_response (ce_lib V) (ce_now V) frame request sec (Some {}) =
      Inr (PStr ?decision, Some (insert (dget request (lit ''nonce'')) {}))"
    using assms(9,15-18) by (intro verify_honest [OF _ frame]) (simp_all add: parse_request_Inr_iff)
  then have "decide_exit V sec request frame = SystemExit (if allowed then 0 else 1)"
    by (simp add: decide_exit_def)
  then show ?thesis
    using assms(5) by (auto simp: run_connected_def x)
qed

text \<open>
  C11: End to end, an honest exchange completes. When the client's request reaches a server that
  can write, whose clock is within the skew of the client's and whose rules or human give a
  verdict on it, the client ends with exactly that verdict: code 0 for an \<open>allow\<close>, whether a
  rule or the human gave it, and code 1 for a \<open>deny\<close>.
\<close>

theorem honest_exchange_completes:
  assumes "attach_client_auth (client_request V H) sec = Inr request" "write_message (ce_lib V) request = Inr outbound"
    and "ce_send V outbound = Inr ()" "read_timeouts (ce_lib V) tr = Inr timeouts"
    and "tr_name tr = lit ''unix'' \<Longrightarrow> verify_unix_peer_is_sshd H s None \<noteq> Some False"
    and "ce_reply V outbound = server_reply S peer outbound" "se_lib S = ce_lib V" "plain_answers S"
    and "wf_request request" "json_ok (PDict request)" "verdict S peer request = Some allowed"
    and "answer S 0 request (if allowed then lit ''allow'' else lit ''deny'') = Inr frame"
    and "send S 0 True frame = Inr ()" "send S 0 False (build_pending (dget request (lit ''nonce''))) = Inr ()"
    and "0 < response_ttl (se_security S)" "se_clock S 0 True \<le> ce_now V + clock_skew sec"
    and "ce_now V \<le> se_clock S 0 True + response_ttl (se_security S) + clock_skew sec"
    and "\<And>b. encodable (sha256_hex (ce_lib V) b)"
  shows "run_connected V H sec tr s = (SystemExit (if allowed then 0 else 1), [SentRequest outbound])"
  using assms by (rule honest_run)

section \<open>A concrete exchange\<close>

definition demo_pam :: host where
  "demo_pam = demo_host\<lparr>h_env := (\<lambda>name.
     if name = lit ''PAM_SERVICE'' then Some (lit ''sudo'') else if name = lit ''PAM_USER'' then Some (lit ''bob'')
     else if name = lit ''PAM_RUSER'' then Some (lit ''bob'') else if name = lit ''SUDO_AUTH_PROXY_SOCK'' then Some (lit ''/run/s'')
     else None), h_hostname := lit ''vm''\<rparr>"

definition demo_client_config :: dict where
  "demo_client_config = [(lit ''mode'', PStr (lit ''client'')), (lit ''transport'', PStr (lit ''unix'')),
     (lit ''security'', PDict [(lit ''transport_encryption'', PStr (lit ''none'')),
        (lit ''client_auth'', PStr (lit ''none'')), (lit ''server_auth'', PStr (lit ''none''))])]"

definition demo_client :: client_env where
  "demo_client = \<lparr>ce_lib = short_lib, ce_crypto = demo_crypto, ce_read = (\<lambda>_. None), ce_net = demo_net, ce_host = demo_pam,
     ce_config = demo_client_config, ce_random = replicate 32 0, ce_send = (\<lambda>_. Inr ()),
     ce_reply = server_reply (demo_session [catch_all (lit ''allow'')]) [], ce_now = 102\<rparr>"

lemma demo_client_sel [simp]:
  "ce_lib demo_client = short_lib" "ce_crypto demo_client = demo_crypto" "ce_read demo_client = (\<lambda>_. None)"
  "ce_net demo_client = demo_net" "ce_host demo_client = demo_pam" "ce_config demo_client = demo_client_config"
  "ce_random demo_client = replicate 32 0" "ce_send demo_client = (\<lambda>_. Inr ())"
  "ce_reply demo_client = server_reply (demo_session [catch_all (lit ''allow'')]) []" "ce_now demo_client = 102"
  by (simp_all add: demo_client_def)

lemma demo_lib_sel [simp]: "se_lib (demo_session rules) = short_lib"
  by (simp add: demo_session_def)

lemma demo_os_calm: "os_calm demo_client"
  by (simp add: os_calm_def demo_net_def)

lemma demo_plain_answers: "plain_answers (demo_session rules)"
  by (simp add: plain_answers_def demo_session_def approver_of_def demo_host_def demo_open_def demo_security_def
      nat_repr.simps max_int_digits_def)

lemma demo_nonce_random: "b64encode (replicate 32 0) = demo_nonce"
  by code_simp

lemma demo_client_request:
  "attach_client_auth (client_request demo_client (activate_recursion_guard demo_pam)) demo_open = Inr marked_request"
  by (simp add: attach_client_auth_def demo_open_def demo_security_def client_request_def collect_request_fields_def
      demo_nonce_random Let_def env_get_def activate_recursion_guard_def demo_pam_def RECURSION_GUARD_ENV_def or_else_def
      demo_client_config_def marked_request_def build_request_def demo_host_def dset_def)

lemma demo_client_security: "\<exists>sec. build_security demo_client_config ''client'' = Inr sec \<and> client_auth sec = lit ''none'' \<and> clock_skew sec = 5"
proof -
  have schema: "validate_config_schema demo_client_config = Inr ()"
    by (simp add: schema_accepts demo_client_config_def dkeys_def CONFIG_TABLE_KEYS_def CONFIG_TOP_LEVEL_KEYS_def CONFIG_SECURITY_KEYS_def)
  have "\<exists>k. validate_security_config demo_client_config = Inr k \<and> k_client_auth k = lit ''none''"
    by (simp add: demo_client_config_def validate_security_config_def resolve_encryption_def mtls_enabled_def dget_or_def
        check_auth_methods_def resolve_auth_def)
  then obtain k where k: "validate_security_config demo_client_config = Inr k" "k_client_auth k = lit ''none''" by blast
  show ?thesis
    using k(2) by (simp add: build_security_def schema k) (simp add: demo_client_config_def dget_or_def py_int_def load_client_acl_def DEFAULT_CLOCK_SKEW_def k)
qed

definition demo_client_transport :: transport where
  "demo_client_transport = \<lparr>tr_name = lit ''unix'', tr_config = demo_client_config, tr_connect_timeout = PFloat (1 / 5),
     tr_recv_timeout = PFloat (1 / 2), tr_decision_timeout = PFloat 120, tr_path = lit ''/run/s'', tr_bound_ino = None\<rparr>"

lemma demo_client_transport:
  "client_transport demo_client (activate_recursion_guard demo_pam) = Inr demo_client_transport"
proof -
  let ?H = "activate_recursion_guard demo_pam"
  have init: "transport_init short_lib (lit ''unix'') demo_client_config = Inr (demo_client_transport\<lparr>tr_path := []\<rparr>)"
    by (simp add: transport_init_def demo_client_config_def dget_or_def py_float_def DEFAULT_CONNECT_TIMEOUT_def
        resolve_read_timeouts_def DEFAULT_RECV_TIMEOUT_def DEFAULT_DECISION_TIMEOUT_def py_int_def demo_client_transport_def)
  have get: "dget_or demo_client_config (lit ''transport'') v = PStr (lit ''unix'')" "dget demo_client_config (lit ''socket'') = PNone" for v
    by (simp_all add: demo_client_config_def dget_or_def)
  have "\<exists>tr. make_transport short_lib ?H demo_client_config = Inr tr \<and> tr_name tr = lit ''unix''"
    by (simp add: make_transport_def unix_transport_def init get) (simp add: demo_client_transport_def)
  moreover have "env_get ?H ''SUDO_AUTH_PROXY_SOCK'' = lit ''/run/s''"
    by (simp add: env_get_def activate_recursion_guard_def demo_pam_def RECURSION_GUARD_ENV_def)
  moreover have "verify_selector_socket ?H (lit ''/run/s'') = Inr ()"
    by (simp add: verify_selector_socket_def selector_owner_def activate_recursion_guard_def demo_pam_def RECURSION_GUARD_ENV_def demo_host_def)
  ultimately show ?thesis
    by (auto simp: client_transport_def unix_transport_def init demo_client_transport_def)
qed

lemma demo_connect:
  "connect short_lib demo_crypto (\<lambda>_. None) demo_net H demo_client_transport = Inr demo_sock"
proof -
  have "\<exists>k. validate_security_config demo_client_config = Inr k \<and> k_encryption k = lit ''none''"
    by (simp add: demo_client_config_def validate_security_config_def resolve_encryption_def mtls_enabled_def dget_or_def
        check_auth_methods_def resolve_auth_def)
  then have "create_ssl_context demo_crypto (\<lambda>_. None) demo_net demo_client_config False = Inr None"
    by (auto simp: create_ssl_context_def)
  then show ?thesis
    by (simp add: connect_def address_of_def is_callback_def demo_client_transport_def demo_net_def)
qed

text \<open>The demo client reaches the demo server whose only rule allows everything.\<close>

abbreviation demo_server :: session where
  "demo_server \<equiv> demo_session [catch_all (lit ''allow'')]"

lemma demo_verdict: "verdict demo_server [] marked_request = Some True"
proof -
  have "decide demo_server [] NONE_IDENTITY marked_request = lit ''allow''"
    by (simp add: decide_def demo_session_def)
  then show ?thesis by (simp add: verdict_def demo_authenticates)
qed

lemma demo_sends:
  "\<exists>frame. answer demo_server 0 marked_request (lit ''allow'') = Inr frame \<and> send demo_server 0 True frame = Inr ()"
  "send demo_server 0 False (build_pending (PStr demo_nonce)) = Inr ()"
proof -
  have w: "se_writes demo_server n v" for n v by (simp add: demo_session_def)
  show "\<exists>frame. answer demo_server 0 marked_request (lit ''allow'') = Inr frame \<and> send demo_server 0 True frame = Inr ()"
    using demo_answer [of "[catch_all (lit ''allow'')]" 0 "lit ''allow''"] demo_writes(2) w by (auto simp: send_def)
  show "send demo_server 0 False (build_pending (PStr demo_nonce)) = Inr ()"
    using demo_writes(1) w by (auto simp: send_def)
qed

lemma demo_clock: "se_clock demo_server 0 True = 100" "response_ttl (se_security demo_server) = 30"
  by (simp_all add: demo_session_def demo_open_def demo_security_def)

lemma demo_tunnel_ok: "verify_unix_peer_is_sshd (activate_recursion_guard demo_pam) demo_sock None \<noteq> Some False"
proof -
  have "verify_unix_peer_is_sshd (activate_recursion_guard demo_pam) demo_sock None = verify_unix_peer_is_sshd demo_host demo_sock None"
    by (simp add: verify_unix_peer_is_sshd_def peer_cannot_replace_def demo_host_def demo_sock_def activate_recursion_guard_def demo_pam_def)
  then show ?thesis using demo_tunnel by simp
qed

lemma demo_timeouts: "read_timeouts short_lib demo_client_transport = Inr (PFloat (1 / 2), PFloat 120)"
  by (simp add: read_timeouts_def demo_client_transport_def resolve_read_timeouts_def demo_client_config_def py_float_def
      py_int_def dget_or_def DEFAULT_RECV_TIMEOUT_def DEFAULT_DECISION_TIMEOUT_def)

lemma short_lib_sha: "encodable (sha256_hex short_lib b)"
  by (simp add: short_lib_def)

lemma demo_marks:
  assumes "client_auth sec = lit ''none''"
  shows "attach_client_auth (client_request demo_client (activate_recursion_guard demo_pam)) sec = Inr marked_request"
  using demo_client_request assms by (simp add: attach_client_auth_def demo_open_def)

lemma demo_run:
  assumes "client_auth sec = lit ''none''" "clock_skew sec = 5"
  shows "run_connected demo_client (activate_recursion_guard demo_pam) sec demo_client_transport demo_sock =
     (SystemExit 0, [SentRequest demo_bytes])"
proof -
  obtain frame where frame: "answer demo_server 0 marked_request (lit ''allow'') = Inr frame"
    "send demo_server 0 True frame = Inr ()"
    using demo_sends(1) by blast
  show ?thesis
    using honest_run [of demo_client "activate_recursion_guard demo_pam" sec marked_request demo_bytes demo_client_transport
        "(PFloat (1 / 2), PFloat 120)" demo_sock demo_server "[]" True frame]
      demo_marks [OF assms(1)] demo_bytes demo_timeouts demo_tunnel_ok demo_plain_answers wf_marked_request
      json_ok_marked_request demo_verdict frame demo_sends(2) demo_clock assms(2) short_lib_sha
    by simp
qed

lemma demo_run_client: "run_client demo_client = (SystemExit 0, [GuardSet, Connected, SentRequest demo_bytes])"
proof -
  obtain sec where sec: "build_security demo_client_config ''client'' = Inr sec" "client_auth sec = lit ''none''" "clock_skew sec = 5"
    using demo_client_security by blast
  have "\<not> recursion_guard_active demo_pam"
    by (simp add: recursion_guard_active_def demo_pam_def RECURSION_GUARD_ENV_def)
  moreover have "describe H demo_client_transport = Inr ()" for H
    by (simp add: describe_def address_of_def is_callback_def demo_client_transport_def)
  ultimately show ?thesis
    using demo_run [OF sec(2,3)] sec(1) demo_connect demo_client_transport
    by (simp add: run_client_def)
qed

theorem honest_exchange_completes_witness:
  "run_connected demo_client (activate_recursion_guard demo_pam) demo_open demo_client_transport demo_sock =
     (SystemExit 0, [SentRequest demo_bytes])"
proof -
  obtain frame where frame: "answer demo_server 0 marked_request (lit ''allow'') = Inr frame"
    "send demo_server 0 True frame = Inr ()"
    using demo_sends(1) by blast
  have "client_auth demo_open = lit ''none''" "clock_skew demo_open = 5"
    by (simp_all add: demo_open_def demo_security_def)
  then show ?thesis
    using honest_exchange_completes [of demo_client "activate_recursion_guard demo_pam" demo_open marked_request demo_bytes
        demo_client_transport "(PFloat (1 / 2), PFloat 120)" demo_sock demo_server "[]" True frame]
      demo_marks demo_bytes demo_timeouts demo_tunnel_ok demo_plain_answers wf_marked_request
      json_ok_marked_request demo_verdict frame demo_sends(2) demo_clock short_lib_sha
    by simp
qed

theorem elevation_is_authorised_witness:
  "\<exists>requester. authenticate demo_server marked_request = Inr requester \<and> justified demo_server [] marked_request requester"
proof -
  obtain sec where sec: "build_security demo_client_config ''client'' = Inr sec" "client_auth sec = lit ''none''"
    using demo_client_security by blast
  have a: "attach_client_auth (client_request demo_client (activate_recursion_guard demo_pam)) sec' = Inr request \<longleftrightarrow> request = marked_request"
    if "build_security demo_client_config ''client'' = Inr sec'" for sec' request
    using that sec demo_marks by auto
  then have j: "json_ok (PDict request)"
    if "build_security (ce_config demo_client) ''client'' = Inr sec'"
      "attach_client_auth (client_request demo_client (activate_recursion_guard (ce_host demo_client))) sec' = Inr request"
    for sec' request
    using that json_ok_marked_request by simp
  have "exit_code (SystemExit 0) = 0" "ce_reply demo_client outbound = server_reply demo_server [] outbound"
    "se_lib demo_server = ce_lib demo_client" for outbound
    by (simp_all add: exit_code_def)
  then have "\<exists>sec request requester. build_security (ce_config demo_client) ''client'' = Inr sec \<and>
     attach_client_auth (client_request demo_client (activate_recursion_guard (ce_host demo_client))) sec = Inr request \<and>
     authenticate demo_server request = Inr requester \<and> justified demo_server [] request requester"
    by (intro elevation_is_authorised [OF demo_os_calm demo_run_client _ _ _ _ demo_plain_answers] j)
  then show ?thesis using a by auto
qed

theorem client_fails_closed_witness:
  "\<exists>sec response used. read_decision short_lib marked_request (server_reply demo_server [] demo_bytes) = Inr response \<and>
     verify_response short_lib 102 response marked_request sec (Some {}) = Inr (PStr (lit ''allow''), used)"
proof -
  have z: "exit_code (SystemExit 0) = 0" by (simp add: exit_code_def)
  obtain sec where sec: "build_security demo_client_config ''client'' = Inr sec" "client_auth sec = lit ''none''"
    using demo_client_security by blast
  show ?thesis
    using client_fails_closed [OF demo_os_calm demo_run_client z] sec demo_marks [of sec] by auto
qed

theorem recursion_is_refused_witness:
  "run_client (demo_client\<lparr>ce_host := activate_recursion_guard demo_pam\<rparr>) = (SystemExit 1, [])"
  using recursion_is_refused [of demo_client] recursion_is_refused [of "demo_client\<lparr>ce_host := activate_recursion_guard demo_pam\<rparr>"]
  by simp

end
