(* ===== verification/Startup.thy ===== *)
theory Startup
  imports Elevation
begin

text \<open>
  The start of \<open>sudo-auth-proxy\<close>: the paths \<open>load_config\<close> resolves, and what \<open>main\<close> runs.
\<close>

section \<open>Certificate paths\<close>

lemma rstrip_prefix: "\<exists>z. dir = rev (dropWhile p (rev dir)) @ z"
proof -
  have "rev dir = takeWhile p (rev dir) @ dropWhile p (rev dir)" by simp
  then have "dir = rev (dropWhile p (rev dir)) @ rev (takeWhile p (rev dir))"
    by (metis rev_append rev_rev_ident)
  then show ?thesis by blast
qed

lemma expanduser_home:
  assumes "startswith (lit ''~/'') s" "home [] = Some dir" "startswith (lit ''/'') dir"
  shows "startswith (lit ''/'') (expanduser home s)"
proof -
  obtain t where s: "s = 126 # 47 # t" using assms(1) by (auto elim!: startswithE simp: lit_def)
  let ?strip = "rev (dropWhile (\<lambda>c. c = 47) (rev dir))"
  obtain z where z: "dir = ?strip @ z" using rstrip_prefix by blast
  obtain d where d: "dir = 47 # d" using assms(3) by (auto simp: startswith_slash)
  have "expanduser home s = ?strip @ 47 # t"
    using assms(2) by (simp add: expanduser_def s startswith_def lit_def)
  moreover have "?strip = [] \<or> hd ?strip = 47"
    using z d by (metis hd_append2 list.sel(1))
  ultimately show ?thesis
    unfolding startswith_slash by (cases ?strip) simp_all
qed

lemma path_str_rooted: "startswith (lit ''/'') (fst p) \<Longrightarrow> startswith (lit ''/'') (path_str p)"
  by (auto simp: startswith_slash path_str_def)

lemma path_of_rooted: "path_absolute (path_of s) \<Longrightarrow> startswith (lit ''/'') (fst (path_of s))"
  by (auto simp: path_absolute_def path_of_def startswith_slash lit_def split: if_splits)

lemma resolve_path_rooted:
  assumes "startswith (lit ''/'') (fst dir)" "home [] = Some h" "startswith (lit ''/'') h"
  shows "\<exists>t. resolve_path home dir (PStr s) = PStr t \<and> startswith (lit ''/'') t"
proof -
  have "startswith (lit ''/'') (fst (path_div dir (path_of s)))" if "\<not> path_absolute (path_of s)"
    using assms(1) that by (simp add: path_div_def)
  then show ?thesis
    using expanduser_home [of s home h] assms(2,3) path_str_rooted path_of_rooted
    by (auto simp: resolve_path_def)
qed

definition anchored :: "dict \<Rightarrow> bool" where
  "anchored container \<longleftrightarrow>
     (\<forall>mtls key s. dget container (lit ''mtls'') = PDict mtls \<and> key \<in> set MTLS_PATH_KEYS \<and> dget mtls key = PStr s \<and> s \<noteq> []
        \<longrightarrow> startswith (lit ''/'') s)"

lemma resolve_keys_get:
  "distinct keys \<Longrightarrow> dget (resolve_keys home dir keys mtls) k =
     (if k \<in> set keys \<and> truthy (dget mtls k) then resolve_path home dir (dget mtls k) else dget mtls k)"
  by (induction keys arbitrary: mtls) auto

lemma distinct_path_keys: "distinct MTLS_PATH_KEYS"
  by (simp add: MTLS_PATH_KEYS_def)

lemmas path_keys_get = resolve_keys_get [OF distinct_path_keys]

lemma anchored_resolve_tables:
  assumes "startswith (lit ''/'') (fst dir)" "home [] = Some h" "startswith (lit ''/'') h"
  shows "anchored (resolve_tables home dir container)"
proof (cases "dget container (lit ''mtls'')")
  case (PDict mtls)
  have "startswith (lit ''/'') s"
    if "key \<in> set MTLS_PATH_KEYS" "dget (resolve_keys home dir MTLS_PATH_KEYS mtls) key = PStr s" "s \<noteq> []" for key s
  proof (cases "dget mtls key")
    case (PStr t)
    then show ?thesis
      using that resolve_path_rooted [where home = home, OF assms, of t]
      by (auto simp: path_keys_get split: if_splits)
  qed (use that in \<open>auto simp: path_keys_get resolve_path_def split: if_splits\<close>)
  with PDict show ?thesis by (auto simp: anchored_def resolve_tables_def)
qed (simp_all add: anchored_def resolve_tables_def)

text \<open>
  Certificate paths do not depend on where the process was started. In a loaded
  configuration, \<open>ca_file\<close>, \<open>cert_file\<close> and \<open>key_file\<close> of every \<open>[mtls]\<close> table, at the top and in every
  listener, are absolute (given an absolute configuration directory and home), and nothing
  but these tables is changed.
\<close>

theorem certificate_paths_are_anchored:
  assumes "startswith (lit ''/'') (fst dir)" "home [] = Some h" "startswith (lit ''/'') h"
  shows "anchored (resolve_config home dir config)
    \<and> (\<forall>es entry. dget (resolve_config home dir config) (lit ''listeners'') = PList es \<longrightarrow> PDict entry \<in> set es \<longrightarrow> anchored entry)
    \<and> (\<forall>k. k \<noteq> lit ''mtls'' \<longrightarrow> k \<noteq> lit ''listeners'' \<longrightarrow> dget (resolve_config home dir config) k = dget config k)"
proof -
  let ?top = "resolve_tables home dir config"
  have top: "anchored ?top" by (rule anchored_resolve_tables [where home = home, OF assms])
  have keep: "dget ?top k = dget config k" if "k \<noteq> lit ''mtls''" for k
    using that by (simp add: resolve_tables_def split: pyval.split)
  have entry: "anchored d" if "PDict d = resolve_entry home dir e" for d e
    using that anchored_resolve_tables [where home = home, OF assms] by (cases e) (simp_all add: resolve_entry_def)
  show ?thesis
  proof (cases "dget ?top (lit ''listeners'')")
    case (PList es)
    have "anchored (dset ?top (lit ''listeners'') v)" for v using top by (simp add: anchored_def)
    then show ?thesis using PList keep entry by (auto simp: resolve_config_def Let_def)
  qed (use top keep in \<open>simp_all add: resolve_config_def Let_def\<close>)
qed

theorem certificate_paths_are_anchored_witness:
  "anchored (resolve_config (\<lambda>_. Some (lit ''/root'')) (path_of (lit ''/etc/sap''))
     [(lit ''mtls'', PDict [(lit ''key_file'', PStr (lit ''k.pem''))])])"
  using certificate_paths_are_anchored [of "path_of (lit ''/etc/sap'')" "\<lambda>_. Some (lit ''/root'')" "lit ''/root''"]
  by (simp add: path_of_def startswith_def lit_def)

section \<open>What main runs\<close>

lemma calm_validate_document_schema [calm]: "calm (validate_document_schema config)"
proof -
  have nested: "calm (check_nested_tables entry tables)" for entry tables
    by (induction entry tables rule: check_nested_tables.induct) (auto split: pyval.split)
  have table: "calm (validate_listener_table v)" for v
    using nested by (cases v) (auto simp: validate_listener_table_def)
  have "calm (check_listeners es seen)" for es seen
    by (induction es seen rule: check_listeners.induct) (auto intro!: calm_bind table split: pyval.split)
  moreover have "calm (validate_config_schema config)" by (simp add: validate_config_schema_def)
  ultimately show ?thesis
    unfolding validate_document_schema_def by (auto split: pyval.split)
qed

text \<open>
  A role only ever runs a document the schema accepts, and the one its \<open>mode\<close> names; every
  other document ends the process with a non-zero code, so that a broken configuration
  file can never let an elevation through.
\<close>

theorem main_runs_accepted_documents:
  "case main_program config of
     Serves c \<Rightarrow> c = config \<and> validate_document_schema config = Inr () \<and> dget config (lit ''mode'') = PStr (lit ''server'')
   | RunsClient c \<Rightarrow> c = config \<and> validate_document_schema config = Inr () \<and> dget config (lit ''mode'') = PStr (lit ''client'')
   | Exits e \<Rightarrow> exit_code e \<noteq> 0 \<and> (validate_document_schema config \<noteq> Inr ()
        \<or> dget config (lit ''mode'') \<notin> {PStr (lit ''server''), PStr (lit ''client'')})"
proof (cases "validate_document_schema config")
  case (Inl e)
  then have "e \<noteq> SystemExit 0" using calm_validate_document_schema calmD by blast
  with Inl show ?thesis by (cases e) (simp_all add: main_program_def exit_code_def)
qed (auto simp: main_program_def Let_def exit_code_def)

theorem main_runs_accepted_documents_witness:
  "\<exists>e. main_program [] = Exits e \<and> exit_code e \<noteq> 0"
proof -
  have "dget [] (lit ''mode'') = PNone" by (simp add: dget_def)
  then show ?thesis
    using main_runs_accepted_documents [of "[]"] by (cases "main_program []") auto
qed

end
