(* ===== verification/MountHelper.thy ===== *)
theory MountHelper
  imports Text Json
begin

text \<open>
  The root helper \<open>tartarus-mount\<close> inside a guest: validation of ids and targets, the state file,
  the three operations, the dispatch of one request and the handling of one connection. What
  lies outside (the mount programs, the mount table, the file system, the user database) is
  the record \<open>mount_env\<close> over an abstract kernel state; a run of the helper passes that state
  and the state file along.
\<close>

section \<open>Constants\<close>

definition RUN_DIR :: pstr where
  "RUN_DIR = lit ''/run/tartarus-mount''"

definition STAGING_DIR :: pstr where
  "STAGING_DIR = path_join RUN_DIR (lit ''staging'')"

definition OVERLAY_DIR :: pstr where
  "OVERLAY_DIR = path_join RUN_DIR (lit ''overlays'')"

definition MODES :: "pstr list" where
  "MODES = [lit ''rw'', lit ''ro'', lit ''overlay'']"

definition FORBIDDEN_TARGETS :: "pstr list" where
  "FORBIDDEN_TARGETS = [lit ''/'', lit ''/proc'', lit ''/sys'', lit ''/dev'', lit ''/run/tartarus-mount'']"

definition MAX_REQUEST :: nat where
  "MAX_REQUEST = 1024 * 1024"

section \<open>Validation\<close>

definition id_char :: "nat \<Rightarrow> bool" where
  "id_char c \<longleftrightarrow> (65 \<le> c \<and> c \<le> 90) \<or> (97 \<le> c \<and> c \<le> 122) \<or> (48 \<le> c \<and> c \<le> 57) \<or> c = 95 \<or> c = 45"

definition validate_id :: "pyval \<Rightarrow> pstr res" where
  "validate_id value =
     (case value of
        PStr s \<Rightarrow> if s = [] \<or> (\<exists>c \<in> set s. \<not> id_char c) then Inl (ValueError ''invalid mount id'') else Inr s
      | _ \<Rightarrow> Inl (ValueError ''invalid mount id''))"

text \<open>\<open>os.path.normpath\<close>; exactly two leading slashes are kept.\<close>

definition norm_step :: "bool \<Rightarrow> pstr list \<Rightarrow> pstr \<Rightarrow> pstr list" where
  "norm_step rooted comps c =
     (if c = [] \<or> c = lit ''.'' then comps
      else if c \<noteq> lit ''..'' \<or> (\<not> rooted \<and> comps = []) \<or> (comps \<noteq> [] \<and> last comps = lit ''..'') then comps @ [c]
      else butlast comps)"

definition leading_slashes :: "pstr \<Rightarrow> pstr" where
  "leading_slashes s =
     (if startswith (lit ''//'') s \<and> \<not> startswith (lit ''///'') s then lit ''//''
      else if startswith (lit ''/'') s then lit ''/'' else [])"

definition normpath :: "pstr \<Rightarrow> pstr" where
  "normpath s =
     (let root = leading_slashes s;
          p = root @ join (lit ''/'') (foldl (norm_step (root \<noteq> [])) [] (split_on 47 s))
      in if s = [] \<or> p = [] then lit ''.'' else p)"

definition reserved :: "pstr \<Rightarrow> pstr \<Rightarrow> bool" where
  "reserved normalized forbidden \<longleftrightarrow>
     normalized = forbidden \<or> (forbidden \<noteq> lit ''/'' \<and> startswith (forbidden @ lit ''/'') normalized)"

definition validate_target :: "pyval \<Rightarrow> pstr res" where
  "validate_target target =
     (case target of
        PStr s \<Rightarrow>
          if s = [] then Inl (ValueError ''mount target must be a non-empty string'')
          else (let normalized = normpath s
                in if \<not> startswith (lit ''/'') normalized then Inl (ValueError ''mount target must be absolute'')
                   else if \<exists>forbidden \<in> set FORBIDDEN_TARGETS. reserved normalized forbidden
                   then Inl (ValueError ''refusing reserved mount target'')
                   else Inr normalized)
      | _ \<Rightarrow> Inl (ValueError ''mount target must be a non-empty string''))"

section \<open>Removing an overlay layer\<close>

text \<open>
  A tree below a path as \<open>lstat\<close> and \<open>scandir\<close> show it: anything but a directory, with whether it
  can be unlinked, or a directory, with whether it is a mount point, can be listed, and could
  be removed once empty.
\<close>

datatype ftree = Leaf bool | Tree bool bool bool "(pstr \<times> ftree) list"

text \<open>\<open>_safe_rmtree\<close>: what is left of the tree. The function returns True when nothing is.\<close>

fun safe_rmtree :: "ftree \<Rightarrow> ftree option"
  and rm_entries :: "(pstr \<times> ftree) list \<Rightarrow> (pstr \<times> ftree) list" where
  "safe_rmtree (Leaf unlinks) = (if unlinks then None else Some (Leaf unlinks))"
| "safe_rmtree (Tree mounted listable empties entries) =
     (if mounted \<or> \<not> listable then Some (Tree mounted listable empties entries)
      else if rm_entries entries = [] \<and> empties then None
      else Some (Tree mounted listable empties (rm_entries entries)))"
| "rm_entries [] = []"
| "rm_entries ((name, t) # entries) =
     (case safe_rmtree t of None \<Rightarrow> rm_entries entries | Some left \<Rightarrow> (name, left) # rm_entries entries)"

section \<open>The outside\<close>

record 'k mount_env =
  me_lib :: lib
  me_mount_bin :: pstr
  me_umount_bin :: pstr
  me_run :: "'k \<Rightarrow> pstr list \<Rightarrow> unit res \<times> 'k"
  me_ismount :: "'k \<Rightarrow> pstr \<Rightarrow> bool"
  me_isdir :: "'k \<Rightarrow> pstr \<Rightarrow> bool"
  me_makedirs :: "'k \<Rightarrow> pstr \<Rightarrow> bool \<Rightarrow> unit res \<times> 'k"
  me_chown :: "'k \<Rightarrow> pstr \<Rightarrow> int \<Rightarrow> int \<Rightarrow> unit res \<times> 'k"
  me_walk :: "'k \<Rightarrow> pstr \<Rightarrow> pstr list"
  me_tree :: "'k \<Rightarrow> pstr \<Rightarrow> ftree option"
  me_prune :: "'k \<Rightarrow> pstr \<Rightarrow> ftree option \<Rightarrow> 'k"
  me_user :: "int option"
  me_group :: "int option"
  me_writable :: "'k \<Rightarrow> bool"

text \<open>
  The helper's world: the kernel, the JSON value in the state file (\<open>None\<close> when it is missing or
  malformed), and the commands run so far, the latest last.
\<close>

record 'k daemon =
  d_kernel :: 'k
  d_file :: "pyval option"
  d_log :: "pstr list list"

type_synonym ('k, 'a) daemon_op = "('k daemon, 'a) op"

definition on_kernel :: "('k \<Rightarrow> 'a res \<times> 'k) \<Rightarrow> ('k, 'a) daemon_op" where
  "on_kernel f d = (case f (d_kernel d) of (r, k) \<Rightarrow> (r, d\<lparr>d_kernel := k\<rparr>))"

definition run :: "'k mount_env \<Rightarrow> pstr list \<Rightarrow> ('k, unit) daemon_op" where
  "run E command d =
     (case me_run E (d_kernel d) command of (r, k) \<Rightarrow> (r, d\<lparr>d_kernel := k, d_log := d_log d @ [command]\<rparr>))"

definition read_state :: "'k daemon \<Rightarrow> pyval list" where
  "read_state d = (case d_file d of Some (PList entries) \<Rightarrow> entries | _ \<Rightarrow> [])"

text \<open>The file is replaced as a whole or not at all.\<close>

definition write_state :: "'k mount_env \<Rightarrow> pyval list \<Rightarrow> ('k, unit) daemon_op" where
  "write_state E entries d =
     (if me_writable E (d_kernel d) then (Inr (), d\<lparr>d_file := Some (PList entries)\<rparr>)
      else (Inl (OSError ''cannot write the state file''), d))"

definition uid_gid :: "'k mount_env \<Rightarrow> ('k, int \<times> int) daemon_op" where
  "uid_gid E = (case me_user E of None \<Rightarrow> raise KeyError
     | Some uid \<Rightarrow> (case me_group E of None \<Rightarrow> raise KeyError | Some gid \<Rightarrow> ret (uid, gid)))"

fun chown_all :: "'k mount_env \<Rightarrow> int \<Rightarrow> int \<Rightarrow> pstr list \<Rightarrow> ('k, unit) daemon_op" where
  "chown_all E uid gid [] = ret ()"
| "chown_all E uid gid (p # ps) =
     seq (on_kernel (\<lambda>k. me_chown E k p uid gid)) (\<lambda>_. chown_all E uid gid ps)"

definition chown_tree :: "'k mount_env \<Rightarrow> pstr \<Rightarrow> int \<Rightarrow> int \<Rightarrow> ('k, unit) daemon_op" where
  "chown_tree E path uid gid =
     seq (on_kernel (\<lambda>k. me_chown E k path uid gid)) (\<lambda>_ d. chown_all E uid gid (me_walk E (d_kernel d) path) d)"

section \<open>Mounting\<close>

definition field :: "pyval \<Rightarrow> string \<Rightarrow> pyval" where
  "field entry name = (case entry of PDict d \<Rightarrow> dget d (lit name) | _ \<Rightarrow> PNone)"

definition same_record :: "pyval \<Rightarrow> pstr \<Rightarrow> pstr \<Rightarrow> pstr \<Rightarrow> bool" where
  "same_record entry identifier target mode \<longleftrightarrow>
     is_dict entry \<and> field entry ''id'' = PStr identifier \<and> field entry ''target'' = PStr target \<and>
     field entry ''mode'' = PStr mode"

text \<open>The search of the records: the first one of this target ends it, as the result or as an error.\<close>

fun find_managed :: "pyval list \<Rightarrow> pstr \<Rightarrow> pstr \<Rightarrow> pstr \<Rightarrow> pyval res option" where
  "find_managed [] identifier target mode = None"
| "find_managed (entry # entries) identifier target mode =
     (if same_record entry identifier target mode then Some (Inr entry)
      else if is_dict entry \<and> field entry ''target'' = PStr target
      then Some (Inl (RuntimeError ''target is already managed''))
      else find_managed entries identifier target mode)"

definition prepare_target :: "'k mount_env \<Rightarrow> pstr \<Rightarrow> ('k, unit) daemon_op" where
  "prepare_target E target d =
     (if me_isdir E (d_kernel d) target then ret () d
      else seq (on_kernel (\<lambda>k. me_makedirs E k target False)) (\<lambda>_. seq (uid_gid E)
        (\<lambda>(uid, gid). on_kernel (\<lambda>k. me_chown E k target uid gid))) d)"

definition bind_command :: "'k mount_env \<Rightarrow> pstr \<Rightarrow> pstr \<Rightarrow> pstr list" where
  "bind_command E source target = [me_mount_bin E, lit ''--bind'', source, target]"

definition remount_command :: "'k mount_env \<Rightarrow> pstr \<Rightarrow> pstr list" where
  "remount_command E target = [me_mount_bin E, lit ''-o'', lit ''remount,ro,bind'', target]"

definition overlay_command :: "'k mount_env \<Rightarrow> pstr \<Rightarrow> pstr \<Rightarrow> pstr \<Rightarrow> pstr list" where
  "overlay_command E source overlay target =
     [me_mount_bin E, lit ''-t'', lit ''overlay'', lit ''overlay'', lit ''-o'',
      lit ''lowerdir='' @ source @ lit '',upperdir='' @ path_join overlay (lit ''upper'') @ lit '',workdir=''
        @ path_join overlay (lit ''work'') @ lit '',userxattr'', target]"

definition run_mount :: "'k mount_env \<Rightarrow> pstr \<Rightarrow> pstr \<Rightarrow> pstr \<Rightarrow> pstr \<Rightarrow> ('k, unit) daemon_op" where
  "run_mount E identifier target mode source =
     (if mode = lit ''rw'' then run E (bind_command E source target)
      else if mode = lit ''ro'' then
        seq (run E (bind_command E source target)) (\<lambda>_. run E (remount_command E target))
      else (let overlay = path_join OVERLAY_DIR identifier in
        seq (on_kernel (\<lambda>k. me_makedirs E k (path_join overlay (lit ''upper'')) True)) (\<lambda>_.
        seq (on_kernel (\<lambda>k. me_makedirs E k (path_join overlay (lit ''work'')) True)) (\<lambda>_.
        seq (uid_gid E) (\<lambda>(uid, gid).
        seq (chown_tree E overlay uid gid) (\<lambda>_. run E (overlay_command E source overlay target)))))))"

definition mount_entry :: "pstr \<Rightarrow> pstr \<Rightarrow> pstr \<Rightarrow> pstr \<Rightarrow> pyval" where
  "mount_entry identifier target mode source =
     PDict [(lit ''id'', PStr identifier), (lit ''target'', PStr target), (lit ''mode'', PStr mode),
            (lit ''stage'', PStr source)]"

definition mount_checked :: "'k mount_env \<Rightarrow> pstr \<Rightarrow> pstr \<Rightarrow> pstr \<Rightarrow> ('k, pyval) daemon_op" where
  "mount_checked E identifier target mode d =
     (let source = path_join STAGING_DIR identifier; entries = read_state d in
      if \<not> me_isdir E (d_kernel d) source then (Inl (RuntimeError ''staging path does not exist''), d)
      else (case find_managed entries identifier target mode of
          Some r \<Rightarrow> (r, d)
        | None \<Rightarrow>
            if me_ismount E (d_kernel d) target then (Inl (RuntimeError ''target is already a mountpoint''), d)
            else seq (prepare_target E target) (\<lambda>_.
                 seq (run_mount E identifier target mode source) (\<lambda>_.
                 seq (write_state E (entries @ [mount_entry identifier target mode source])) (\<lambda>_.
                 ret (mount_entry identifier target mode source)))) d))"

definition mount_op :: "'k mount_env \<Rightarrow> pyval \<Rightarrow> pyval \<Rightarrow> pyval \<Rightarrow> ('k, pyval) daemon_op" where
  "mount_op E ident target mode =
     (case validate_id ident of Inl e \<Rightarrow> raise e
      | Inr identifier \<Rightarrow> (case validate_target target of Inl e \<Rightarrow> raise e
      | Inr normalized \<Rightarrow>
          if mode \<notin> PStr ` set MODES then raise (ValueError ''invalid mount mode'')
          else mount_checked E identifier normalized (str_of mode)))"

section \<open>Unmounting and listing\<close>

text \<open>The first record of the target, and the others.\<close>

fun take_record :: "pyval list \<Rightarrow> pstr \<Rightarrow> (pyval \<times> pyval list) option" where
  "take_record [] target = None"
| "take_record (entry # entries) target =
     (if is_dict entry \<and> field entry ''target'' = PStr target then Some (entry, entries)
      else map_option (\<lambda>(r, rest). (r, entry # rest)) (take_record entries target))"

definition unmount :: "'k mount_env \<Rightarrow> pstr \<Rightarrow> ('k, unit) daemon_op" where
  "unmount E target d =
     (case run E [me_umount_bin E, target] d of
        (Inl (RuntimeError _), d') \<Rightarrow> run E [me_umount_bin E, lit ''-l'', target] d'
      | (r, d') \<Rightarrow> (r, d'))"

definition remove_tree :: "'k mount_env \<Rightarrow> pstr \<Rightarrow> ('k, unit) daemon_op" where
  "remove_tree E path = on_kernel (\<lambda>k.
     case me_tree E k path of None \<Rightarrow> (Inr (), k) | Some t \<Rightarrow> (Inr (), me_prune E k path (safe_rmtree t)))"

definition id_text :: "lib \<Rightarrow> pyval \<Rightarrow> pstr" where
  "id_text L entry =
     (case entry of
        PDict d \<Rightarrow> if dmem (lit ''id'') d then (case dget d (lit ''id'') of PStr s \<Rightarrow> s | v \<Rightarrow> str_text L v) else []
      | _ \<Rightarrow> [])"

definition drop_layer :: "'k mount_env \<Rightarrow> pyval \<Rightarrow> ('k, unit) daemon_op" where
  "drop_layer E entry =
     (if field entry ''mode'' \<noteq> PStr (lit ''overlay'') then ret ()
      else (case validate_id (PStr (id_text (me_lib E) entry)) of
          Inl _ \<Rightarrow> ret ()
        | Inr identifier \<Rightarrow> remove_tree E (path_join OVERLAY_DIR identifier)))"

definition umount_op :: "'k mount_env \<Rightarrow> pyval \<Rightarrow> ('k, pyval) daemon_op" where
  "umount_op E target d =
     (case validate_target target of Inl e \<Rightarrow> (Inl e, d)
      | Inr normalized \<Rightarrow> (case take_record (read_state d) normalized of
          None \<Rightarrow> (Inl (RuntimeError ''target is not managed''), d)
        | Some (entry, remaining) \<Rightarrow>
            seq (unmount E normalized) (\<lambda>_. seq (drop_layer E entry) (\<lambda>_.
            seq (write_state E remaining) (\<lambda>_. ret entry))) d))"

definition live :: "'k mount_env \<Rightarrow> 'k \<Rightarrow> pyval \<Rightarrow> bool" where
  "live E k entry \<longleftrightarrow>
     is_dict entry \<and> (case field entry ''target'' of PStr target \<Rightarrow> me_ismount E k target | _ \<Rightarrow> False)"

definition list_op :: "'k mount_env \<Rightarrow> ('k, pyval list) daemon_op" where
  "list_op E d =
     (let entries = filter (live E (d_kernel d)) (read_state d)
      in seq (write_state E entries) (\<lambda>_. ret entries) d)"

section \<open>Requests and connections\<close>

definition dispatch :: "'k mount_env \<Rightarrow> pyval \<Rightarrow> ('k, dict) daemon_op" where
  "dispatch E request =
     (case request of
        PDict req \<Rightarrow>
          (let operation = dget req (lit ''op'') in
           if operation = PStr (lit ''mount'') then
             seq (mount_op E (dget req (lit ''id'')) (dget req (lit ''target'')) (dget req (lit ''mode'')))
               (\<lambda>entry. ret [(lit ''ok'', PBool True), (lit ''mount'', entry)])
           else if operation = PStr (lit ''umount'') then
             seq (umount_op E (dget req (lit ''target''))) (\<lambda>entry. ret [(lit ''ok'', PBool True), (lit ''removed'', entry)])
           else if operation = PStr (lit ''list'') then
             seq (list_op E) (\<lambda>entries. ret [(lit ''ok'', PBool True), (lit ''mounts'', PList entries)])
           else raise (ValueError ''unknown operation''))
      | _ \<Rightarrow> raise (ValueError ''request must be a JSON object''))"

text \<open>The chunks \<open>recv\<close> returns are collected until a newline, the limit, or the end.\<close>

fun collect :: "pbytes \<Rightarrow> pbytes list \<Rightarrow> pbytes" where
  "collect data [] = data"
| "collect data (chunk # chunks) =
     (if 10 \<notin> set data \<and> length data \<le> MAX_REQUEST \<and> chunk \<noteq> [] then collect (data @ chunk) chunks else data)"

definition parse_line :: "lib \<Rightarrow> pbytes \<Rightarrow> pyval res" where
  "parse_line E data =
     (case utf8_decode (takeWhile (\<lambda>b. b \<noteq> 10) data) of
        None \<Rightarrow> Inl (ValueError ''invalid UTF-8'')
      | Some t \<Rightarrow> (case json_loads E t of Inl _ \<Rightarrow> Inl (ValueError ''invalid JSON'') | Inr v \<Rightarrow> Inr v))"

definition failure :: dict where
  "failure = [(lit ''ok'', PBool False), (lit ''error'', PStr (lit ''error''))]"

definition peer_allowed :: "'k mount_env \<Rightarrow> int \<Rightarrow> bool" where
  "peer_allowed E uid \<longleftrightarrow> uid = 0 \<or> Some uid = me_user E"

definition handle_connection :: "'k mount_env \<Rightarrow> int \<Rightarrow> pbytes list \<Rightarrow> 'k daemon \<Rightarrow> dict \<times> 'k daemon" where
  "handle_connection E uid chunks d =
     (if \<not> peer_allowed E uid then (failure, d)
      else (case parse_line (me_lib E) (collect [] chunks) of
          Inl _ \<Rightarrow> (failure, d)
        | Inr request \<Rightarrow> (case dispatch E request d of
            (Inl _, d') \<Rightarrow> (failure, d')
          | (Inr response, d') \<Rightarrow> (response, d'))))"

text \<open>The states the helper goes through, from an empty file and any number of connections.\<close>

inductive helper_reach :: "'k mount_env \<Rightarrow> 'k daemon \<Rightarrow> bool" for E where
  boot: "helper_reach E \<lparr>d_kernel = k, d_file = None, d_log = []\<rparr>"
| serve: "helper_reach E d \<Longrightarrow> handle_connection E uid chunks d = (response, d') \<Longrightarrow> helper_reach E d'"
| outside: "helper_reach E d \<Longrightarrow> helper_reach E (d\<lparr>d_kernel := k\<rparr>)"

end
