(* ===== verification/Mounts.thy ===== *)
theory Mounts
  imports MountHelper Protocol
begin

text \<open>
  Facts about \<open>tartarus-mount\<close>: the normal form of a target, what any sequence of connections
  leaves in the state file and in the list of commands run as root, the removal of an overlay
  layer, and the ways in which a failure is not undone.
\<close>

section \<open>Ids and targets\<close>

lemma validate_id_Inr: "validate_id v = Inr i \<longleftrightarrow> v = PStr i \<and> i \<noteq> [] \<and> (\<forall>c \<in> set i. id_char c)"
  by (auto simp: validate_id_def split: pyval.splits if_splits)

lemma id_no_separator: "validate_id v = Inr i \<Longrightarrow> 47 \<notin> set i \<and> 46 \<notin> set i"
  by (auto simp: validate_id_Inr id_char_def)

text \<open>The components \<open>normpath\<close> keeps of a rooted path.\<close>

definition component :: "pstr \<Rightarrow> bool" where
  "component c \<longleftrightarrow> c \<noteq> [] \<and> c \<noteq> lit ''.'' \<and> c \<noteq> lit ''..'' \<and> 47 \<notin> set c"

lemma set_butlast_subset: "set (butlast xs) \<subseteq> set xs"
  by (auto dest: in_set_butlastD)

lemma norm_step_component:
  assumes "\<forall>c \<in> set comps. component c" "47 \<notin> set c"
  shows "\<forall>c' \<in> set (norm_step True comps c). component c'"
proof (cases "component c")
  case True
  then have "norm_step True comps c = comps @ [c]" by (simp add: norm_step_def component_def)
  then show ?thesis using assms(1) True by simp
next
  case False
  have dots: "last comps \<noteq> lit ''..''" if "comps \<noteq> []"
    using assms(1) last_in_set [OF that] unfolding component_def by blast
  consider "norm_step True comps c = comps" | "norm_step True comps c = butlast comps"
  proof (cases "c = [] \<or> c = lit ''.''")
    case True
    then have "norm_step True comps c = comps" unfolding norm_step_def by (rule if_P)
    then show ?thesis by (rule that(1))
  next
    case other: False
    then have c: "c = lit ''..''" using False assms(2) unfolding component_def by blast
    have "norm_step True comps c = butlast comps"
      unfolding norm_step_def if_not_P [OF other] using c dots by (intro if_not_P) blast
    then show ?thesis by (rule that(2))
  qed
  then show ?thesis
  proof cases
    case 2
    then show ?thesis using assms(1) set_butlast_subset [of comps] unfolding 2 by blast
  qed (use assms(1) in simp)
qed

lemma foldl_components:
  "\<forall>c \<in> set cs. 47 \<notin> set c \<Longrightarrow> \<forall>c \<in> set comps. component c \<Longrightarrow>
     \<forall>c \<in> set (foldl (norm_step True) comps cs). component c"
proof (induction cs arbitrary: comps)
  case (Cons c cs)
  then show ?case using norm_step_component [of comps c] by auto
qed simp

lemma foldl_kept: "\<forall>c \<in> set cs. component c \<Longrightarrow> foldl (norm_step True) comps cs = comps @ cs"
  by (induction cs arbitrary: comps) (auto simp: norm_step_def component_def)

lemma leading_slashes_cases:
  "leading_slashes s = [] \<and> \<not> startswith (lit ''/'') s
   \<or> leading_slashes s = lit ''/'' \<or> leading_slashes s = lit ''//''"
  by (auto simp: leading_slashes_def)

lemma join_head: "\<forall>c \<in> set cs. c \<noteq> [] \<and> 47 \<notin> set c \<Longrightarrow> \<not> startswith (lit ''/'') (join (lit ''/'') cs)"
proof (cases cs)
  case (Cons c cs')
  assume "\<forall>c \<in> set cs. c \<noteq> [] \<and> 47 \<notin> set c"
  with Cons show ?thesis by (cases c) (auto simp: join_Cons startswith_slash)
qed (simp add: startswith_slash)

text \<open>A path in normal form: one or two slashes, then components.\<close>

definition rooted_path :: "pstr \<Rightarrow> pstr list \<Rightarrow> pstr \<Rightarrow> bool" where
  "rooted_path r cs p \<longleftrightarrow> (r = lit ''/'' \<or> r = lit ''//'') \<and> (\<forall>c \<in> set cs. component c) \<and> p = r @ join (lit ''/'') cs"

lemma split_rooted:
  assumes "rooted_path r cs p"
  shows "\<exists>k. split_on 47 p = replicate k [] @ cs"
proof -
  have j: "\<exists>k. split_on 47 (join (lit ''/'') cs) = replicate k [] @ cs"
  proof (cases "cs = []")
    case False
    have "split_on 47 (join (lit ''/'') cs) = cs"
      unfolding lit_def using assms False by (simp add: rooted_path_def component_def) (intro split_on_join; auto)
    then show ?thesis by (metis append_Nil replicate_0)
  qed (auto intro: exI [of _ 1])
  then show ?thesis
    using assms by (auto simp: rooted_path_def lit_def) (metis append_Cons replicate_Suc)+
qed

lemma leading_slashes_rooted:
  assumes "rooted_path r cs p"
  shows "leading_slashes p = r"
proof -
  have h: "\<not> (\<exists>t. join (lit ''/'') cs = 47 # t)"
    using assms join_head [of cs] by (auto simp: rooted_path_def startswith_slash component_def)
  have n: "startswith [47, 47] s \<longleftrightarrow> (\<exists>t. s = 47 # 47 # t)" "startswith [47, 47, 47] s \<longleftrightarrow> (\<exists>t. s = 47 # 47 # 47 # t)" for s
    by (cases s; cases "tl s"; cases "tl (tl s)"; auto simp: startswith_def)+
  have l: "lit ''/'' = [47]" "lit ''//'' = [47, 47]" "lit ''///'' = [47, 47, 47]" by (simp_all add: lit_def)
  show ?thesis
    using assms h unfolding rooted_path_def leading_slashes_def startswith_slash l n by auto
qed

lemma foldl_empties: "foldl (norm_step True) comps (replicate k [] @ cs) = foldl (norm_step True) comps cs"
  by (induction k) (simp_all add: norm_step_def)

lemma normpath_rooted: "rooted_path r cs p \<Longrightarrow> normpath p = p"
proof -
  assume p: "rooted_path r cs p"
  obtain k where k: "split_on 47 p = replicate k [] @ cs" using split_rooted [OF p] by blast
  have "foldl (norm_step True) [] (split_on 47 p) = cs"
    using p foldl_kept [of cs "[]"] unfolding k foldl_empties by (simp add: rooted_path_def)
  moreover have "r \<noteq> []" "p \<noteq> []" "r @ join (lit ''/'') cs = p"
    using p by (auto simp: rooted_path_def)
  ultimately show ?thesis
    by (simp add: normpath_def Let_def leading_slashes_rooted [OF p])
qed

lemma set_norm_step: "set (norm_step b comps c) \<subseteq> set comps \<union> (if c = [] then {} else {c})"
  using set_butlast_subset [of comps] by (simp add: norm_step_def) blast

lemma relative_components:
  "\<forall>c \<in> set cs. 47 \<notin> set c \<Longrightarrow> \<forall>c \<in> set comps. c \<noteq> [] \<and> 47 \<notin> set c \<Longrightarrow>
     \<forall>c \<in> set (foldl (norm_step False) comps cs). c \<noteq> [] \<and> 47 \<notin> set c"
proof (induction cs arbitrary: comps)
  case (Cons c cs)
  have "\<forall>c' \<in> set (norm_step False comps c). c' \<noteq> [] \<and> 47 \<notin> set c'"
  proof
    fix c' assume "c' \<in> set (norm_step False comps c)"
    then have "c' \<in> set comps \<or> c' = c \<and> c \<noteq> []"
      using set_norm_step [of False comps c] by (cases "c = []") auto
    then show "c' \<noteq> [] \<and> 47 \<notin> set c'"
    proof
      assume "c' \<in> set comps"
      then show ?thesis using Cons.prems(2) by blast
    qed (use Cons.prems(1) in simp)
  qed
  moreover have "\<forall>c \<in> set cs. 47 \<notin> set c" using Cons.prems(1) by simp
  ultimately show ?case unfolding foldl_Cons by (intro Cons.IH)
qed simp

lemma normpath_absolute:
  assumes "startswith (lit ''/'') (normpath s)"
  shows "\<exists>r cs. rooted_path r cs (normpath s)"
proof (cases "leading_slashes s = []")
  case True
  let ?cs = "foldl (norm_step False) [] (split_on 47 s)"
  have "\<forall>c \<in> set ?cs. c \<noteq> [] \<and> 47 \<notin> set c"
    by (rule relative_components) (auto dest: split_on_no_sep)
  then have "\<not> startswith (lit ''/'') (join (lit ''/'') ?cs)"
    by (rule join_head)
  moreover have "\<not> startswith (lit ''/'') (lit ''.'')" by (simp add: startswith_def lit_def)
  moreover have "normpath s = lit ''.'' \<or> normpath s = join (lit ''/'') ?cs"
    using True by (simp add: normpath_def Let_def)
  ultimately show ?thesis using assms by auto
next
  case False
  let ?cs = "foldl (norm_step True) [] (split_on 47 s)"
  have c: "\<forall>c \<in> set ?cs. component c"
    by (rule foldl_components) (auto dest: split_on_no_sep)
  have r: "leading_slashes s = lit ''/'' \<or> leading_slashes s = lit ''//''"
    using leading_slashes_cases [of s] False by auto
  then have "s \<noteq> []" by (auto simp: leading_slashes_def startswith_def lit_def)
  with r c False show ?thesis
    by (intro exI [of _ "leading_slashes s"] exI [of _ ?cs]) (auto simp: normpath_def Let_def rooted_path_def)
qed

lemma validate_target_Inr:
  assumes "validate_target v = Inr t"
  shows "\<exists>r cs. rooted_path r cs t" "\<forall>f \<in> set FORBIDDEN_TARGETS. \<not> reserved t f"
  using assms normpath_absolute by (auto simp: validate_target_def Let_def split: pyval.splits if_splits)

lemma validate_target_fixed: "validate_target v = Inr t \<Longrightarrow> validate_target (PStr t) = Inr t"
proof -
  assume a: "validate_target v = Inr t"
  obtain r cs where p: "rooted_path r cs t" using validate_target_Inr(1) [OF a] by blast
  then have "t \<noteq> []" "startswith (lit ''/'') t" by (auto simp: rooted_path_def startswith_def lit_def)
  then show ?thesis
    using normpath_rooted [OF p] validate_target_Inr(2) [OF a] by (simp add: validate_target_def)
qed

text \<open>
  A target that passes validation is in normal form: validating it again changes nothing, no
  component of it is empty, a dot or a double dot, and it is none of the reserved places and
  below none of them as these are spelled.
\<close>

theorem target_is_normal:
  assumes "validate_target v = Inr t"
  shows "validate_target (PStr t) = Inr t
    \<and> (\<forall>c \<in> set (split_on 47 t). c \<noteq> lit ''.'' \<and> c \<noteq> lit ''..'')
    \<and> (\<forall>f \<in> {lit ''/'', lit ''/proc'', lit ''/sys'', lit ''/dev'', lit ''/run/tartarus-mount''}. t \<noteq> f)
    \<and> (\<forall>f \<in> {lit ''/proc/'', lit ''/sys/'', lit ''/dev/'', lit ''/run/tartarus-mount/''}. \<not> startswith f t)"
proof (intro conjI)
  show "validate_target (PStr t) = Inr t" by (rule validate_target_fixed [OF assms])
  obtain r cs where p: "rooted_path r cs t" using validate_target_Inr(1) [OF assms] by blast
  obtain k where k: "split_on 47 t = replicate k [] @ cs" using split_rooted [OF p] by blast
  have "\<forall>c \<in> set cs. c \<noteq> lit ''.'' \<and> c \<noteq> lit ''..''" using p by (simp add: rooted_path_def component_def)
  moreover have "[] \<noteq> lit ''.''" "[] \<noteq> lit ''..''" by simp_all
  ultimately show "\<forall>c \<in> set (split_on 47 t). c \<noteq> lit ''.'' \<and> c \<noteq> lit ''..''"
    unfolding k by auto
  note r = validate_target_Inr(2) [OF assms, unfolded FORBIDDEN_TARGETS_def reserved_def]
  show "\<forall>f \<in> {lit ''/'', lit ''/proc'', lit ''/sys'', lit ''/dev'', lit ''/run/tartarus-mount''}. t \<noteq> f"
    using r by auto
  show "\<forall>f \<in> {lit ''/proc/'', lit ''/sys/'', lit ''/dev/'', lit ''/run/tartarus-mount/''}. \<not> startswith f t"
    using r by (auto simp: lit_def)
qed

theorem target_is_normal_witness:
  "validate_target (PStr (lit ''/mnt/../srv'')) = Inr (lit ''/srv'') \<and> validate_target (PStr (lit ''/srv'')) = Inr (lit ''/srv'')"
proof -
  have "validate_target (PStr (lit ''/mnt/../srv'')) = Inr (lit ''/srv'')" by code_simp
  from this target_is_normal [OF this] show ?thesis by blast
qed

text \<open>
  The reserved places can be reached all the same: a path that starts with exactly two
  slashes keeps them in its normal form, so \<open>//proc\<close>, \<open>//\<close> and \<open>//run/tartarus-mount/staging\<close>, which
  the kernel reads as \<open>/proc\<close>, the root and the helper's own directory, are accepted as targets.
\<close>

theorem double_slash_evades_reserved_targets:
  "validate_target (PStr (lit ''/proc'')) = Inl (ValueError ''refusing reserved mount target'')
   \<and> validate_target (PStr (lit ''//proc'')) = Inr (lit ''//proc'')
   \<and> validate_target (PStr (lit ''//'')) = Inr (lit ''//'')
   \<and> validate_target (PStr (lit ''//run/tartarus-mount/staging'')) = Inr (lit ''//run/tartarus-mount/staging'')"
  by code_simp

section \<open>What operations leave alone\<close>

text \<open>A property of the state file and the commands, not of the kernel.\<close>

definition kernel_free :: "('k daemon \<Rightarrow> bool) \<Rightarrow> bool" where
  "kernel_free I \<longleftrightarrow> (\<forall>d k. I (d\<lparr>d_kernel := k\<rparr>) = I d)"

lemma keeps_on_kernel: "kernel_free I \<Longrightarrow> keeps I (on_kernel f)"
  by (simp add: keeps_def on_kernel_def kernel_free_def split: prod.split)

lemma keeps_uid_gid [keeps]: "keeps I (uid_gid E)"
  by (simp add: uid_gid_def keeps split: option.split)

lemma keeps_chown_all: "kernel_free I \<Longrightarrow> keeps I (chown_all E uid gid ps)"
  by (induction ps) (simp_all add: keeps keeps_on_kernel)

lemma keeps_chown_tree: "kernel_free I \<Longrightarrow> keeps I (chown_tree E path uid gid)"
  unfolding chown_tree_def
  by (intro keeps_seq keeps_on_kernel) (simp_all add: keeps_chown_all [unfolded keeps_def] keeps_def)

lemma keeps_prepare_target: "kernel_free I \<Longrightarrow> keeps I (prepare_target E target)"
proof -
  assume k: "kernel_free I"
  have "keeps I (seq (on_kernel (\<lambda>k. me_makedirs E k target False)) (\<lambda>_. seq (uid_gid E)
        (\<lambda>(uid, gid). on_kernel (\<lambda>k. me_chown E k target uid gid))))"
    by (intro keeps keeps_on_kernel k) (simp add: keeps_on_kernel k split: prod.split)
  then show ?thesis by (simp add: keeps_def prepare_target_def ret_def)
qed

lemma keeps_remove_tree: "kernel_free I \<Longrightarrow> keeps I (drop_layer E entry)"
  by (auto simp: drop_layer_def remove_tree_def keeps_on_kernel keeps_ret split: sum.split)

section \<open>Commands run as root\<close>

text \<open>The commands the helper is meant to run: a source is always a direct child of the staging directory.\<close>

definition allowed_command :: "'k mount_env \<Rightarrow> pstr list \<Rightarrow> bool" where
  "allowed_command E c \<longleftrightarrow>
     (\<exists>i t. validate_id (PStr i) = Inr i \<and> validate_target (PStr t) = Inr t \<and>
        (c = bind_command E (path_join STAGING_DIR i) t \<or> c = remount_command E t \<or>
         c = overlay_command E (path_join STAGING_DIR i) (path_join OVERLAY_DIR i) t \<or>
         c = [me_umount_bin E, t] \<or> c = [me_umount_bin E, lit ''-l'', t]))"

definition confined :: "'k mount_env \<Rightarrow> 'k daemon \<Rightarrow> bool" where
  "confined E d \<longleftrightarrow> (\<forall>c \<in> set (d_log d). allowed_command E c)"

lemma confined_kernel_free: "kernel_free (confined E)"
  by (simp add: kernel_free_def confined_def)

lemma confined_run: "allowed_command E c \<Longrightarrow> keeps (confined E) (run E c)"
  by (auto simp: keeps_def run_def confined_def split: prod.split)

lemma confined_write [keeps]: "keeps (confined E) (write_state E entries)"
  by (auto simp: keeps_def write_state_def confined_def)

lemma validate_id_PStr: "validate_id v = Inr i \<Longrightarrow> validate_id (PStr i) = Inr i"
  by (auto simp: validate_id_Inr)

lemma confined_run_mount:
  assumes "validate_id (PStr i) = Inr i" "validate_target (PStr t) = Inr t"
  shows "keeps (confined E) (run_mount E i t mode (path_join STAGING_DIR i))"
proof -
  have a: "allowed_command E (bind_command E (path_join STAGING_DIR i) t)" "allowed_command E (remount_command E t)"
    "allowed_command E (overlay_command E (path_join STAGING_DIR i) (path_join OVERLAY_DIR i) t)"
    using assms unfolding allowed_command_def by blast+
  have o: "keeps (confined E) (seq (chown_tree E p uid gid) (\<lambda>_. run E (overlay_command E (path_join STAGING_DIR i) (path_join OVERLAY_DIR i) t)))"
    for p uid gid
    by (intro keeps keeps_chown_tree confined_kernel_free confined_run a)
  show ?thesis
    unfolding run_mount_def Let_def
    by (auto intro!: keeps keeps_on_kernel confined_kernel_free confined_run a o split: prod.split)
qed

lemma confined_mount_op: "keeps (confined E) (mount_op E ident target mode)"
proof -
  have c: "keeps (confined E) (mount_checked E i t m)"
    if "validate_id (PStr i) = Inr i" "validate_target (PStr t) = Inr t" for i t m
  proof -
    have "keeps (confined E) (seq (prepare_target E t) (\<lambda>_. seq (run_mount E i t m (path_join STAGING_DIR i)) (\<lambda>_.
        seq (write_state E es) (\<lambda>_. ret e))))" for es e
      by (intro keeps keeps_prepare_target confined_kernel_free confined_run_mount that)
    note step = keepsD [OF this]
    show ?thesis
      unfolding keeps_def mount_checked_def Let_def by (auto split: option.split intro!: step)
  qed
  show ?thesis
    unfolding mount_op_def
    by (auto intro!: keeps c dest: validate_id_PStr validate_target_fixed split: sum.split)
qed

lemma confined_unmount:
  assumes "validate_target (PStr t) = Inr t"
  shows "keeps (confined E) (unmount E t)"
proof -
  have i: "validate_id (PStr (lit ''a'')) = Inr (lit ''a'')" by (simp add: validate_id_def lit_def id_char_def)
  have "allowed_command E [me_umount_bin E, t]" "allowed_command E [me_umount_bin E, lit ''-l'', t]"
    using assms i unfolding allowed_command_def by blast+
  then have "keeps (confined E) (run E [me_umount_bin E, t])" "keeps (confined E) (run E [me_umount_bin E, lit ''-l'', t])"
    by (simp_all add: confined_run)
  note step = this [THEN keepsD]
  show ?thesis
    unfolding keeps_def
  proof (intro allI impI)
    fix d assume d: "confined E d"
    obtain r d' where r: "run E [me_umount_bin E, t] d = (r, d')" by force
    have "confined E d'" using step(1) [OF d] r by simp
    with r step(2) show "confined E (snd (unmount E t d))"
      by (simp add: unmount_def split: sum.split exn.split)
  qed
qed

lemma confined_umount_op: "keeps (confined E) (umount_op E target)"
proof (cases "validate_target target")
  case (Inr t)
  have "keeps (confined E) (seq (unmount E t) (\<lambda>_. seq (drop_layer E entry) (\<lambda>_. seq (write_state E es) (\<lambda>_. ret entry))))" for entry es
    by (intro keeps keeps_remove_tree confined_kernel_free confined_unmount validate_target_fixed [OF Inr])
  note step = keepsD [OF this]
  show ?thesis
    unfolding keeps_def umount_op_def by (auto simp: Inr split: option.split intro!: step)
qed (simp add: keeps_def umount_op_def)

lemma confined_list_op: "keeps (confined E) (list_op E)"
proof -
  have "keeps (confined E) (seq (write_state E es) (\<lambda>_. ret es))" for es by (intro keeps)
  note step = keepsD [OF this]
  show ?thesis unfolding keeps_def list_op_def Let_def by (auto intro!: step)
qed

section \<open>The records\<close>

definition wf_entry :: "pyval \<Rightarrow> bool" where
  "wf_entry e \<longleftrightarrow>
     (\<exists>i t m. e = mount_entry i t m (path_join STAGING_DIR i) \<and> validate_id (PStr i) = Inr i \<and>
        validate_target (PStr t) = Inr t \<and> m \<in> set MODES)"

definition managed :: "pyval list \<Rightarrow> bool" where
  "managed es \<longleftrightarrow> (\<forall>e \<in> set es. wf_entry e) \<and> distinct (map (\<lambda>e. field e ''target'') es)"

lemma mount_entry_fields [simp]:
  "is_dict (mount_entry i t m s)" "field (mount_entry i t m s) ''id'' = PStr i"
  "field (mount_entry i t m s) ''target'' = PStr t" "field (mount_entry i t m s) ''mode'' = PStr m"
  by (simp_all add: mount_entry_def field_def)

lemma find_managed_None:
  "find_managed es i t m = None \<Longrightarrow> e \<in> set es \<Longrightarrow> is_dict e \<Longrightarrow> field e ''target'' \<noteq> PStr t"
  by (induction es) (auto simp: same_record_def split: if_splits)

lemma managed_add:
  assumes "managed es" "find_managed es i t m = None" "validate_id (PStr i) = Inr i" "validate_target (PStr t) = Inr t" "m \<in> set MODES"
  shows "managed (es @ [mount_entry i t m (path_join STAGING_DIR i)])"
proof -
  have "field e ''target'' \<noteq> PStr t" if "e \<in> set es" for e
    using that assms(1,2) find_managed_None [of es i t m e] by (auto simp: managed_def wf_entry_def)
  then have "PStr t \<notin> (\<lambda>e. field e ''target'') ` set es" by force
  moreover have "wf_entry (mount_entry i t m (path_join STAGING_DIR i))"
    using assms(3-) unfolding wf_entry_def by blast
  ultimately show ?thesis using assms(1) by (simp add: managed_def)
qed

lemma take_record_Some:
  "take_record es t = Some (e, rest) \<Longrightarrow>
     \<exists>a b. es = a @ e # b \<and> rest = a @ b \<and> is_dict e \<and> field e ''target'' = PStr t"
proof (induction es arbitrary: rest)
  case (Cons x es)
  show ?case
  proof (cases "is_dict x \<and> field x ''target'' = PStr t")
    case True
    then have "x = e" "rest = es" using Cons.prems by simp_all
    with True show ?thesis by (intro exI [of _ "[]"] exI [of _ es]) simp
  next
    case False
    then obtain rest' where r: "take_record es t = Some (e, rest')" "rest = x # rest'"
      using Cons.prems by (cases "take_record es t") auto
    then obtain a b where "es = a @ e # b \<and> rest' = a @ b \<and> is_dict e \<and> field e ''target'' = PStr t"
      using Cons.IH by blast
    then show ?thesis using r(2) by (intro exI [of _ "x # a"] exI [of _ b]) simp
  qed
qed simp

lemma managed_take: "managed es \<Longrightarrow> take_record es t = Some (e, rest) \<Longrightarrow> managed rest"
  by (auto simp: managed_def dest!: take_record_Some)

lemma managed_filter: "managed es \<Longrightarrow> managed (filter p es)"
  by (auto simp: managed_def distinct_map inj_on_def)

text \<open>A property of the state file alone.\<close>

definition recorded :: "'k daemon \<Rightarrow> bool" where
  "recorded d \<longleftrightarrow> managed (read_state d)"

lemma recorded_kernel_free: "kernel_free recorded"
  by (simp add: kernel_free_def recorded_def read_state_def)

lemma recorded_run [keeps]: "keeps recorded (run E c)"
  by (simp add: keeps_def run_def recorded_def read_state_def split: prod.split)

lemma recorded_write: "managed es \<Longrightarrow> keeps recorded (write_state E es)"
  by (auto simp: keeps_def write_state_def recorded_def read_state_def)

lemma recorded_run_mount [keeps]: "keeps recorded (run_mount E i t m s)"
proof -
  have o: "keeps recorded (seq (chown_tree E p uid gid) (\<lambda>_. run E c))" for p uid gid c
    by (intro keeps keeps_chown_tree recorded_kernel_free)
  show ?thesis
    unfolding run_mount_def Let_def
    by (auto intro!: keeps keeps_on_kernel recorded_kernel_free o split: prod.split)
qed

lemma recorded_mount_op: "keeps recorded (mount_op E ident target mode)"
proof -
  have c: "keeps recorded (mount_checked E i t m)"
    if v: "validate_id (PStr i) = Inr i" "validate_target (PStr t) = Inr t" "m \<in> set MODES" for i t m
    unfolding keeps_def
  proof (intro allI impI)
    fix d :: "'a daemon" assume d: "recorded d"
    let ?new = "mount_entry i t m (path_join STAGING_DIR i)"
    show "recorded (snd (mount_checked E i t m d))"
    proof (cases "find_managed (read_state d) i t m")
      case None
      then have "managed (read_state d @ [?new])" using managed_add d v by (simp add: recorded_def)
      then have "keeps recorded (seq (prepare_target E t) (\<lambda>_. seq (run_mount E i t m (path_join STAGING_DIR i)) (\<lambda>_.
          seq (write_state E (read_state d @ [?new])) (\<lambda>_. ret ?new))))"
        by (intro keeps keeps_prepare_target recorded_kernel_free recorded_write)
      from keepsD [OF this d] show ?thesis using None d by (simp add: mount_checked_def Let_def)
    qed (use d in \<open>simp add: mount_checked_def Let_def\<close>)
  qed
  show ?thesis
    unfolding mount_op_def
    by (auto intro!: keeps c dest: validate_id_PStr validate_target_fixed split: sum.split)
qed

lemma recorded_unmount [keeps]: "keeps recorded (unmount E t)"
  unfolding keeps_def
proof (intro allI impI)
  fix d :: "'a daemon" assume d: "recorded d"
  obtain r d' where r: "run E [me_umount_bin E, t] d = (r, d')" by force
  have "recorded d'" using keepsD [OF recorded_run d] r by (metis snd_conv)
  moreover have "recorded (snd (run E [me_umount_bin E, lit ''-l'', t] d'))"
    by (rule keepsD [OF recorded_run]) fact
  ultimately show "recorded (snd (unmount E t d))"
    by (simp add: r unmount_def split: sum.split exn.split)
qed

lemma recorded_umount_op: "keeps recorded (umount_op E target)"
proof (cases "validate_target target")
  case (Inr t)
  show ?thesis
    unfolding keeps_def
  proof (intro allI impI)
    fix d :: "'a daemon" assume d: "recorded d"
    show "recorded (snd (umount_op E target d))"
    proof (cases "take_record (read_state d) t")
      case (Some er)
      obtain e rest where er: "er = (e, rest)" by force
      have "managed rest" using d Some er managed_take by (simp add: recorded_def)
      then have "keeps recorded (seq (unmount E t) (\<lambda>_. seq (drop_layer E e) (\<lambda>_. seq (write_state E rest) (\<lambda>_. ret e))))"
        by (intro keeps keeps_remove_tree recorded_kernel_free recorded_write)
      from keepsD [OF this d] show ?thesis using Some er Inr by (simp add: umount_op_def)
    qed (use d Inr in \<open>simp add: umount_op_def\<close>)
  qed
qed (simp add: keeps_def umount_op_def)

lemma recorded_list_op: "keeps recorded (list_op E)"
  unfolding keeps_def
proof (intro allI impI)
  fix d :: "'a daemon" assume d: "recorded d"
  let ?es = "filter (live E (d_kernel d)) (read_state d)"
  have "keeps recorded (seq (write_state E ?es) (\<lambda>_. ret ?es))"
    using d by (intro keeps recorded_write managed_filter) (simp add: recorded_def)
  from keepsD [OF this d] show "recorded (snd (list_op E d))" by (simp add: list_op_def Let_def)
qed

section \<open>A concrete guest\<close>

text \<open>The kernel state is the list of mount points; every path is a directory.\<close>

definition demo_run :: "pstr list \<Rightarrow> pstr list \<Rightarrow> unit res \<times> pstr list" where
  "demo_run k c =
     (if c ! 0 = lit ''umount'' then
        (if c ! 1 \<in> set k then (Inr (), remove1 (c ! 1) k) else (Inl (RuntimeError ''not mounted''), k))
      else if c ! 2 = lit ''remount,ro,bind'' then (Inl (RuntimeError ''permission denied''), k)
      else (Inr (), last c # k))"

definition demo_guest_env :: "pstr list mount_env" where
  "demo_guest_env = \<lparr>me_lib = demo_lib, me_mount_bin = lit ''mount'', me_umount_bin = lit ''umount'', me_run = demo_run,
     me_ismount = (\<lambda>k t. t \<in> set k), me_isdir = (\<lambda>_ _. True), me_makedirs = (\<lambda>k _ _. (Inr (), k)),
     me_chown = (\<lambda>k _ _ _. (Inr (), k)), me_walk = (\<lambda>_ _. []), me_tree = (\<lambda>_ _. Some (Tree False True True [])),
     me_prune = (\<lambda>k p left. k), me_user = Some 1000, me_group = Some 100, me_writable = (\<lambda>_. True)\<rparr>"

lemma demo_guest_env_sel [simp]:
  "me_lib demo_guest_env = demo_lib" "me_run demo_guest_env = demo_run" "me_ismount demo_guest_env k t \<longleftrightarrow> t \<in> set k"
  "me_isdir demo_guest_env k t" "me_tree demo_guest_env k t = Some (Tree False True True [])" "me_prune demo_guest_env k t left = k"
  "me_user demo_guest_env = Some 1000" "me_group demo_guest_env = Some 100" "me_writable demo_guest_env k"
  "me_mount_bin demo_guest_env = lit ''mount''" "me_umount_bin demo_guest_env = lit ''umount''"
  "me_makedirs demo_guest_env k t b = (Inr (), k)" "me_chown demo_guest_env k t u g = (Inr (), k)"
  by (simp_all add: demo_guest_env_def)

abbreviation fresh_guest :: "pstr list daemon" where
  "fresh_guest \<equiv> \<lparr>d_kernel = [], d_file = None, d_log = []\<rparr>"

lemma demo_ids: "validate_id (PStr (lit ''a'')) = Inr (lit ''a'')" "validate_target (PStr (lit ''/a'')) = Inr (lit ''/a'')"
  "validate_target (PStr (lit ''/b'')) = Inr (lit ''/b'')"
  by code_simp+

lemma demo_bind: "demo_run k (bind_command demo_guest_env (path_join STAGING_DIR (lit ''a'')) t) = (Inr (), t # k)"
proof -
  have "path_join STAGING_DIR (lit ''a'') \<noteq> lit ''remount,ro,bind''" by code_simp
  moreover have "lit ''mount'' \<noteq> lit ''umount''" by simp
  ultimately show ?thesis by (simp add: demo_run_def bind_command_def)
qed

lemma demo_mount_rw:
  "\<exists>d'. mount_op demo_guest_env (PStr (lit ''a'')) (PStr (lit ''/a'')) (PStr (lit ''rw'')) fresh_guest =
     (Inr (mount_entry (lit ''a'') (lit ''/a'') (lit ''rw'') (path_join STAGING_DIR (lit ''a''))), d')
     \<and> d_log d' = [bind_command demo_guest_env (path_join STAGING_DIR (lit ''a'')) (lit ''/a'')] \<and> read_state d' \<noteq> []"
  by (simp add: mount_op_def demo_ids MODES_def mount_checked_def read_state_def seq_def prepare_target_def ret_def
      run_mount_def run_def write_state_def demo_bind Let_def)

definition demo_mount_request :: dict where
  "demo_mount_request = [(lit ''op'', PStr (lit ''mount'')), (lit ''id'', PStr (lit ''a'')), (lit ''target'', PStr (lit ''/a'')),
     (lit ''mode'', PStr (lit ''rw''))]"

text \<open>A request as one frame is parsed as it was written.\<close>

lemma parse_written:
  assumes "json_ok (PDict msg)" "write_message E msg = Inr b"
  shows "parse_line E b = Inr (PDict msg)"
proof -
  obtain w where w: "utf8_encode (dumps E (PDict msg)) = Inr w" "b = w @ [10]"
    using assms(2) by (rule write_message_Inr)
  have "10 \<notin> set w" using utf8_encode_bytes [OF w(1), of 10] dumps_no_newline(1) [OF assms(1)] by auto
  then have "takeWhile (\<lambda>b. b \<noteq> 10) (w @ [10]) = w" by (induction w) auto
  then show ?thesis
    using utf8_decode_encode [OF w(1)] json_loads_dumps [OF assms(1)] by (simp add: parse_line_def w(2))
qed

lemma demo_served:
  "\<exists>chunks response d'. handle_connection demo_guest_env 1000 chunks fresh_guest = (response, d')
     \<and> d_log d' = [bind_command demo_guest_env (path_join STAGING_DIR (lit ''a'')) (lit ''/a'')] \<and> read_state d' \<noteq> []
     \<and> dget response (lit ''ok'') = PBool True"
proof -
  have "\<exists>b. write_message demo_lib demo_mount_request = Inr b" by (simp add: demo_mount_request_def frame_eval)
  then obtain b where b: "write_message demo_lib demo_mount_request = Inr b" by blast
  have j: "json_ok (PDict demo_mount_request)" by (simp add: demo_mount_request_def)
  have "b \<noteq> []" using b by (rule write_message_Inr) simp
  then have c: "collect [] [b] = b" by (simp add: MAX_REQUEST_def)
  obtain d' where d': "mount_op demo_guest_env (PStr (lit ''a'')) (PStr (lit ''/a'')) (PStr (lit ''rw'')) fresh_guest =
     (Inr (mount_entry (lit ''a'') (lit ''/a'') (lit ''rw'') (path_join STAGING_DIR (lit ''a''))), d')"
    "d_log d' = [bind_command demo_guest_env (path_join STAGING_DIR (lit ''a'')) (lit ''/a'')]" "read_state d' \<noteq> []"
    using demo_mount_rw by blast
  have "\<exists>response. dispatch demo_guest_env (PDict demo_mount_request) fresh_guest = (Inr response, d') \<and> dget response (lit ''ok'') = PBool True"
    using d'(1) by (simp add: dispatch_def demo_mount_request_def seq_def ret_def)
  then obtain response where r: "dispatch demo_guest_env (PDict demo_mount_request) fresh_guest = (Inr response, d')"
    "dget response (lit ''ok'') = PBool True" by blast
  then have "handle_connection demo_guest_env 1000 [b] fresh_guest = (response, d')"
    using c parse_written [OF j b] by (simp add: handle_connection_def peer_allowed_def)
  then show ?thesis using r(2) d'(2,3) by blast
qed

section \<open>Every reachable state\<close>

lemma keeps_dispatch:
  assumes "\<And>i t m. keeps I (mount_op E i t m)" "\<And>t. keeps I (umount_op E t)" "keeps I (list_op E)"
  shows "keeps I (dispatch E request)"
  unfolding dispatch_def by (cases request) (auto simp: Let_def intro!: keeps assms)

lemma keeps_connection:
  assumes "keeps I (dispatch E request)" "parse_line (me_lib E) (collect [] chunks) = Inr request" "I d"
  shows "I (snd (handle_connection E uid chunks d))"
  using keepsD [OF assms(1,3)] assms(2,3)
  by (cases "dispatch E request d"; cases "fst (dispatch E request d)") (simp_all add: handle_connection_def)

lemma handle_connection_keeps:
  assumes "\<And>request. keeps I (dispatch E request)" "I d"
  shows "I (snd (handle_connection E uid chunks d))"
proof (cases "parse_line (me_lib E) (collect [] chunks)")
  case (Inr request)
  show ?thesis by (rule keeps_connection [OF assms(1) Inr assms(2)])
qed (use assms(2) in \<open>simp add: handle_connection_def\<close>)

lemma reach_invariant: "helper_reach E d \<Longrightarrow> recorded d \<and> confined E d"
proof (induction rule: helper_reach.induct)
  case (boot k)
  then show ?case by (simp add: recorded_def read_state_def managed_def confined_def)
next
  case (serve d uid chunks response d')
  have "keeps recorded (dispatch E request)" "keeps (confined E) (dispatch E request)" for request
    by (intro keeps_dispatch recorded_mount_op recorded_umount_op recorded_list_op
        confined_mount_op confined_umount_op confined_list_op)+
  with serve show ?case using handle_connection_keeps [of _ E d uid chunks] by (metis snd_conv)
next
  case (outside d k)
  then show ?case by (simp add: recorded_def read_state_def confined_def)
qed

text \<open>
  C22: The state file stays well formed. Whatever sequence of connections the helper has served,
  and whatever happened to the mounts outside it, the file holds complete records only, each
  with a valid id, a normal target, a known mode and the staging directory of its id, and no
  two records share a target.
\<close>

theorem records_stay_wellformed:
  assumes "helper_reach E d"
  shows "(\<forall>e \<in> set (read_state d). \<exists>i t m. e = mount_entry i t m (path_join STAGING_DIR i)
      \<and> validate_id (PStr i) = Inr i \<and> validate_target (PStr t) = Inr t \<and> m \<in> {lit ''rw'', lit ''ro'', lit ''overlay''})
    \<and> distinct (map (\<lambda>e. field e ''target'') (read_state d))"
  using reach_invariant [OF assms] by (auto simp: recorded_def managed_def wf_entry_def MODES_def)

theorem records_stay_wellformed_witness:
  "\<exists>(d :: pstr list daemon) e. e \<in> set (read_state d) \<and> (\<exists>i t m. e = mount_entry i t m (path_join STAGING_DIR i) \<and> validate_id (PStr i) = Inr i)"
proof -
  obtain chunks response d' where h: "handle_connection demo_guest_env 1000 chunks fresh_guest = (response, d')" "read_state d' \<noteq> []"
    using demo_served by blast
  have r: "helper_reach demo_guest_env d'" by (rule helper_reach.serve [OF helper_reach.boot h(1)])
  obtain e where e: "e \<in> set (read_state d')" using h(2) list.set_sel(1) by blast
  from records_stay_wellformed [OF r, THEN conjunct1, rule_format, OF e] e show ?thesis by blast
qed

text \<open>
  C23: A client never chooses what root mounts. Every command the helper has ever run is a bind,
  a read-only remount or an overlay of a direct child of the staging directory, or an unmount,
  always on a validated target: ids hold no separator and no dot, so no request can name a
  source elsewhere.
\<close>

theorem commands_are_confined:
  assumes "helper_reach E d" and "c \<in> set (d_log d)"
  shows "\<exists>i t. validate_target (PStr t) = Inr t \<and> i \<noteq> [] \<and> 47 \<notin> set i \<and> 46 \<notin> set i
    \<and> (c = bind_command E (path_join STAGING_DIR i) t \<or> c = remount_command E t
       \<or> c = overlay_command E (path_join STAGING_DIR i) (path_join OVERLAY_DIR i) t
       \<or> c = [me_umount_bin E, t] \<or> c = [me_umount_bin E, lit ''-l'', t])"
proof -
  obtain i t where "validate_id (PStr i) = Inr i" "validate_target (PStr t) = Inr t"
    "c = bind_command E (path_join STAGING_DIR i) t \<or> c = remount_command E t
       \<or> c = overlay_command E (path_join STAGING_DIR i) (path_join OVERLAY_DIR i) t
       \<or> c = [me_umount_bin E, t] \<or> c = [me_umount_bin E, lit ''-l'', t]"
    using reach_invariant [OF assms(1)] assms(2) unfolding confined_def allowed_command_def by blast
  then show ?thesis using id_no_separator validate_id_Inr by blast
qed

theorem commands_are_confined_witness:
  "\<exists>(d :: pstr list daemon) c i t. d_log d = [c] \<and> 47 \<notin> set i \<and> validate_target (PStr t) = Inr t
     \<and> (c = bind_command demo_guest_env (path_join STAGING_DIR i) t \<or> c = remount_command demo_guest_env t
       \<or> c = overlay_command demo_guest_env (path_join STAGING_DIR i) (path_join OVERLAY_DIR i) t
       \<or> c = [me_umount_bin demo_guest_env, t] \<or> c = [me_umount_bin demo_guest_env, lit ''-l'', t])"
proof -
  obtain chunks response d' c where h: "handle_connection demo_guest_env 1000 chunks fresh_guest = (response, d')"
    "d_log d' = [c]"
    using demo_served by blast
  have r: "helper_reach demo_guest_env d'" by (rule helper_reach.serve [OF helper_reach.boot h(1)])
  have "c \<in> set (d_log d')" using h(2) by simp
  from commands_are_confined [OF r this] h(2) show ?thesis by blast
qed

section \<open>Failures\<close>

text \<open>An operation that raises has not touched the state file.\<close>

definition quiet :: "('k, 'a) daemon_op \<Rightarrow> bool" where
  "quiet m \<longleftrightarrow> (\<forall>f. keeps (\<lambda>d. d_file d = f) m)"

definition atomic :: "('k, 'a) daemon_op \<Rightarrow> bool" where
  "atomic m \<longleftrightarrow> (\<forall>d e d'. m d = (Inl e, d') \<longrightarrow> d_file d' = d_file d)"

lemma atomicD: "atomic m \<Longrightarrow> m d = (Inl e, d') \<Longrightarrow> d_file d' = d_file d"
  by (simp add: atomic_def)

lemma atomic_seq: "quiet m \<Longrightarrow> (\<And>x. atomic (f x)) \<Longrightarrow> atomic (seq m f)"
proof -
  assume m: "quiet m" and f: "\<And>x. atomic (f x)"
  have q: "d_file (snd (m d)) = d_file d" for d using m by (simp add: quiet_def keeps_def)
  show ?thesis
    unfolding atomic_def
  proof (intro allI impI)
    fix d e d' assume s: "seq m f d = (Inl e, d')"
    obtain r d1 where r: "m d = (r, d1)" by force
    then have d1: "d_file d1 = d_file d" using q [of d] by simp
    show "d_file d' = d_file d"
      using s r d1 f by (cases r) (auto simp: seq_def atomic_def)
  qed
qed

lemma atomic_write: "atomic (seq (write_state E es) (\<lambda>_. ret x))"
  by (auto simp: atomic_def seq_def write_state_def ret_def split: if_splits)

lemma file_kernel_free: "kernel_free (\<lambda>d. d_file d = f)"
  by (simp add: kernel_free_def)

lemma quiet_run: "quiet (run E c)"
  by (simp add: quiet_def keeps_def run_def split: prod.split)

lemma quiet_run_mount: "quiet (run_mount E i t m s)"
  unfolding quiet_def
proof
  fix f
  have r: "keeps (\<lambda>d. d_file d = f) (run E c)" for c
    by (rule quiet_run [unfolded quiet_def, THEN spec])
  have o: "keeps (\<lambda>d. d_file d = f) (seq (chown_tree E p uid gid) (\<lambda>_. run E c))" for p uid gid c
    by (intro keeps keeps_chown_tree file_kernel_free r)
  show "keeps (\<lambda>d. d_file d = f) (run_mount E i t m s)"
    unfolding run_mount_def Let_def
    by (auto intro!: keeps keeps_on_kernel file_kernel_free o r split: prod.split)
qed

lemma quiet_prepare: "quiet (prepare_target E t)"
  by (simp add: quiet_def keeps_prepare_target file_kernel_free)

lemma quiet_drop_layer: "quiet (drop_layer E e)"
  by (simp add: quiet_def keeps_remove_tree file_kernel_free)

lemma quiet_unmount: "quiet (unmount E t)"
proof -
  have "d_file (snd (run E c d)) = d_file d" for c d by (simp add: run_def split: prod.split)
  then have q: "run E c d = (r, d') \<Longrightarrow> d_file d' = d_file d" for c d r d' by (metis snd_conv)
  show ?thesis
    unfolding quiet_def keeps_def
  proof (intro allI impI)
    fix f and d :: "'a daemon" assume d: "d_file d = f"
    obtain r d' where r: "run E [me_umount_bin E, t] d = (r, d')" by force
    obtain r2 d2 where r2: "run E [me_umount_bin E, lit ''-l'', t] d' = (r2, d2)" by force
    show "d_file (snd (unmount E t d)) = f"
      using q [OF r] q [OF r2] d by (simp add: unmount_def r r2 split: sum.split exn.split)
  qed
qed

lemma atomic_mount_op: "atomic (mount_op E ident target mode)"
proof -
  have "atomic (mount_checked E i t m)" for i t m
  proof -
    have "atomic (seq (prepare_target E t) (\<lambda>_. seq (run_mount E i t m s) (\<lambda>_. seq (write_state E es) (\<lambda>_. ret e))))" for s es e
      by (intro atomic_seq quiet_prepare quiet_run_mount atomic_write)
    note step = atomicD [OF this]
    show ?thesis
      unfolding atomic_def mount_checked_def Let_def by (auto split: option.splits if_splits dest: step)
  qed
  then show ?thesis
    by (auto simp: mount_op_def atomic_def raise_def split: sum.split)
qed

lemma atomic_umount_op: "atomic (umount_op E target)"
proof -
  have "atomic (seq (unmount E t) (\<lambda>_. seq (drop_layer E e) (\<lambda>_. seq (write_state E es) (\<lambda>_. ret e))))" for t e es
    by (intro atomic_seq quiet_unmount quiet_drop_layer atomic_write)
  note step = atomicD [OF this]
  show ?thesis
    unfolding atomic_def umount_op_def by (auto split: option.splits sum.splits prod.splits dest: step)
qed

lemma atomic_list_op: "atomic (list_op E)"
  unfolding atomic_def [of "list_op E"] list_op_def Let_def by (intro allI impI) (erule atomicD [OF atomic_write])

lemma atomic_answer:
  assumes "atomic m"
  shows "atomic (seq m (\<lambda>x. ret (g x)))"
  unfolding atomic_def
proof (intro allI impI)
  fix d e d' assume s: "seq m (\<lambda>x. ret (g x)) d = (Inl e, d')"
  obtain r d1 where r: "m d = (r, d1)" by force
  then show "d_file d' = d_file d" using s assms by (cases r) (auto simp: seq_def ret_def atomic_def)
qed

lemma atomic_dispatch: "atomic (dispatch E request)"
proof -
  have r: "atomic (raise e :: ('k, dict) daemon_op)" for e by (simp add: atomic_def raise_def)
  show ?thesis
    unfolding dispatch_def
    by (cases request) (simp_all add: Let_def r atomic_answer atomic_mount_op atomic_umount_op atomic_list_op)
qed

lemma dispatch_ok: "dispatch E request d = (Inr response, d') \<Longrightarrow> dget response (lit ''ok'') = PBool True"
  by (cases request) (auto simp: dispatch_def Let_def seq_def ret_def raise_def split: prod.splits sum.splits if_splits)

text \<open>
  A refused request leaves no trace in the records. Every connection gets one answer with an
  \<open>ok\<close> field; when it is not true the state file is what it was, and a peer that is neither
  root nor the configured user reaches nothing at all.
\<close>

theorem failed_request_keeps_records:
  assumes "handle_connection E uid chunks d = (response, d')"
  shows "(dget response (lit ''ok'') = PBool True \<or> dget response (lit ''ok'') = PBool False)
    \<and> (dget response (lit ''ok'') = PBool False \<longrightarrow> d_file d' = d_file d)
    \<and> (uid \<noteq> 0 \<and> me_user E \<noteq> Some uid \<longrightarrow> d' = d \<and> dget response (lit ''ok'') = PBool False)"
proof -
  have f: "dget failure (lit ''ok'') = PBool False" by (simp add: failure_def)
  consider "response = failure" "d' = d"
    | request e where "peer_allowed E uid" "dispatch E request d = (Inl e, d')" "response = failure"
    | request where "peer_allowed E uid" "dispatch E request d = (Inr response, d')"
    using assms by (auto simp: handle_connection_def split: if_splits sum.splits prod.splits)
  then show ?thesis
  proof cases
    case (2 request e)
    then show ?thesis using f atomic_dispatch [of E request] by (auto simp: atomic_def peer_allowed_def)
  next
    case (3 request)
    then show ?thesis using dispatch_ok [OF 3(2)] by (auto simp: peer_allowed_def)
  qed (use f in simp)
qed

theorem failed_request_keeps_records_witness:
  "handle_connection demo_guest_env 7 [lit ''x''] fresh_guest = (failure, fresh_guest)"
proof -
  have "handle_connection demo_guest_env 7 [lit ''x''] fresh_guest = (failure, fresh_guest)"
    by (simp add: handle_connection_def peer_allowed_def)
  from this failed_request_keeps_records [OF this] show ?thesis by simp
qed

section \<open>Replays\<close>

lemma find_managed_last:
  "find_managed es i t m = None \<Longrightarrow> find_managed (es @ [mount_entry i t m s]) i t m = Some (Inr (mount_entry i t m s))"
  by (induction es) (auto simp: same_record_def split: if_splits)

lemma seq_Inr:
  "seq m f d = (Inr y, d') \<Longrightarrow> \<exists>x d1. m d = (Inr x, d1) \<and> f x d1 = (Inr y, d')"
  by (auto simp: seq_def split: prod.splits sum.splits)

lemma mount_checked_Inr:
  assumes "mount_checked E i t m d = (Inr e, d')"
  shows "find_managed (read_state d') i t m = Some (Inr e)"
proof (cases "find_managed (read_state d) i t m")
  case (Some r)
  then show ?thesis using assms by (auto simp: mount_checked_def Let_def split: if_splits)
next
  case None
  let ?s = "path_join STAGING_DIR i" and ?es = "read_state d"
  let ?new = "mount_entry i t m ?s"
  have "seq (prepare_target E t) (\<lambda>_. seq (run_mount E i t m ?s) (\<lambda>_.
      seq (write_state E (?es @ [?new])) (\<lambda>_. ret ?new))) d = (Inr e, d')"
    using assms None by (simp add: mount_checked_def Let_def split: if_splits)
  then have "\<exists>d1. seq (write_state E (?es @ [?new])) (\<lambda>_. ret ?new) d1 = (Inr e, d')"
    by (blast dest: seq_Inr)
  then have "e = ?new" "read_state d' = ?es @ [?new]"
    by (auto simp: seq_def write_state_def ret_def read_state_def split: if_splits)
  then show ?thesis using find_managed_last [OF None] by simp
qed

text \<open>
  A repeated mount request is answered from the record. After a successful mount, the same
  request succeeds again with the same record and runs nothing; and it does so even when the
  target has been unmounted behind the helper's back, as long as the staging directory is
  there.
\<close>

theorem mount_replay_trusts_the_record:
  assumes "mount_op E ident target mode d = (Inr e, d')" and "validate_id ident = Inr i"
    and "me_isdir E k (path_join STAGING_DIR i)"
  shows "mount_op E ident target mode (d'\<lparr>d_kernel := k\<rparr>) = (Inr e, d'\<lparr>d_kernel := k\<rparr>)"
proof -
  obtain t where t: "validate_target target = Inr t" "mode \<in> PStr ` set MODES"
    "mount_checked E i t (str_of mode) d = (Inr e, d')"
    using assms(1,2) by (auto simp: mount_op_def raise_def split: sum.splits if_splits)
  have "find_managed (read_state d') i t (str_of mode) = Some (Inr e)" by (rule mount_checked_Inr [OF t(3)])
  moreover have "read_state (d'\<lparr>d_kernel := k\<rparr>) = read_state d'" by (simp add: read_state_def)
  ultimately have "mount_checked E i t (str_of mode) (d'\<lparr>d_kernel := k\<rparr>) = (Inr e, d'\<lparr>d_kernel := k\<rparr>)"
    using assms(3) by (simp add: mount_checked_def Let_def)
  then show ?thesis using t(1,2) assms(2) by (simp add: mount_op_def)
qed

theorem mount_replay_trusts_the_record_witness:
  "\<exists>d'. d_kernel d' = [] \<and> (\<exists>e. mount_op demo_guest_env (PStr (lit ''a'')) (PStr (lit ''/a'')) (PStr (lit ''rw'')) d' = (Inr e, d'))"
proof -
  obtain e d' where m: "mount_op demo_guest_env (PStr (lit ''a'')) (PStr (lit ''/a'')) (PStr (lit ''rw'')) fresh_guest = (Inr e, d')"
    using demo_mount_rw by blast
  have "mount_op demo_guest_env (PStr (lit ''a'')) (PStr (lit ''/a'')) (PStr (lit ''rw'')) (d'\<lparr>d_kernel := []\<rparr>) = (Inr e, d'\<lparr>d_kernel := []\<rparr>)"
    by (rule mount_replay_trusts_the_record [OF m demo_ids(1)]) simp
  then show ?thesis by (intro exI [of _ "d'\<lparr>d_kernel := []\<rparr>"]) auto
qed

section \<open>What is not undone\<close>

lemma take_record_None:
  "find_managed es i t m = None \<Longrightarrow> take_record es t = None"
  by (induction es) (auto split: if_splits)

lemma find_managed_target:
  "find_managed es i t m = None \<Longrightarrow> find_managed es i' t m' = None"
  by (induction es) (auto simp: same_record_def split: if_splits)

text \<open>
  C36: A read-only mount can end up writable and out of reach. When the bind works and the
  read-only remount fails, the helper reports the failure but leaves the bind, which is
  writable, in place and unrecorded: from then on every mount request for that target is
  refused because it is a mount point, and every unmount request because it is not managed.
\<close>

theorem failed_remount_leaves_writable_mount:
  assumes "validate_id ident = Inr i" "validate_target target = Inr t"
    and "find_managed (read_state d) i t (lit ''ro'') = None"
    and "me_isdir E (d_kernel d) (path_join STAGING_DIR i)" "me_isdir E (d_kernel d) t" "\<not> me_ismount E (d_kernel d) t"
    and "me_run E (d_kernel d) (bind_command E (path_join STAGING_DIR i) t) = (Inr (), k)"
    and "me_run E k (remount_command E t) = (Inl (RuntimeError why), k')"
    and "me_ismount E k' t"
  shows "\<exists>d'. mount_op E ident target (PStr (lit ''ro'')) d = (Inl (RuntimeError why), d')
    \<and> d_kernel d' = k' \<and> read_state d' = read_state d
    \<and> (\<forall>ident' mode'. \<exists>e. mount_op E ident' target mode' d' = (Inl e, d'))
    \<and> (\<exists>e. umount_op E target d' = (Inl e, d'))"
proof -
  let ?d' = "d\<lparr>d_kernel := k', d_log := d_log d @ [bind_command E (path_join STAGING_DIR i) t, remount_command E t]\<rparr>"
  have es: "read_state ?d' = read_state d" by (simp add: read_state_def)
  have "mount_checked E i t (lit ''ro'') d = (Inl (RuntimeError why), ?d')"
    using assms(3-8) by (simp add: mount_checked_def prepare_target_def run_mount_def seq_def run_def ret_def)
  then have run: "mount_op E ident target (PStr (lit ''ro'')) d = (Inl (RuntimeError why), ?d')"
    using assms(1,2) by (simp add: mount_op_def MODES_def)
  have again: "\<exists>e. mount_op E ident' target mode' ?d' = (Inl e, ?d')" for ident' mode'
  proof (cases "validate_id ident'")
    case (Inr i')
    have n: "find_managed (read_state ?d') i' t (str_of mode') = None"
      using find_managed_target [OF assms(3)] es by simp
    have "\<exists>e. mount_checked E i' t (str_of mode') ?d' = (Inl e, ?d')"
      unfolding mount_checked_def Let_def n using assms(9) by simp
    then show ?thesis using Inr assms(2) by (simp add: mount_op_def raise_def)
  qed (simp add: mount_op_def raise_def)
  have "umount_op E target ?d' = (Inl (RuntimeError ''target is not managed''), ?d')"
    using assms(2) take_record_None [OF assms(3)] es by (simp add: umount_op_def)
  with run again es show ?thesis by (intro exI [of _ ?d']) simp
qed

theorem failed_remount_leaves_writable_mount_witness:
  "\<exists>d'. mount_op demo_guest_env (PStr (lit ''a'')) (PStr (lit ''/a'')) (PStr (lit ''ro'')) fresh_guest = (Inl (RuntimeError ''permission denied''), d')
     \<and> d_kernel d' = [lit ''/a''] \<and> read_state d' = [] \<and> (\<exists>e. umount_op demo_guest_env (PStr (lit ''/a'')) d' = (Inl e, d'))"
proof -
  have e: "read_state fresh_guest = []" by (simp add: read_state_def)
  have n: "find_managed (read_state fresh_guest) (lit ''a'') (lit ''/a'') (lit ''ro'') = None" by (simp add: e)
  have r: "me_run demo_guest_env (d_kernel fresh_guest) (bind_command demo_guest_env (path_join STAGING_DIR (lit ''a'')) (lit ''/a'')) = (Inr (), [lit ''/a''])"
    "me_run demo_guest_env [lit ''/a''] (remount_command demo_guest_env (lit ''/a'')) = (Inl (RuntimeError ''permission denied''), [lit ''/a''])"
    by (simp_all add: demo_bind) (simp add: demo_run_def remount_command_def)
  from failed_remount_leaves_writable_mount [OF demo_ids(1,2) n _ _ _ r] e show ?thesis by auto
qed

text \<open>
  Two overlays can share one layer, and the first unmount takes it from the other. The layer
  is named by the staging id alone, and an id may be mounted on several targets: unmounting
  one of them removes the upper and work directories although the other overlay is still
  recorded and mounted on them.
\<close>

theorem unmount_removes_a_shared_layer:
  assumes "validate_target target = Inr t" "validate_id (PStr i) = Inr i"
    and "take_record (read_state d) t = Some (mount_entry i t (lit ''overlay'') s, rest)"
    and "mount_entry i t' (lit ''overlay'') s' \<in> set rest"
    and "me_run E (d_kernel d) [me_umount_bin E, t] = (Inr (), k)"
    and "me_tree E k (path_join OVERLAY_DIR i) = Some layer"
    and "me_writable E (me_prune E k (path_join OVERLAY_DIR i) (safe_rmtree layer))"
  shows "\<exists>d'. umount_op E target d = (Inr (mount_entry i t (lit ''overlay'') s), d')
    \<and> mount_entry i t' (lit ''overlay'') s' \<in> set (read_state d')
    \<and> d_kernel d' = me_prune E k (path_join OVERLAY_DIR i) (safe_rmtree layer)"
proof -
  have "id_text (me_lib E) (mount_entry i t (lit ''overlay'') s) = i"
    by (simp add: id_text_def mount_entry_def)
  then show ?thesis
    using assms
    by (simp add: umount_op_def seq_def unmount_def run_def drop_layer_def remove_tree_def on_kernel_def
        write_state_def ret_def read_state_def)
qed

theorem unmount_removes_a_shared_layer_witness:
  "\<exists>d d'. umount_op demo_guest_env (PStr (lit ''/a'')) d = (Inr (mount_entry (lit ''a'') (lit ''/a'') (lit ''overlay'') []), d')
     \<and> mount_entry (lit ''a'') (lit ''/b'') (lit ''overlay'') [] \<in> set (read_state d') \<and> lit ''/b'' \<in> set (d_kernel d')"
proof -
  let ?a = "mount_entry (lit ''a'') (lit ''/a'') (lit ''overlay'') []" and ?b = "mount_entry (lit ''a'') (lit ''/b'') (lit ''overlay'') []"
  let ?d = "\<lparr>d_kernel = [lit ''/a'', lit ''/b''], d_file = Some (PList [?a, ?b]), d_log = []\<rparr>"
  have t: "take_record (read_state ?d) (lit ''/a'') = Some (?a, [?b])" by (simp add: read_state_def)
  have r: "me_run demo_guest_env (d_kernel ?d) [me_umount_bin demo_guest_env, lit ''/a''] = (Inr (), [lit ''/b''])"
    by (simp add: demo_run_def)
  obtain d' where "umount_op demo_guest_env (PStr (lit ''/a'')) ?d = (Inr ?a, d')" "?b \<in> set (read_state d')" "d_kernel d' = [lit ''/b'']"
    using unmount_removes_a_shared_layer [OF demo_ids(2,1) t _ r, of "lit ''/b''" "[]"] by auto
  then show ?thesis by (intro exI [of _ ?d] exI [of _ d']) simp
qed

section \<open>Removing a layer\<close>

fun mounts_below :: "ftree \<Rightarrow> ftree list"
  and mounts_in :: "(pstr \<times> ftree) list \<Rightarrow> ftree list" where
  "mounts_below (Leaf u) = []"
| "mounts_below (Tree mounted listable empties entries) =
     (if mounted then [Tree mounted listable empties entries] else mounts_in entries)"
| "mounts_in [] = []"
| "mounts_in ((name, t) # entries) = mounts_below t @ mounts_in entries"

lemma rmtree_mounts:
  "mounts_below t = (case safe_rmtree t of None \<Rightarrow> [] | Some left \<Rightarrow> mounts_below left)"
  "mounts_in (rm_entries es) = mounts_in es"
proof (induction t and es rule: safe_rmtree_rm_entries.induct)
  case (4 name t entries)
  then show ?case by (cases "safe_rmtree t") simp_all
qed (auto split: if_splits)

text \<open>
  Removing a layer never reaches into a mount: whatever is mounted below the layer is still
  there, untouched, when it returns, and it only reports success when nothing was mounted
  there.
\<close>

theorem rmtree_spares_mounts:
  "mounts_below t = (case safe_rmtree t of None \<Rightarrow> [] | Some left \<Rightarrow> mounts_below left)
   \<and> (safe_rmtree t = None \<longrightarrow> mounts_below t = [])"
  using rmtree_mounts(1) [of t] by (auto split: option.splits)

theorem rmtree_spares_mounts_witness:
  "safe_rmtree (Tree False True True [([], Leaf True), ([1], Tree True True True [])]) \<noteq> None"
  using rmtree_spares_mounts [of "Tree False True True [([], Leaf True), ([1], Tree True True True [])]"] by auto

end
