(* ===== verification/Wire.thy ===== *)
theory Wire
  imports Text Base64 Config "HOL-Library.Monad_Syntax"
begin

text \<open>
  The wire format of \<open>ssh-agent-proxy\<close>: lossy UTF-8 decoding, the buffer \<open>SSHBuffer\<close>, the framing of
  agent messages over a stream socket, and the functions that read keys, purposes and host keys
  out of a message. A reader of the source that raises has the value \<open>None\<close> here: every caller
  catches \<open>Exception\<close> without looking at it. The cryptographic primitives are the record \<open>keylib\<close>.
\<close>

section \<open>Lossy decoding\<close>

text \<open>
  \<open>bytes.decode("utf-8", "replace")\<close>: a lead byte that is not the start of a character, together
  with the continuation bytes that could still have followed it, becomes one U+FFFD.
\<close>

definition utf8_need :: "nat \<Rightarrow> nat" where
  "utf8_need b = (if 194 \<le> b \<and> b < 224 then 1 else if 224 \<le> b \<and> b < 240 then 2 else if 240 \<le> b \<and> b < 245 then 3 else 0)"

definition second_ok :: "nat \<Rightarrow> nat \<Rightarrow> bool" where
  "second_ok b x \<longleftrightarrow>
     cont x \<and> (b = 224 \<longrightarrow> 160 \<le> x) \<and> (b = 237 \<longrightarrow> x < 160) \<and> (b = 240 \<longrightarrow> 144 \<le> x) \<and> (b = 244 \<longrightarrow> x < 144)"

definition valid_run :: "nat \<Rightarrow> pbytes \<Rightarrow> nat" where
  "valid_run b bs =
     (case bs of [] \<Rightarrow> 0
      | x # r \<Rightarrow>
          if utf8_need b = 0 \<or> \<not> second_ok b x then 0
          else Suc (length (takeWhile cont (take (utf8_need b - 1) r))))"

function decode_replace :: "pbytes \<Rightarrow> pstr" where
  "decode_replace [] = []"
| "decode_replace (b # bs) =
     (case utf8_next b bs of
        Some (c, r) \<Rightarrow> c # decode_replace r
      | None \<Rightarrow> 65533 # decode_replace (drop (valid_run b bs) bs))"
  by pat_completeness auto
termination
  by (relation "measure length") (auto dest: utf8_next_length)

text \<open>\<open>str.encode\<close> of a decoded text, and \<open>str.isprintable\<close> of one character (the Unicode database decides above ASCII).\<close>

record keylib =
  kl_sha256 :: "pbytes \<Rightarrow> pbytes"
  kl_hmac_sha1 :: "pbytes \<Rightarrow> pbytes \<Rightarrow> pbytes"
  kl_ed25519 :: "pbytes \<Rightarrow> pbytes \<Rightarrow> pbytes \<Rightarrow> bool"
  kl_rsa :: "nat \<Rightarrow> nat \<Rightarrow> pstr \<Rightarrow> pbytes \<Rightarrow> pbytes \<Rightarrow> bool"
  kl_ecdsa :: "pstr \<Rightarrow> pbytes \<Rightarrow> nat \<Rightarrow> nat \<Rightarrow> pbytes \<Rightarrow> bool"
  kl_printable :: "nat \<Rightarrow> bool"

definition isprintable :: "keylib \<Rightarrow> nat \<Rightarrow> bool" where
  "isprintable K c = (if c < 128 then 32 \<le> c \<and> c < 127 else kl_printable K c)"

definition printable_prefix :: "keylib \<Rightarrow> nat \<Rightarrow> pstr \<Rightarrow> pstr" where
  "printable_prefix K n s = take n (filter (isprintable K) s)"

section \<open>The buffer\<close>

record sshbuf =
  sb_data :: pbytes
  sb_offset :: nat

definition buf :: "pbytes \<Rightarrow> sshbuf" where
  "buf data = \<lparr>sb_data = data, sb_offset = 0\<rparr>"

text \<open>\<open>int.from_bytes(data, "big")\<close>.\<close>

definition big_endian :: "pbytes \<Rightarrow> nat" where
  "big_endian bs = foldl (\<lambda>n b. 256 * n + b) 0 bs"

text \<open>\<open>unpack\<close> needs exactly four bytes; a slice past the end is short, so it raises there.\<close>

definition read_int :: "sshbuf \<Rightarrow> (nat \<times> sshbuf) option" where
  "read_int b =
     (let field = take 4 (drop (sb_offset b) (sb_data b))
      in if length field = 4 then Some (big_endian field, b\<lparr>sb_offset := sb_offset b + 4\<rparr>) else None)"

text \<open>A string is cut off silently where the data ends.\<close>

definition read_string :: "sshbuf \<Rightarrow> (pbytes \<times> sshbuf) option" where
  "read_string b = do {
     (len, b) \<leftarrow> read_int b;
     Some (take len (drop (sb_offset b) (sb_data b)), b\<lparr>sb_offset := sb_offset b + len\<rparr>)
   }"

definition read_byte :: "sshbuf \<Rightarrow> (nat \<times> sshbuf) option" where
  "read_byte b =
     (if sb_offset b < length (sb_data b)
      then Some (sb_data b ! sb_offset b, b\<lparr>sb_offset := sb_offset b + 1\<rparr>) else None)"

definition read_mpint :: "sshbuf \<Rightarrow> (nat \<times> sshbuf) option" where
  "read_mpint b = do { (field, b) \<leftarrow> read_string b; Some (big_endian field, b) }"

definition has_data :: "sshbuf \<Rightarrow> bool" where
  "has_data b \<longleftrightarrow> sb_offset b < length (sb_data b)"

text \<open>\<open>pack(">I", n)\<close>, which raises above 32 bits, and \<open>_ssh_string\<close>.\<close>

definition pack_u32 :: "nat \<Rightarrow> pbytes option" where
  "pack_u32 n =
     (if n < 2 ^ 32 then Some [n div 2 ^ 24, n div 2 ^ 16 mod 256, n div 2 ^ 8 mod 256, n mod 256] else None)"

definition ssh_string :: "pbytes \<Rightarrow> pbytes option" where
  "ssh_string data = do { header \<leftarrow> pack_u32 (length data); Some (header @ data) }"

section \<open>Message numbers\<close>

datatype agent_msg =
    FAILURE | SUCCESS | REQUEST_IDENTITIES | IDENTITIES_ANSWER | SIGN_REQUEST | SIGN_RESPONSE
  | ADD_IDENTITY | REMOVE_IDENTITY | REMOVE_ALL_IDENTITIES | ADD_ID_CONSTRAINED | EXTENSION

fun msg_number :: "agent_msg \<Rightarrow> nat" where
  "msg_number FAILURE = 5"
| "msg_number SUCCESS = 6"
| "msg_number REQUEST_IDENTITIES = 11"
| "msg_number IDENTITIES_ANSWER = 12"
| "msg_number SIGN_REQUEST = 13"
| "msg_number SIGN_RESPONSE = 14"
| "msg_number ADD_IDENTITY = 17"
| "msg_number REMOVE_IDENTITY = 18"
| "msg_number REMOVE_ALL_IDENTITIES = 19"
| "msg_number ADD_ID_CONSTRAINED = 25"
| "msg_number EXTENSION = 27"

definition MAX_AGENT_MSG_LEN :: nat where
  "MAX_AGENT_MSG_LEN = 256 * 1024"

section \<open>A stream socket\<close>

text \<open>
  What arrives on a socket: runs of bytes, and waits that exceed the socket's timeout. The end of
  the list is the end of the stream. A read takes at most as many bytes as it asks for.
\<close>

datatype arrival = Data pbytes | Quiet

type_synonym inflow = "arrival list"

definition recv :: "nat \<Rightarrow> inflow \<Rightarrow> pbytes res \<times> inflow" where
  "recv n st =
     (case st of
        [] \<Rightarrow> (Inr [], [])
      | Quiet # rest \<Rightarrow> (Inl (OSError ''timed out''), rest)
      | Data c # rest \<Rightarrow> (Inr (take n c), if length c \<le> n then rest else Data (drop n c) # rest))"

function recv_exactly :: "pbytes \<Rightarrow> nat \<Rightarrow> inflow \<Rightarrow> pbytes option res \<times> inflow" where
  "recv_exactly chunks remaining st =
     (if remaining = 0 then (Inr (Some chunks), st)
      else (case recv remaining st of
          (Inl e, st') \<Rightarrow> (Inl e, st')
        | (Inr chunk, st') \<Rightarrow>
            if chunk = [] then (Inr None, st')
            else recv_exactly (chunks @ chunk) (remaining - length chunk) st'))"
  by auto
termination
  by (relation "measure (\<lambda>(chunks, remaining, st). remaining)") auto

declare recv_exactly.simps [simp del]

text \<open>\<open>_recv_msg\<close>: \<open>None\<close> at the end of the stream, on a timeout and for an oversized message.\<close>

definition recv_msg :: "inflow \<Rightarrow> pbytes option \<times> inflow" where
  "recv_msg st =
     (case recv_exactly [] 4 st of
        (Inr (Some rawlen), st') \<Rightarrow>
          (case read_int (buf rawlen) of
             None \<Rightarrow> (None, st')
           | Some (len, _) \<Rightarrow>
               if len = 0 then (Some [], st')
               else if MAX_AGENT_MSG_LEN < len then (None, st')
               else (case recv_exactly [] len st' of
                   (Inl e, st'') \<Rightarrow> (None, st'')
                 | (Inr payload, st'') \<Rightarrow> (payload, st'')))
      | (_, st') \<Rightarrow> (None, st'))"

section \<open>Keys in messages\<close>

definition key_fingerprint :: "keylib \<Rightarrow> pbytes \<Rightarrow> pstr" where
  "key_fingerprint K blob = lit ''SHA256:'' @ rstrip_pad (b64encode (kl_sha256 K blob))"

definition encoded :: "pstr \<Rightarrow> pbytes option" where
  "encoded s = (case utf8_encode s of Inl e \<Rightarrow> None | Inr b \<Rightarrow> Some b)"

fun concat_strings :: "pbytes list \<Rightarrow> pbytes option" where
  "concat_strings [] = Some []"
| "concat_strings (f # fs) = do { h \<leftarrow> ssh_string f; t \<leftarrow> concat_strings fs; Some (h @ t) }"

fun skip_strings :: "nat \<Rightarrow> sshbuf \<Rightarrow> sshbuf option" where
  "skip_strings 0 b = Some b"
| "skip_strings (Suc n) b = do { (_, b) \<leftarrow> read_string b; skip_strings n b }"

text \<open>The part of \<open>_public_blob_from_private\<close> after the key type; an unsupported type has no blob either.\<close>

definition public_parts :: "pstr \<Rightarrow> sshbuf \<Rightarrow> (pbytes \<times> sshbuf) option" where
  "public_parts key_type b =
     (if key_type = lit ''ssh-ed25519'' then do {
        kt \<leftarrow> encoded key_type;
        (pub, b) \<leftarrow> read_string b;
        b \<leftarrow> skip_strings 1 b;
        blob \<leftarrow> concat_strings [kt, pub];
        Some (blob, b)
      }
      else if key_type = lit ''ssh-rsa'' then do {
        kt \<leftarrow> encoded key_type;
        (n, b) \<leftarrow> read_string b;
        (e, b) \<leftarrow> read_string b;
        b \<leftarrow> skip_strings 4 b;
        blob \<leftarrow> concat_strings [kt, e, n];
        Some (blob, b)
      }
      else if startswith (lit ''ecdsa-sha2-'') key_type then do {
        kt \<leftarrow> encoded key_type;
        (curve, b) \<leftarrow> read_string b;
        (point, b) \<leftarrow> read_string b;
        blob \<leftarrow> concat_strings [kt, curve, point];
        Some (blob, b)
      }
      else None)"

definition public_blob_from_private :: "pbytes \<Rightarrow> (pstr \<times> pbytes option \<times> pstr) option" where
  "public_blob_from_private msg = do {
     (_, b) \<leftarrow> read_byte (buf msg);
     Some (case read_string b of
         None \<Rightarrow> ([], None, [])
       | Some (kt, b) \<Rightarrow>
           (let key_type = decode_replace kt
            in case (do {
                 (blob, b) \<leftarrow> public_parts key_type b;
                 (comment, _) \<leftarrow> read_string b;
                 Some (key_type, Some blob, decode_replace comment)
               }) of Some parts \<Rightarrow> parts | None \<Rightarrow> (key_type, None, [])))
   }"

section \<open>The purpose of a signature\<close>

definition AUTH_PURPOSE :: pstr where
  "AUTH_PURPOSE = lit ''SSH Server Authentication''"

definition UNKNOWN_PURPOSE :: pstr where
  "UNKNOWN_PURPOSE = lit ''Unknown Purpose (UNSAFE)''"

definition determine_purpose :: "keylib \<Rightarrow> pbytes \<Rightarrow> pstr" where
  "determine_purpose K data_to_sign =
     (if startswith (lit ''SSHSIG'') data_to_sign then
        (case read_string (buf (drop 6 data_to_sign)) of
           None \<Rightarrow> UNKNOWN_PURPOSE
         | Some (field, _) \<Rightarrow>
             (let namespace = decode_replace field
              in if namespace = lit ''git'' then lit ''Git Signing''
                 else lit ''Data Sign ('' @ printable_prefix K 48 namespace @ lit '')''))
      else
        (case (do { (_, b) \<leftarrow> read_string (buf data_to_sign);
                    (x, _) \<leftarrow> (if has_data b then read_byte b else None);
                    Some x }) of
           Some x \<Rightarrow> if x = 50 then AUTH_PURPOSE else UNKNOWN_PURPOSE
         | None \<Rightarrow> UNKNOWN_PURPOSE))"

section \<open>Host keys and bind signatures\<close>

text \<open>
  \<open>_split_hostkey\<close>: the key that verifies the signature and the key the destination is trusted
  by. The layout is the one the code reads.
\<close>

definition split_hostkey :: "pbytes \<Rightarrow> (pbytes \<times> pbytes) option" where
  "split_hostkey hostkey = do {
     (kt, b) \<leftarrow> read_string (buf hostkey);
     if endswith (lit ''-cert-v01@openssh.com'') (decode_replace kt) then do {
       (nonce, b) \<leftarrow> read_string b;
       (inner_key, b) \<leftarrow> read_string b;
       (serial, b) \<leftarrow> read_mpint b;
       (cert_type, b) \<leftarrow> read_int b;
       (key_id, b) \<leftarrow> read_string b;
       (principals, b) \<leftarrow> read_string b;
       (valid_after, b) \<leftarrow> read_mpint b;
       (valid_before, b) \<leftarrow> read_mpint b;
       (critical_options, b) \<leftarrow> read_string b;
       (extensions, b) \<leftarrow> read_string b;
       (reserved_field, b) \<leftarrow> read_string b;
       (sig_key, b) \<leftarrow> read_string b;
       Some (inner_key, sig_key)
     }
     else Some (hostkey, hostkey)
   }"

text \<open>The hash of an RSA signature type; the curve names \<open>ec\<close> is used with.\<close>

definition rsa_sigtypes :: "pstr list" where
  "rsa_sigtypes = [lit ''ssh-rsa'', lit ''rsa-sha2-256'', lit ''rsa-sha2-512'']"

definition ec_curves :: "pstr list" where
  "ec_curves = [lit ''nistp256'', lit ''nistp384'', lit ''nistp521'']"

definition verify_key_signature :: "keylib \<Rightarrow> pbytes \<Rightarrow> pbytes \<Rightarrow> pbytes \<Rightarrow> bool" where
  "verify_key_signature K pubkey_blob signature_blob session_id =
     (case (do {
         (kt, kb) \<leftarrow> read_string (buf pubkey_blob);
         (st, sb) \<leftarrow> read_string (buf signature_blob);
         if decode_replace kt = lit ''ssh-ed25519'' then do {
           (pub, _) \<leftarrow> read_string kb;
           (sig, _) \<leftarrow> read_string sb;
           Some (kl_ed25519 K pub sig session_id)
         }
         else if decode_replace kt = lit ''ssh-rsa'' then do {
           (e, kb) \<leftarrow> read_mpint kb;
           (n, _) \<leftarrow> read_mpint kb;
           if decode_replace st \<in> set rsa_sigtypes then do {
             (sig, _) \<leftarrow> read_string sb;
             Some (kl_rsa K e n (decode_replace st) sig session_id)
           }
           else None
         }
         else if startswith (lit ''ecdsa-sha2-'') (decode_replace kt) then do {
           (curve, kb) \<leftarrow> read_string kb;
           (point, _) \<leftarrow> read_string kb;
           if decode_replace curve \<in> set ec_curves then do {
             (sig, _) \<leftarrow> read_string sb;
             (r, inner) \<leftarrow> read_mpint (buf sig);
             (s, _) \<leftarrow> read_mpint inner;
             Some (kl_ecdsa K (decode_replace curve) point r s session_id)
           }
           else None
         }
         else None
       }) of Some verified \<Rightarrow> verified | None \<Rightarrow> False)"

definition verify_bind_sig :: "keylib \<Rightarrow> pbytes \<Rightarrow> pbytes \<Rightarrow> pbytes \<Rightarrow> pbytes option" where
  "verify_bind_sig K hostkey session_id signature =
     (case split_hostkey hostkey of
        None \<Rightarrow> None
      | Some (key_blob, trust_blob) \<Rightarrow>
          if verify_key_signature K key_blob signature session_id then Some trust_blob else None)"

end
