(* ===== verification/Framing.thy ===== *)
theory Framing
  imports Wire
begin

text \<open>
  Facts about the wire format of the agent protocol: what lossy decoding preserves, how the buffer
  reads what the writer wrote, that a message is read whole however its bytes arrive, and the
  interface of a self-delimiting framing, which the agent messages and the elevation frames
  both implement.
\<close>

section \<open>Lossy decoding\<close>

lemma utf8_next_ascii: "b < 128 \<Longrightarrow> utf8_next b bs = Some (b, bs)"
  by (simp add: utf8_next_def)

lemma utf8_next_low: "utf8_next b bs = Some (c, r) \<Longrightarrow> c < 128 \<Longrightarrow> b = c \<and> r = bs"
  unfolding utf8_next_def Let_def comb2_def
  by (cases bs; cases "tl bs"; cases "tl (tl bs)") (auto split: if_split_asm)

lemma decode_replace_ascii: "\<forall>c \<in> set s. c < 128 \<Longrightarrow> decode_replace bs = s \<longleftrightarrow> bs = s"
proof (induction bs arbitrary: s rule: decode_replace.induct)
  case 1
  then show ?case by auto
next
  case (2 b bs)
  show ?case
  proof (cases "utf8_next b bs")
    case None
    then have "decode_replace (b # bs) = 65533 # decode_replace (drop (valid_run b bs) bs)" by simp
    moreover have "\<not> b < 128" using None utf8_next_ascii by fastforce
    ultimately show ?thesis using 2(3) by (cases s) auto
  next
    case (Some p)
    obtain c r where p: "p = (c, r)" by force
    have d: "decode_replace (b # bs) = c # decode_replace r" using Some p by simp
    show ?thesis
    proof (cases s)
      case (Cons x t)
      have IH: "decode_replace r = t \<longleftrightarrow> r = t" using 2(2) [OF Some] 2(3) Cons p by simp
      show ?thesis
      proof (cases "c < 128")
        case True
        then show ?thesis using utf8_next_low [OF Some [unfolded p]] d IH Cons by auto
      next
        case False
        moreover have "x < 128" using 2(3) Cons by simp
        moreover have "b \<noteq> x" using utf8_next_ascii [of b bs] Some p False \<open>x < 128\<close> by auto
        ultimately show ?thesis using d Cons by auto
      qed
    qed (simp add: Some p)
  qed
qed

lemma decode_replace_prefix:
  "\<forall>c \<in> set s. c < 128 \<Longrightarrow> decode_replace bs = s @ t \<Longrightarrow> \<exists>u. bs = s @ u"
proof (induction s arbitrary: bs)
  case (Cons x s)
  then obtain b bs' where b: "bs = b # bs'" by (cases bs) auto
  obtain c r where c: "utf8_next b bs' = Some (c, r)"
    using Cons.prems b by (cases "utf8_next b bs'") auto
  then have "c = x" "decode_replace r = s @ t" using Cons.prems b by simp_all
  moreover from this have "b = x \<and> r = bs'" using utf8_next_low [OF c] Cons.prems(1) by simp
  ultimately show ?case using Cons.IH [of r] Cons.prems(1) b by simp
qed simp

definition ascii :: "string \<Rightarrow> bool" where
  "ascii s \<longleftrightarrow> (\<forall>c \<in> set (lit s). c < 128)"

lemma decode_replace_lit [simp]: "ascii s \<Longrightarrow> decode_replace bs = lit s \<longleftrightarrow> bs = lit s"
  by (simp add: ascii_def decode_replace_ascii)

lemma decode_replace_of_lit: "ascii s \<Longrightarrow> decode_replace (lit s) = lit s"
  by simp

lemma decode_replace_utf8: "utf8_decode bs = Some s \<Longrightarrow> decode_replace bs = s"
  by (induction bs arbitrary: s rule: utf8_decode.induct) (auto split: option.splits)

lemma set_decode_replace:
  "c \<in> set (decode_replace bs) \<Longrightarrow> \<not> surrogate c \<and> c < 1114112"
proof (induction bs rule: decode_replace.induct)
  case (2 b bs)
  show ?case
  proof (cases "utf8_next b bs")
    case None
    then show ?thesis using 2 by (auto simp: surrogate_def)
  next
    case (Some p)
    obtain d r where p: "p = (d, r)" by force
    have "\<not> surrogate d \<and> d < 1114112"
      using Some p unfolding utf8_next_def Let_def
      by (cases bs; cases "tl bs"; cases "tl (tl bs)")
        (auto simp: surrogate_def comb2_def comb3_def comb4_def cont_def split: if_split_asm)
    then show ?thesis using 2 Some p by auto
  qed
qed simp

section \<open>Reading what was written\<close>

lemma big_endian_snoc [simp]: "big_endian (bs @ [b]) = 256 * big_endian bs + b"
  by (simp add: big_endian_def)

lemma big_endian_Nil [simp]: "big_endian [] = 0"
  by (simp add: big_endian_def)

lemma length_pack_u32: "pack_u32 n = Some h \<Longrightarrow> length h = 4"
  by (auto simp: pack_u32_def split: if_splits)

lemma big_endian_pack: "pack_u32 n = Some h \<Longrightarrow> big_endian h = n"
proof -
  assume h: "pack_u32 n = Some h"
  have e1: "256 * (n div 2 ^ 24) + n div 2 ^ 16 mod 256 = n div 2 ^ 16"
    using div_mult_mod_eq [of "n div 2 ^ 16" 256] by (simp add: div_mult2_eq [symmetric] mult.commute)
  have e2: "256 * (n div 2 ^ 16) + n div 2 ^ 8 mod 256 = n div 2 ^ 8"
    using div_mult_mod_eq [of "n div 2 ^ 8" 256] by (simp add: div_mult2_eq [symmetric] mult.commute)
  have e3: "256 * (n div 2 ^ 8) + n mod 256 = n"
    using div_mult_mod_eq [of n 256] by (simp add: mult.commute)
  have "h = [n div 2 ^ 24, n div 2 ^ 16 mod 256, n div 2 ^ 8 mod 256, n mod 256]"
    using h by (simp add: pack_u32_def split: if_splits)
  then have "big_endian h = 256 * (256 * (256 * (n div 2 ^ 24) + n div 2 ^ 16 mod 256) + n div 2 ^ 8 mod 256) + n mod 256"
    by (simp add: big_endian_def)
  then show ?thesis unfolding e1 e2 e3 .
qed

text \<open>What a buffer has left.\<close>

definition left :: "sshbuf \<Rightarrow> pbytes" where
  "left b = drop (sb_offset b) (sb_data b)"

lemma left_buf [simp]: "left (buf d) = d"
  by (simp add: left_def buf_def)

lemma read_int_left:
  "left b = h @ r \<Longrightarrow> length h = 4 \<Longrightarrow> \<exists>b'. read_int b = Some (big_endian h, b') \<and> left b' = r"
proof -
  assume l: "left b = h @ r" "length h = 4"
  have "left (b\<lparr>sb_offset := sb_offset b + 4\<rparr>) = drop 4 (left b)" by (simp add: left_def add.commute)
  also have "\<dots> = r" using l by simp
  finally have "left (b\<lparr>sb_offset := sb_offset b + 4\<rparr>) = r" .
  moreover have "take 4 (drop (sb_offset b) (sb_data b)) = h" using l by (simp add: left_def)
  ultimately show ?thesis using l(2) by (auto simp: read_int_def Let_def)
qed

lemma read_int_None: "length (left b) < 4 \<Longrightarrow> read_int b = None"
  by (simp add: read_int_def left_def Let_def)

lemma read_int_cases:
  obtains (short) "length (left b) < 4" "read_int b = None"
  | (ok) h r b' where "left b = h @ r" "length h = 4" "read_int b = Some (big_endian h, b')" "left b' = r"
proof (cases "length (left b) < 4")
  case True
  then show ?thesis by (rule short [OF True read_int_None])
next
  case False
  have l: "left b = take 4 (left b) @ drop 4 (left b)" by (rule append_take_drop_id [symmetric])
  have n: "length (take 4 (left b)) = 4" using False by simp
  obtain b' where "read_int b = Some (big_endian (take 4 (left b)), b')" "left b' = drop 4 (left b)"
    using read_int_left [OF l n] by blast
  then show ?thesis by (rule ok [OF l n])
qed

text \<open>A string read: everything up to its length or up to the end of the data.\<close>

lemma read_string_left:
  assumes "left b = h @ r" "length h = 4"
  shows "\<exists>b'. read_string b = Some (take (big_endian h) r, b') \<and> left b' = drop (big_endian h) r"
proof -
  obtain b1 where b1: "read_int b = Some (big_endian h, b1)" "left b1 = r" using read_int_left [OF assms] by blast
  have "left (b1\<lparr>sb_offset := sb_offset b1 + big_endian h\<rparr>) = drop (big_endian h) r"
    using b1(2) by (simp add: left_def add.commute flip: drop_drop)
  with b1 show ?thesis by (auto simp: read_string_def left_def)
qed

lemma read_string_None: "length (left b) < 4 \<Longrightarrow> read_string b = None"
  by (simp add: read_string_def read_int_None)

lemma ssh_stringE:
  assumes "ssh_string x = Some w"
  obtains h where "w = h @ x" "length h = 4" "big_endian h = length x"
  using assms by (auto simp: ssh_string_def bind_eq_Some_conv length_pack_u32 big_endian_pack)

lemma ssh_string_Some: "length x < 2 ^ 32 \<Longrightarrow> \<exists>w. ssh_string x = Some w"
  by (simp add: ssh_string_def pack_u32_def)

lemma read_string_written:
  assumes "ssh_string x = Some w" "left b = w @ r"
  obtains b' where "read_string b = Some (x, b')" "left b' = r"
proof -
  obtain h where h: "w = h @ x" "length h = 4" "big_endian h = length x" using assms(1) by (rule ssh_stringE)
  have "left b = h @ (x @ r)" using assms(2) h(1) by simp
  from read_string_left [OF this h(2)]
  obtain b' where "read_string b = Some (take (big_endian h) (x @ r), b')" "left b' = drop (big_endian h) (x @ r)"
    by blast
  then show ?thesis by (intro that) (simp_all add: h(3))
qed

lemma read_mpint_written:
  assumes "ssh_string x = Some w" "left b = w @ r"
  obtains b' where "read_mpint b = Some (big_endian x, b')" "left b' = r"
proof -
  obtain b' where "read_string b = Some (x, b')" "left b' = r" by (rule read_string_written [OF assms])
  then show ?thesis by (intro that) (simp_all add: read_mpint_def)
qed

lemma skip_strings_written:
  "concat_strings xs = Some w \<Longrightarrow> left b = w @ r \<Longrightarrow> \<exists>b'. skip_strings (length xs) b = Some b' \<and> left b' = r"
proof (induction xs arbitrary: b w)
  case (Cons x xs)
  then obtain h t where h: "ssh_string x = Some h" "concat_strings xs = Some t" "w = h @ t"
    by (auto simp: bind_eq_Some_conv)
  obtain b1 where b1: "read_string b = Some (x, b1)" "left b1 = t @ r"
    by (rule read_string_written [OF h(1), of b "t @ r"]) (use Cons.prems h in auto)
  from Cons.IH [OF h(2) b1(2)] b1(1) show ?case by auto
qed simp

lemma read_byte_left: "left b = x # r \<Longrightarrow> \<exists>b'. read_byte b = Some (x, b') \<and> left b' = r"
proof -
  assume l: "left b = x # r"
  then have o: "sb_offset b < length (sb_data b)" by (metis drop_all left_def list.distinct(1) not_le)
  have "sb_data b ! sb_offset b = hd (left b)"
    using o by (simp add: left_def hd_drop_conv_nth)
  moreover have "left (b\<lparr>sb_offset := sb_offset b + 1\<rparr>) = tl (left b)"
    by (simp add: left_def drop_Suc tl_drop)
  ultimately show ?thesis using o l by (simp add: read_byte_def)
qed

lemma read_byte_None: "left b = [] \<Longrightarrow> read_byte b = None"
  by (simp add: read_byte_def left_def)

lemma has_data_left: "has_data b \<longleftrightarrow> left b \<noteq> []"
  by (auto simp: has_data_def left_def)

section \<open>Messages on a stream\<close>

text \<open>The bytes of a stream, and a stream whose bytes all come in time and in non-empty chunks.\<close>

fun flat :: "inflow \<Rightarrow> pbytes" where
  "flat [] = []"
| "flat (Data c # st) = c @ flat st"
| "flat (Quiet # st) = flat st"

definition steady :: "inflow \<Rightarrow> bool" where
  "steady st \<longleftrightarrow> (\<forall>a \<in> set st. a \<noteq> Quiet \<and> a \<noteq> Data [])"

lemma steady_Cons [simp]: "steady (a # st) \<longleftrightarrow> a \<noteq> Quiet \<and> a \<noteq> Data [] \<and> steady st" and steady_Nil [simp]: "steady []"
  by (auto simp: steady_def)

lemma recv_shorter: "recv n st = (Inr c, st') \<Longrightarrow> length c + length (flat st') = length (flat st)"
  by (auto simp: recv_def split: list.splits arrival.splits if_splits)

lemma recv_exactly_0 [simp]: "recv_exactly acc 0 st = (Inr (Some acc), st)"
  by (simp add: recv_exactly.simps)

lemma recv_exactly_shorter:
  "recv_exactly acc n st = (Inr (Some bs), st') \<Longrightarrow>
     length bs = length acc + n \<and> length (flat st') + n = length (flat st)"
proof (induction acc n st arbitrary: bs rule: recv_exactly.induct)
  case (1 acc n st)
  show ?case
  proof (cases "n = 0")
    case True
    then show ?thesis using 1(2) by simp
  next
    case False
    obtain r st1 where r: "recv n st = (r, st1)" by force
    show ?thesis
    proof (cases r)
      case (Inl e)
      then show ?thesis using 1(2) False r by (simp add: recv_exactly.simps [of acc n])
    next
      case (Inr c)
      then have c: "c \<noteq> []" "recv_exactly (acc @ c) (n - length c) st1 = (Inr (Some bs), st')"
        using 1(2) False r by (simp_all add: recv_exactly.simps [of acc n] split: if_splits)
      have "length c \<le> n" using r Inr by (auto simp: recv_def split: list.splits arrival.splits)
      with 1(1) [OF False r [symmetric] Inr c] recv_shorter [OF r [unfolded Inr]] show ?thesis by auto
    qed
  qed
qed

lemma recv_exactly_steady:
  "steady st \<Longrightarrow>
   (if n \<le> length (flat st)
    then \<exists>st'. recv_exactly acc n st = (Inr (Some (acc @ take n (flat st))), st') \<and> flat st' = drop n (flat st) \<and> steady st'
    else \<exists>st'. recv_exactly acc n st = (Inr None, st') \<and> flat st' = [])"
proof (induction st arbitrary: acc n)
  case Nil
  then show ?case by (cases n) (simp_all add: recv_exactly.simps recv_def)
next
  case (Cons a st)
  obtain c where c: "a = Data c" "c \<noteq> []" using Cons.prems by (cases a) auto
  consider (zero) "n = 0" | (whole) "n \<noteq> 0" "length c \<le> n" | (part) "n < length c" by linarith
  then show ?case
  proof cases
    case zero
    then show ?thesis using Cons.prems by (simp add: recv_exactly.simps)
  next
    case whole
    have step: "recv_exactly acc n (a # st) = recv_exactly (acc @ c) (n - length c) st"
      using whole c by (subst recv_exactly.simps) (simp add: recv_def)
    show ?thesis
      using Cons.IH [of "n - length c" "acc @ c"] Cons.prems whole c unfolding step
      by (auto simp: c(1) split: if_splits)
  next
    case part
    then have "recv_exactly acc n (a # st) = (Inr (Some (acc @ take n c)), (if n = 0 then a # st else Data (drop n c) # st))"
      using c by (subst recv_exactly.simps) (simp add: recv_def recv_exactly.simps)
    then show ?thesis using part c Cons.prems by (cases "n = 0") auto
  qed
qed

text \<open>A message takes its bytes off the stream, so a loop over messages ends.\<close>

lemma recv_msg_shorter: "recv_msg st = (Some m, st') \<Longrightarrow> length (flat st') < length (flat st)"
  by (auto simp: recv_msg_def split: prod.splits sum.splits option.splits if_splits dest!: recv_exactly_shorter)

lemma recv_msg_framed:
  assumes "steady st" "ssh_string m = Some w" "flat st = w @ r" "length m \<le> MAX_AGENT_MSG_LEN"
  shows "\<exists>st'. recv_msg st = (Some m, st') \<and> flat st' = r \<and> steady st'"
proof -
  obtain h where h: "w = h @ m" "length h = 4" "big_endian h = length m" using assms(2) by (rule ssh_stringE)
  obtain st1 where st1: "recv_exactly [] 4 st = (Inr (Some h), st1)" "flat st1 = m @ r" "steady st1"
    using recv_exactly_steady [OF assms(1), of 4 "[]"] assms(3) h by auto
  obtain b where b: "read_int (buf h) = Some (length m, b)"
    using read_int_left [of "buf h" h "[]"] h by auto
  obtain st2 where "recv_exactly [] (length m) st1 = (Inr (Some m), st2)" "flat st2 = r" "steady st2"
    using recv_exactly_steady [OF st1(3), of "length m" "[]"] st1(2) by auto
  then show ?thesis using st1 b assms(4) by (auto simp: recv_msg_def)
qed

text \<open>A message longer than the limit is refused before any of it is read.\<close>

lemma recv_msg_oversized:
  assumes "steady st" "flat st = h @ r" "length h = 4" "MAX_AGENT_MSG_LEN < big_endian h"
  shows "\<exists>st'. recv_msg st = (None, st') \<and> flat st' = r"
proof -
  obtain st1 where st1: "recv_exactly [] 4 st = (Inr (Some h), st1)" "flat st1 = r"
    using recv_exactly_steady [OF assms(1), of 4 "[]"] assms(2,3) by auto
  obtain b where b: "read_int (buf h) = Some (big_endian h, b)"
    using read_int_left [of "buf h" h "[]"] assms(3) by auto
  show ?thesis using st1 b assms(4) by (auto simp: recv_msg_def)
qed

section \<open>Self-delimiting frames\<close>

text \<open>
  What both protocols promise of their framing: a frame is read back whatever follows it, and
  nothing is read from nothing. The readers of a stream use it frame by frame, which \<open>reads_all\<close>
  describes.
\<close>

inductive reads_all :: "(pbytes \<Rightarrow> ('m \<times> pbytes) option) \<Rightarrow> pbytes \<Rightarrow> 'm list \<Rightarrow> bool" for dec where
  finished: "dec bs = None \<Longrightarrow> reads_all dec bs []"
| next_frame: "dec bs = Some (m, r) \<Longrightarrow> reads_all dec r ms \<Longrightarrow> reads_all dec bs (m # ms)"

inductive_simps reads_all_Nil: "reads_all dec bs []"

inductive_cases reads_allE: "reads_all dec bs ms"

locale framing =
  fixes enc :: "'m \<Rightarrow> pbytes"
    and dec :: "pbytes \<Rightarrow> ('m \<times> pbytes) option"
    and ok :: "'m \<Rightarrow> bool"
  assumes dec_enc: "ok m \<Longrightarrow> dec (enc m @ r) = Some (m, r)"
    and dec_Nil: "dec [] = None"
begin

lemma enc_not_Nil: "ok m \<Longrightarrow> enc m \<noteq> []"
  using dec_enc [of m "[]"] dec_Nil by auto

lemma enc_prefix_free: "ok m \<Longrightarrow> ok m' \<Longrightarrow> enc m @ r = enc m' @ r' \<Longrightarrow> m = m' \<and> r = r'"
proof -
  assume "ok m" "ok m'" and e: "enc m @ r = enc m' @ r'"
  have "Some (m, r) = dec (enc m @ r)" by (rule dec_enc [OF \<open>ok m\<close>, symmetric])
  also have "\<dots> = dec (enc m' @ r')" by (simp only: e)
  also have "\<dots> = Some (m', r')" by (rule dec_enc [OF \<open>ok m'\<close>])
  finally show ?thesis by simp
qed

lemma reads_written:
  "\<forall>m \<in> set ms. ok m \<Longrightarrow> reads_all dec (concat (map enc ms)) ms' \<longleftrightarrow> ms' = ms"
proof (induction ms arbitrary: ms')
  case Nil
  then show ?case by (auto simp: dec_Nil intro: reads_all.intros elim: reads_allE)
next
  case (Cons m ms)
  have d: "dec (concat (map enc (m # ms))) = Some (m, concat (map enc ms))" using Cons.prems dec_enc by simp
  have IH: "reads_all dec (concat (map enc ms)) ms'' \<longleftrightarrow> ms'' = ms" for ms'' using Cons by simp
  show ?case
  proof
    show "ms' = m # ms" if "reads_all dec (concat (map enc (m # ms))) ms'"
      using that
    proof cases
      case (next_frame m' r ms'')
      then have "m' = m" "r = concat (map enc ms)" using d by simp_all
      with next_frame IH show ?thesis by simp
    qed (use d in simp)
    show "reads_all dec (concat (map enc (m # ms))) ms'" if "ms' = m # ms"
      unfolding that using reads_all.next_frame [where dec = dec, OF d] IH by blast
  qed
qed

lemma stream_determines_frames:
  assumes "\<forall>m \<in> set ms. ok m" "\<forall>m \<in> set ms'. ok m" "concat (map enc ms) = concat (map enc ms')"
  shows "ms = ms'"
proof -
  have "reads_all dec (concat (map enc ms')) ms'" by (rule reads_written [OF assms(2), THEN iffD2]) (rule refl)
  then have "reads_all dec (concat (map enc ms)) ms'" by (simp only: assms(3))
  then have "ms' = ms" by (rule reads_written [OF assms(1), THEN iffD1])
  then show ?thesis ..
qed

end

text \<open>The agent messages, as \<open>_send_msg\<close> writes and \<open>_recv_msg\<close> reads them.\<close>

definition agent_frame :: "pbytes \<Rightarrow> pbytes" where
  "agent_frame payload = (case ssh_string payload of Some w \<Rightarrow> w | None \<Rightarrow> [])"

definition next_agent_frame :: "pbytes \<Rightarrow> (pbytes \<times> pbytes) option" where
  "next_agent_frame bs = (case recv_msg [Data bs] of (Some m, st) \<Rightarrow> Some (m, flat st) | _ \<Rightarrow> None)"

definition sendable :: "pbytes \<Rightarrow> bool" where
  "sendable m \<longleftrightarrow> length m \<le> MAX_AGENT_MSG_LEN"

lemma ssh_string_sendable: "sendable m \<Longrightarrow> ssh_string m = Some (agent_frame m)"
  using ssh_string_Some [of m] by (auto simp: sendable_def MAX_AGENT_MSG_LEN_def agent_frame_def)

lemma recv_agent_frame:
  assumes "steady st" "flat st = agent_frame m @ r" "sendable m"
  shows "\<exists>st'. recv_msg st = (Some m, st') \<and> flat st' = r \<and> steady st'"
  using recv_msg_framed [OF assms(1) ssh_string_sendable [OF assms(3)] assms(2)] assms(3) by (simp add: sendable_def)

lemma recv_agent_frame_steps:
  assumes "sendable m" "bs = agent_frame m @ r"
  shows "next_agent_frame bs = Some (m, r)"
proof -
  obtain h where "agent_frame m = h @ m" "length h = 4" by (rule ssh_stringE [OF ssh_string_sendable [OF assms(1)]])
  then have "steady [Data bs]" using assms(2) by auto
  from recv_agent_frame [OF this _ assms(1), of r] assms(2) show ?thesis by (auto simp: next_agent_frame_def)
qed

interpretation agent_frames: framing agent_frame next_agent_frame sendable
proof unfold_locales
  show "next_agent_frame (agent_frame m @ r) = Some (m, r)" if "sendable m" for m r
    using that by (rule recv_agent_frame_steps) simp
  show "next_agent_frame [] = None"
    by (simp add: next_agent_frame_def recv_msg_def recv_exactly.simps recv_def)
qed

text \<open>The elevation frames, with the library of \<open>json\<close> as a parameter.\<close>

definition elevation_frame :: "lib \<Rightarrow> dict \<Rightarrow> pbytes" where
  "elevation_frame E msg = (case write_message E msg of Inr b \<Rightarrow> b | Inl e \<Rightarrow> [])"

definition next_elevation_frame :: "lib \<Rightarrow> pbytes \<Rightarrow> (dict \<times> pbytes) option" where
  "next_elevation_frame E bs =
     (case read_message E \<lparr>st_bytes = bs, st_fails = False\<rparr> of Inr (m, st) \<Rightarrow> Some (m, st_bytes st) | Inl e \<Rightarrow> None)"

definition writable :: "lib \<Rightarrow> dict \<Rightarrow> bool" where
  "writable E msg \<longleftrightarrow> json_ok (PDict msg) \<and> is_ok (write_message E msg)"

interpretation elevation_frames: framing "elevation_frame E" "next_elevation_frame E" "writable E" for E
proof unfold_locales
  show "next_elevation_frame E (elevation_frame E m @ r) = Some (m, r)" if w: "writable E m" for m r
  proof -
    obtain b where b: "write_message E m = Inr b" using w by (cases "write_message E m") (auto simp: writable_def)
    from read_written [OF _ b, of r False] w show ?thesis
      by (simp add: next_elevation_frame_def elevation_frame_def b writable_def)
  qed
  show "next_elevation_frame E [] = None"
    by (simp add: next_elevation_frame_def read_message_def readline_def Let_def)
qed

text \<open>
  C26: A sequence of agent messages written one after the other is read as exactly that sequence, and
  two sequences with the same bytes are the same sequence.
\<close>

theorem agent_messages_delimited:
  assumes "\<forall>m \<in> set ms. sendable m"
  shows "(reads_all next_agent_frame (concat (map agent_frame ms)) ms' \<longleftrightarrow> ms' = ms)
    \<and> ((\<forall>m \<in> set ms'. sendable m) \<longrightarrow> concat (map agent_frame ms) = concat (map agent_frame ms') \<longrightarrow> ms = ms')"
  using agent_frames.reads_written [OF assms] agent_frames.stream_determines_frames [OF assms] by blast

theorem agent_messages_delimited_witness:
  "reads_all next_agent_frame [0, 0, 0, 1, 11, 0, 0, 0, 2, 27, 0] [[11], [27, 0]]"
proof -
  have f: "agent_frame [11] = [0, 0, 0, 1, 11]" "agent_frame [27, 0] = [0, 0, 0, 2, 27, 0]"
    by (simp_all add: agent_frame_def ssh_string_def pack_u32_def)
  have s: "\<forall>m \<in> set [[11], [27, 0]]. sendable m" by (simp add: sendable_def MAX_AGENT_MSG_LEN_def)
  show ?thesis using agent_messages_delimited [OF s, of "[[11], [27, 0]]"] by (simp add: f)
qed

text \<open>
  C27: However the bytes of a message arrive, in as many chunks as the network likes, it is read as the
  message that was sent, and the loop over the chunks ends with the rest left on the stream.
\<close>

theorem chunking_is_invisible:
  assumes "steady st" and "flat st = agent_frame m @ r" and "sendable m"
  shows "\<exists>st'. recv_msg st = (Some m, st') \<and> flat st' = r \<and> length (flat st') < length (flat st)"
  using recv_agent_frame [OF assms] recv_msg_shorter by blast

theorem chunking_is_invisible_witness:
  "fst (recv_msg [Data [0, 0], Data [0], Data [1, 11, 0, 0]]) = Some [11]"
proof -
  have f: "agent_frame [11] = [0, 0, 0, 1, 11]" by (simp add: agent_frame_def ssh_string_def pack_u32_def)
  have s: "sendable [11]" by (simp add: sendable_def MAX_AGENT_MSG_LEN_def)
  have "flat [Data [0, 0], Data [0], Data [1, 11, 0, 0]] = agent_frame [11] @ [0, 0]" by (simp add: f)
  from chunking_is_invisible [OF _ this s] show ?thesis by auto
qed

end
