(* ===== verification/Binding.thy ===== *)
theory Binding
  imports Framing
begin

text \<open>
  Facts about what \<open>ssh-agent-proxy\<close> reads out of a message: when data counts as an SSH
  authentication, which public key and comment an add message names, and which host a session
  is bound to by a host key, plain or certificate.
\<close>

section \<open>Messages made of strings\<close>

definition strings :: "pbytes list \<Rightarrow> pbytes" where
  "strings fs = concat (map agent_frame fs)"

lemma strings_simps [simp]: "strings [] = []" "strings (f # fs) = agent_frame f @ strings fs"
  by (simp_all add: strings_def)

lemma agent_frame_string: "length x < 2 ^ 32 \<Longrightarrow> ssh_string x = Some (agent_frame x)"
  using ssh_string_Some [of x] by (auto simp: agent_frame_def)

lemma read_string_frame:
  assumes "left b = agent_frame x @ r" "length x < 2 ^ 32"
  obtains b' where "read_string b = Some (x, b')" "left b' = r"
  by (rule read_string_written [OF agent_frame_string [OF assms(2)] assms(1)])

lemma read_mpint_frame:
  assumes "left b = agent_frame x @ r" "length x < 2 ^ 32"
  obtains b' where "read_mpint b = Some (big_endian x, b')" "left b' = r"
  by (rule read_mpint_written [OF agent_frame_string [OF assms(2)] assms(1)])

lemma skip_strings_frames:
  "left b = strings fs @ r \<Longrightarrow> \<forall>f \<in> set fs. length f < 2 ^ 32 \<Longrightarrow> \<exists>b'. skip_strings (length fs) b = Some b' \<and> left b' = r"
proof (induction fs arbitrary: b)
  case (Cons f fs)
  obtain b1 where b1: "read_string b = Some (f, b1)" "left b1 = strings fs @ r"
    by (rule read_string_frame [of b f "strings fs @ r"]) (use Cons.prems in auto)
  from Cons.IH [OF b1(2)] Cons.prems b1(1) show ?case by auto
qed simp

lemma concat_strings_frames: "\<forall>f \<in> set fs. length f < 2 ^ 32 \<Longrightarrow> concat_strings fs = Some (strings fs)"
  by (induction fs) (auto simp: agent_frame_string)

section \<open>The purpose of a signature\<close>

lemma data_sign_not_auth: "lit ''Data Sign ('' @ s \<noteq> AUTH_PURPOSE"
  by (simp add: AUTH_PURPOSE_def lit_def)

text \<open>
  C35: Data counts as an SSH authentication exactly when it does not start with \<open>SSHSIG\<close> and is one
  length-prefixed string followed by the byte 50; nothing behind that byte is looked at.
\<close>

theorem purpose_is_auth_iff:
  "determine_purpose K d = AUTH_PURPOSE \<longleftrightarrow>
     \<not> startswith (lit ''SSHSIG'') d \<and>
     (\<exists>h sid r. length h = 4 \<and> big_endian h = length sid \<and> d = h @ sid @ 50 # r)"
proof (cases "startswith (lit ''SSHSIG'') d")
  case True
  then show ?thesis
    by (auto simp: determine_purpose_def UNKNOWN_PURPOSE_def AUTH_PURPOSE_def lit_def Let_def split: option.splits)
next
  case sig: False
  have unknown: "UNKNOWN_PURPOSE \<noteq> AUTH_PURPOSE" by (simp add: UNKNOWN_PURPOSE_def AUTH_PURPOSE_def)
  show ?thesis
  proof (cases rule: read_int_cases [of "buf d"])
    case short
    then have "determine_purpose K d = UNKNOWN_PURPOSE"
      using sig read_string_None [of "buf d"] by (simp add: determine_purpose_def)
    with short unknown show ?thesis by auto
  next
    case (ok h r b')
    obtain b2 where b2: "read_string (buf d) = Some (take (big_endian h) r, b2)" "left b2 = drop (big_endian h) r"
      using read_string_left [OF ok(1,2)] by blast
    have d: "d = h @ r" using ok(1) by simp
    have "determine_purpose K d = AUTH_PURPOSE \<longleftrightarrow> (\<exists>t. drop (big_endian h) r = 50 # t)"
    proof (cases "drop (big_endian h) r")
      case Nil
      then show ?thesis using b2 sig unknown by (simp add: determine_purpose_def has_data_left)
    next
      case (Cons x t)
      then obtain b3 where "read_byte b2 = Some (x, b3)" using read_byte_left [of b2 x t] b2(2) by auto
      then show ?thesis using Cons b2 sig unknown by (simp add: determine_purpose_def has_data_left)
    qed
    also have "\<dots> \<longleftrightarrow> (\<exists>sid t. big_endian h = length sid \<and> r = sid @ 50 # t)"
    proof
      assume "\<exists>t. drop (big_endian h) r = 50 # t"
      then obtain t where t: "drop (big_endian h) r = 50 # t" ..
      then have "big_endian h \<le> length r" by (metis drop_all linorder_le_cases list.distinct(1))
      then have "big_endian h = length (take (big_endian h) r)" by simp
      moreover have "r = take (big_endian h) r @ 50 # t" using t by (metis append_take_drop_id)
      ultimately show "\<exists>sid t. big_endian h = length sid \<and> r = sid @ 50 # t" by blast
    next
      assume "\<exists>sid t. big_endian h = length sid \<and> r = sid @ 50 # t"
      then show "\<exists>t. drop (big_endian h) r = 50 # t" by auto
    qed
    also have "\<dots> \<longleftrightarrow> (\<exists>h' sid t. length h' = 4 \<and> big_endian h' = length sid \<and> d = h' @ sid @ 50 # t)"
      using ok(2) d by (metis append_eq_append_conv)
    finally show ?thesis using sig by simp
  qed
qed

text \<open>No request of a purpose shown to the approver can put a line of its own into the dialog.\<close>

lemma purpose_is_printable:
  "c \<in> set (determine_purpose K d) \<Longrightarrow> isprintable K c"
proof -
  have l: "\<forall>c \<in> set s. 32 \<le> c \<and> c < 127 \<Longrightarrow> \<forall>c \<in> set s. isprintable K c" for s
    by (auto simp: isprintable_def)
  have p: "\<forall>c \<in> set (printable_prefix K n s). isprintable K c" for n s
    by (auto simp: printable_prefix_def dest: in_set_takeD)
  have "\<forall>c \<in> set (determine_purpose K d). isprintable K c"
  proof -
    have u: "\<forall>c \<in> set UNKNOWN_PURPOSE. isprintable K c" "\<forall>c \<in> set AUTH_PURPOSE. isprintable K c"
      "\<forall>c \<in> set (lit ''Git Signing''). isprintable K c" "\<forall>c \<in> set (lit ''Data Sign (''). isprintable K c"
      "\<forall>c \<in> set (lit '')''). isprintable K c"
      by (rule l; simp add: UNKNOWN_PURPOSE_def AUTH_PURPOSE_def lit_def)+
    then have d: "\<forall>c \<in> set (lit ''Data Sign ('' @ printable_prefix K n s @ lit '')''). isprintable K c" for n s
      using p [of n s] by auto
    show ?thesis using u(1-3) d by (simp add: determine_purpose_def Let_def split: option.split prod.split)
  qed
  then show "c \<in> set (determine_purpose K d) \<Longrightarrow> isprintable K c" by blast
qed

section \<open>Host keys\<close>

lemma ascii_key_types: "ascii ''ssh-ed25519''" "ascii ''ssh-rsa''" "ascii ''ecdsa-sha2-''" "ascii ''ecdsa-sha2-nistp256''"
  by (simp_all add: ascii_def lit_def)

lemma verify_key_signature_unsupported:
  assumes "read_string (buf key) = Some (kt, b)"
    and "decode_replace kt \<noteq> lit ''ssh-ed25519''" "decode_replace kt \<noteq> lit ''ssh-rsa''"
    and "\<not> startswith (lit ''ecdsa-sha2-'') (decode_replace kt)"
  shows "\<not> verify_key_signature K key sig sid"
  using assms by (auto simp: verify_key_signature_def bind_eq_Some_conv split: option.splits)

text \<open>A plain host key is its own trust anchor, and only a verified signature of the session binds it.\<close>

lemma plain_hostkey:
  assumes "read_string (buf hk) = Some (kt, b)" "\<not> endswith (lit ''-cert-v01@openssh.com'') (decode_replace kt)"
  shows "verify_bind_sig K hk sid sig = (if verify_key_signature K hk sig sid then Some hk else None)"
  using assms by (simp add: verify_bind_sig_def split_hostkey_def)

lemma verify_bind_sig_sound:
  "verify_bind_sig K hk sid sig = Some trust \<Longrightarrow>
     \<exists>key. split_hostkey hk = Some (key, trust) \<and> verify_key_signature K key sig sid"
  by (auto simp: verify_bind_sig_def split: option.splits if_splits)

definition CERT_TYPE :: pbytes where
  "CERT_TYPE = lit ''ssh-ed25519-cert-v01@openssh.com''"

lemma CERT_TYPE_ends: "endswith (lit ''-cert-v01@openssh.com'') (decode_replace CERT_TYPE)"
proof -
  have "decode_replace CERT_TYPE = CERT_TYPE"
    unfolding CERT_TYPE_def by (rule decode_replace_of_lit) (simp add: ascii_def lit_def)
  then show ?thesis by (simp add: CERT_TYPE_def endswith_def lit_def)
qed

text \<open>A certificate made up by anyone: a key of their own, and any public key as the authority.\<close>

definition made_up_cert :: "pbytes \<Rightarrow> pbytes \<Rightarrow> pbytes" where
  "made_up_cert own ca =
     strings [CERT_TYPE, [], own, []] @ [0, 0, 0, 1] @ strings [[], [], [], [], [], [], [], ca]"

lemma split_made_up:
  assumes "length own < 2 ^ 32" "length ca < 2 ^ 32"
  shows "split_hostkey (made_up_cert own ca) = Some (own, ca)"
proof -
  let ?b0 = "buf (made_up_cert own ca)"
  have l0: "left ?b0 = strings [CERT_TYPE, [], own, []] @ [0, 0, 0, 1] @ strings [[], [], [], [], [], [], [], ca]"
    by (simp add: made_up_cert_def)
  have ct: "length CERT_TYPE < 2 ^ 32" by (simp add: CERT_TYPE_def)
  have e: "length ([] :: pbytes) < 2 ^ 32" by simp
  obtain b1 where b1: "read_string ?b0 = Some (CERT_TYPE, b1)"
    and l1: "left b1 = agent_frame [] @ agent_frame own @ agent_frame [] @ [0, 0, 0, 1] @ strings [[], [], [], [], [], [], [], ca]"
    by (rule read_string_frame [OF _ ct, of ?b0]) (simp_all add: made_up_cert_def)
  obtain b2 where b2: "read_string b1 = Some ([], b2)"
    and l2: "left b2 = agent_frame own @ agent_frame [] @ [0, 0, 0, 1] @ strings [[], [], [], [], [], [], [], ca]"
    by (rule read_string_frame [OF l1 e])
  obtain b3 where b3: "read_string b2 = Some (own, b3)"
    and l3: "left b3 = agent_frame [] @ [0, 0, 0, 1] @ strings [[], [], [], [], [], [], [], ca]"
    by (rule read_string_frame [OF l2 assms(1)])
  obtain b4 where b4: "read_mpint b3 = Some (0, b4)"
    and l4: "left b4 = [0, 0, 0, 1] @ strings [[], [], [], [], [], [], [], ca]"
    using read_mpint_frame [OF l3 e] by auto
  obtain b5 where b5: "read_int b4 = Some (1, b5)" and l5: "left b5 = strings [[], [], [], [], [], [], [], ca]"
    using read_int_left [OF l4] by (auto simp: big_endian_def)
  obtain b6 where b6: "read_string b5 = Some ([], b6)" and l6: "left b6 = strings [[], [], [], [], [], [], ca]"
    using read_string_frame [OF _ e, of b5 "strings [[], [], [], [], [], [], ca]"] l5 by auto
  obtain b7 where b7: "read_string b6 = Some ([], b7)" and l7: "left b7 = strings [[], [], [], [], [], ca]"
    using read_string_frame [OF _ e, of b6 "strings [[], [], [], [], [], ca]"] l6 by auto
  obtain b8 where b8: "read_mpint b7 = Some (0, b8)" and l8: "left b8 = strings [[], [], [], [], ca]"
    using read_mpint_frame [OF _ e, of b7 "strings [[], [], [], [], ca]"] l7 by auto
  obtain b9 where b9: "read_mpint b8 = Some (0, b9)" and l9: "left b9 = strings [[], [], [], ca]"
    using read_mpint_frame [OF _ e, of b8 "strings [[], [], [], ca]"] l8 by auto
  obtain b10 where b10: "read_string b9 = Some ([], b10)" and l10: "left b10 = strings [[], [], ca]"
    using read_string_frame [OF _ e, of b9 "strings [[], [], ca]"] l9 by auto
  obtain b11 where b11: "read_string b10 = Some ([], b11)" and l11: "left b11 = strings [[], ca]"
    using read_string_frame [OF _ e, of b10 "strings [[], ca]"] l10 by auto
  obtain b12 where b12: "read_string b11 = Some ([], b12)" and l12: "left b12 = agent_frame ca @ []"
    using read_string_frame [OF _ e, of b11 "strings [ca]"] l11 by auto
  obtain b13 where b13: "read_string b12 = Some (ca, b13)" by (rule read_string_frame [OF l12 assms(2)])
  show ?thesis
    using CERT_TYPE_ends
    by (simp add: split_hostkey_def b1 b2 b3 b4 b5 b6 b7 b8 b9 b10 b11 b12 b13)
qed

text \<open>
  The authority's signature over a certificate is never looked at. Whoever holds any key pair can
  therefore bind a session to any public key as its trust anchor: a signature of the session
  by the own key is enough.
\<close>

theorem made_up_certificate_is_trusted:
  assumes "verify_key_signature K own sig sid" and "length own < 2 ^ 32" and "length ca < 2 ^ 32"
  shows "verify_bind_sig K (made_up_cert own ca) sid sig = Some ca"
  using split_made_up [OF assms(2,3)] assms(1) by (simp add: verify_bind_sig_def)

text \<open>
  A genuine Ed25519 certificate, in the layout OpenSSH documents: the field behind the nonce is
  the 32-byte key itself. Read as a key blob it has no known type, so the bind is refused
  whatever the signature, unless the key happens to spell the start of a type name.
\<close>

definition genuine_cert :: "pbytes \<Rightarrow> pbytes \<Rightarrow> pbytes \<Rightarrow> pbytes" where
  "genuine_cert nonce pk rest = strings [CERT_TYPE, nonce, pk] @ rest"

lemma genuine_split:
  assumes "length nonce < 2 ^ 32" "length pk < 2 ^ 32"
  shows "split_hostkey (genuine_cert nonce pk rest) = Some (k, t) \<Longrightarrow> k = pk"
proof -
  let ?b0 = "buf (genuine_cert nonce pk rest)"
  have l0: "left ?b0 = agent_frame CERT_TYPE @ agent_frame nonce @ agent_frame pk @ rest" by (simp add: genuine_cert_def)
  have ct: "length CERT_TYPE < 2 ^ 32" by (simp add: CERT_TYPE_def)
  obtain b1 where b1: "read_string ?b0 = Some (CERT_TYPE, b1)" and l1: "left b1 = agent_frame nonce @ agent_frame pk @ rest"
    by (rule read_string_frame [OF l0 ct])
  obtain b2 where b2: "read_string b1 = Some (nonce, b2)" and l2: "left b2 = agent_frame pk @ rest"
    by (rule read_string_frame [OF l1 assms(1)])
  obtain b3 where b3: "read_string b2 = Some (pk, b3)" and l3: "left b3 = rest"
    by (rule read_string_frame [OF l2 assms(2)])
  show "split_hostkey (genuine_cert nonce pk rest) = Some (k, t) \<Longrightarrow> k = pk"
    using CERT_TYPE_ends by (auto simp: split_hostkey_def b1 b2 b3 bind_eq_Some_conv)
qed

definition spells_type :: "pbytes \<Rightarrow> bool" where
  "spells_type pk \<longleftrightarrow> (\<forall>c \<in> set (take 4 (drop 4 pk)). c < 128)"

lemma raw_key_unsupported:
  assumes "\<not> spells_type pk"
  shows "\<not> verify_key_signature K pk sig sid"
proof (cases rule: read_int_cases [of "buf pk"])
  case short
  then show ?thesis using read_string_None [of "buf pk"] by (simp add: verify_key_signature_def)
next
  case (ok h r b')
  obtain b where b: "read_string (buf pk) = Some (take (big_endian h) r, b)"
    using read_string_left [OF ok(1,2)] by blast
  let ?kt = "take (big_endian h) r"
  have r: "r = drop 4 pk" using ok(1,2) by simp
  have no: "\<not> (\<exists>s t. ?kt = lit s @ t \<and> 4 \<le> length s \<and> ascii s)"
  proof
    assume "\<exists>s t. ?kt = lit s @ t \<and> 4 \<le> length s \<and> ascii s"
    then obtain s t where s: "?kt = lit s @ t" "4 \<le> length s" "ascii s" by blast
    have "length ?kt \<ge> 4" using s(1,2) by simp
    then have "take 4 r = take 4 ?kt" by simp
    also have "\<dots> = take 4 (lit s)" using s(1,2) by simp
    finally have "set (take 4 (drop 4 pk)) \<subseteq> set (lit s)" unfolding r by (metis set_take_subset)
    with s(3) assms show False by (auto simp: ascii_def spells_type_def)
  qed
  have "decode_replace ?kt \<noteq> lit s" if "4 \<le> length s" "ascii s" for s
    using no that by (metis append_Nil2 decode_replace_lit)
  moreover have "\<not> startswith (lit s) (decode_replace ?kt)" if "4 \<le> length s" "ascii s" for s
  proof
    assume "startswith (lit s) (decode_replace ?kt)"
    then obtain t where "decode_replace ?kt = lit s @ t" by (rule startswithE)
    moreover have "\<forall>c \<in> set (lit s). c < 128" using that(2) by (simp add: ascii_def)
    ultimately obtain u where "?kt = lit s @ u" using decode_replace_prefix by blast
    with no that show False by blast
  qed
  ultimately show ?thesis
    by (intro verify_key_signature_unsupported [OF b]) (simp_all add: ascii_key_types)
qed

theorem genuine_certificate_is_refused:
  assumes "\<not> spells_type pk" and "length nonce < 2 ^ 32" and "length pk < 2 ^ 32"
  shows "verify_bind_sig K (genuine_cert nonce pk rest) sid sig = None"
proof (cases "split_hostkey (genuine_cert nonce pk rest)")
  case (Some p)
  obtain k t where p: "p = (k, t)" by force
  then have "k = pk" using genuine_split [OF assms(2,3), of rest k t] Some by simp
  then show ?thesis
    using Some p raw_key_unsupported [OF assms(1)] by (simp add: verify_bind_sig_def)
qed (simp add: verify_bind_sig_def)

section \<open>Keys in add messages\<close>

text \<open>
  The messages of the three key types as OpenSSH writes them: the type, the fields, then the
  comment. The fields of an ECDSA key are the curve, the point and the private scalar.
\<close>

definition add_message :: "string \<Rightarrow> pbytes list \<Rightarrow> pbytes \<Rightarrow> pbytes" where
  "add_message key_type parts comment = msg_number ADD_IDENTITY # strings ((lit key_type # parts) @ [comment])"

lemma encoded_lit: "ascii s \<Longrightarrow> encoded (lit s) = Some (lit s)"
proof -
  have "utf8_encode s = Inr s" if "\<forall>c \<in> set s. c < 128" for s :: pstr
    using that by (induction s) (simp_all add: utf8_char_def)
  then show "ascii s \<Longrightarrow> encoded (lit s) = Some (lit s)" by (simp add: encoded_def ascii_def)
qed


lemma add_message_opened:
  assumes "length (lit key_type) < 2 ^ 32" "ascii key_type"
  obtains b1 b2 where "read_byte (buf (add_message key_type parts comment)) = Some (17, b1)"
    "read_string b1 = Some (lit key_type, b2)" "left b2 = strings (parts @ [comment])"
proof -
  obtain b1 where b1: "read_byte (buf (add_message key_type parts comment)) = Some (17, b1)"
    "left b1 = agent_frame (lit key_type) @ strings (parts @ [comment])"
    using read_byte_left [of "buf (add_message key_type parts comment)"] by (auto simp: add_message_def)
  obtain b2 where "read_string b1 = Some (lit key_type, b2)" "left b2 = strings (parts @ [comment])"
    by (rule read_string_frame [OF b1(2) assms(1)])
  with b1 that show ?thesis by blast
qed

lemma strings_append [simp]: "strings (fs @ gs) = strings fs @ strings gs"
  by (simp add: strings_def)

text \<open>What follows the key type, once the public parts have been read.\<close>

lemma public_blob_opened:
  assumes "length (lit key_type) < 2 ^ 32" "ascii key_type" "length comment < 2 ^ 32"
    and "\<And>b. left b = strings (parts @ [comment]) \<Longrightarrow>
      \<exists>b'. public_parts (lit key_type) b = Some (blob, b') \<and> left b' = agent_frame c @ r"
    and "length c < 2 ^ 32"
  shows "public_blob_from_private (add_message key_type parts comment) =
    Some (lit key_type, Some blob, decode_replace c)"
proof -
  obtain b1 b2 where b: "read_byte (buf (add_message key_type parts comment)) = Some (17, b1)"
    "read_string b1 = Some (lit key_type, b2)" "left b2 = strings (parts @ [comment])"
    by (rule add_message_opened [OF assms(1,2)])
  obtain b3 where b3: "public_parts (lit key_type) b2 = Some (blob, b3)" "left b3 = agent_frame c @ r"
    using assms(4) [OF b(3)] by blast
  obtain b4 where "read_string b3 = Some (c, b4)" by (rule read_string_frame [OF b3(2) assms(5)])
  with b b3 assms(2) show ?thesis by (simp add: public_blob_from_private_def Let_def decode_replace_of_lit)
qed

lemma ed25519_add_message:
  assumes "length pub < 2 ^ 32" "length priv < 2 ^ 32" "length comment < 2 ^ 32"
  shows "public_blob_from_private (add_message ''ssh-ed25519'' [pub, priv] comment) =
    Some (lit ''ssh-ed25519'', Some (strings [lit ''ssh-ed25519'', pub]), decode_replace comment)"
proof (rule public_blob_opened [where r = "[]"])
  show "\<exists>b'. public_parts (lit ''ssh-ed25519'') b = Some (strings [lit ''ssh-ed25519'', pub], b')
      \<and> left b' = agent_frame comment @ []"
    if l: "left b = strings ([pub, priv] @ [comment])" for b
  proof -
    obtain b1 where b1: "read_string b = Some (pub, b1)" "left b1 = agent_frame priv @ agent_frame comment @ []"
      using read_string_frame [OF _ assms(1), of b "agent_frame priv @ agent_frame comment"] l by auto
    obtain b2 where b2: "read_string b1 = Some (priv, b2)" "left b2 = agent_frame comment @ []"
      by (rule read_string_frame [OF b1(2) assms(2)])
    have "concat_strings [lit ''ssh-ed25519'', pub] = Some (strings [lit ''ssh-ed25519'', pub])"
      by (rule concat_strings_frames) (use assms in simp)
    moreover have "encoded (lit ''ssh-ed25519'') = Some (lit ''ssh-ed25519'')"
      by (rule encoded_lit) (simp add: ascii_def lit_def)
    ultimately show ?thesis using b1 b2 by (simp add: public_parts_def del: concat_strings.simps)
  qed
qed (use assms in \<open>simp_all add: ascii_def lit_def\<close>)

text \<open>
  For an ECDSA key the field read as the comment is the private scalar: the code skips the
  private part of the other types and not of this one. The scalar, decoded, then names the key
  in the prompt, the log and the notification.
\<close>

theorem ecdsa_comment_is_the_private_scalar:
  assumes "length curve < 2 ^ 32" and "length point < 2 ^ 32" and "length scalar < 2 ^ 32" and "length comment < 2 ^ 32"
  shows "public_blob_from_private (add_message ''ecdsa-sha2-nistp256'' [curve, point, scalar] comment) =
    Some (lit ''ecdsa-sha2-nistp256'', Some (strings [lit ''ecdsa-sha2-nistp256'', curve, point]), decode_replace scalar)"
proof (rule public_blob_opened [where r = "agent_frame comment"])
  show "\<exists>b'. public_parts (lit ''ecdsa-sha2-nistp256'') b = Some (strings [lit ''ecdsa-sha2-nistp256'', curve, point], b')
      \<and> left b' = agent_frame scalar @ agent_frame comment"
    if l: "left b = strings ([curve, point, scalar] @ [comment])" for b
  proof -
    obtain b1 where b1: "read_string b = Some (curve, b1)" "left b1 = agent_frame point @ agent_frame scalar @ agent_frame comment"
      using read_string_frame [OF _ assms(1), of b "agent_frame point @ agent_frame scalar @ agent_frame comment"] l by auto
    obtain b2 where b2: "read_string b1 = Some (point, b2)" "left b2 = agent_frame scalar @ agent_frame comment"
      by (rule read_string_frame [OF b1(2) assms(2)])
    have "concat_strings [lit ''ecdsa-sha2-nistp256'', curve, point] = Some (strings [lit ''ecdsa-sha2-nistp256'', curve, point])"
      by (rule concat_strings_frames) (use assms in simp)
    moreover have "encoded (lit ''ecdsa-sha2-nistp256'') = Some (lit ''ecdsa-sha2-nistp256'')"
      by (rule encoded_lit) (simp add: ascii_def lit_def)
    moreover have "startswith (lit ''ecdsa-sha2-'') (lit ''ecdsa-sha2-nistp256'')" by (simp add: startswith_def lit_def)
    ultimately show ?thesis using b1 b2 by (simp add: public_parts_def del: concat_strings.simps)
  qed
qed (use assms in \<open>simp_all add: ascii_def lit_def\<close>)

theorem ecdsa_comment_is_the_private_scalar_witness:
  "public_blob_from_private (add_message ''ecdsa-sha2-nistp256'' [lit ''nistp256'', [4, 7, 9], lit ''secret''] (lit ''work'')) =
    Some (lit ''ecdsa-sha2-nistp256'', Some (strings [lit ''ecdsa-sha2-nistp256'', lit ''nistp256'', [4, 7, 9]]), lit ''secret'')"
proof -
  have "decode_replace (lit ''secret'') = lit ''secret''" by (rule decode_replace_of_lit) (simp add: ascii_def lit_def)
  moreover have "length (lit s) < 2 ^ 32" if "length s < 100" for s using that by simp
  ultimately show ?thesis
    using ecdsa_comment_is_the_private_scalar [of "lit ''nistp256''" "[4, 7, 9]" "lit ''secret''" "lit ''work''"]
    by simp
qed

end
