(* ===== verification/AgentPolicy.thy ===== *)
theory AgentPolicy
  imports Binding
begin

text \<open>
  The policy of \<open>ssh-agent-proxy\<close>: keys, rules and their first-match lookup, and the \<open>known_hosts\<close>
  files that name the destinations a rule allows. A Python set of blobs is a list here, of which
  only membership is used.
\<close>

section \<open>Keys and rules\<close>

record key_config =
  kc_id :: pstr
  kc_type :: pstr
  kc_blob :: pbytes
  kc_fingerprint :: pstr
  kc_socket :: pstr
  kc_explicit :: bool

record agent_rule =
  ar_key :: pstr
  ar_machine :: "pstr list"
  ar_listeners :: "pstr list"
  ar_auth :: pstr
  ar_data_signing :: pstr
  ar_add :: pstr
  ar_remove :: pstr
  ar_notify :: bool
  ar_hosts :: "pbytes list"

definition DEFAULT_RULE :: agent_rule where
  "DEFAULT_RULE =
     \<lparr>ar_key = lit ''*'', ar_machine = [], ar_listeners = [], ar_auth = lit ''ask'', ar_data_signing = lit ''deny'',
      ar_add = lit ''deny'', ar_remove = lit ''deny'', ar_notify = True, ar_hosts = []\<rparr>"

text \<open>\<open>_WILDCARD_RE\<close>: one of the four characters \<open>*\<close>, \<open>?\<close>, \<open>[\<close>, \<open>]\<close>.\<close>

definition has_wildcard :: "pstr \<Rightarrow> bool" where
  "has_wildcard s \<longleftrightarrow> (\<exists>c \<in> set s. c \<in> {42, 63, 91, 93})"

definition matches_key :: "agent_rule \<Rightarrow> pstr \<Rightarrow> bool" where
  "matches_key r key_id \<longleftrightarrow>
     (if \<not> has_wildcard (ar_key r) then ar_key r = lit ''*'' \<or> ar_key r = key_id else fnmatchcase key_id (ar_key r))"

definition matches_machine :: "agent_rule \<Rightarrow> pstr option \<Rightarrow> bool" where
  "matches_machine r identity \<longleftrightarrow>
     (case identity of
        None \<Rightarrow> ar_machine r = [] \<or> (\<forall>p \<in> set (ar_machine r). p = lit ''*'')
      | Some name \<Rightarrow> ar_machine r = [] \<or> (\<exists>pattern \<in> set (ar_machine r). fnmatchcase name pattern))"

definition matches_listener :: "agent_rule \<Rightarrow> pstr option \<Rightarrow> bool" where
  "matches_listener r listener_name \<longleftrightarrow>
     (if ar_listeners r = [] then True
      else (case listener_name of
          None \<Rightarrow> \<forall>p \<in> set (ar_listeners r). p = lit ''*''
        | Some name \<Rightarrow> \<exists>pattern \<in> set (ar_listeners r). fnmatchcase name pattern))"

text \<open>What a rule is matched against: the key id, the verified identity and the listener's name.\<close>

type_synonym rule_query = "pstr \<times> pstr option \<times> pstr option"

definition agent_rule_matches :: "agent_rule \<Rightarrow> rule_query \<Rightarrow> bool" where
  "agent_rule_matches r q \<longleftrightarrow>
     (case q of (key_id, identity, listener) \<Rightarrow>
        matches_key r key_id \<and> matches_machine r identity \<and> matches_listener r listener)"

fun match_rule :: "agent_rule list \<Rightarrow> rule_query \<Rightarrow> agent_rule option" where
  "match_rule [] q = None"
| "match_rule (r # rs) q = (if agent_rule_matches r q then Some r else match_rule rs q)"

definition governing_rule :: "agent_rule list \<Rightarrow> rule_query \<Rightarrow> agent_rule" where
  "governing_rule rs q = (case match_rule rs q of Some r \<Rightarrow> r | None \<Rightarrow> DEFAULT_RULE)"

interpretation agent_rules: first_match match_rule agent_rule_matches Some None
  by unfold_locales simp_all

interpretation governing: first_match governing_rule agent_rule_matches "\<lambda>r. r" DEFAULT_RULE
  by unfold_locales (simp_all add: governing_rule_def)

section \<open>Selectors in the configuration\<close>

definition agent_pattern_list :: "pyval \<Rightarrow> pstr list res" where
  "agent_pattern_list value =
     (case value of
        PNone \<Rightarrow> Inr []
      | PStr s \<Rightarrow> Inr [s]
      | PList vs \<Rightarrow>
          if \<forall>p \<in> set vs. is_str p then Inr (map str_of vs)
          else Inl (ValueError ''must be a string or a list of strings'')
      | _ \<Rightarrow> Inl (ValueError ''must be a string or a list of strings''))"

text \<open>\<open>Config._policy\<close>.\<close>

definition agent_policy :: "dict \<Rightarrow> pstr \<Rightarrow> pstr \<Rightarrow> pstr res" where
  "agent_policy entry field dflt =
     (let val = dget_or entry field (PStr dflt)
      in if val \<in> PStr ` {lit ''deny'', lit ''ask'', lit ''allow''} then Inr (str_of val)
         else Inl (ValueError ''must be deny|ask|allow''))"

section \<open>Public keys\<close>

text \<open>
  \<open>base64.b64decode(s)\<close> without validation: characters outside the alphabet are skipped; a complete
  padding ends the input. The arguments are the position in a group of four, the bits carried
  over, and the padding characters seen.
\<close>

fun a2b :: "nat \<Rightarrow> nat \<Rightarrow> nat \<Rightarrow> pstr \<Rightarrow> pbytes option" where
  "a2b quad carry pads [] = (if quad = 0 then Some [] else None)"
| "a2b quad carry pads (c # s) =
     (if c = 61 then
        (if 2 \<le> quad then (if 4 \<le> quad + Suc pads then Some [] else a2b quad carry (Suc pads) s)
         else a2b quad carry pads s)
      else (case b64_val c of
          None \<Rightarrow> a2b quad carry pads s
        | Some v \<Rightarrow>
            if quad = 0 then a2b 1 v 0 s
            else if quad = 1 then map_option (Cons (carry * 4 + v div 16)) (a2b 2 (v mod 16) 0 s)
            else if quad = 2 then map_option (Cons (carry * 16 + v div 4)) (a2b 3 (v mod 4) 0 s)
            else map_option (Cons (carry * 64 + v)) (a2b 0 0 0 s)))"

definition b64decode_lenient :: "pstr \<Rightarrow> pbytes option" where
  "b64decode_lenient s = (if \<exists>c \<in> set s. 128 \<le> c then None else a2b 0 0 0 s)"

definition ACCEPTED_KEY_TYPES :: "pstr list" where
  "ACCEPTED_KEY_TYPES = map lit
     [''ssh-rsa'', ''ssh-ed25519'', ''ecdsa-sha2-nistp256'', ''ecdsa-sha2-nistp384'', ''ecdsa-sha2-nistp521'']"

definition parse_pubkey :: "keylib \<Rightarrow> pstr \<Rightarrow> (pstr \<times> pbytes \<times> pstr) res" where
  "parse_pubkey K line =
     (case split_ws line of
        key_type # text # _ \<Rightarrow>
          if key_type \<notin> set ACCEPTED_KEY_TYPES then Inl (ValueError ''Unsupported key type'')
          else (case b64decode_lenient text of
              None \<Rightarrow> Inl (ValueError ''Failed to decode base64 for key'')
            | Some blob \<Rightarrow> Inr (key_type, blob, key_fingerprint K blob))
      | _ \<Rightarrow> Inl (ValueError ''Invalid public key line''))"

section \<open>Known hosts\<close>

record known_hosts =
  kh_plain :: "(pstr \<times> pbytes list) list"
  kh_hashed :: "(pbytes \<times> pbytes \<times> pbytes) list"
  kh_authority :: "(pstr \<times> pbytes) list"

definition no_hosts :: known_hosts where
  "no_hosts = \<lparr>kh_plain = [], kh_hashed = [], kh_authority = []\<rparr>"

text \<open>\<open>self._plain.setdefault(pattern, set()).add(blob)\<close>.\<close>

definition add_plain :: "pbytes \<Rightarrow> pstr \<Rightarrow> known_hosts \<Rightarrow> known_hosts" where
  "add_plain blob pattern kh = kh\<lparr>kh_plain := append_group pattern blob (kh_plain kh)\<rparr>"

definition add_hashed :: "pstr \<Rightarrow> pbytes \<Rightarrow> known_hosts \<Rightarrow> known_hosts" where
  "add_hashed host_field blob kh =
     (case split_on 124 host_field of
        [_, _, salt_b64, hash_b64] \<Rightarrow>
          (case (b64decode_lenient salt_b64, b64decode_lenient hash_b64) of
             (Some salt, Some digest) \<Rightarrow> kh\<lparr>kh_hashed := kh_hashed kh @ [(salt, digest, blob)]\<rparr>
           | _ \<Rightarrow> kh)
      | _ \<Rightarrow> kh)"

definition add_authority :: "pstr list \<Rightarrow> known_hosts \<Rightarrow> known_hosts" where
  "add_authority parts kh =
     (case parts of
        _ # pattern # keytype # blob_b64 # _ \<Rightarrow>
          if keytype \<in> set ACCEPTED_KEY_TYPES
          then (case b64decode_lenient blob_b64 of
              None \<Rightarrow> kh
            | Some blob \<Rightarrow> kh\<lparr>kh_authority := kh_authority kh @ [(pattern, blob)]\<rparr>)
          else kh
      | _ \<Rightarrow> kh)"

definition add_host :: "pstr list \<Rightarrow> known_hosts \<Rightarrow> known_hosts" where
  "add_host parts kh =
     (case parts of
        host_field # keytype # blob_b64 # _ \<Rightarrow>
          if keytype \<notin> set ACCEPTED_KEY_TYPES then kh
          else (case b64decode_lenient blob_b64 of
              None \<Rightarrow> kh
            | Some blob \<Rightarrow>
                if startswith (lit ''|1|'') host_field then add_hashed host_field blob kh
                else fold (add_plain blob) (split_on 44 host_field) kh)
      | _ \<Rightarrow> kh)"

definition add_line :: "pstr \<Rightarrow> known_hosts \<Rightarrow> known_hosts" where
  "add_line raw kh =
     (let line = py_strip raw; parts = split_ws line
      in if line = [] \<or> startswith (lit ''#'') line then kh
         else (case parts of
             [] \<Rightarrow> kh
           | marker # _ \<Rightarrow>
               if startswith (lit ''@'') marker
               then (if marker = lit ''@cert-authority'' then add_authority parts kh else kh)
               else add_host parts kh))"

text \<open>\<open>KnownHosts.load\<close>: a file that cannot be read is skipped.\<close>

definition load_known_hosts :: "(pstr \<Rightarrow> pbytes option) \<Rightarrow> pstr list \<Rightarrow> known_hosts \<Rightarrow> known_hosts" where
  "load_known_hosts read paths kh =
     fold (\<lambda>path kh. case read path of None \<Rightarrow> kh | Some data \<Rightarrow> fold add_line (splitlines (decode_replace data)) kh)
       paths kh"

definition hashed_blobs :: "keylib \<Rightarrow> pstr \<Rightarrow> (pbytes \<times> pbytes \<times> pbytes) list \<Rightarrow> pbytes list res" where
  "hashed_blobs K hostname hashed =
     (if hashed = [] then Inr []
      else (case utf8_encode hostname of Inl e \<Rightarrow> Inl e
        | Inr name \<Rightarrow>
            Inr (map (\<lambda>(salt, digest, blob). blob) (filter (\<lambda>(salt, digest, blob). kl_hmac_sha1 K salt name = digest) hashed))))"

definition lookup_host :: "keylib \<Rightarrow> known_hosts \<Rightarrow> pstr \<Rightarrow> pbytes list res" where
  "lookup_host K kh hostname =
     (case hashed_blobs K hostname (kh_hashed kh) of Inl e \<Rightarrow> Inl e
      | Inr blobs \<Rightarrow> Inr ((case map_of (kh_plain kh) hostname of None \<Rightarrow> [] | Some bs \<Rightarrow> bs) @ blobs))"

definition resolve_host :: "keylib \<Rightarrow> known_hosts \<Rightarrow> pstr \<Rightarrow> pbytes list res" where
  "resolve_host K kh pattern =
     (let is_pattern = has_wildcard pattern;
          authorities = map snd (filter (\<lambda>(auth_pattern, ca).
              fnmatchcase pattern auth_pattern \<or> (is_pattern \<and> fnmatchcase auth_pattern pattern)) (kh_authority kh));
          stored = concat (map snd (filter (\<lambda>(name, blobs).
              (has_wildcard name \<or> is_pattern) \<and> (fnmatchcase name pattern \<or> fnmatchcase pattern name)) (kh_plain kh)))
      in if is_pattern then Inr (authorities @ stored)
         else (case lookup_host K kh pattern of Inl e \<Rightarrow> Inl e | Inr found \<Rightarrow> Inr (authorities @ stored @ found)))"

text \<open>
  \<open>Config._parse_host_keys\<close> of one entry and of the whole value; iterating a string gives its
  characters, a table its keys.
\<close>

definition host_keys_of :: "keylib \<Rightarrow> known_hosts \<Rightarrow> pyval \<Rightarrow> pbytes list res" where
  "host_keys_of K kh entry_value =
     (case entry_value of
        PStr s \<Rightarrow>
          (let entry = py_strip s
           in case split_ws entry of
                [] \<Rightarrow> Inr []
              | first # _ \<Rightarrow>
                  if first \<in> set ACCEPTED_KEY_TYPES
                  then (case parse_pubkey K entry of Inl e \<Rightarrow> Inl e | Inr (_, blob, _) \<Rightarrow> Inr [blob])
                  else resolve_host K kh entry)
      | _ \<Rightarrow> Inl AttributeError)"

definition iterated :: "pyval \<Rightarrow> pyval list res" where
  "iterated value =
     (case value of
        PList vs \<Rightarrow> Inr vs
      | PStr s \<Rightarrow> Inr (map (\<lambda>c. PStr [c]) s)
      | PDict d \<Rightarrow> Inr (map (PStr \<circ> fst) d)
      | _ \<Rightarrow> Inl TypeError)"

definition parse_host_keys :: "keylib \<Rightarrow> known_hosts \<Rightarrow> pyval \<Rightarrow> pbytes list res" where
  "parse_host_keys K kh entries =
     (case iterated entries of Inl e \<Rightarrow> Inl e
      | Inr es \<Rightarrow> (case map_res (host_keys_of K kh) es of Inl e \<Rightarrow> Inl e | Inr bs \<Rightarrow> Inr (concat bs)))"

end
