(* ===== verification/AgentProxy.thy ===== *)
theory AgentProxy
  imports AgentPolicy Transport
begin

text \<open>
  The handler of \<open>ssh-agent-proxy\<close>: what one accepted connection may do with the keys behind the
  proxy. The state of a connection is a record; every operation on it is an operation in the
  sense of the prelude. Upstream agents, the dialog program and the socket answer as they like:
  each of their answers may depend on everything that has happened on the connection, the trace.
\<close>

section \<open>Configuration\<close>

record upstream_config =
  uc_id :: pstr
  uc_transport :: pstr
  uc_socket :: "pstr option"
  uc_host :: pyval
  uc_port :: int
  uc_cid :: int
  uc_connect_timeout :: pyval
  uc_handshake_timeout :: pyval
  uc_encryption :: pstr
  uc_client_auth :: pstr
  uc_server_auth :: pstr
  uc_mtls_enable :: bool
  uc_ca_file :: pyval
  uc_cert_file :: pyval
  uc_key_file :: pyval
  uc_required_oid :: pyval
  uc_peer_required_oid :: pyval

definition uses_tls :: "upstream_config \<Rightarrow> bool" where
  "uses_tls u \<longleftrightarrow> uc_encryption u = lit ''mtls''"

definition is_local :: "upstream_config \<Rightarrow> bool" where
  "is_local u \<longleftrightarrow> uc_transport u = lit ''unix'' \<and> \<not> uses_tls u"

record agent_config =
  ac_keys :: "(pbytes \<times> key_config) list"
  ac_rules :: "agent_rule list"
  ac_upstreams :: "upstream_config list"
  ac_vm_by_cid :: "(int \<times> pstr) list"
  ac_vm_by_ip :: "(pstr \<times> pstr) list"
  ac_libvirt_uri :: "pstr option"
  ac_dialog_program :: "pstr option"

text \<open>The id-keyed views \<open>_register_upstreams\<close> derives.\<close>

definition upstream_by_id :: "agent_config \<Rightarrow> pstr \<Rightarrow> upstream_config option" where
  "upstream_by_id cfg = map_of (map (\<lambda>u. (uc_id u, u)) (ac_upstreams cfg))"

definition agent_sockets :: "agent_config \<Rightarrow> pstr list" where
  "agent_sockets cfg = map uc_id (filter (\<lambda>u. uc_transport u = lit ''unix'') (ac_upstreams cfg))"

definition remote_ids :: "agent_config \<Rightarrow> pstr list" where
  "remote_ids cfg = map uc_id (filter (\<lambda>u. uc_transport u \<noteq> lit ''unix'') (ac_upstreams cfg))"

definition upstream_order :: "agent_config \<Rightarrow> pstr list" where
  "upstream_order cfg = map uc_id (ac_upstreams cfg)"

section \<open>A connection\<close>

text \<open>
  What happens on a connection: a message relayed to an upstream with its answer, a dialog with the
  approver's choice, a notification with its urgency, a reply to the client.
\<close>

datatype agent_event =
    Relayed pstr pbytes "pbytes option"
  | Prompted pstr pstr bool
  | Notified pstr pstr bool
  | Replied pbytes

type_synonym agent_trace = "agent_event list"

text \<open>The state the handler object keeps.\<close>

record agent_state =
  as_allowed :: "pbytes \<Rightarrow> key_config option"
  as_rule :: "pbytes \<Rightarrow> agent_rule option"
  as_owner :: "pbytes \<Rightarrow> pstr option"
  as_bound :: "pbytes \<Rightarrow> pbytes option"
  as_trace :: agent_trace

text \<open>What \<open>setup\<close> and the beginning of \<open>handle\<close> fix for the connection.\<close>

record agent_peer =
  ap_name :: pstr
  ap_identity :: "pstr option"
  ap_listener :: "pstr option"
  ap_resolved :: "pstr list"

record agent_env =
  ae_keylib :: keylib
  ae_darwin :: bool
  ae_config :: agent_config
  ae_request :: "agent_trace \<Rightarrow> pstr \<Rightarrow> pbytes \<Rightarrow> pbytes option"
  ae_dialog :: "agent_trace \<Rightarrow> pstr list \<Rightarrow> int res"
  ae_write :: "agent_trace \<Rightarrow> bool"

type_synonym 'a agent_op = "(agent_state, 'a) op"

definition record_event :: "agent_event \<Rightarrow> unit agent_op" where
  "record_event e = update_op (\<lambda>s. s\<lparr>as_trace := as_trace s @ [e]\<rparr>)"

text \<open>\<open>_send_msg\<close> to the client.\<close>

definition agent_send :: "agent_env \<Rightarrow> pbytes \<Rightarrow> unit agent_op" where
  "agent_send E payload = on_state (\<lambda>s.
     if ssh_string payload = None then raise StructError
     else if ae_write E (as_trace s) then record_event (Replied payload)
     else raise (OSError ''send failed''))"

definition send_failure :: "agent_env \<Rightarrow> unit agent_op" where
  "send_failure E = agent_send E [msg_number FAILURE]"

definition agent_notify :: "pstr \<Rightarrow> pstr \<Rightarrow> bool \<Rightarrow> unit agent_op" where
  "agent_notify title message critical = record_event (Notified title message critical)"

text \<open>\<open>AgentLink.request\<close>: failures are the answer \<open>None\<close>.\<close>

definition link_request :: "agent_env \<Rightarrow> pstr \<Rightarrow> pbytes \<Rightarrow> pbytes option agent_op" where
  "link_request E path msg = on_state (\<lambda>s.
     (let resp = ae_request E (as_trace s) path msg
      in seq (record_event (Relayed path msg resp)) (\<lambda>_. ret resp)))"

section \<open>The dialog\<close>

text \<open>\<open>json.dumps\<close> of a text, all of it ASCII.\<close>

definition json_hex :: "nat \<Rightarrow> nat" where
  "json_hex d = (if d < 10 then 48 + d else 87 + d)"

definition unicode_escape :: "nat \<Rightarrow> pstr" where
  "unicode_escape c =
     lit [CHR 0x5C, CHR ''u''] @ map json_hex [c div 4096 mod 16, c div 256 mod 16, c div 16 mod 16, c mod 16]"

definition ascii_escape :: "nat \<Rightarrow> pstr" where
  "ascii_escape c =
     (if c = 34 then [92, 34] else if c = 92 then [92, 92] else if c = 10 then [92, 110] else if c = 13 then [92, 114]
      else if c = 9 then [92, 116] else if c = 8 then [92, 98] else if c = 12 then [92, 102]
      else if 32 \<le> c \<and> c < 127 then [c]
      else if c < 65536 then unicode_escape c
      else unicode_escape (55296 + (c - 65536) div 1024) @ unicode_escape (56320 + (c - 65536) mod 1024))"

definition json_ascii :: "pstr \<Rightarrow> pstr" where
  "json_ascii s = [34] @ concat (map ascii_escape s) @ [34]"

text \<open>\<open>message.replace("\n", "  ")\<close>.\<close>

definition newlines_to_spaces :: "pstr \<Rightarrow> pstr" where
  "newlines_to_spaces s = concat (map (\<lambda>c. if c = 10 then [32, 32] else [c]) s)"

definition agent_swiftdialog_argv :: "pstr \<Rightarrow> pstr list" where
  "agent_swiftdialog_argv message =
     map lit [''dialog'', ''--title'', ''Privilege Elevation'', ''--message''] @ [newlines_to_spaces message] @
     map lit [''--icon'', ''SF=lock.shield.fill,colour=accent,weight=medium'', ''--iconsize'', ''70'', ''--iconalttext'',
       ''Authentication required'', ''--button1text'', ''Authorize'', ''--button2text'', ''Deny'', ''--width'', ''480'',
       ''--height'', ''260'', ''--ontop'', ''--blurscreen'', ''--messagefont'', ''size=15'', ''--titlefont'',
       ''size=20,weight=heavy'', ''--centericon'', ''--position'', ''center'']"

definition agent_osascript_argv :: "pstr \<Rightarrow> pstr \<Rightarrow> pstr list" where
  "agent_osascript_argv title message =
     [lit ''osascript'', lit ''-e'',
      lit ''display dialog '' @ json_ascii message @ lit '' with title '' @ json_ascii title @
      lit '' with icon caution buttons {\"No\", \"Yes\"} default button \"Yes\" cancel button \"No\"'']"

definition agent_zenity_argv :: "pstr \<Rightarrow> pstr \<Rightarrow> pstr list" where
  "agent_zenity_argv title message =
     [lit ''zenity'', lit ''--title'', title, lit ''--question'', lit ''--no-markup'', lit ''--text'', message,
      lit ''--ok-label'', lit ''Authorize'', lit ''--cancel-label'', lit ''Deny'']"

definition dialog_argv :: "pstr \<Rightarrow> pstr \<Rightarrow> pstr \<Rightarrow> pstr list res" where
  "dialog_argv dialog_program title message =
     (if dialog_program = lit ''swiftdialog'' then Inr (agent_swiftdialog_argv message)
      else if dialog_program = lit ''osascript'' then Inr (agent_osascript_argv title message)
      else if dialog_program = lit ''zenity'' then Inr (agent_zenity_argv title message)
      else Inl (ValueError ''unknown dialog_program''))"

definition agent_dialog_program :: "agent_env \<Rightarrow> pstr" where
  "agent_dialog_program E =
     (case ac_dialog_program (ae_config E) of
        Some p \<Rightarrow> if p \<noteq> [] then p else if ae_darwin E then lit ''swiftdialog'' else lit ''zenity''
      | None \<Rightarrow> if ae_darwin E then lit ''swiftdialog'' else lit ''zenity'')"

text \<open>\<open>prompt_for_confirmation\<close>: only exit code 0 approves.\<close>

definition agent_prompt :: "agent_env \<Rightarrow> pstr \<Rightarrow> pstr \<Rightarrow> bool agent_op" where
  "agent_prompt E title message =
     seq (pure_op (dialog_argv (agent_dialog_program E) title message)) (\<lambda>argv. on_state (\<lambda>s.
       seq (pure_op (ae_dialog E (as_trace s) argv)) (\<lambda>code.
         seq (record_event (Prompted title message (code = 0))) (\<lambda>_. ret (code = 0)))))"

section \<open>Identities\<close>

definition query_of :: "agent_peer \<Rightarrow> pstr \<Rightarrow> rule_query" where
  "query_of P key_id = (key_id, ap_identity P, ap_listener P)"

definition rule_for :: "agent_env \<Rightarrow> agent_peer \<Rightarrow> pstr \<Rightarrow> agent_rule" where
  "rule_for E P key_id = governing_rule (ac_rules (ae_config E)) (query_of P key_id)"

definition register_key :: "agent_env \<Rightarrow> agent_peer \<Rightarrow> pbytes \<Rightarrow> key_config \<Rightarrow> unit agent_op" where
  "register_key E P blob k = update_op (\<lambda>s. s\<lparr>as_allowed := (as_allowed s)(blob \<mapsto> k),
     as_rule := (as_rule s)(blob \<mapsto> rule_for E P (kc_id k))\<rparr>)"

definition discovered_key :: "keylib \<Rightarrow> pbytes \<Rightarrow> pbytes \<Rightarrow> pstr \<Rightarrow> key_config option" where
  "discovered_key K blob comment path = do {
     (kt, _) \<leftarrow> read_string (buf blob);
     let fingerprint = key_fingerprint K blob;
     let name = decode_replace comment;
     Some \<lparr>kc_id = (if name \<noteq> [] then name else fingerprint), kc_type = decode_replace kt, kc_blob = blob,
           kc_fingerprint = fingerprint, kc_socket = path, kc_explicit = False\<rparr>
   }"

definition maybe_autoregister :: "agent_env \<Rightarrow> agent_peer \<Rightarrow> pbytes \<Rightarrow> pbytes \<Rightarrow> pstr \<Rightarrow> bool agent_op" where
  "maybe_autoregister E P blob comment path =
     (if path \<notin> set (ap_resolved P) then ret False
      else (case map_of (ac_keys (ae_config E)) blob of
          Some named \<Rightarrow> seq (register_key E P blob named) (\<lambda>_. ret True)
        | None \<Rightarrow> (case discovered_key (ae_keylib E) blob comment path of
              None \<Rightarrow> raise StructError
            | Some k \<Rightarrow> seq (register_key E P blob k) (\<lambda>_. ret True))))"

text \<open>One identity of an upstream's answer.\<close>

definition note_owner :: "pbytes \<Rightarrow> pstr \<Rightarrow> unit agent_op" where
  "note_owner blob path = update_op (\<lambda>s.
     if as_owner s blob = None then s\<lparr>as_owner := (as_owner s)(blob \<mapsto> path)\<rparr> else s)"

definition admit_identity :: "agent_env \<Rightarrow> agent_peer \<Rightarrow> pstr \<Rightarrow> pbytes \<Rightarrow> pbytes \<Rightarrow> bool agent_op" where
  "admit_identity E P path blob comment =
     seq (note_owner blob path) (\<lambda>_. on_state (\<lambda>s.
       if as_allowed s blob \<noteq> None then ret True else maybe_autoregister E P blob comment path))"

type_synonym identity = "pbytes \<times> pbytes"

fun admit_identities ::
  "agent_env \<Rightarrow> agent_peer \<Rightarrow> pstr \<Rightarrow> nat \<Rightarrow> sshbuf \<Rightarrow> identity list \<Rightarrow> identity list agent_op" where
  "admit_identities E P path 0 b acc = ret acc"
| "admit_identities E P path (Suc n) b acc =
     (case (do { (blob, b) \<leftarrow> read_string b; (comment, b) \<leftarrow> read_string b; Some (blob, comment, b) }) of
        None \<Rightarrow> raise StructError
      | Some (blob, comment, b) \<Rightarrow>
          seq (admit_identity E P path blob comment) (\<lambda>admitted.
            admit_identities E P path n b
              (if admitted \<and> (blob, comment) \<notin> set acc then acc @ [(blob, comment)] else acc)))"

text \<open>The answer of one upstream; anything but an \<open>IDENTITIES_ANSWER\<close> is passed over.\<close>

definition merge_answer ::
  "agent_env \<Rightarrow> agent_peer \<Rightarrow> pstr \<Rightarrow> pbytes option \<Rightarrow> identity list \<Rightarrow> identity list agent_op" where
  "merge_answer E P path resp acc =
     (case resp of
        Some (t # r) \<Rightarrow>
          if t \<noteq> msg_number IDENTITIES_ANSWER then ret acc
          else (case (do { (_, b) \<leftarrow> read_byte (buf (t # r)); read_int b }) of
              None \<Rightarrow> raise StructError
            | Some (n, b) \<Rightarrow> admit_identities E P path n b acc)
      | _ \<Rightarrow> ret acc)"

fun merge_identities ::
  "agent_env \<Rightarrow> agent_peer \<Rightarrow> pbytes \<Rightarrow> pstr list \<Rightarrow> identity list \<Rightarrow> identity list agent_op" where
  "merge_identities E P raw [] acc = ret acc"
| "merge_identities E P raw (path # links) acc =
     seq (link_request E path raw) (\<lambda>resp.
       seq (merge_answer E P path resp acc) (\<lambda>acc. merge_identities E P raw links acc))"

definition identities_payload :: "identity list \<Rightarrow> pbytes option" where
  "identities_payload ids = do {
     header \<leftarrow> pack_u32 (length ids);
     body \<leftarrow> concat_strings (concat (map (\<lambda>(blob, comment). [blob, comment]) ids));
     Some (msg_number IDENTITIES_ANSWER # header @ body)
   }"

definition handle_identities :: "agent_env \<Rightarrow> agent_peer \<Rightarrow> pstr list \<Rightarrow> pbytes \<Rightarrow> unit agent_op" where
  "handle_identities E P links raw =
     seq (merge_identities E P raw links []) (\<lambda>ids.
       (case identities_payload ids of None \<Rightarrow> raise StructError | Some payload \<Rightarrow> agent_send E payload))"

section \<open>Signing\<close>

definition proxy_title :: "agent_peer \<Rightarrow> pstr" where
  "proxy_title P = lit ''SSH Agent proxy: '' @ ap_name P"

text \<open>The order upstreams are tried in: the pinned socket or the owner, the owner, every other link.\<close>

definition sign_candidates :: "agent_state \<Rightarrow> pbytes \<Rightarrow> key_config \<Rightarrow> pstr list \<Rightarrow> pstr list" where
  "sign_candidates s blob k links =
     (let owner = (case as_owner s blob of Some p \<Rightarrow> if p \<noteq> [] then Some p else None | None \<Rightarrow> None);
          preferred = (if kc_explicit k then kc_socket k else (case owner of Some p \<Rightarrow> p | None \<Rightarrow> kc_socket k));
          first = [preferred, case owner of Some p \<Rightarrow> p | None \<Rightarrow> preferred]
      in first @ filter (\<lambda>p. p \<notin> set first) links)"

fun try_candidates ::
  "agent_env \<Rightarrow> pbytes \<Rightarrow> pstr list \<Rightarrow> pstr list \<Rightarrow> pbytes option \<Rightarrow> pstr list \<Rightarrow> pbytes option agent_op" where
  "try_candidates E raw links seen best [] = ret best"
| "try_candidates E raw links seen best (path # rest) =
     (if path \<in> set seen \<or> path \<notin> set links then try_candidates E raw links seen best rest
      else seq (link_request E path raw) (\<lambda>resp.
        (case resp of
           Some (t # r) \<Rightarrow>
             if t \<noteq> msg_number FAILURE then ret (Some (t # r))
             else try_candidates E raw links (path # seen) (Some (t # r)) rest
         | _ \<Rightarrow> try_candidates E raw links (path # seen) best rest)))"

definition sign_via_upstream ::
  "agent_env \<Rightarrow> pbytes \<Rightarrow> key_config \<Rightarrow> pbytes \<Rightarrow> pstr list \<Rightarrow> pbytes option agent_op" where
  "sign_via_upstream E blob k raw links = on_state (\<lambda>s.
     try_candidates E raw links [] None (sign_candidates s blob k links))"

definition destination_allowed :: "agent_state \<Rightarrow> pbytes \<Rightarrow> pbytes list \<Rightarrow> bool" where
  "destination_allowed s data_to_sign allowed_hosts =
     (case read_string (buf data_to_sign) of
        None \<Rightarrow> False
      | Some (session_id, _) \<Rightarrow>
          (case as_bound s session_id of None \<Rightarrow> False | Some dest \<Rightarrow> dest \<in> set allowed_hosts))"

definition refuse :: "agent_env \<Rightarrow> pstr \<Rightarrow> pstr \<Rightarrow> unit agent_op" where
  "refuse E title message = seq (agent_notify title message True) (\<lambda>_. send_failure E)"

text \<open>The signature is wanted: relay it and answer what the upstreams answered.\<close>

definition relay_sign ::
  "agent_env \<Rightarrow> agent_peer \<Rightarrow> pstr \<Rightarrow> pbytes \<Rightarrow> key_config \<Rightarrow> agent_rule \<Rightarrow> pbytes \<Rightarrow> pstr list \<Rightarrow> unit agent_op" where
  "relay_sign E P purpose blob k rule raw links =
     seq (sign_via_upstream E blob k raw links) (\<lambda>resp.
       (case resp of
          Some (t # r) \<Rightarrow>
            if t = msg_number FAILURE then agent_send E (t # r)
            else seq (agent_send E (t # r)) (\<lambda>_.
              if ar_notify rule
              then agent_notify (proxy_title P)
                     (ap_name P @ lit '' used key '' @ [39] @ kc_id k @ [39] @ lit '' for '' @ purpose) False
              else ret ())
        | _ \<Rightarrow> send_failure E))"

definition sign_prompt :: "agent_peer \<Rightarrow> key_config \<Rightarrow> pstr \<Rightarrow> pstr" where
  "sign_prompt P k purpose =
     lit ''Allow '' @ ap_name P @ lit '' to use key '' @ [39] @ kc_id k @ [39] @ lit ''?'' @ nl @
     lit ''Purpose: '' @ purpose @ nl @ lit ''Fingerprint: '' @ kc_fingerprint k"

text \<open>The policy of the matched rule for this use of the key.\<close>

definition usage_policy :: "agent_rule \<Rightarrow> pstr \<Rightarrow> pstr" where
  "usage_policy rule purpose = (if purpose = AUTH_PURPOSE then ar_auth rule else ar_data_signing rule)"

definition ask_and_relay ::
  "agent_env \<Rightarrow> agent_peer \<Rightarrow> pstr \<Rightarrow> pbytes \<Rightarrow> key_config \<Rightarrow> agent_rule \<Rightarrow> pbytes \<Rightarrow> pstr list \<Rightarrow> unit agent_op" where
  "ask_and_relay E P purpose blob k rule raw links =
     seq (if usage_policy rule purpose = lit ''allow'' then ret True
          else agent_prompt E (proxy_title P) (sign_prompt P k purpose))
       (\<lambda>authorized. if authorized then relay_sign E P purpose blob k rule raw links else send_failure E)"

definition sign_with_key ::
  "agent_env \<Rightarrow> agent_peer \<Rightarrow> pbytes \<Rightarrow> pbytes \<Rightarrow> key_config \<Rightarrow> agent_rule \<Rightarrow> pbytes \<Rightarrow> pstr list \<Rightarrow> unit agent_op" where
  "sign_with_key E P blob data_to_sign k rule raw links = on_state (\<lambda>s.
     (let purpose = determine_purpose (ae_keylib E) data_to_sign
      in if usage_policy rule purpose = lit ''deny'' then
           refuse E (proxy_title P) (lit ''Refused '' @ purpose @ lit '': VM='' @ ap_name P @ lit '', key='' @ kc_id k)
         else if purpose = AUTH_PURPOSE \<and> ar_hosts rule \<noteq> [] \<and> \<not> destination_allowed s data_to_sign (ar_hosts rule) then
           refuse E (proxy_title P) (lit ''Forbidden destination: VM='' @ ap_name P @
             lit '' attempted auth to a non-allowlisted / unverified host'')
         else ask_and_relay E P purpose blob k rule raw links))"

definition parse_sign_request :: "pbytes \<Rightarrow> (pbytes \<times> pbytes) option" where
  "parse_sign_request raw = do {
     (_, b) \<leftarrow> read_byte (buf raw);
     (key_blob, b) \<leftarrow> read_string b;
     (data_to_sign, _) \<leftarrow> read_string b;
     Some (key_blob, data_to_sign)
   }"

definition handle_sign_request :: "agent_env \<Rightarrow> agent_peer \<Rightarrow> pstr list \<Rightarrow> pbytes \<Rightarrow> unit agent_op" where
  "handle_sign_request E P links raw =
     (case parse_sign_request raw of
        None \<Rightarrow> raise StructError
      | Some (blob, data_to_sign) \<Rightarrow> on_state (\<lambda>s.
          (case as_allowed s blob of
             None \<Rightarrow> refuse E (proxy_title P)
               (lit ''Forbidden key request: VM='' @ ap_name P @ lit '', Purpose='' @
                determine_purpose (ae_keylib E) data_to_sign)
           | Some k \<Rightarrow> (case as_rule s blob of
               None \<Rightarrow> raise KeyError
             | Some rule \<Rightarrow> sign_with_key E P blob data_to_sign k rule raw links))))"

section \<open>Adding and removing keys\<close>

definition authorize_mutation :: "agent_env \<Rightarrow> pstr \<Rightarrow> pstr \<Rightarrow> pstr \<Rightarrow> bool agent_op" where
  "authorize_mutation E policy title message =
     (if policy = lit ''deny'' then ret False
      else if policy = lit ''allow'' then ret True
      else agent_prompt E title message)"

definition mutation_target :: "agent_env \<Rightarrow> pstr list \<Rightarrow> pstr option" where
  "mutation_target E links =
     (case filter (\<lambda>p. p \<in> set links) (upstream_order (ae_config E)) of
        p # _ \<Rightarrow> Some p
      | [] \<Rightarrow> (case links of [] \<Rightarrow> None | p # _ \<Rightarrow> Some p))"

definition forward_mutation :: "agent_env \<Rightarrow> pstr list \<Rightarrow> pbytes \<Rightarrow> bool agent_op" where
  "forward_mutation E links raw =
     (case mutation_target E links of
        None \<Rightarrow> seq (send_failure E) (\<lambda>_. ret False)
      | Some target \<Rightarrow> seq (link_request E target raw) (\<lambda>resp.
          (case resp of
             None \<Rightarrow> seq (send_failure E) (\<lambda>_. ret False)
           | Some payload \<Rightarrow>
               seq (agent_send E payload) (\<lambda>_. ret (payload \<noteq> [] \<and> hd payload = msg_number SUCCESS)))))"

text \<open>Forward, and notify if the rule asks for it and the upstream accepted.\<close>

definition forward_and_notify ::
  "agent_env \<Rightarrow> agent_peer \<Rightarrow> agent_rule \<Rightarrow> pstr \<Rightarrow> pstr list \<Rightarrow> pbytes \<Rightarrow> unit agent_op" where
  "forward_and_notify E P rule message links raw =
     seq (forward_mutation E links raw) (\<lambda>ok.
       if ok \<and> ar_notify rule then agent_notify (proxy_title P) message False else ret ())"

text \<open>The id, fingerprint and type an add message is judged by.\<close>

definition added_key :: "agent_env \<Rightarrow> pbytes \<Rightarrow> (pstr \<times> pstr \<times> pstr) option" where
  "added_key E raw = do {
     (key_type, public_blob, comment) \<leftarrow> public_blob_from_private raw;
     Some (case public_blob of
         None \<Rightarrow> (if comment \<noteq> [] then comment else lit ''unknown'', lit ''unknown'', key_type)
       | Some blob \<Rightarrow> (case map_of (ac_keys (ae_config E)) blob of
             Some named \<Rightarrow> (kc_id named, kc_fingerprint named, key_type)
           | None \<Rightarrow>
               (let fingerprint = key_fingerprint (ae_keylib E) blob
                in (if comment \<noteq> [] then comment else fingerprint, fingerprint, key_type))))
   }"

definition add_prompt :: "keylib \<Rightarrow> agent_peer \<Rightarrow> pstr \<Rightarrow> pstr \<Rightarrow> pstr \<Rightarrow> pstr" where
  "add_prompt K P key_id fingerprint key_type =
     lit ''Allow '' @ ap_name P @ lit '' to add key '' @ [39] @ printable_prefix K 64 key_id @ [39] @ lit '' to the agent?'' @ nl @
     lit ''Type: '' @ (if key_type \<noteq> [] then key_type else lit ''unknown'') @ nl @ lit ''Fingerprint: '' @ fingerprint"

text \<open>The notification of a refusal names the id as it came.\<close>

definition refused_add :: "agent_peer \<Rightarrow> agent_rule \<Rightarrow> pstr \<Rightarrow> pstr \<Rightarrow> pstr" where
  "refused_add P rule key_id fingerprint =
     (if ar_add rule = lit ''deny'' then lit ''Refused'' else lit ''Denied'') @ lit '' ADD of key '' @ [39] @ key_id @ [39] @
     lit '' ('' @ fingerprint @ lit '') from VM='' @ ap_name P"

definition handle_add :: "agent_env \<Rightarrow> agent_peer \<Rightarrow> pstr list \<Rightarrow> pbytes \<Rightarrow> unit agent_op" where
  "handle_add E P links raw =
     (case added_key E raw of
        None \<Rightarrow> raise IndexError
      | Some (key_id, fingerprint, key_type) \<Rightarrow>
          (let rule = rule_for E P key_id
           in seq (authorize_mutation E (ar_add rule) (proxy_title P) (add_prompt (ae_keylib E) P key_id fingerprint key_type))
             (\<lambda>authorized.
               if authorized then
                 forward_and_notify E P rule (ap_name P @ lit '' added key '' @ [39] @
                   printable_prefix (ae_keylib E) 64 key_id @ [39] @ lit '' to the agent'') links raw
               else refuse E (proxy_title P) (refused_add P rule key_id fingerprint))))"

text \<open>The rule and the action of a removal; removing all keys is governed by the key \<open>*\<close>.\<close>

definition removal_of :: "agent_env \<Rightarrow> agent_peer \<Rightarrow> pbytes \<Rightarrow> (agent_rule \<times> pstr) option" where
  "removal_of E P raw =
     (if hd raw = msg_number REMOVE_ALL_IDENTITIES
      then Some (rule_for E P (lit ''*''), lit ''remove ALL keys from the agent'')
      else do {
        (_, b) \<leftarrow> read_byte (buf raw);
        (blob, _) \<leftarrow> read_string b;
        let key_id = (case map_of (ac_keys (ae_config E)) blob of Some named \<Rightarrow> kc_id named
                      | None \<Rightarrow> key_fingerprint (ae_keylib E) blob);
        Some (rule_for E P key_id,
              lit ''remove key '' @ [39] @ printable_prefix (ae_keylib E) 64 key_id @ [39] @ lit '' from the agent'')
      })"

definition handle_remove :: "agent_env \<Rightarrow> agent_peer \<Rightarrow> pstr list \<Rightarrow> pbytes \<Rightarrow> unit agent_op" where
  "handle_remove E P links raw =
     (case removal_of E P raw of
        None \<Rightarrow> send_failure E
      | Some (rule, action) \<Rightarrow>
          seq (authorize_mutation E (ar_remove rule) (proxy_title P)
                (lit ''Allow '' @ ap_name P @ lit '' to '' @ action @ lit ''?''))
            (\<lambda>authorized.
              if authorized then forward_and_notify E P rule (ap_name P @ lit '' did '' @ action) links raw
              else refuse E (proxy_title P)
                ((if ar_remove rule = lit ''deny'' then lit ''Refused'' else lit ''Denied'') @ lit '' REMOVE ('' @ action @
                 lit '') from VM='' @ ap_name P)))"

section \<open>Extensions\<close>

definition parse_session_bind :: "sshbuf \<Rightarrow> (pbytes \<times> pbytes \<times> pbytes) option" where
  "parse_session_bind b = do {
     (hostkey, b) \<leftarrow> read_string b;
     (session_id, b) \<leftarrow> read_string b;
     (signature, b) \<leftarrow> read_string b;
     (is_forwarding, _) \<leftarrow> read_byte b;
     Some (hostkey, session_id, signature)
   }"

definition bind_session :: "pbytes \<Rightarrow> pbytes \<Rightarrow> unit agent_op" where
  "bind_session session_id trust = update_op (\<lambda>s. s\<lparr>as_bound := (as_bound s)(session_id \<mapsto> trust)\<rparr>)"

definition handle_session_bind :: "agent_env \<Rightarrow> sshbuf \<Rightarrow> unit agent_op" where
  "handle_session_bind E b =
     (case parse_session_bind b of
        None \<Rightarrow> send_failure E
      | Some (hostkey, session_id, signature) \<Rightarrow>
          (case verify_bind_sig (ae_keylib E) hostkey session_id signature of
             None \<Rightarrow> send_failure E
           | Some trust \<Rightarrow> seq (bind_session session_id trust) (\<lambda>_. agent_send E [msg_number SUCCESS])))"

definition SESSION_BIND :: pstr where
  "SESSION_BIND = lit ''session-bind@openssh.com''"

definition handle_extension :: "agent_env \<Rightarrow> pbytes \<Rightarrow> unit agent_op" where
  "handle_extension E raw =
     (case read_byte (buf raw) of
        None \<Rightarrow> raise IndexError
      | Some (_, b) \<Rightarrow> (case read_string b of
          None \<Rightarrow> send_failure E
        | Some (name, b) \<Rightarrow>
            if decode_replace name = SESSION_BIND then handle_session_bind E b else send_failure E))"

definition handle_unknown :: "agent_env \<Rightarrow> agent_peer \<Rightarrow> nat \<Rightarrow> unit agent_op" where
  "handle_unknown E P mtype =
     refuse E (lit ''SSH Proxy Warning'') (lit ''Filtered operation '' @ nat_repr mtype @ lit '' from '' @ ap_name P)"

section \<open>The loop\<close>

definition handle_agent_message :: "agent_env \<Rightarrow> agent_peer \<Rightarrow> pstr list \<Rightarrow> pbytes \<Rightarrow> unit agent_op" where
  "handle_agent_message E P links msg =
     (let mtype = hd msg
      in if mtype = msg_number REQUEST_IDENTITIES then handle_identities E P links msg
         else if mtype = msg_number SIGN_REQUEST then handle_sign_request E P links msg
         else if mtype \<in> {msg_number ADD_IDENTITY, msg_number ADD_ID_CONSTRAINED} then handle_add E P links msg
         else if mtype \<in> {msg_number REMOVE_IDENTITY, msg_number REMOVE_ALL_IDENTITIES} then handle_remove E P links msg
         else if mtype = msg_number EXTENSION then handle_extension E msg
         else handle_unknown E P mtype)"

text \<open>
  An empty message, the end of the stream or an exception ends the loop; every message takes bytes
  off the stream, so it ends. The result is the state it leaves.
\<close>

function agent_loop :: "agent_env \<Rightarrow> agent_peer \<Rightarrow> pstr list \<Rightarrow> inflow \<Rightarrow> agent_state \<Rightarrow> agent_state" where
  "agent_loop E P links st s =
     (case recv_msg st of
        (Some (t # r), st') \<Rightarrow>
          (case handle_agent_message E P links (t # r) s of
             (Inr _, s') \<Rightarrow> agent_loop E P links st' s'
           | (Inl _, s') \<Rightarrow> s')
      | _ \<Rightarrow> s)"
  by auto
termination
  by (relation "measure (\<lambda>(E, P, links, st, s). length (flat st))") (auto dest: recv_msg_shorter [OF sym])

declare agent_loop.simps [simp del]

end
