(* ===== verification/AgentServe.thy ===== *)
theory AgentServe
  imports AgentProxy
begin

text \<open>
  The edges of \<open>ssh-agent-proxy\<close>: who the peer is (\<open>setup\<close>), which upstream sockets a connection
  uses and how they are dialled (the beginning of \<open>handle\<close>), the links to upstreams with their
  reconnection, and the binding of all listeners.
\<close>

section \<open>Socket paths\<close>

text \<open>
  \<open>_expand_socket_path\<close>. Unlike the elevation proxy's, it takes the user id from the environment
  variable \<open>UID\<close>, and normalises the result as a path. \<open>launchctl\<close> is what \<open>launchctl getenv\<close>
  printed when it succeeded. \<open>None\<close> is the \<open>RuntimeError\<close> of an unknown home directory.
\<close>

definition path_expanduser :: "(pstr \<Rightarrow> pstr option) \<Rightarrow> ppath \<Rightarrow> pstr option" where
  "path_expanduser home p =
     (case p of
        ([], (c # user) # rest) \<Rightarrow>
          if c = 126 then (case home user of None \<Rightarrow> None
            | Some dir \<Rightarrow> Some (path_str (fst (path_of dir), snd (path_of dir) @ rest)))
          else Some (path_str p)
      | _ \<Rightarrow> Some (path_str p))"

definition agent_runtime_dir :: "host \<Rightarrow> pstr" where
  "agent_runtime_dir H =
     (if h_darwin H then
        (case h_getconf H of None \<Rightarrow> lit ''/tmp''
         | Some (code, out) \<Rightarrow> if code = 0 then py_strip out else lit ''/tmp'')
      else (case h_env H (lit ''XDG_RUNTIME_DIR'') of
          Some dir \<Rightarrow> dir
        | None \<Rightarrow> lit ''/run/user/'' @ (case h_env H (lit ''UID'') of Some u \<Rightarrow> u | None \<Rightarrow> lit ''0'')))"

definition agent_expand_socket_path :: "host \<Rightarrow> pstr option \<Rightarrow> pstr \<Rightarrow> pstr option" where
  "agent_expand_socket_path H launchctl path =
     (if path = lit ''__APPLE_SSH_AUTH_SOCK__'' then
        (case launchctl of
           Some out \<Rightarrow> if py_strip out \<noteq> [] then Some (py_strip out) else Some (lit ''/var/run/com.apple.launchd/Listeners'')
         | None \<Rightarrow> Some (lit ''/var/run/com.apple.launchd/Listeners''))
      else path_expanduser (h_home H) (path_of
        (if startswith (lit ''%t/'') path then agent_runtime_dir H @ lit ''/'' @ drop 3 path else path)))"

section \<open>Who the peer is\<close>

text \<open>
  The answers of libvirt: the domains, each with its parsed XML (\<open>None\<close> when malformed) reduced to
  the address of its vsock device, and its name; \<open>None\<close> when libvirt fails.
\<close>

type_synonym libvirt = "pstr \<Rightarrow> (pstr option option \<times> pstr) list option"

fun find_domain :: "pstr \<Rightarrow> (pstr option option \<times> pstr) list \<Rightarrow> pstr option" where
  "find_domain cid [] = None"
| "find_domain cid ((xml, name) # doms) = (if xml = Some (Some cid) then Some name else find_domain cid doms)"

definition resolve_cid :: "libvirt \<Rightarrow> pstr \<Rightarrow> int \<Rightarrow> pstr option" where
  "resolve_cid L uri cid = (case L uri of None \<Rightarrow> None | Some doms \<Rightarrow> find_domain (int_repr cid) doms)"

definition cert_common_name :: "sock \<Rightarrow> pstr option" where
  "cert_common_name s =
     (case peer_cert s of None \<Rightarrow> None
      | Some (subject, sans) \<Rightarrow> (let cn = common_name (map hd subject) in if cn \<noteq> [] then Some cn else None))"

text \<open>The display label and the identity rules are matched against.\<close>

definition resolve_peer ::
  "lib \<Rightarrow> host \<Rightarrow> int \<Rightarrow> mofos_cache \<Rightarrow> pstr \<Rightarrow> bool \<Rightarrow> sock \<Rightarrow> pstr option \<Rightarrow> pstr \<Rightarrow> peer_id option
    \<Rightarrow> (pstr \<times> pstr option) \<times> mofos_cache" where
  "resolve_peer E H now cache resolution tls s static_name unknown_label peer =
     (if resolution = lit ''none'' then ((unknown_label, None), cache)
      else if resolution = lit ''certificate'' \<and> tls then
        (case cert_common_name s of
           Some cn \<Rightarrow> ((cn, Some cn), cache)
         | None \<Rightarrow> ((unknown_label, None), cache))
      else if resolution = lit ''tartarus'' \<and> static_name \<noteq> None then
        ((the static_name, static_name), cache)
      else if resolution = lit ''mofos'' then
        (let (name, cache') = resolve_mofos_name E H now cache peer
         in (case name of Some n \<Rightarrow> if n \<noteq> [] then (n, Some n) else (unknown_label, None)
             | None \<Rightarrow> (unknown_label, None), cache'))
      else ((unknown_label, None), cache))"

text \<open>The listener a connection was accepted on, and the address it came from.\<close>

datatype client_address = FromVsock int | FromUnix | FromTcp pstr

record agent_listener =
  al_transport :: pstr
  al_host :: pyval
  al_port :: pyval
  al_cid :: pyval
  al_socket :: "pstr option"
  al_socket_dir_mode :: pyval
  al_socket_mode :: pyval
  al_connect_timeout :: pyval
  al_handshake_timeout :: pyval
  al_decision_timeout :: int
  al_resolution :: pstr
  al_encryption :: pstr
  al_client_auth :: pstr
  al_server_auth :: pstr
  al_mtls_enable :: bool
  al_ca_file :: pyval
  al_cert_file :: pyval
  al_key_file :: pyval
  al_required_oid :: pyval
  al_peer_required_oid :: pyval
  al_name :: "pstr option"
  al_scan_dirs :: bool
  al_session_socket :: bool

text \<open>
  The peer's static name, the value resolution looks up, and the label of an unknown peer. A
  foreign user on a Unix socket is refused.
\<close>

definition identify_address ::
  "host \<Rightarrow> libvirt \<Rightarrow> agent_config \<Rightarrow> sock \<Rightarrow> client_address \<Rightarrow> (pstr option \<times> peer_id option \<times> pstr) res" where
  "identify_address H L cfg s addr =
     (case addr of
        FromVsock cid \<Rightarrow>
          Inr (case map_of (ac_vm_by_cid cfg) cid of
                 Some name \<Rightarrow> Some name
               | None \<Rightarrow> (case ac_libvirt_uri cfg of
                     Some uri \<Rightarrow> if uri \<noteq> [] then resolve_cid L uri cid else None
                   | None \<Rightarrow> None),
               Some (PeerCid cid), lit ''unknown-cid-'' @ int_repr cid)
      | FromUnix \<Rightarrow> (case authorize_unix_peer H s of
            Inl e \<Rightarrow> Inl e
          | Inr _ \<Rightarrow> Inr (None, None, lit ''local''))
      | FromTcp ip \<Rightarrow> Inr (map_of (ac_vm_by_ip cfg) ip, Some (PeerIp ip), lit ''unknown-ip-'' @ ip))"

text \<open>Keys a rule already admits, in the order of the configuration.\<close>

definition preruled :: "agent_config \<Rightarrow> pstr option \<Rightarrow> pstr option \<Rightarrow> (pbytes \<times> key_config \<times> agent_rule) list" where
  "preruled cfg identity listener =
     concat (map (\<lambda>(blob, k). case match_rule (ac_rules cfg) (kc_id k, identity, listener) of
         None \<Rightarrow> [] | Some r \<Rightarrow> [(blob, k, r)]) (ac_keys cfg))"

fun add_new :: "pstr list \<Rightarrow> pstr list \<Rightarrow> pstr list" where
  "add_new acc [] = acc"
| "add_new acc (p # ps) = add_new (if p \<in> set acc then acc else acc @ [p]) ps"

definition initial_sockets :: "agent_config \<Rightarrow> (pbytes \<times> key_config \<times> agent_rule) list \<Rightarrow> pstr list" where
  "initial_sockets cfg admitted = add_new (add_new [] (map (\<lambda>(blob, k, r). kc_socket k) admitted)) (upstream_order cfg)"

definition initial_state :: "(pbytes \<times> key_config \<times> agent_rule) list \<Rightarrow> agent_state" where
  "initial_state admitted =
     \<lparr>as_allowed = map_of (map (\<lambda>(blob, k, r). (blob, k)) admitted),
      as_rule = map_of (map (\<lambda>(blob, k, r). (blob, r)) admitted),
      as_owner = (\<lambda>_. None), as_bound = (\<lambda>_. None), as_trace = []\<rparr>"

text \<open>
  \<open>Handler.setup\<close>: \<open>None\<close> when the connection is aborted. The result has the peer, the sockets to
  dial and the initial state.
\<close>

type_synonym setup_result = "(agent_peer \<times> pstr list \<times> agent_state) option"

definition agent_setup ::
  "lib \<Rightarrow> crypto \<Rightarrow> host \<Rightarrow> libvirt \<Rightarrow> agent_config \<Rightarrow> agent_listener \<Rightarrow> int \<Rightarrow> mofos_cache \<Rightarrow> sock \<Rightarrow> client_address
    \<Rightarrow> setup_result res \<times> mofos_cache" where
  "agent_setup E C H L cfg l now cache s addr =
     (case (if sk_tls s then check_peer_oid C (peer_der s) (al_peer_required_oid l) else Inr ()) of
        Inl (ValueError _) \<Rightarrow> (Inr None, cache)
      | Inl (RuntimeError _) \<Rightarrow> (Inr None, cache)
      | Inl e \<Rightarrow> (Inl e, cache)
      | Inr _ \<Rightarrow> (case identify_address H L cfg s addr of
            Inl (RuntimeError _) \<Rightarrow> (Inr None, cache)
          | Inl e \<Rightarrow> (Inl e, cache)
          | Inr (static_name, peer, unknown_label) \<Rightarrow>
              (case resolve_peer E H now cache (al_resolution l) (sk_tls s) s static_name unknown_label peer of
                 ((label, identity), cache') \<Rightarrow>
                   (let admitted = preruled cfg identity (al_name l)
                    in (Inr (Some (\<lparr>ap_name = label, ap_identity = identity, ap_listener = al_name l,
                                     ap_resolved = upstream_order cfg\<rparr>,
                                   initial_sockets cfg admitted, initial_state admitted)), cache')))))"

section \<open>The sockets of a connection\<close>

text \<open>
  \<open>_peer_env_socket\<close>: the environment of the peer's process is a parameter (\<open>None\<close> when it cannot
  be read), as is which paths exist.
\<close>

fun find_env :: "pbytes \<Rightarrow> pbytes list \<Rightarrow> pbytes option" where
  "find_env prefix [] = None"
| "find_env prefix (item # items) =
     (if startswith prefix item then Some (drop (length prefix) item) else find_env prefix items)"

definition peer_env_socket :: "host \<Rightarrow> (int \<Rightarrow> pbytes option) \<Rightarrow> (pstr \<Rightarrow> bool) \<Rightarrow> sock \<Rightarrow> pstr option" where
  "peer_env_socket H environ_of path_there s =
     (if h_darwin H \<or> \<not> h_has_peercred H then None
      else (case sk_ucred s of None \<Rightarrow> None
        | Some (pid, uid, gid) \<Rightarrow>
            if pid \<le> 0 \<or> uid \<noteq> h_uid H then None
            else (case environ_of pid of None \<Rightarrow> None
              | Some raw \<Rightarrow> (case find_env (lit ''SSH_AUTH_PROXY_SOCK='') (split_on 0 raw) of
                    None \<Rightarrow> None
                  | Some field \<Rightarrow>
                      (let value = decode_replace field
                       in if value \<noteq> [] \<and> path_there value then Some value else None)))))"

text \<open>
  What a path of \<open>agent_sockets\<close> is once expanded: a directory with its sockets (sorted), something
  else that exists, nothing, something that cannot be inspected, or a path whose home
  directory is unknown, which raises. \<open>realpath\<close> is the path with its links resolved.
\<close>

datatype entry_kind = SocketDir "pstr list" | Present | Missing | Uninspectable | Unexpandable

definition add_socket :: "(pstr \<Rightarrow> pstr) \<Rightarrow> pstr \<Rightarrow> pstr list \<times> pstr list \<Rightarrow> pstr list \<times> pstr list" where
  "add_socket realpath candidate acc =
     (case acc of (paths, seen) \<Rightarrow>
        if realpath candidate \<in> set seen then acc else (paths @ [candidate], realpath candidate # seen))"

definition add_entry ::
  "(pstr \<Rightarrow> entry_kind) \<Rightarrow> (pstr \<Rightarrow> pstr) \<Rightarrow> bool \<Rightarrow> bool \<Rightarrow> pstr \<Rightarrow> pstr list \<times> pstr list \<Rightarrow> pstr list \<times> pstr list" where
  "add_entry kind realpath scan_dirs has_session entry acc =
     (case kind entry of
        SocketDir children \<Rightarrow> if has_session \<or> \<not> scan_dirs then acc else fold (add_socket realpath) children acc
      | Present \<Rightarrow> add_socket realpath entry acc
      | _ \<Rightarrow> acc)"

definition resolve_agent_sockets ::
  "(pstr \<Rightarrow> entry_kind) \<Rightarrow> (pstr \<Rightarrow> pstr) \<Rightarrow> pstr list \<Rightarrow> bool \<Rightarrow> pstr option \<Rightarrow> pstr list res" where
  "resolve_agent_sockets kind realpath entries scan_dirs session_socket =
     (if \<exists>entry \<in> set entries. kind entry = Unexpandable
      then Inl (RuntimeError ''Could not determine home directory.'')
      else Inr (fst (fold (add_entry kind realpath scan_dirs (session_socket \<noteq> None)) entries
            (case session_socket of Some p \<Rightarrow> add_socket realpath p ([], []) | None \<Rightarrow> ([], [])))))"

text \<open>The local part of the sockets is resolved anew for a listener that asks for it.\<close>

definition session_sockets ::
  "agent_config \<Rightarrow> agent_listener \<Rightarrow> (pstr \<Rightarrow> entry_kind) \<Rightarrow> (pstr \<Rightarrow> pstr) \<Rightarrow> pstr option
    \<Rightarrow> agent_peer \<Rightarrow> pstr list \<Rightarrow> (agent_peer \<times> pstr list) res" where
  "session_sockets cfg l kind realpath env_socket P sockets =
     (if al_scan_dirs l \<or> al_session_socket l then
        (case resolve_agent_sockets kind realpath (agent_sockets cfg) (al_scan_dirs l)
                (if al_session_socket l then env_socket else None) of
           Inl e \<Rightarrow> Inl e
         | Inr resolved \<Rightarrow>
             (let key_sockets = filter (\<lambda>q. q \<notin> set (agent_sockets cfg) \<and> q \<notin> set (remote_ids cfg)) sockets
              in Inr (P\<lparr>ap_resolved := resolved @ remote_ids cfg\<rparr>, key_sockets @ resolved @ remote_ids cfg)))
      else Inr (P, sockets))"

text \<open>Where an upstream id leads.\<close>

datatype target = SharedRemote upstream_config | OwnedRemote upstream_config pstr | PlainSocket pstr | NoTarget

definition plain_target :: "pstr option \<Rightarrow> target" where
  "plain_target expanded = (case expanded of None \<Rightarrow> NoTarget | Some p \<Rightarrow> PlainSocket p)"

definition dial_target :: "host \<Rightarrow> pstr option \<Rightarrow> agent_config \<Rightarrow> pstr \<Rightarrow> target" where
  "dial_target H launchctl cfg path =
     (case upstream_by_id cfg path of
        Some u \<Rightarrow>
          if uc_transport u \<noteq> lit ''unix'' then SharedRemote u
          else (case (case uc_socket u of Some p \<Rightarrow> if p \<noteq> [] then Some p else h_env H (lit ''SSH_AUTH_PROXY_SOCK'')
                      | None \<Rightarrow> h_env H (lit ''SSH_AUTH_PROXY_SOCK'')) of
              None \<Rightarrow> NoTarget
            | Some p \<Rightarrow>
                if p = [] then NoTarget
                else if uses_tls u then OwnedRemote u p
                else plain_target (agent_expand_socket_path H launchctl p))
      | None \<Rightarrow> plain_target (agent_expand_socket_path H launchctl path))"

text \<open>A target that cannot be reached is skipped, but a certificate error ends the thread.\<close>

fun dial_links :: "(pstr \<Rightarrow> target) \<Rightarrow> (target \<Rightarrow> unit res) \<Rightarrow> pstr list \<Rightarrow> pstr list \<Rightarrow> pstr list res" where
  "dial_links aim dial [] links = Inr links"
| "dial_links aim dial (path # paths) links =
     (if aim path = NoTarget then dial_links aim dial paths links
      else (case dial (aim path) of
          Inl (SystemExit code) \<Rightarrow> Inl (SystemExit code)
        | Inl e \<Rightarrow> dial_links aim dial paths links
        | Inr _ \<Rightarrow> dial_links aim dial paths (if path \<in> set links then links else links @ [path])))"

text \<open>\<open>Handler.handle\<close> after \<open>setup\<close>.\<close>

definition agent_handle ::
  "agent_env \<Rightarrow> host \<Rightarrow> pstr option \<Rightarrow> agent_listener \<Rightarrow> (pstr \<Rightarrow> entry_kind) \<Rightarrow> (pstr \<Rightarrow> pstr) \<Rightarrow> pstr option
    \<Rightarrow> (target \<Rightarrow> unit res) \<Rightarrow> inflow \<Rightarrow> agent_peer \<Rightarrow> pstr list \<Rightarrow> agent_state \<Rightarrow> agent_state res" where
  "agent_handle E H launchctl l kind realpath env_socket dial st P sockets s =
     (case session_sockets (ae_config E) l kind realpath env_socket P sockets of
        Inl e \<Rightarrow> Inl e
      | Inr (P', sockets') \<Rightarrow> (case dial_links (dial_target H launchctl (ae_config E)) dial sockets' [] of
            Inl e \<Rightarrow> Inl e
          | Inr links \<Rightarrow> Inr (agent_loop E P' links st s)))"

end
