(* ===== verification/AgentSafety.thy ===== *)
theory AgentSafety
  imports AgentServe
begin

text \<open>
  What the policy of \<open>ssh-agent-proxy\<close> guarantees: whatever a client sends and however upstreams,
  dialogs and sockets behave, a message reaches an upstream agent only when a rule or the
  approver let it. The invariant of the handler's state is proved operation by operation.
\<close>

section \<open>What justifies relaying a message\<close>

text \<open>
  The approver said yes to this text, and since then nothing happened on the connection but
  relaying: one approval covers the attempts of one request, and no later request.
\<close>

definition approved :: "agent_trace \<Rightarrow> pstr \<Rightarrow> bool" where
  "approved tr message \<longleftrightarrow>
     (\<exists>ws title rs. tr = ws @ Prompted title message True # rs \<and> (\<forall>e \<in> set rs. \<exists>p m r. e = Relayed p m r))"

definition policy_met :: "pstr \<Rightarrow> agent_trace \<Rightarrow> pstr \<Rightarrow> bool" where
  "policy_met policy tr message \<longleftrightarrow>
     policy = lit ''allow'' \<or> (policy \<noteq> lit ''deny'' \<and> approved tr message)"

text \<open>A key the configuration declares, or one an upstream advertised with some comment.\<close>

definition known_key :: "agent_env \<Rightarrow> pbytes \<Rightarrow> key_config \<Rightarrow> bool" where
  "known_key E blob k \<longleftrightarrow>
     (case map_of (ac_keys (ae_config E)) blob of
        Some named \<Rightarrow> k = named
      | None \<Rightarrow> \<exists>comment path. discovered_key (ae_keylib E) blob comment path = Some k)"

definition verified_bind :: "keylib \<Rightarrow> pbytes \<Rightarrow> pbytes \<Rightarrow> bool" where
  "verified_bind K session_id trust \<longleftrightarrow> (\<exists>hostkey sig. verify_bind_sig K hostkey session_id sig = Some trust)"

text \<open>
  A signature request: the key is known; the rule that governs its id for this peer does not deny
  this use, and allows it or the approver did; and if the rule restricts destinations and the
  data is an SSH authentication, the session it names was bound to an allowed destination.
\<close>

definition sign_justified :: "agent_env \<Rightarrow> agent_peer \<Rightarrow> agent_trace \<Rightarrow> pbytes \<Rightarrow> bool" where
  "sign_justified E P tr msg \<longleftrightarrow>
     (\<exists>blob data k. parse_sign_request msg = Some (blob, data) \<and> known_key E blob k \<and>
        (let rule = rule_for E P (kc_id k); purpose = determine_purpose (ae_keylib E) data
         in policy_met (usage_policy rule purpose) tr (sign_prompt P k purpose) \<and>
            (purpose = AUTH_PURPOSE \<and> ar_hosts rule \<noteq> [] \<longrightarrow>
              (\<exists>session_id b trust. read_string (buf data) = Some (session_id, b) \<and>
                 verified_bind (ae_keylib E) session_id trust \<and> trust \<in> set (ar_hosts rule)))))"

definition add_justified :: "agent_env \<Rightarrow> agent_peer \<Rightarrow> agent_trace \<Rightarrow> pbytes \<Rightarrow> bool" where
  "add_justified E P tr msg \<longleftrightarrow>
     (\<exists>key_id fingerprint key_type. added_key E msg = Some (key_id, fingerprint, key_type) \<and>
        policy_met (ar_add (rule_for E P key_id)) tr (add_prompt (ae_keylib E) P key_id fingerprint key_type))"

definition remove_justified :: "agent_env \<Rightarrow> agent_peer \<Rightarrow> agent_trace \<Rightarrow> pbytes \<Rightarrow> bool" where
  "remove_justified E P tr msg \<longleftrightarrow>
     (\<exists>rule action. removal_of E P msg = Some (rule, action) \<and>
        policy_met (ar_remove rule) tr (lit ''Allow '' @ ap_name P @ lit '' to '' @ action @ lit ''?''))"

definition relay_justified :: "agent_env \<Rightarrow> agent_peer \<Rightarrow> agent_trace \<Rightarrow> pbytes \<Rightarrow> bool" where
  "relay_justified E P tr msg \<longleftrightarrow>
     hd msg = msg_number REQUEST_IDENTITIES
     \<or> hd msg = msg_number SIGN_REQUEST \<and> sign_justified E P tr msg
     \<or> hd msg \<in> {msg_number ADD_IDENTITY, msg_number ADD_ID_CONSTRAINED} \<and> add_justified E P tr msg
     \<or> hd msg \<in> {msg_number REMOVE_IDENTITY, msg_number REMOVE_ALL_IDENTITIES} \<and> remove_justified E P tr msg"

definition trace_ok :: "agent_env \<Rightarrow> agent_peer \<Rightarrow> agent_trace \<Rightarrow> bool" where
  "trace_ok E P tr \<longleftrightarrow>
     (\<forall>us path msg resp vs. tr = us @ Relayed path msg resp # vs \<longrightarrow> relay_justified E P us msg)"

lemma approved_relayed: "approved tr m \<Longrightarrow> approved (tr @ [Relayed p msg r]) m"
  unfolding approved_def by fastforce

lemma policy_met_relayed: "policy_met pol tr m \<Longrightarrow> policy_met pol (tr @ [Relayed p msg r]) m"
  by (auto simp: policy_met_def approved_relayed)

lemma relay_justified_relayed:
  "relay_justified E P tr msg \<Longrightarrow> relay_justified E P (tr @ [Relayed p m r]) msg"
  unfolding relay_justified_def sign_justified_def add_justified_def remove_justified_def Let_def
  using policy_met_relayed by blast

lemma trace_ok_Nil [simp]: "trace_ok E P []"
  by (simp add: trace_ok_def)

lemma snoc_split:
  assumes "tr @ [e] = us @ x # vs"
  shows "(vs = [] \<and> us = tr \<and> x = e) \<or> (\<exists>vs'. tr = us @ x # vs')"
  using assms by (cases vs rule: rev_cases) auto

lemma trace_ok_relayed:
  assumes "trace_ok E P tr" "relay_justified E P tr msg"
  shows "trace_ok E P (tr @ [Relayed path msg resp])"
  unfolding trace_ok_def
proof (intro allI impI)
  fix us path' msg' resp' vs
  assume "tr @ [Relayed path msg resp] = us @ Relayed path' msg' resp' # vs"
  from snoc_split [OF this] show "relay_justified E P us msg'"
    using assms by (auto simp: trace_ok_def)
qed

lemma trace_ok_other:
  assumes "trace_ok E P tr" "\<And>p m r. e \<noteq> Relayed p m r"
  shows "trace_ok E P (tr @ [e])"
  unfolding trace_ok_def
proof (intro allI impI)
  fix us path' msg' resp' vs
  assume "tr @ [e] = us @ Relayed path' msg' resp' # vs"
  from snoc_split [OF this] show "relay_justified E P us msg'"
    using assms(1) assms(2) [of path' msg' resp'] by (auto simp: trace_ok_def)
qed

section \<open>The invariant\<close>

definition state_ok :: "agent_env \<Rightarrow> agent_peer \<Rightarrow> agent_state \<Rightarrow> bool" where
  "state_ok E P s \<longleftrightarrow>
     (\<forall>blob k. as_allowed s blob = Some k \<longrightarrow> known_key E blob k \<and> as_rule s blob = Some (rule_for E P (kc_id k))) \<and>
     (\<forall>sid trust. as_bound s sid = Some trust \<longrightarrow> verified_bind (ae_keylib E) sid trust) \<and>
     trace_ok E P (as_trace s)"

lemma state_okD:
  assumes "state_ok E P s"
  shows "as_allowed s blob = Some k \<Longrightarrow> known_key E blob k"
    and "as_allowed s blob = Some k \<Longrightarrow> as_rule s blob = Some (rule_for E P (kc_id k))"
    and "as_bound s sid = Some trust \<Longrightarrow> verified_bind (ae_keylib E) sid trust"
    and "trace_ok E P (as_trace s)"
  using assms by (simp_all add: state_ok_def)

lemma keeps_record:
  assumes "\<And>p m r. e \<noteq> Relayed p m r"
  shows "keeps (state_ok E P) (record_event e)"
  unfolding record_event_def
  by (rule keeps_update_op) (use assms in \<open>simp add: state_ok_def trace_ok_other\<close>)

lemma keeps_agent_send [keeps]: "keeps (state_ok E P) (agent_send E payload)"
  unfolding agent_send_def
  by (rule keeps_on_state) (auto intro!: keeps_raise keeps_record)

lemma keeps_send_failure [keeps]: "keeps (state_ok E P) (send_failure E)"
  unfolding send_failure_def by (rule keeps)

lemma keeps_notify [keeps]: "keeps (state_ok E P) (agent_notify t m c)"
  unfolding agent_notify_def by (rule keeps_record) simp

lemma keeps_refuse [keeps]: "keeps (state_ok E P) (refuse E t m)"
  unfolding refuse_def by (intro keeps)

text \<open>Relaying keeps the invariant as long as the message is justified, and leaves it justified.\<close>

definition relaying :: "agent_env \<Rightarrow> agent_peer \<Rightarrow> pbytes \<Rightarrow> agent_state \<Rightarrow> bool" where
  "relaying E P msg s \<longleftrightarrow> state_ok E P s \<and> relay_justified E P (as_trace s) msg"

lemma keeps_link_request: "keeps (relaying E P msg) (link_request E path msg)"
  unfolding keeps_def
  by (auto simp: relaying_def link_request_def on_state_def Let_def seq_def record_event_def update_op_def ret_def
      state_ok_def trace_ok_relayed relay_justified_relayed)

lemma approved_prompted: "approved (tr @ [Prompted title m True]) m"
  unfolding approved_def by (intro exI [of _ tr] exI [of _ title] exI [of _ "[]"]) simp

lemma triple_agent_prompt:
  "triple (state_ok E P) (agent_prompt E title m)
     (\<lambda>ok s. state_ok E P s \<and> (ok \<longrightarrow> approved (as_trace s) m)) (state_ok E P)"
  unfolding agent_prompt_def
  by (auto simp: triple_def seq_def pure_op_def on_state_def record_event_def update_op_def ret_def
      state_ok_def trace_ok_other approved_prompted split: sum.split)

section \<open>Identities\<close>

lemma keeps_register:
  assumes "known_key E blob k"
  shows "keeps (state_ok E P) (register_key E P blob k)"
  unfolding register_key_def by (rule keeps_update_op) (use assms in \<open>auto simp: state_ok_def\<close>)

lemma keeps_autoregister: "keeps (state_ok E P) (maybe_autoregister E P blob comment path)"
proof (cases "map_of (ac_keys (ae_config E)) blob")
  case (Some named)
  then have "known_key E blob named" by (simp add: known_key_def)
  with Some show ?thesis by (simp add: maybe_autoregister_def keeps keeps_register)
next
  case None
  have "known_key E blob k" if "discovered_key (ae_keylib E) blob comment path = Some k" for k
    using None that by (auto simp: known_key_def)
  with None show ?thesis by (auto simp: maybe_autoregister_def keeps keeps_register split: option.split)
qed

lemma keeps_note_owner: "keeps (state_ok E P) (note_owner blob path)"
  unfolding note_owner_def by (rule keeps_update_op) (simp add: state_ok_def)

lemma keeps_admit: "keeps (state_ok E P) (admit_identity E P path blob comment)"
  unfolding admit_identity_def
  by (intro keeps_seq keeps_note_owner keeps_on_state) (simp add: keeps keeps_autoregister)

lemma keeps_admit_identities: "keeps (state_ok E P) (admit_identities E P path n b acc)"
proof (induction n arbitrary: b acc)
  case (Suc n)
  show ?case by (auto simp: keeps_raise split: option.split intro!: keeps_seq keeps_admit Suc.IH)
qed (simp add: keeps)

lemma keeps_merge_answer: "keeps (state_ok E P) (merge_answer E P path resp acc)"
  by (auto simp: merge_answer_def keeps split: option.split list.split intro!: keeps_admit_identities)

lemma relaying_identities:
  "hd msg = msg_number REQUEST_IDENTITIES \<Longrightarrow> relaying E P msg = state_ok E P"
  by (rule ext) (simp add: relaying_def relay_justified_def)

lemma keeps_merge_identities:
  "hd msg = msg_number REQUEST_IDENTITIES \<Longrightarrow> keeps (state_ok E P) (merge_identities E P msg links acc)"
proof (induction links arbitrary: acc)
  case (Cons path links)
  have "keeps (state_ok E P) (link_request E path msg)"
    using keeps_link_request [of E P msg path] by (simp only: relaying_identities [OF Cons.prems])
  with Cons show ?case by (auto intro!: keeps_seq keeps_merge_answer)
qed (simp add: keeps)

lemma keeps_handle_identities:
  "hd msg = msg_number REQUEST_IDENTITIES \<Longrightarrow> keeps (state_ok E P) (handle_identities E P links msg)"
  unfolding handle_identities_def
  by (intro keeps_seq keeps_merge_identities) (auto simp: keeps split: option.split)

section \<open>Signing\<close>

lemma keeps_try_candidates: "keeps (relaying E P msg) (try_candidates E msg links seen best cs)"
proof (induction cs arbitrary: seen best)
  case (Cons c cs)
  show ?case
    by (auto simp: keeps split: option.split list.split intro!: Cons.IH keeps_seq keeps_link_request)
qed (simp add: keeps)

lemma keeps_sign_via_upstream: "keeps (relaying E P msg) (sign_via_upstream E blob k msg links)"
  unfolding sign_via_upstream_def by (rule keeps_on_state) (rule keeps_try_candidates)

lemma relayingD: "relaying E P msg s \<Longrightarrow> state_ok E P s"
  by (simp add: relaying_def)

text \<open>A relaying operation, followed by one that keeps the invariant.\<close>

lemma triple_relay_then:
  assumes "keeps (relaying E P msg) m" "\<And>x. keeps (state_ok E P) (f x)"
  shows "triple (relaying E P msg) (seq m f) (\<lambda>_. state_ok E P) (state_ok E P)"
proof (rule triple_seq)
  show "triple (relaying E P msg) m (\<lambda>_. state_ok E P) (state_ok E P)"
    using assms(1) unfolding keeps_iff_triple by (rule triple_conseq) (auto dest: relayingD)
  show "triple (state_ok E P) (f x) (\<lambda>_. state_ok E P) (state_ok E P)" for x
    using assms(2) unfolding keeps_iff_triple .
qed

lemma triple_relay_sign:
  "triple (relaying E P msg) (relay_sign E P purpose blob k rule msg links) (\<lambda>_. state_ok E P) (state_ok E P)"
  unfolding relay_sign_def
  by (rule triple_relay_then [OF keeps_sign_via_upstream]) (auto simp: keeps split: option.split list.split intro!: keeps_seq)

lemma triple_keeps:
  assumes "state_ok E P s0" "keeps (state_ok E P) m"
  shows "triple (\<lambda>s. s = s0) m (\<lambda>_. state_ok E P) (state_ok E P)"
  by (rule triple_conseq [OF assms(2) [unfolded keeps_iff_triple]]) (use assms(1) in auto)

text \<open>A policy asked for before relaying: the answer yes justifies the relaying that follows.\<close>

lemma triple_policy:
  assumes "state_ok E P s0" "policy \<noteq> lit ''deny''"
  shows "triple (\<lambda>s. s = s0) (if policy = lit ''allow'' then ret True else agent_prompt E title m)
    (\<lambda>ok s. state_ok E P s \<and> (ok \<longrightarrow> policy_met policy (as_trace s) m)) (state_ok E P)"
proof (cases "policy = lit ''allow''")
  case True
  then show ?thesis using assms(1) by (simp add: policy_met_def triple_def ret_def)
next
  case False
  have "triple (state_ok E P) (agent_prompt E title m)
      (\<lambda>ok s. state_ok E P s \<and> (ok \<longrightarrow> policy_met policy (as_trace s) m)) (state_ok E P)"
    by (rule triple_conseq [OF triple_agent_prompt]) (use assms(2) in \<open>auto simp: policy_met_def\<close>)
  then have "triple (\<lambda>s. s = s0) (agent_prompt E title m)
      (\<lambda>ok s. state_ok E P s \<and> (ok \<longrightarrow> policy_met policy (as_trace s) m)) (state_ok E P)"
    by (rule triple_conseq) (use assms(1) in auto)
  with False show ?thesis by simp
qed

text \<open>A message whose relaying is justified once the policy is met is relayed or refused.\<close>

lemma triple_ask_and_relay:
  assumes inv: "state_ok E P s0" and pol: "usage_policy rule purpose \<noteq> lit ''deny''"
    and just: "\<And>tr. policy_met (usage_policy rule purpose) tr (sign_prompt P k purpose) \<Longrightarrow> relay_justified E P tr msg"
  shows "triple (\<lambda>s. s = s0) (ask_and_relay E P purpose blob k rule msg links) (\<lambda>_. state_ok E P) (state_ok E P)"
  unfolding ask_and_relay_def
proof (rule triple_seq [OF triple_policy [OF inv pol]])
  show "triple (\<lambda>s. state_ok E P s \<and> (ok \<longrightarrow> policy_met (usage_policy rule purpose) (as_trace s) (sign_prompt P k purpose)))
      (if ok then relay_sign E P purpose blob k rule msg links else send_failure E) (\<lambda>_. state_ok E P) (state_ok E P)" for ok
  proof (cases ok)
    case True
    have "triple (\<lambda>s. state_ok E P s \<and> policy_met (usage_policy rule purpose) (as_trace s) (sign_prompt P k purpose))
        (relay_sign E P purpose blob k rule msg links) (\<lambda>_. state_ok E P) (state_ok E P)"
      by (rule triple_conseq [OF triple_relay_sign]) (use just in \<open>auto simp: relaying_def\<close>)
    with True show ?thesis by simp
  next
    case False
    then show ?thesis using keeps_send_failure [of E P] by (simp add: keeps_iff_triple)
  qed
qed

lemma triple_if: "(c \<Longrightarrow> triple P a Q R) \<Longrightarrow> (\<not> c \<Longrightarrow> triple P b Q R) \<Longrightarrow> triple P (if c then a else b) Q R"
  by simp

lemma triple_sign_with_key:
  assumes inv: "state_ok E P s0" and key: "as_allowed s0 blob = Some k" and msg: "hd msg = msg_number SIGN_REQUEST"
    and parsed: "parse_sign_request msg = Some (blob, data)"
  shows "triple (\<lambda>s. s = s0) (sign_with_key E P blob data k (rule_for E P (kc_id k)) msg links)
    (\<lambda>_. state_ok E P) (state_ok E P)"
proof -
  let ?rule = "rule_for E P (kc_id k)" and ?purpose = "determine_purpose (ae_keylib E) data"
  have dest: "\<exists>session_id b trust. read_string (buf data) = Some (session_id, b) \<and>
      verified_bind (ae_keylib E) session_id trust \<and> trust \<in> set (ar_hosts ?rule)"
    if "destination_allowed s0 data (ar_hosts ?rule)"
    using that state_okD(3) [OF inv] by (auto simp: destination_allowed_def split: option.splits) blast
  have just: "relay_justified E P tr msg"
    if "\<not> (?purpose = AUTH_PURPOSE \<and> ar_hosts ?rule \<noteq> [] \<and> \<not> destination_allowed s0 data (ar_hosts ?rule))"
      "policy_met (usage_policy ?rule ?purpose) tr (sign_prompt P k ?purpose)" for tr
    using that parsed msg state_okD(1) [OF inv key] dest
    by (auto simp: relay_justified_def sign_justified_def Let_def)
  show ?thesis
    unfolding sign_with_key_def Let_def
    by (intro triple_on_state triple_if triple_keeps [OF _ keeps_refuse] triple_ask_and_relay) (use inv just in auto)
qed

lemma keeps_handle_sign:
  assumes "hd msg = msg_number SIGN_REQUEST"
  shows "keeps (state_ok E P) (handle_sign_request E P links msg)"
proof (cases "parse_sign_request msg")
  case None
  then show ?thesis by (simp add: handle_sign_request_def keeps)
next
  case (Some p)
  obtain blob data where p: "p = (blob, data)" by force
  have "keeps (state_ok E P) (on_state (\<lambda>s.
          (case as_allowed s blob of
             None \<Rightarrow> refuse E (proxy_title P)
               (lit ''Forbidden key request: VM='' @ ap_name P @ lit '', Purpose='' @ determine_purpose (ae_keylib E) data)
           | Some k \<Rightarrow> (case as_rule s blob of
               None \<Rightarrow> raise KeyError
             | Some rule \<Rightarrow> sign_with_key E P blob data k rule msg links))))"
    unfolding keeps_iff_triple
  proof (rule triple_on_state)
    fix s0 assume inv: "state_ok E P s0"
    show "triple (\<lambda>s. s = s0)
          (case as_allowed s0 blob of
             None \<Rightarrow> refuse E (proxy_title P)
               (lit ''Forbidden key request: VM='' @ ap_name P @ lit '', Purpose='' @ determine_purpose (ae_keylib E) data)
           | Some k \<Rightarrow> (case as_rule s0 blob of
               None \<Rightarrow> raise KeyError
             | Some rule \<Rightarrow> sign_with_key E P blob data k rule msg links))
          (\<lambda>_. state_ok E P) (state_ok E P)"
    proof (cases "as_allowed s0 blob")
      case None
      then show ?thesis using triple_keeps [OF inv keeps_refuse] by simp
    next
      case (Some k)
      then show ?thesis
        using state_okD(2) [OF inv Some] triple_sign_with_key [OF inv Some assms \<open>parse_sign_request msg = Some p\<close> [unfolded p]]
        by simp
    qed
  qed
  then show ?thesis using Some p by (simp add: handle_sign_request_def)
qed

section \<open>Adding and removing keys\<close>

text \<open>A mutation is forwarded once its policy is met, and refused otherwise.\<close>

lemma keeps_forward_mutation_rest:
  "keeps (state_ok E P) (case resp of
     None \<Rightarrow> seq (send_failure E) (\<lambda>_. ret False)
   | Some payload \<Rightarrow> seq (agent_send E payload) (\<lambda>_. ret (payload \<noteq> [] \<and> hd payload = msg_number SUCCESS)))"
  by (auto intro!: keeps split: option.split)

lemma triple_forward_mutation:
  "triple (relaying E P msg) (forward_mutation E links msg) (\<lambda>_. state_ok E P) (state_ok E P)"
proof (cases "mutation_target E links")
  case None
  have "keeps (state_ok E P) (seq (send_failure E) (\<lambda>_. ret False))" by (intro keeps)
  then have "triple (state_ok E P) (seq (send_failure E) (\<lambda>_. ret False)) (\<lambda>_. state_ok E P) (state_ok E P)"
    unfolding keeps_iff_triple .
  then have "triple (relaying E P msg) (seq (send_failure E) (\<lambda>_. ret False)) (\<lambda>_. state_ok E P) (state_ok E P)"
    by (rule triple_conseq) (auto dest: relayingD)
  with None show ?thesis by (simp add: forward_mutation_def)
next
  case (Some target)
  show ?thesis
    unfolding forward_mutation_def Some option.case
    by (rule triple_relay_then [OF keeps_link_request keeps_forward_mutation_rest])
qed

lemma triple_forward_and_notify:
  "triple (relaying E P msg) (forward_and_notify E P rule told links msg) (\<lambda>_. state_ok E P) (state_ok E P)"
  unfolding forward_and_notify_def
proof (rule triple_seq [OF triple_forward_mutation])
  show "triple (state_ok E P) (if ok \<and> ar_notify rule then agent_notify (proxy_title P) told False else ret ())
      (\<lambda>_. state_ok E P) (state_ok E P)" for ok
    using keeps_notify [of E P "proxy_title P" told False] keeps_ret [of "state_ok E P" "()"]
    by (simp add: keeps_iff_triple)
qed

lemma triple_authorize:
  "triple (state_ok E P) (authorize_mutation E policy title m)
     (\<lambda>ok s. state_ok E P s \<and> (ok \<longrightarrow> policy_met policy (as_trace s) m)) (state_ok E P)"
  unfolding authorize_mutation_def
  by (intro triple_if triple_ret triple_conseq [OF triple_agent_prompt]) (auto simp: policy_met_def)

lemma keeps_mutation:
  assumes "\<And>tr. policy_met policy tr m \<Longrightarrow> relay_justified E P tr msg"
  shows "keeps (state_ok E P) (seq (authorize_mutation E policy title m)
    (\<lambda>ok. if ok then forward_and_notify E P rule told links msg else refuse E title2 text2))"
  unfolding keeps_iff_triple
proof (rule triple_seq [OF triple_authorize])
  show "triple (\<lambda>s. state_ok E P s \<and> (ok \<longrightarrow> policy_met policy (as_trace s) m))
      (if ok then forward_and_notify E P rule told links msg else refuse E title2 text2)
      (\<lambda>_. state_ok E P) (state_ok E P)" for ok
  proof (cases ok)
    case True
    have "triple (\<lambda>s. state_ok E P s \<and> policy_met policy (as_trace s) m)
        (forward_and_notify E P rule told links msg) (\<lambda>_. state_ok E P) (state_ok E P)"
      by (rule triple_conseq [OF triple_forward_and_notify]) (use assms in \<open>auto simp: relaying_def\<close>)
    with True show ?thesis by simp
  next
    case False
    then show ?thesis using keeps_refuse [of E P title2 text2] by (simp add: keeps_iff_triple)
  qed
qed

lemma keeps_handle_add:
  assumes "hd msg \<in> {msg_number ADD_IDENTITY, msg_number ADD_ID_CONSTRAINED}"
  shows "keeps (state_ok E P) (handle_add E P links msg)"
proof (cases "added_key E msg")
  case None
  then show ?thesis by (simp add: handle_add_def keeps)
next
  case (Some p)
  obtain key_id fingerprint key_type where p: "p = (key_id, fingerprint, key_type)" by (rule prod_cases3)
  have "relay_justified E P tr msg"
    if "policy_met (ar_add (rule_for E P key_id)) tr (add_prompt (ae_keylib E) P key_id fingerprint key_type)" for tr
    using that Some assms by (auto simp: relay_justified_def add_justified_def p)
  then show ?thesis by (simp add: handle_add_def Some p Let_def keeps_mutation)
qed

lemma keeps_handle_remove:
  assumes "hd msg \<in> {msg_number REMOVE_IDENTITY, msg_number REMOVE_ALL_IDENTITIES}"
  shows "keeps (state_ok E P) (handle_remove E P links msg)"
proof (cases "removal_of E P msg")
  case None
  then show ?thesis by (simp add: handle_remove_def keeps)
next
  case (Some p)
  obtain rule action where p: "p = (rule, action)" by force
  have "relay_justified E P tr msg"
    if "policy_met (ar_remove rule) tr (lit ''Allow '' @ ap_name P @ lit '' to '' @ action @ lit ''?'')" for tr
    using that Some assms by (auto simp: relay_justified_def remove_justified_def p)
  then show ?thesis by (simp add: handle_remove_def Some p keeps_mutation)
qed

section \<open>Extensions, and the loop\<close>

lemma keeps_bind_session:
  "verified_bind (ae_keylib E) sid trust \<Longrightarrow> keeps (state_ok E P) (bind_session sid trust)"
  unfolding bind_session_def by (rule keeps_update_op) (auto simp: state_ok_def)

lemma keeps_session_bind: "keeps (state_ok E P) (handle_session_bind E b)"
proof -
  have "verified_bind (ae_keylib E) sid trust" if "verify_bind_sig (ae_keylib E) hk sid sig = Some trust" for hk sid sig trust
    using that by (auto simp: verified_bind_def)
  then show ?thesis
    by (auto simp: handle_session_bind_def keeps split: option.split intro!: keeps_seq keeps_bind_session)
qed

lemma keeps_handle_extension: "keeps (state_ok E P) (handle_extension E msg)"
  by (auto simp: handle_extension_def keeps keeps_session_bind split: option.split)

lemma keeps_agent_message: "keeps (state_ok E P) (handle_agent_message E P links msg)"
  unfolding handle_agent_message_def Let_def handle_unknown_def
  by (simp add: keeps_handle_identities keeps_handle_sign keeps_handle_add keeps_handle_remove
      keeps_handle_extension keeps_refuse)

lemma agent_loop_ok: "state_ok E P s \<Longrightarrow> state_ok E P (agent_loop E P links st s)"
proof (induction E P links st s rule: agent_loop.induct)
  case (1 E P links st s)
  show ?case
  proof (cases "recv_msg st")
    case (Pair m st')
    show ?thesis
    proof (cases m)
      case None
      then show ?thesis using 1(2) Pair by (simp add: agent_loop.simps [of E P links st s])
    next
      case (Some msg)
      show ?thesis
      proof (cases msg)
        case Nil
        then show ?thesis using 1(2) Pair Some by (simp add: agent_loop.simps [of E P links st s])
      next
        case (Cons t r)
        obtain res s' where h: "handle_agent_message E P links (t # r) s = (res, s')" by force
        then have s': "state_ok E P s'" using keepsD [OF keeps_agent_message 1(2), of links "t # r"] by simp
        show ?thesis
        proof (cases res)
          case (Inl e)
          then show ?thesis using s' h Pair Some Cons by (simp add: agent_loop.simps [of E P links st s])
        next
          case (Inr u)
          then have "state_ok E P (agent_loop E P links st' s')"
            using 1(1) [OF Pair [symmetric] Some Cons] h s' by simp
          then show ?thesis using h Inr Pair Some Cons by (simp add: agent_loop.simps [of E P links st s])
        qed
      qed
    qed
  qed
qed

end
