(* ===== verification/AgentDemo.thy ===== *)
theory AgentDemo
  imports AgentSafety Identity
begin

text \<open>
  A concrete connection to \<open>ssh-agent-proxy\<close> for the witnesses: one configured key, one rule, one
  upstream that signs, a signature scheme whose signatures are the key followed by the message.
\<close>

lemma recv_msg_Nil: "recv_msg [] = (None, [])"
  by (simp add: recv_msg_def recv_exactly.simps recv_def)

lemma agent_loop_end: "recv_msg st = (None, st') \<Longrightarrow> agent_loop E P links st s = s"
  by (simp add: agent_loop.simps)

lemma agent_loop_step:
  "recv_msg st = (Some (t # r), st') \<Longrightarrow> handle_agent_message E P links (t # r) s = (Inr u, s') \<Longrightarrow>
     agent_loop E P links st s = agent_loop E P links st' s'"
  by (simp add: agent_loop.simps [of E P links st s])

definition demo_keylib :: keylib where
  "demo_keylib =
     \<lparr>kl_sha256 = (\<lambda>_. [1, 2, 3]), kl_hmac_sha1 = (\<lambda>_ _. []), kl_ed25519 = (\<lambda>pub sig msg. sig = pub @ msg),
      kl_rsa = (\<lambda>_ _ _ _ _. False), kl_ecdsa = (\<lambda>_ _ _ _ _. False), kl_printable = (\<lambda>_. False)\<rparr>"

definition demo_blob :: pbytes where
  "demo_blob = [0, 0, 0, 1, 65]"

definition demo_key :: key_config where
  "demo_key = \<lparr>kc_id = lit ''work'', kc_type = lit ''A'', kc_blob = demo_blob, kc_fingerprint = lit ''F'',
     kc_socket = lit ''up'', kc_explicit = False\<rparr>"

definition demo_rule :: "pstr \<Rightarrow> pbytes list \<Rightarrow> agent_rule" where
  "demo_rule auth hosts = DEFAULT_RULE\<lparr>ar_key := lit ''work'', ar_auth := auth, ar_notify := False, ar_hosts := hosts\<rparr>"

definition demo_agent_config :: "agent_rule list \<Rightarrow> agent_config" where
  "demo_agent_config rules =
     \<lparr>ac_keys = [(demo_blob, demo_key)], ac_rules = rules, ac_upstreams = [], ac_vm_by_cid = [], ac_vm_by_ip = [],
      ac_libvirt_uri = None, ac_dialog_program = None\<rparr>"

text \<open>The upstream answers a signature request with a signature and anything else with success.\<close>

definition demo_agent :: "agent_rule list \<Rightarrow> int \<Rightarrow> agent_env" where
  "demo_agent rules dialog_code =
     \<lparr>ae_keylib = demo_keylib, ae_darwin = False, ae_config = demo_agent_config rules,
      ae_request = (\<lambda>_ _ msg. Some (if hd msg = 13 then [14, 7] else [6])),
      ae_dialog = (\<lambda>_ _. Inr dialog_code), ae_write = (\<lambda>_. True)\<rparr>"

definition demo_peer :: agent_peer where
  "demo_peer = \<lparr>ap_name = lit ''local'', ap_identity = None, ap_listener = None, ap_resolved = []\<rparr>"

text \<open>Data that counts as an SSH authentication in the session \<open>[5]\<close>, and the request to sign it.\<close>

definition demo_auth_data :: pbytes where
  "demo_auth_data = [0, 0, 0, 1, 5, 50]"

definition demo_sign_request :: pbytes where
  "demo_sign_request = [13] @ [0, 0, 0, 5] @ demo_blob @ [0, 0, 0, 6] @ demo_auth_data"

definition demo_start :: "agent_rule list \<Rightarrow> agent_state" where
  "demo_start rules = initial_state (preruled (demo_agent_config rules) None None)"

lemma demo_received: "recv_msg [Data ([0, 0, 0, 20] @ demo_sign_request)] = (Some demo_sign_request, [])"
  by (simp add: recv_msg_def recv_exactly.simps recv_def read_int_def buf_def big_endian_def demo_sign_request_def
      demo_blob_def demo_auth_data_def MAX_AGENT_MSG_LEN_def)

lemma demo_parsed: "parse_sign_request demo_sign_request = Some (demo_blob, demo_auth_data)"
  by (simp add: parse_sign_request_def read_byte_def read_string_def read_int_def buf_def big_endian_def
      demo_sign_request_def demo_blob_def demo_auth_data_def)

lemma demo_purpose: "determine_purpose K demo_auth_data = AUTH_PURPOSE"
  by (simp add: determine_purpose_def read_byte_def read_string_def read_int_def buf_def big_endian_def has_data_def
      demo_auth_data_def startswith_def lit_def)

lemma demo_matches: "agent_rule_matches (demo_rule auth hosts) (lit ''work'', None, None)"
  by (simp add: agent_rule_matches_def demo_rule_def DEFAULT_RULE_def matches_key_def has_wildcard_def matches_machine_def
      matches_listener_def lit_def)

lemma demo_allowed:
  "as_allowed (demo_start [demo_rule auth hosts]) demo_blob = Some demo_key"
  "as_rule (demo_start [demo_rule auth hosts]) demo_blob = Some (demo_rule auth hosts)"
  "as_owner (demo_start [demo_rule auth hosts]) = (\<lambda>_. None)"
  "as_bound (demo_start [demo_rule auth hosts]) = (\<lambda>_. None)"
  "as_trace (demo_start [demo_rule auth hosts]) = []"
  using demo_matches [of auth hosts]
  by (simp_all add: demo_start_def initial_state_def preruled_def demo_agent_config_def demo_key_def)

lemma ssh_string_short [simp]: "ssh_string [a] = Some [0, 0, 0, 1, a]" "ssh_string [a, b] = Some [0, 0, 0, 2, a, b]"
  by (simp_all add: ssh_string_def pack_u32_def)

lemma demo_rule_simps [simp]:
  "ar_auth (demo_rule auth hosts) = auth" "ar_hosts (demo_rule auth hosts) = hosts" "ar_notify (demo_rule auth hosts) = False"
  "ar_data_signing (demo_rule auth hosts) = lit ''deny''" "ar_add (demo_rule auth hosts) = lit ''deny''"
  by (simp_all add: demo_rule_def DEFAULT_RULE_def)

lemma demo_agent_simps [simp]:
  "ae_keylib (demo_agent rules code) = demo_keylib" "ae_config (demo_agent rules code) = demo_agent_config rules"
  "ae_request (demo_agent rules code) tr path msg = Some (if hd msg = 13 then [14, 7] else [6])"
  "ae_dialog (demo_agent rules code) tr argv = Inr code" "ae_write (demo_agent rules code) tr"
  by (simp_all add: demo_agent_def)

lemma demo_signed:
  "as_trace (agent_loop (demo_agent [demo_rule (lit ''allow'') []] 1) demo_peer [lit ''up'']
      [Data ([0, 0, 0, 20] @ demo_sign_request)] (demo_start [demo_rule (lit ''allow'') []])) =
   [Relayed (lit ''up'') demo_sign_request (Some [14, 7]), Replied [14, 7]]"
proof -
  have h: "hd demo_sign_request = 13" "demo_sign_request = 13 # tl demo_sign_request" by (simp_all add: demo_sign_request_def)
  have m: "recv_msg [Data ([0, 0, 0, 20] @ demo_sign_request)] = (Some (13 # tl demo_sign_request), [])"
    unfolding demo_received using h(2) by simp
  have "\<exists>s'. handle_agent_message (demo_agent [demo_rule (lit ''allow'') []] 1) demo_peer [lit ''up''] demo_sign_request
      (demo_start [demo_rule (lit ''allow'') []]) = (Inr (), s')
    \<and> as_trace s' = [Relayed (lit ''up'') demo_sign_request (Some [14, 7]), Replied [14, 7]]"
    by (simp add: handle_agent_message_def h(1) handle_sign_request_def demo_parsed on_state_def demo_allowed sign_with_key_def
        demo_purpose ask_and_relay_def usage_policy_def relay_sign_def sign_via_upstream_def sign_candidates_def demo_key_def
        Let_def link_request_def agent_send_def seq_def ret_def record_event_def update_op_def)
  then show ?thesis
    using agent_loop_step [OF m] agent_loop_end [OF recv_msg_Nil] h(2) by fastforce
qed

text \<open>The local listener it arrives on.\<close>

definition demo_agent_listener :: agent_listener where
  "demo_agent_listener =
     \<lparr>al_transport = lit ''unix'', al_host = PStr [], al_port = PInt 0, al_cid = PInt 2, al_socket = None, al_socket_dir_mode = PNone,
      al_socket_mode = PNone, al_connect_timeout = PInt 1, al_handshake_timeout = PInt 1, al_decision_timeout = 1,
      al_resolution = lit ''none'', al_encryption = lit ''none'', al_client_auth = lit ''none'',
      al_server_auth = lit ''none'', al_mtls_enable = False, al_ca_file = PNone, al_cert_file = PNone, al_key_file = PNone,
      al_required_oid = PNone, al_peer_required_oid = PNone, al_name = None, al_scan_dirs = False, al_session_socket = False\<rparr>"

lemma demo_setup:
  "fst (agent_setup X C demo_host L (demo_agent_config [demo_rule auth hosts]) demo_agent_listener now cache demo_sock FromUnix) =
     Inr (Some (demo_peer, [lit ''up''], demo_start [demo_rule auth hosts]))"
proof -
  have "authorize_unix_peer demo_host demo_sock = Inr (Some 1000)"
    by (simp add: authorize_unix_peer_def unix_peer_cred_def demo_host_def demo_sock_def)
  moreover have "\<not> sk_tls demo_sock" by (simp add: demo_sock_def)
  moreover have "initial_sockets (demo_agent_config [demo_rule auth hosts])
      (preruled (demo_agent_config [demo_rule auth hosts]) None None) = [lit ''up'']"
    using demo_matches [of auth hosts]
    by (simp add: initial_sockets_def preruled_def demo_agent_config_def demo_key_def upstream_order_def)
  ultimately show ?thesis
    by (simp add: agent_setup_def identify_address_def resolve_peer_def demo_agent_listener_def demo_peer_def demo_start_def
        Let_def) (simp add: demo_agent_config_def upstream_order_def)
qed

lemma demo_dialled:
  "dial_links (dial_target demo_host None (demo_agent_config rules)) (\<lambda>_. Inr ()) [lit ''up''] [] = Inr [lit ''up'']"
proof -
  have "dial_target demo_host None (demo_agent_config rules) (lit ''up'') \<noteq> NoTarget"
    by (simp add: dial_target_def upstream_by_id_def demo_agent_config_def plain_target_def agent_expand_socket_path_def
        path_of_def path_expanduser_def startswith_def lit_def)
  then show ?thesis by simp
qed

end
