(* ===== verification/AgentFacts.thy ===== *)
theory AgentFacts
  imports AgentDemo Chain
begin

text \<open>
  The properties of \<open>ssh-agent-proxy\<close> that rest on the invariant of its handler, and the places
  where its code does not keep what its comments promise.
\<close>

section \<open>Nothing reaches an upstream unauthorised\<close>

lemma map_of_filtered:
  "distinct (map fst xs) \<Longrightarrow>
   map_of (concat (map (\<lambda>(b, k). case f k of None \<Rightarrow> [] | Some r \<Rightarrow> [(b, h k r)]) xs)) b =
     (case map_of xs b of None \<Rightarrow> None | Some k \<Rightarrow> map_option (h k) (f k))"
proof (induction xs)
  case (Cons x xs)
  obtain b' k where x: "x = (b', k)" by force
  have "map_of xs b' = None" using Cons.prems x by (auto simp: map_of_eq_None_iff)
  then show ?case using Cons x by (auto split: option.split)
qed simp

lemma preruled_pairs:
  "map (\<lambda>(blob, k, r). (blob, h k r)) (preruled cfg identity listener) =
     concat (map (\<lambda>(blob, k). case match_rule (ac_rules cfg) (kc_id k, identity, listener) of
       None \<Rightarrow> [] | Some r \<Rightarrow> [(blob, h k r)]) (ac_keys cfg))"
  unfolding preruled_def map_concat map_map
  by (rule arg_cong [where f = concat], rule map_cong) (auto split: option.split)

lemma initial_state_ok:
  assumes "distinct (map fst (ac_keys (ae_config E)))"
  shows "state_ok E P (initial_state (preruled (ae_config E) (ap_identity P) (ap_listener P)))"
proof -
  let ?pre = "preruled (ae_config E) (ap_identity P) (ap_listener P)"
  let ?rule = "\<lambda>k. match_rule (ac_rules (ae_config E)) (kc_id k, ap_identity P, ap_listener P)"
  have keys: "map_of (map (\<lambda>(blob, k, r). (blob, k)) ?pre) blob =
      (case map_of (ac_keys (ae_config E)) blob of None \<Rightarrow> None | Some k \<Rightarrow> map_option (\<lambda>r. k) (?rule k))" for blob
    using map_of_filtered [OF assms, of "\<lambda>k r. k" ?rule blob] unfolding preruled_pairs [of "\<lambda>k r. k"] .
  have rules: "map_of (map (\<lambda>(blob, k, r). (blob, r)) ?pre) blob =
      (case map_of (ac_keys (ae_config E)) blob of None \<Rightarrow> None | Some k \<Rightarrow> map_option (\<lambda>r. r) (?rule k))" for blob
    using map_of_filtered [OF assms, of "\<lambda>k r. r" ?rule blob] unfolding preruled_pairs [of "\<lambda>k r. r"] .
  show ?thesis
    by (auto simp: state_ok_def initial_state_def keys rules known_key_def rule_for_def governing_rule_def query_of_def
        split: option.splits)
qed

text \<open>Only the name, the identity and the listener of the peer matter to what is justified.\<close>

lemma relay_justified_peer:
  assumes "ap_name P' = ap_name P" "ap_identity P' = ap_identity P" "ap_listener P' = ap_listener P"
  shows "relay_justified E P' = relay_justified E P"
proof -
  have "rule_for E P' = rule_for E P" by (rule ext) (simp add: rule_for_def query_of_def assms)
  moreover from this have "removal_of E P' = removal_of E P" by (intro ext) (simp add: removal_of_def)
  ultimately show ?thesis
    by (intro ext) (simp add: relay_justified_def sign_justified_def add_justified_def remove_justified_def
        sign_prompt_def add_prompt_def assms)
qed

lemma setup_start:
  assumes "fst (agent_setup X C H L cfg l now cache sk addr) = Inr (Some (P, sockets, s))"
  shows "s = initial_state (preruled cfg (ap_identity P) (ap_listener P))"
  using assms by (auto simp: agent_setup_def Let_def split: sum.splits exn.splits prod.splits if_splits)

lemma session_sockets_peer:
  "session_sockets cfg l kind realpath env P sockets = Inr (P', sockets') \<Longrightarrow>
     ap_name P' = ap_name P \<and> ap_identity P' = ap_identity P \<and> ap_listener P' = ap_listener P"
  by (auto simp: session_sockets_def Let_def split: if_splits sum.splits)

text \<open>
  C3: Whatever a client sends, and however upstreams, dialogs and the socket behave: on a connection
  that was set up and handled, each message that reached an upstream agent is a request for
  the list of identities, or a signature request, an addition or a removal that the governing
  rule allows, or that the rule leaves to the approver and the approver has just approved; a
  signature for an SSH authentication under a rule with destinations names a session that was
  bound, with a verified signature, to one of them. No other message is ever relayed.
\<close>

theorem nothing_is_relayed_unauthorised:
  assumes "distinct (map fst (ac_keys (ae_config E)))"
    and "fst (agent_setup X C H L (ae_config E) l now cache sk addr) = Inr (Some (P, sockets, s))"
    and "agent_handle E H launchctl l kind realpath env dial st P sockets s = Inr s'"
    and "as_trace s' = us @ Relayed path msg resp # vs"
  shows "relay_justified E P us msg"
proof -
  obtain P' sockets' links where h: "session_sockets (ae_config E) l kind realpath env P sockets = Inr (P', sockets')"
    "s' = agent_loop E P' links st s"
    using assms(3) by (auto simp: agent_handle_def split: sum.splits)
  have p: "ap_name P' = ap_name P" "ap_identity P' = ap_identity P" "ap_listener P' = ap_listener P"
    using session_sockets_peer [OF h(1)] by simp_all
  have "state_ok E P' s"
    using initial_state_ok [OF assms(1), of P'] setup_start [OF assms(2)] p by simp
  then have "state_ok E P' s'" unfolding h(2) by (rule agent_loop_ok)
  then have "trace_ok E P' (as_trace s')" by (rule state_okD)
  then show ?thesis
    unfolding trace_ok_def relay_justified_peer [OF p] using assms(4) by blast
qed

theorem nothing_is_relayed_unauthorised_witness:
  "relay_justified (demo_agent [demo_rule (lit ''allow'') []] 1) demo_peer [] demo_sign_request"
proof -
  let ?E = "demo_agent [demo_rule (lit ''allow'') []] 1" and ?st = "[Data ([0, 0, 0, 20] @ demo_sign_request)]"
  let ?s = "demo_start [demo_rule (lit ''allow'') []]"
  have d: "distinct (map fst (ac_keys (ae_config ?E)))" by (simp add: demo_agent_config_def)
  have h: "agent_handle ?E demo_host None demo_agent_listener (\<lambda>_. Missing) (\<lambda>p. p) None (\<lambda>_. Inr ()) ?st demo_peer [lit ''up''] ?s =
      Inr (agent_loop ?E demo_peer [lit ''up''] ?st ?s)"
    using demo_dialled [of "[demo_rule (lit ''allow'') []]"] unfolding agent_handle_def
    by (simp add: session_sockets_def demo_agent_listener_def del: dial_links.simps)
  have t: "as_trace (agent_loop ?E demo_peer [lit ''up''] ?st ?s) =
      [] @ Relayed (lit ''up'') demo_sign_request (Some [14, 7]) # [Replied [14, 7]]"
    using demo_signed by simp
  show ?thesis
    by (rule nothing_is_relayed_unauthorised [OF d _ h t]) (simp only: demo_agent_simps, rule demo_setup)
qed

section \<open>One reply per message\<close>

fun is_reply :: "agent_event \<Rightarrow> bool" where
  "is_reply (Replied p) = True"
| "is_reply e = False"

definition replies :: "agent_state \<Rightarrow> nat" where
  "replies s = length (filter is_reply (as_trace s))"

text \<open>An operation that sends \<open>n\<close> replies, or fewer and an exception.\<close>

definition replying :: "nat \<Rightarrow> 'a agent_op \<Rightarrow> bool" where
  "replying n m \<longleftrightarrow> (\<forall>s. case m s of
     (Inr x, s') \<Rightarrow> replies s' = replies s + n | (Inl e, s') \<Rightarrow> replies s' \<le> replies s + n)"

named_theorems replying \<open>how many replies an operation sends\<close>

lemma replying_seq: "replying n m \<Longrightarrow> (\<And>x. replying k (f x)) \<Longrightarrow> replying (n + k) (seq m f)"
  unfolding replying_def seq_def by (fastforce split: prod.splits sum.splits)

lemma replying_seq_first: "replying n m \<Longrightarrow> (\<And>x. replying 0 (f x)) \<Longrightarrow> replying n (seq m f)"
  using replying_seq [of n m 0 f] by simp

lemma replying_seq_last: "replying 0 m \<Longrightarrow> (\<And>x. replying n (f x)) \<Longrightarrow> replying n (seq m f)"
  using replying_seq [of 0 m n f] by simp

lemma replying_ret [replying]: "replying 0 (ret x)"
  by (simp add: replying_def ret_def)

lemma replying_raise [replying]: "replying n (raise e)"
  by (simp add: replying_def raise_def)

lemma replying_pure_op [replying]: "replying 0 (pure_op r)"
  by (cases r) (simp_all add: replying_def pure_op_def)

lemma replying_on_state: "(\<And>s. replying n (f s)) \<Longrightarrow> replying n (on_state f)"
  by (simp add: replying_def on_state_def)


lemma replying_record: "replying (if is_reply e then 1 else 0) (record_event e)"
  by (simp add: replying_def record_event_def update_op_def replies_def)

lemma replying_reply: "replying (Suc 0) (record_event (Replied p))"
  using replying_record [of "Replied p"] by simp

lemma replying_quiet [replying]:
  "replying 0 (record_event (Notified t m c))" "replying 0 (record_event (Prompted t m ok))"
  "replying 0 (record_event (Relayed p m r))"
  using replying_record [of "Notified t m c"] replying_record [of "Prompted t m ok"] replying_record [of "Relayed p m r"]
  by simp_all

lemma replying_notify [replying]: "replying 0 (agent_notify t m c)"
  by (simp add: agent_notify_def replying)

lemma replying_send [replying]: "replying (Suc 0) (agent_send E payload)"
  unfolding agent_send_def
  by (auto intro!: replying_on_state replying_raise replying_reply)

lemma replying_failure [replying]: "replying (Suc 0) (send_failure E)"
  unfolding send_failure_def by (rule replying_send)

lemma replying_refuse [replying]: "replying (Suc 0) (refuse E t m)"
  unfolding refuse_def by (intro replying_seq_last replying)


lemma replying_prompt [replying]: "replying 0 (agent_prompt E t m)"
  unfolding agent_prompt_def by (intro replying_on_state replying_seq_first replying)


















section \<open>Rules for named machines\<close>

text \<open>How a listener establishes the name of a peer.\<close>

definition statically_named :: "libvirt \<Rightarrow> agent_config \<Rightarrow> client_address \<Rightarrow> pstr \<Rightarrow> bool" where
  "statically_named L cfg addr n \<longleftrightarrow>
     (case addr of
        FromVsock cid \<Rightarrow> map_of (ac_vm_by_cid cfg) cid = Some n
          \<or> (\<exists>uri. ac_libvirt_uri cfg = Some uri \<and> resolve_cid L uri cid = Some n)
      | FromTcp ip \<Rightarrow> map_of (ac_vm_by_ip cfg) ip = Some n
      | FromUnix \<Rightarrow> False)"

definition established ::
  "lib \<Rightarrow> host \<Rightarrow> libvirt \<Rightarrow> agent_config \<Rightarrow> agent_listener \<Rightarrow> int \<Rightarrow> mofos_cache \<Rightarrow> sock \<Rightarrow> client_address \<Rightarrow> pstr \<Rightarrow> bool" where
  "established X H L cfg l now cache sk addr n \<longleftrightarrow>
     (al_resolution l = lit ''certificate'' \<and> sk_tls sk \<and> cert_common_name sk = Some n)
     \<or> (al_resolution l = lit ''tartarus'' \<and> statically_named L cfg addr n)
     \<or> (al_resolution l = lit ''mofos'' \<and> (\<exists>peer. fst (resolve_mofos_name X H now cache peer) = Some n))"

lemma resolve_peer_identity:
  assumes "resolve_peer X H now cache mode tls sk static_name label peer = ((shown_label, Some n), cache')"
  shows "(mode = lit ''certificate'' \<and> tls \<and> cert_common_name sk = Some n)
    \<or> (mode = lit ''tartarus'' \<and> static_name = Some n)
    \<or> (mode = lit ''mofos'' \<and> fst (resolve_mofos_name X H now cache peer) = Some n)"
  using assms by (auto simp: resolve_peer_def Let_def split: if_splits option.splits prod.splits)

lemma identify_static:
  "identify_address H L cfg sk addr = Inr (Some n, peer, label) \<Longrightarrow> statically_named L cfg addr n"
  by (auto simp: identify_address_def statically_named_def split: client_address.splits option.splits sum.splits if_splits)

lemma setup_identity:
  assumes "fst (agent_setup X C H L cfg l now cache sk addr) = Inr (Some (P, sockets, s))" and "ap_identity P = Some n"
  shows "established X H L cfg l now cache sk addr n"
proof -
  obtain static_name peer label where i: "identify_address H L cfg sk addr = Inr (static_name, peer, label)"
    and r: "snd (fst (resolve_peer X H now cache (al_resolution l) (sk_tls sk) sk static_name label peer)) = Some n"
    using assms by (auto simp: agent_setup_def Let_def split: sum.splits exn.splits prod.splits if_splits)
  obtain shown_label cache' where "resolve_peer X H now cache (al_resolution l) (sk_tls sk) sk static_name label peer =
      ((shown_label, Some n), cache')"
    using r by (metis prod.collapse)
  from resolve_peer_identity [OF this] show ?thesis
    using i identify_static by (auto simp: established_def)
qed

text \<open>
  C15: A rule with a machine pattern other than \<open>*\<close> governs a connection only when the listener's mode
  of identification gave the peer a name and the name matches the rule: the common name of a
  verified certificate, the name configured for (or that libvirt has for) its address, or the
  one \<open>mofos\<close> lists. A peer without a name is governed by a rule for all machines or by the
  default, which asks.
\<close>

theorem agent_machine_rule_needs_identity:
  assumes "fst (agent_setup X C H L (ae_config E) l now cache sk addr) = Inr (Some (P, sockets, s))"
    and "pattern \<in> set (ar_machine (rule_for E P key_id))" and "pattern \<noteq> lit ''*''"
  shows "\<exists>n. ap_identity P = Some n \<and> established X H L (ae_config E) l now cache sk addr n
    \<and> (\<exists>p \<in> set (ar_machine (rule_for E P key_id)). fnmatchcase n p)"
proof -
  have "rule_for E P key_id \<noteq> DEFAULT_RULE" using assms(2) by (auto simp: DEFAULT_RULE_def)
  then have "agent_rule_matches (rule_for E P key_id) (query_of P key_id)"
    using governing.eval_decided_by [of "ac_rules (ae_config E)" "query_of P key_id"] by (auto simp: rule_for_def)
  then have m: "matches_machine (rule_for E P key_id) (ap_identity P)"
    by (simp add: agent_rule_matches_def query_of_def)
  show ?thesis
  proof (cases "ap_identity P")
    case None
    then show ?thesis using m assms(2,3) by (auto simp: matches_machine_def)
  next
    case (Some n)
    then show ?thesis using m assms(2) setup_identity [OF assms(1) Some] by (auto simp: matches_machine_def)
  qed
qed

definition demo_vm_config :: agent_config where
  "demo_vm_config = (demo_agent_config [DEFAULT_RULE\<lparr>ar_machine := [lit ''vm*'']\<rparr>])\<lparr>ac_vm_by_cid := [(7, lit ''vm1'')]\<rparr>"

theorem agent_machine_rule_needs_identity_witness:
  "\<exists>P sockets s.
     fst (agent_setup demo_lib demo_crypto demo_host (\<lambda>_. None) demo_vm_config
       (demo_agent_listener\<lparr>al_resolution := lit ''tartarus''\<rparr>) 0 None demo_sock (FromVsock 7)) = Inr (Some (P, sockets, s))
     \<and> ap_identity P = Some (lit ''vm1'') \<and> fnmatchcase (lit ''vm1'') (lit ''vm*'')"
proof -
  let ?l = "demo_agent_listener\<lparr>al_resolution := lit ''tartarus''\<rparr>"
  let ?E = "(demo_agent [] 1)\<lparr>ae_config := demo_vm_config\<rparr>"
  have m: "fnmatchcase (lit ''vm1'') (lit ''vm*'')" by (simp add: fnmatchcase_def lit_def)
  obtain P sockets s where start: "fst (agent_setup demo_lib demo_crypto demo_host (\<lambda>_. None) (ae_config ?E) ?l 0 None
      demo_sock (FromVsock 7)) = Inr (Some (P, sockets, s))" and P: "ap_identity P = Some (lit ''vm1'')" "ap_listener P = None"
    by (simp add: agent_setup_def identify_address_def demo_sock_def demo_vm_config_def resolve_peer_def Let_def
        demo_agent_listener_def)
  have r: "ar_machine (rule_for ?E P (lit ''k'')) = [lit ''vm*'']"
    using P m by (simp add: rule_for_def governing_rule_def query_of_def demo_vm_config_def demo_agent_config_def
        agent_rule_matches_def matches_key_def has_wildcard_def matches_machine_def matches_listener_def DEFAULT_RULE_def lit_def)
  have "lit ''vm*'' \<in> set (ar_machine (rule_for ?E P (lit ''k'')))" "lit ''vm*'' \<noteq> lit ''*''"
    by (simp add: r) (simp add: lit_def)
  from agent_machine_rule_needs_identity [OF start this] show ?thesis using start P m r by auto
qed

section \<open>Texts in the dialog script\<close>

text \<open>What follows the closing quote of an AppleScript literal, given what follows the opening one.\<close>

fun after_literal :: "pstr \<Rightarrow> pstr option" where
  "after_literal [] = None"
| "after_literal (c # s) =
     (if c = 34 then Some s
      else if c = 92 then (case s of [] \<Rightarrow> None | _ # s' \<Rightarrow> after_literal s')
      else after_literal s)"

lemma json_hex_plain: "d < 16 \<Longrightarrow> json_hex d \<noteq> 34 \<and> json_hex d \<noteq> 92 \<and> 32 \<le> json_hex d \<and> json_hex d < 127"
  by (simp add: json_hex_def)

lemma after_unicode_escape: "after_literal (unicode_escape c @ s) = after_literal s"
  using json_hex_plain [of "c div 4096 mod 16"] json_hex_plain [of "c div 256 mod 16"] json_hex_plain [of "c div 16 mod 16"]
    json_hex_plain [of "c mod 16"]
  by (simp add: unicode_escape_def lit_def)

lemma after_ascii_escape: "after_literal (ascii_escape c @ s) = after_literal s"
  by (simp add: ascii_escape_def after_unicode_escape del: after_literal.simps) simp

lemma after_escapes: "after_literal (concat (map ascii_escape m) @ 34 # s) = Some s"
  by (induction m) (simp_all add: after_ascii_escape del: after_literal.simps, simp)

lemma unicode_escape_printable: "\<forall>x \<in> set (unicode_escape c). 32 \<le> x \<and> x < 127"
  using json_hex_plain [of "c div 4096 mod 16"] json_hex_plain [of "c div 256 mod 16"] json_hex_plain [of "c div 16 mod 16"]
    json_hex_plain [of "c mod 16"]
  by (simp add: unicode_escape_def lit_def)

lemma ascii_escape_printable: "\<forall>x \<in> set (ascii_escape c). 32 \<le> x \<and> x < 127"
  by (simp add: ascii_escape_def ball_Un unicode_escape_printable)

text \<open>
  The script given to \<open>osascript\<close> holds the message and the title as literals that nothing in them
  can close early or break over a line: whatever a client puts into a key's comment or a
  namespace, the script has the fixed commands and nothing else.
\<close>

theorem dialog_text_stays_quoted:
  "\<exists>script quoted_title rest. agent_osascript_argv title message = [lit ''osascript'', lit ''-e'', lit ''display dialog '' @ 34 # script]
    \<and> after_literal script = Some (lit '' with title '' @ 34 # quoted_title)
    \<and> after_literal quoted_title = Some rest
    \<and> rest = lit '' with icon caution buttons {\"No\", \"Yes\"} default button \"Yes\" cancel button \"No\"''
    \<and> list_all (\<lambda>c. 32 \<le> c \<and> c < 127) script"
proof -
  let ?rest = "lit '' with icon caution buttons {\"No\", \"Yes\"} default button \"Yes\" cancel button \"No\"''"
  let ?title = "concat (map ascii_escape title) @ 34 # ?rest"
  let ?script = "concat (map ascii_escape message) @ 34 # lit '' with title '' @ 34 # ?title"
  have "\<forall>c \<in> set ?rest. 32 \<le> c \<and> c < 127" "\<forall>c \<in> set (lit '' with title ''). 32 \<le> c \<and> c < 127"
    by (simp_all add: lit_def)
  then have "list_all (\<lambda>c. 32 \<le> c \<and> c < 127) ?script"
    using ascii_escape_printable by (auto simp: list_all_iff)
  moreover have "agent_osascript_argv title message = [lit ''osascript'', lit ''-e'', lit ''display dialog '' @ 34 # ?script]"
    by (simp add: agent_osascript_argv_def json_ascii_def)
  ultimately show ?thesis
    using after_escapes [of message "lit '' with title '' @ 34 # ?title"] after_escapes [of title ?rest] by blast
qed

end
