(* ===== verification/AgentGaps.thy ===== *)
theory AgentGaps
  imports AgentFacts
begin

text \<open>
  Where \<open>ssh-agent-proxy\<close> does not keep what its comments and its documentation promise, each as a
  theorem about the handler: a made-up certificate unlocks every destination, a rule for a key id
  with brackets never applies to that key, and the type of an added key forges lines of the dialog.
\<close>

section \<open>A made-up certificate unlocks every destination\<close>

definition bind_message :: "pbytes \<Rightarrow> pbytes \<Rightarrow> pbytes \<Rightarrow> pbytes" where
  "bind_message hostkey sid sig = msg_number EXTENSION # strings [SESSION_BIND, hostkey, sid, sig] @ [0]"

lemma bind_message_handled:
  assumes "length hostkey < 2 ^ 32" "length sid < 2 ^ 32" "length sig < 2 ^ 32"
  shows "\<exists>b. parse_session_bind b = Some (hostkey, sid, sig)
    \<and> handle_agent_message E P links (bind_message hostkey sid sig) = handle_session_bind E b"
proof -
  obtain b1 where b1: "read_byte (buf (bind_message hostkey sid sig)) = Some (msg_number EXTENSION, b1)"
    and l1: "left b1 = agent_frame SESSION_BIND @ strings [hostkey, sid, sig] @ [0]"
    using read_byte_left [of "buf (bind_message hostkey sid sig)"] by (auto simp: bind_message_def)
  have s: "length SESSION_BIND < 2 ^ 32" by (simp add: SESSION_BIND_def)
  obtain b2 where b2: "read_string b1 = Some (SESSION_BIND, b2)" and l2: "left b2 = agent_frame hostkey @ strings [sid, sig] @ [0]"
    using read_string_frame [OF l1 s] by auto
  obtain b3 where b3: "read_string b2 = Some (hostkey, b3)" and l3: "left b3 = agent_frame sid @ strings [sig] @ [0]"
    using read_string_frame [OF l2 assms(1)] by auto
  obtain b4 where b4: "read_string b3 = Some (sid, b4)" and l4: "left b4 = agent_frame sig @ [0]"
    using read_string_frame [OF l3 assms(2)] by auto
  obtain b5 where b5: "read_string b4 = Some (sig, b5)" and l5: "left b5 = [0]"
    using read_string_frame [OF l4 assms(3)] by auto
  obtain b6 where b6: "read_byte b5 = Some (0, b6)" using read_byte_left [OF l5] by blast
  have "parse_session_bind b2 = Some (hostkey, sid, sig)"
    by (simp add: parse_session_bind_def b3 b4 b5 b6)
  moreover have "decode_replace SESSION_BIND = SESSION_BIND"
    unfolding SESSION_BIND_def by (rule decode_replace_of_lit) (simp add: ascii_def lit_def)
  then have "handle_agent_message E P links (bind_message hostkey sid sig) = handle_session_bind E b2"
    using b1 b2 by (simp add: handle_agent_message_def bind_message_def handle_extension_def)
  ultimately show ?thesis by blast
qed

lemma length_agent_frame: "length x < 2 ^ 32 \<Longrightarrow> length (agent_frame x) = length x + 4"
  using ssh_stringE [OF agent_frame_string [of x]] by (metis add.commute length_append)

lemma length_made_up_cert:
  "length own < 2 ^ 16 \<Longrightarrow> length ca < 2 ^ 16 \<Longrightarrow> length (made_up_cert own ca) < 2 ^ 32"
  by (simp add: made_up_cert_def length_agent_frame CERT_TYPE_def)

lemma short_frame_not_sshsig:
  assumes "length sid < 2 ^ 16"
  shows "\<not> startswith (lit ''SSHSIG'') (agent_frame sid @ r)"
proof -
  have "pack_u32 (length sid) = Some [0, length sid div 65536 mod 256, length sid div 256 mod 256, length sid mod 256]"
    using assms by (simp add: pack_u32_def)
  then have "agent_frame sid = [0, length sid div 65536 mod 256, length sid div 256 mod 256, length sid mod 256] @ sid"
    by (simp add: agent_frame_def ssh_string_def)
  then show ?thesis by (simp add: startswith_def lit_def)
qed

lemma auth_data:
  assumes "length sid < 2 ^ 16"
  shows "determine_purpose K (agent_frame sid @ 50 # r) = AUTH_PURPOSE"
    and "\<exists>b. read_string (buf (agent_frame sid @ 50 # r)) = Some (sid, b)"
proof -
  obtain b where b: "read_string (buf (agent_frame sid @ 50 # r)) = Some (sid, b)" "left b = 50 # r"
    by (rule read_string_frame [of "buf (agent_frame sid @ 50 # r)" sid]) (use assms in auto)
  then show "\<exists>b. read_string (buf (agent_frame sid @ 50 # r)) = Some (sid, b)" by blast
  obtain b' where "read_byte b = Some (50, b')" using read_byte_left [OF b(2)] by blast
  then show "determine_purpose K (agent_frame sid @ 50 # r) = AUTH_PURPOSE"
    using b short_frame_not_sshsig [OF assms] by (simp add: determine_purpose_def has_data_left)
qed

text \<open>
  C17: The signature of the authority over a host certificate is never checked. A guest with any key
  pair of its own sends one message: a certificate it made up, which names the public key of an
  authority the rule trusts, and its own signature of a session. From then on the proxy signs
  authentications in that session as for a destination the rule allows.
\<close>

theorem forged_certificate_unlocks_destination:
  assumes "verify_key_signature (ae_keylib E) own sig sid" and "ca \<in> set (ar_hosts rule)"
    and "length own < 2 ^ 16" and "length ca < 2 ^ 16" and "length sid < 2 ^ 16" and "length sig < 2 ^ 16"
    and "\<forall>tr. ae_write E tr" and "ar_auth rule \<noteq> lit ''deny''"
  shows "\<exists>s'. handle_agent_message E P links (bind_message (made_up_cert own ca) sid sig) s = (Inr (), s')
    \<and> (\<forall>rest. sign_with_key E P blob (agent_frame sid @ 50 # rest) k rule raw links s' =
                ask_and_relay E P AUTH_PURPOSE blob k rule raw links s')"
proof -
  have l: "length own < 2 ^ 32" "length ca < 2 ^ 32" "length sid < 2 ^ 32" "length sig < 2 ^ 32"
    using assms(3-6) by simp_all
  obtain b where p: "parse_session_bind b = Some (made_up_cert own ca, sid, sig)"
    and h: "handle_agent_message E P links (bind_message (made_up_cert own ca) sid sig) = handle_session_bind E b"
    using bind_message_handled [OF length_made_up_cert [OF assms(3,4)] l(3,4)] by blast
  have v: "verify_bind_sig (ae_keylib E) (made_up_cert own ca) sid sig = Some ca"
    using split_made_up [OF l(1,2)] assms(1) by (simp add: verify_bind_sig_def)
  obtain s' where s': "handle_session_bind E b s = (Inr (), s')" and bound: "as_bound s' sid = Some ca"
    using assms(7)
    by (simp add: handle_session_bind_def p v bind_session_def seq_def update_op_def agent_send_def on_state_def record_event_def)
  have "sign_with_key E P blob (agent_frame sid @ 50 # rest) k rule raw links s' =
      ask_and_relay E P AUTH_PURPOSE blob k rule raw links s'" for rest
  proof -
    have "destination_allowed s' (agent_frame sid @ 50 # rest) (ar_hosts rule)"
      using auth_data(2) [OF assms(5), of rest] bound assms(2) by (auto simp: destination_allowed_def)
    then show ?thesis
      using auth_data(1) [OF assms(5), of _ rest] assms(8)
      by (simp add: sign_with_key_def on_state_def Let_def usage_policy_def)
  qed
  then show ?thesis using s' h by auto
qed

text \<open>The scheme of the demonstration accepts the key followed by the message.\<close>

definition demo_own_key :: pbytes where
  "demo_own_key = strings [lit ''ssh-ed25519'', [1]]"

theorem forged_certificate_unlocks_destination_witness:
  "\<exists>s'. handle_agent_message (demo_agent [] 1) demo_peer [lit ''up'']
      (bind_message (made_up_cert demo_own_key [7, 7]) [5] (strings [lit ''ssh-ed25519'', [1, 5]])) (demo_start []) = (Inr (), s')
    \<and> sign_with_key (demo_agent [] 1) demo_peer demo_blob demo_auth_data demo_key (demo_rule (lit ''allow'') [[7, 7]])
        demo_sign_request [lit ''up''] s' =
      ask_and_relay (demo_agent [] 1) demo_peer AUTH_PURPOSE demo_blob demo_key (demo_rule (lit ''allow'') [[7, 7]])
        demo_sign_request [lit ''up''] s'"
proof -
  have t: "decode_replace (lit ''ssh-ed25519'') = lit ''ssh-ed25519''"
    by (rule decode_replace_of_lit) (simp add: ascii_def lit_def)
  have l: "length (lit ''ssh-ed25519'') < 2 ^ 32" "length [1::nat] < 2 ^ 32" "length [1::nat, 5] < 2 ^ 32" by simp_all
  obtain b1 where b1: "read_string (buf demo_own_key) = Some (lit ''ssh-ed25519'', b1)" "left b1 = agent_frame [1] @ []"
    by (rule read_string_frame [OF _ l(1), of "buf demo_own_key" "agent_frame [1] @ []"]) (simp_all add: demo_own_key_def)
  obtain b2 where b2: "read_string b1 = Some ([1], b2)" by (rule read_string_frame [OF b1(2) l(2)])
  obtain c1 where c1: "read_string (buf (strings [lit ''ssh-ed25519'', [1, 5]])) = Some (lit ''ssh-ed25519'', c1)"
    "left c1 = agent_frame [1, 5] @ []"
    by (rule read_string_frame [OF _ l(1), of "buf (strings [lit ''ssh-ed25519'', [1, 5]])" "agent_frame [1, 5] @ []"]) simp_all
  obtain c2 where c2: "read_string c1 = Some ([1, 5], c2)" by (rule read_string_frame [OF c1(2) l(3)])
  have v: "verify_key_signature (ae_keylib (demo_agent [] 1)) demo_own_key (strings [lit ''ssh-ed25519'', [1, 5]]) [5]"
    using b1(1) b2 c1(1) c2 by (simp add: verify_key_signature_def t demo_keylib_def)
  have "length demo_own_key < 2 ^ 16" "length (strings [lit ''ssh-ed25519'', [1, 5]]) < 2 ^ 16"
    by (simp_all add: demo_own_key_def length_agent_frame)
  from forged_certificate_unlocks_destination [OF v, of "[7, 7]" "demo_rule (lit ''allow'') [[7, 7]]", OF _ this(1) _ _ this(2)]
  obtain s' where "handle_agent_message (demo_agent [] 1) demo_peer [lit ''up'']
      (bind_message (made_up_cert demo_own_key [7, 7]) [5] (strings [lit ''ssh-ed25519'', [1, 5]])) (demo_start []) = (Inr (), s')"
    and "\<forall>rest. sign_with_key (demo_agent [] 1) demo_peer demo_blob (agent_frame [5] @ 50 # rest) demo_key
        (demo_rule (lit ''allow'') [[7, 7]]) demo_sign_request [lit ''up''] s' =
      ask_and_relay (demo_agent [] 1) demo_peer AUTH_PURPOSE demo_blob demo_key (demo_rule (lit ''allow'') [[7, 7]])
        demo_sign_request [lit ''up''] s'"
    by (fastforce simp: lit_def)
  moreover have "demo_auth_data = agent_frame [5] @ [50]"
    by (simp add: demo_auth_data_def agent_frame_def)
  ultimately show ?thesis by metis
qed

section \<open>Key ids with brackets\<close>

lemma glob_bracket:
  assumes "plain p" "plain q" "c \<notin> {33, 45, 93}"
  shows "glob (p @ [91, c, 93] @ q) s \<longleftrightarrow> s = p @ c # q"
  using assms(1)
proof (induction p arbitrary: s)
  case Nil
  have "split_set (c # 93 # q) = Some (False, [c], q)" using assms(3) by (simp add: split_set_def Let_def startswith_def)
  then show ?case by (cases s) (auto simp: in_set_def glob_plain [OF assms(2)])
next
  case (Cons x p)
  then have "plain p" "x \<noteq> 42" "x \<noteq> 63" "x \<noteq> 91" by (auto simp: plain_def)
  then show ?case using Cons.IH by (cases s) auto
qed

text \<open>
  A rule names the key it governs by its id. An id with a bracketed character, such as \<open>work[1]\<close>, is
  read as a pattern: the rule does not govern the key it names but the one called \<open>work1\<close>; the
  named key falls to later rules or to the default, which asks where the rule denied.
\<close>

theorem bracketed_key_rule_is_dead:
  assumes "ar_key r = p @ [91, c, 93] @ q" and "plain p" and "plain q" and "c \<notin> {33, 45, 93}"
  shows "governing_rule (r # rs) (ar_key r, identity, listener) = governing_rule rs (ar_key r, identity, listener)
    \<and> matches_key r (p @ c # q)"
proof -
  have "has_wildcard (ar_key r)" by (simp add: assms(1) has_wildcard_def)
  then have "matches_key r key_id \<longleftrightarrow> key_id = p @ c # q" for key_id
    using glob_bracket [OF assms(2-4), of key_id] by (simp add: matches_key_def fnmatchcase_def assms(1))
  then show ?thesis by (simp add: governing.eval_Cons agent_rule_matches_def assms(1))
qed

theorem bracketed_key_rule_is_dead_witness:
  "governing_rule [DEFAULT_RULE\<lparr>ar_key := lit ''work[1]'', ar_auth := lit ''deny''\<rparr>] (lit ''work[1]'', None, None) = DEFAULT_RULE"
proof -
  let ?r = "DEFAULT_RULE\<lparr>ar_key := lit ''work[1]'', ar_auth := lit ''deny''\<rparr>"
  have k: "ar_key ?r = lit ''work'' @ [91, 49, 93] @ []" by (simp add: lit_def)
  have "plain (lit ''work'')" "plain []" by (simp_all add: plain_def lit_def)
  from bracketed_key_rule_is_dead [OF k this, of "[]" None None] show ?thesis
    by (simp add: governing_rule_def)
qed

section \<open>The type of an added key\<close>

definition type_only_message :: "pbytes \<Rightarrow> pbytes" where
  "type_only_message t = msg_number ADD_IDENTITY # agent_frame t"

definition unknown_type :: "pstr \<Rightarrow> bool" where
  "unknown_type t \<longleftrightarrow>
     t \<noteq> [] \<and> t \<notin> {lit ''ssh-ed25519'', lit ''ssh-rsa''} \<and> \<not> startswith (lit ''ecdsa-sha2-'') t \<and> (\<forall>c \<in> set t. c < 128)"

lemma type_only_added:
  assumes "unknown_type t" "length t < 2 ^ 32"
  shows "added_key E (type_only_message t) = Some (lit ''unknown'', lit ''unknown'', t)"
proof -
  obtain b1 where b1: "read_byte (buf (type_only_message t)) = Some (17, b1)" "left b1 = agent_frame t @ []"
    using read_byte_left [of "buf (type_only_message t)"] by (auto simp: type_only_message_def)
  obtain b2 where b2: "read_string b1 = Some (t, b2)"
    by (rule read_string_frame [OF b1(2) assms(2)])
  have "decode_replace t = t" using assms(1) decode_replace_ascii [of t t] by (simp add: unknown_type_def)
  then have "public_blob_from_private (type_only_message t) = Some (t, None, [])"
    using b1(1) b2 assms(1) by (simp add: public_blob_from_private_def unknown_type_def public_parts_def Let_def)
  then show ?thesis by (simp add: added_key_def)
qed

text \<open>
  The comment of a key is cut and cleaned before it is shown, its type is not. A message with a type
  of the client's choosing and nothing else gets that text, line breaks included, into the
  dialog that asks for approval, in front of the real fingerprint.
\<close>

theorem key_type_forges_prompt_lines:
  assumes "unknown_type t" and "length t < 2 ^ 32"
    and "ar_add (rule_for E P (lit ''unknown'')) \<notin> {lit ''deny'', lit ''allow''}"
  shows "\<exists>question decide. handle_agent_message E P links (type_only_message t) =
    seq (agent_prompt E (proxy_title P) (question @ nl @ lit ''Type: '' @ t @ nl @ lit ''Fingerprint: unknown'')) decide"
proof -
  have h: "handle_agent_message E P links (type_only_message t) = handle_add E P links (type_only_message t)"
    by (simp add: handle_agent_message_def type_only_message_def)
  have p: "add_prompt K P (lit ''unknown'') (lit ''unknown'') t =
      (lit ''Allow '' @ ap_name P @ lit '' to add key '' @ [39] @ printable_prefix K 64 (lit ''unknown'') @ [39] @
        lit '' to the agent?'') @ nl @ lit ''Type: '' @ t @ nl @ lit ''Fingerprint: unknown''" for K
    using assms(1) by (simp add: add_prompt_def unknown_type_def lit_def)
  obtain decide where d: "handle_add E P links (type_only_message t) =
      seq (agent_prompt E (proxy_title P) (add_prompt (ae_keylib E) P (lit ''unknown'') (lit ''unknown'') t)) decide"
    using assms(3) by (simp add: handle_add_def type_only_added [OF assms(1,2)] Let_def authorize_mutation_def)
  show ?thesis unfolding h d p by (rule exI, rule exI, rule refl)
qed

theorem key_type_forges_prompt_lines_witness:
  "\<exists>question decide. handle_agent_message (demo_agent [demo_rule (lit ''ask'') []\<lparr>ar_key := lit ''*'', ar_add := lit ''ask''\<rparr>] 1)
      demo_peer [] (type_only_message (lit ''ssh-ed25519'' @ nl @ lit ''Fingerprint: SHA256:trusted'')) =
    seq (agent_prompt (demo_agent [demo_rule (lit ''ask'') []\<lparr>ar_key := lit ''*'', ar_add := lit ''ask''\<rparr>] 1) (proxy_title demo_peer)
      (question @ nl @ lit ''Type: ssh-ed25519'' @ nl @ lit ''Fingerprint: SHA256:trusted'' @ nl @ lit ''Fingerprint: unknown'')) decide"
proof -
  let ?t = "lit ''ssh-ed25519'' @ nl @ lit ''Fingerprint: SHA256:trusted''"
  let ?r = "demo_rule (lit ''ask'') []\<lparr>ar_key := lit ''*'', ar_add := lit ''ask''\<rparr>"
  have t: "unknown_type ?t" by (simp add: unknown_type_def lit_def nl_def startswith_def)
  have l: "length ?t < 2 ^ 32" by (simp add: nl_def)
  have "agent_rule_matches ?r (query_of demo_peer (lit ''unknown''))"
    by (simp add: agent_rule_matches_def query_of_def demo_rule_def DEFAULT_RULE_def matches_key_def has_wildcard_def
        matches_machine_def matches_listener_def demo_peer_def fnmatchcase_def lit_def)
  then have "rule_for (demo_agent [?r] 1) demo_peer (lit ''unknown'') = ?r"
    by (simp add: rule_for_def governing_rule_def demo_agent_config_def)
  then have a: "ar_add (rule_for (demo_agent [?r] 1) demo_peer (lit ''unknown'')) \<notin> {lit ''deny'', lit ''allow''}"
    by (simp add: lit_def)
  have e: "lit ''Type: '' @ ?t @ nl @ z = lit ''Type: ssh-ed25519'' @ nl @ lit ''Fingerprint: SHA256:trusted'' @ nl @ z" for z
    by (simp add: lit_def)
  show ?thesis
    using key_type_forges_prompt_lines [OF t l a, of "[]"] unfolding e by simp
qed

end
