(* ===== verification/AgentConfig.thy ===== *)
theory AgentConfig
  imports AgentServe
begin

text \<open>
  The configuration of \<open>ssh-agent-proxy\<close>: \<open>Config.load\<close> from the parsed document to keys, rules,
  upstreams and listeners, with the security knobs of each listener and upstream. The
  document is a dictionary; the directory of its file, the environment and the files of known
  hosts are arguments. Ids, names and socket paths are taken to be texts.
\<close>

section \<open>Steps that may raise\<close>

definition ensure :: "bool \<Rightarrow> string \<Rightarrow> unit res" where
  "ensure ok message = (if ok then Inr () else Inl (ValueError message))"

lemma ensure_Inr_iff [simp]: "ensure ok message = Inr u \<longleftrightarrow> ok"
  by (simp add: ensure_def)

definition opt_text :: "pyval \<Rightarrow> pstr option" where
  "opt_text v = (case v of PStr s \<Rightarrow> Some s | _ \<Rightarrow> None)"

text \<open>\<open>list(value or [])\<close>.\<close>

definition listed :: "pyval \<Rightarrow> pyval list res" where
  "listed v = (if truthy v then iterated v else Inr [])"

section \<open>Constants\<close>

definition DEFAULT_VSOCK_PORT :: int where
  "DEFAULT_VSOCK_PORT = 65000"

definition HOST_CID :: int where
  "HOST_CID = 2"

definition AGENT_SOCKET_DIR_MODE :: pyval where
  "AGENT_SOCKET_DIR_MODE = PStr (lit ''0700'')"

definition AGENT_SOCKET_MODE :: pyval where
  "AGENT_SOCKET_MODE = PStr (lit ''0600'')"

definition AGENT_TIMEOUT :: pyval where
  "AGENT_TIMEOUT = PFloat 10"

definition TRANSPORTS :: "pyval set" where
  "TRANSPORTS = PStr ` {lit ''vsock'', lit ''tcp'', lit ''unix''}"

definition local_host :: pyval where
  "local_host = PStr (lit ''127.0.0.1'')"

section \<open>The security knobs\<close>

type_synonym agent_knobs = "pstr \<times> pstr \<times> pstr"

definition agent_mtls_enabled :: "dict \<Rightarrow> bool" where
  "agent_mtls_enabled config =
     (case dget config (lit ''mtls'') of PDict mtls \<Rightarrow> truthy (dget_or mtls (lit ''enable'') (PBool False)) | _ \<Rightarrow> False)"

definition agent_encryption :: "dict \<Rightarrow> dict \<Rightarrow> pstr \<Rightarrow> pyval" where
  "agent_encryption config security tr =
     (let given = dget security (lit ''transport_encryption'')
      in if given \<in> {PNone, PStr (lit ''auto'')}
         then (if agent_mtls_enabled config \<or> (tr = lit ''tcp'' \<and> security \<noteq> []) then PStr (lit ''mtls'')
               else PStr (lit ''none''))
         else given)"

definition auth_method_ok :: "pyval \<Rightarrow> bool" where
  "auth_method_ok v \<longleftrightarrow> v \<in> {PNone, PStr (lit ''transport''), PStr (lit ''none'')}"

definition agent_security_config :: "dict \<Rightarrow> pstr \<Rightarrow> agent_knobs res" where
  "agent_security_config config tr =
     (case (if dget config (lit ''security'') = PNone then PDict [] else dget config (lit ''security'')) of
        PDict security \<Rightarrow>
          (let enc = agent_encryption config security tr;
               ca = dget security (lit ''client_auth'');
               sa = dget security (lit ''server_auth'')
           in andthen (ensure (enc \<in> {PStr (lit ''none''), PStr (lit ''mtls'')}) ''unknown transport_encryption'') (\<lambda>_.
              andthen (ensure (\<not> (agent_mtls_enabled config \<and> enc \<noteq> PStr (lit ''mtls''))) ''refusing to downgrade'') (\<lambda>_.
              andthen (ensure (auth_method_ok ca) ''unknown client_auth'') (\<lambda>_.
              andthen (ensure (auth_method_ok sa) ''unknown server_auth'') (\<lambda>_.
                if enc = PStr (lit ''mtls'')
                then andthen (ensure (ca \<in> {PNone, PStr (lit ''transport'')}) ''mTLS forces client_auth'') (\<lambda>_.
                     andthen (ensure (sa \<in> {PNone, PStr (lit ''transport'')}) ''mTLS forces server_auth'') (\<lambda>_.
                       Inr (lit ''mtls'', lit ''transport'', lit ''transport'')))
                else andthen (ensure (ca \<noteq> PStr (lit ''transport'')) ''client_auth requires mtls'') (\<lambda>_.
                     andthen (ensure (sa \<noteq> PStr (lit ''transport'')) ''server_auth requires mtls'') (\<lambda>_.
                       Inr (lit ''none'', lit ''none'', lit ''none''))))))))
      | _ \<Rightarrow> Inl (ValueError ''[security] must be a table''))"

section \<open>Paths of the document\<close>

definition resolve_value :: "host \<Rightarrow> pstr \<Rightarrow> pyval \<Rightarrow> pyval res" where
  "resolve_value H config_dir value =
     (case value of
        PStr s \<Rightarrow>
          if startswith (lit ''%t/'') s then Inr value
          else if startswith (lit ''~/'') s then
            (case h_home H [] of
               None \<Rightarrow> Inl (RuntimeError ''Could not determine home directory.'')
             | Some dir \<Rightarrow>
                 (case h_env H (lit ''HOME'') of
                    Some home \<Rightarrow> Inr (PStr (home @ tl s))
                  | None \<Rightarrow> Inr (PStr (path_str (path_of dir) @ tl s))))
          else Inr (PStr (path_str (path_div (path_of config_dir) (path_of s))))
      | _ \<Rightarrow> Inr value)"

text \<open>\<open>bind.rsplit(":", 1)\<close> and the number behind it.\<close>

definition split_bind :: "pstr \<Rightarrow> (pstr \<times> int) res" where
  "split_bind addr =
     (case rev (split_on 58 addr) of
        port # h # hs \<Rightarrow>
          (case py_int (PStr port) of
             Inr n \<Rightarrow> Inr (join [58] (rev (h # hs)), n)
           | Inl _ \<Rightarrow> Inl (ValueError ''invalid tcp_bind''))
      | _ \<Rightarrow> Inl (ValueError ''invalid tcp_bind''))"

section \<open>Upstreams\<close>

definition name_ok :: "pyval \<Rightarrow> bool" where
  "name_ok v \<longleftrightarrow> v = PNone \<or> (is_str v \<and> truthy v)"

definition mtls_table :: "dict \<Rightarrow> dict res" where
  "mtls_table data =
     (case dget_or data (lit ''mtls'') (PDict []) of PDict mtls \<Rightarrow> Inr mtls | _ \<Rightarrow> Inl (ValueError ''[mtls] must be a table''))"

text \<open>The text of a value in a formatted string.\<close>

definition shown :: "lib \<Rightarrow> pyval \<Rightarrow> pstr" where
  "shown E v = (case v of PStr s \<Rightarrow> s | PInt i \<Rightarrow> int_repr i | _ \<Rightarrow> str_text E v)"

definition upstream_id :: "lib \<Rightarrow> pstr \<Rightarrow> pyval \<Rightarrow> pyval \<Rightarrow> pyval \<Rightarrow> int \<Rightarrow> int \<Rightarrow> pstr res" where
  "upstream_id E tr name socket hostval port cid =
     (if truthy name then Inr (str_of name)
      else if tr = lit ''unix'' then
        (if truthy socket then Inr (str_of socket) else Inl (ValueError ''a unix upstream requires a socket''))
      else if tr = lit ''vsock'' then Inr (lit ''vsock:'' @ int_repr cid @ [58] @ int_repr port)
      else Inr (lit ''tcp:'' @ shown E hostval @ [58] @ int_repr port))"

definition build_upstream :: "lib \<Rightarrow> (pyval \<Rightarrow> pyval res) \<Rightarrow> pstr \<Rightarrow> dict \<Rightarrow> upstream_config res" where
  "build_upstream E resolve tr data =
     andthen (agent_security_config data tr) (\<lambda>(enc, ca, sa).
     andthen (mtls_table data) (\<lambda>mtls.
     andthen (ensure (name_ok (dget data (lit ''name''))) ''upstream name must be a non-empty string'') (\<lambda>_.
     andthen (resolve (dget data (lit ''socket''))) (\<lambda>socket.
     andthen (py_int (dget_or data (lit ''port'') (PInt DEFAULT_VSOCK_PORT))) (\<lambda>port.
     andthen (py_int (dget_or data (lit ''cid'') (PInt HOST_CID))) (\<lambda>cid.
     andthen (upstream_id E tr (dget data (lit ''name'')) socket (dget_or data (lit ''host'') local_host) port cid) (\<lambda>uid.
     andthen (py_float E (dget_or data (lit ''connect_timeout'') AGENT_TIMEOUT)) (\<lambda>connect_timeout.
     andthen (py_float E (dget_or data (lit ''handshake_timeout'') AGENT_TIMEOUT)) (\<lambda>handshake_timeout.
     andthen (resolve (dget mtls (lit ''ca_file''))) (\<lambda>ca_file.
     andthen (resolve (dget mtls (lit ''cert_file''))) (\<lambda>cert_file.
     andthen (resolve (dget mtls (lit ''key_file''))) (\<lambda>key_file.
       Inr \<lparr>uc_id = uid, uc_transport = tr, uc_socket = opt_text socket, uc_host = dget_or data (lit ''host'') local_host,
            uc_port = port, uc_cid = cid, uc_connect_timeout = connect_timeout, uc_handshake_timeout = handshake_timeout,
            uc_encryption = enc, uc_client_auth = ca, uc_server_auth = sa,
            uc_mtls_enable = truthy (dget_or mtls (lit ''enable'') (PBool False)),
            uc_ca_file = ca_file, uc_cert_file = cert_file, uc_key_file = key_file,
            uc_required_oid = dget mtls (lit ''required_oid''), uc_peer_required_oid = dget mtls (lit ''peer_required_oid'')\<rparr>
     ))))))))))))"

text \<open>\<open>_parse_upstream\<close>; a value that is no text in the place of the transport is refused.\<close>

definition parse_upstream :: "lib \<Rightarrow> (pyval \<Rightarrow> pyval res) \<Rightarrow> pyval \<Rightarrow> upstream_config res" where
  "parse_upstream E resolve entry =
     (case entry of
        PStr s \<Rightarrow> andthen (resolve entry) (\<lambda>socket. build_upstream E Inr (lit ''unix'') [(lit ''socket'', socket)])
      | PDict data \<Rightarrow>
          (let named = (if truthy (dget data (lit ''transport'')) then dget data (lit ''transport'') else dget data (lit ''type''));
               tr = (if named = PNone \<and> dget data (lit ''socket'') \<noteq> PNone then PStr (lit ''unix'') else named)
           in if tr \<in> TRANSPORTS then build_upstream E resolve (str_of tr) data
              else Inl (ValueError ''invalid upstream transport''))
      | _ \<Rightarrow> Inl (ValueError ''an upstream entry must be a string or a table''))"

definition register_upstreams :: "upstream_config list \<Rightarrow> upstream_config list res" where
  "register_upstreams ups = andthen (ensure (distinct (map uc_id ups)) ''duplicate upstream id'') (\<lambda>_. Inr ups)"

text \<open>The entries of the document, or the agent socket of the environment when it has none.\<close>

definition raw_upstreams :: "host \<Rightarrow> dict \<Rightarrow> pyval list res" where
  "raw_upstreams H data =
     andthen (listed (dget_or data (lit ''upstream'') (PList []))) (\<lambda>ups.
     andthen (listed (dget_or data (lit ''agent_sockets'') (PList []))) (\<lambda>sockets.
       Inr (if ups @ sockets \<noteq> [] then ups @ sockets
            else (case h_env H (lit ''SSH_AUTH_SOCK'') of Some p \<Rightarrow> if p \<noteq> [] then [PStr p] else [] | None \<Rightarrow> []))))"

definition load_upstreams :: "lib \<Rightarrow> host \<Rightarrow> (pyval \<Rightarrow> pyval res) \<Rightarrow> dict \<Rightarrow> upstream_config list res" where
  "load_upstreams E H resolve data =
     andthen (raw_upstreams H data) (\<lambda>raw.
     andthen (map_res (parse_upstream E resolve) raw) (\<lambda>ups.
     andthen (register_upstreams ups) (\<lambda>ups.
     andthen (ensure (ups \<noteq> []) ''no upstream configured'') (\<lambda>_. Inr ups))))"

section \<open>Virtual machines\<close>

definition entry_table :: "pyval \<Rightarrow> dict res" where
  "entry_table entry = (case entry of PDict d \<Rightarrow> Inr d | _ \<Rightarrow> Inl AttributeError)"

fun load_vms :: "pyval list \<Rightarrow> (int \<times> pstr) list \<Rightarrow> (int \<times> pstr) list res" where
  "load_vms [] acc = Inr acc"
| "load_vms (entry # entries) acc =
     andthen (entry_table entry) (\<lambda>d.
       (case dget d (lit ''cid'') of
          PInt cid \<Rightarrow>
            andthen (ensure (HOST_CID < cid) ''vm entry has invalid cid'') (\<lambda>_.
            andthen (ensure (truthy (dget d (lit ''name''))) ''vm entry is missing a name'') (\<lambda>_.
            andthen (ensure (cid \<notin> fst ` set acc) ''Duplicate vm cid'') (\<lambda>_.
              load_vms entries (acc @ [(cid, str_of (dget d (lit ''name'')))]))))
        | _ \<Rightarrow> Inl (ValueError ''vm entry has invalid cid'')))"

text \<open>The last entry of an address wins.\<close>

fun load_tcp_vms :: "pyval list \<Rightarrow> (pstr \<times> pstr) list \<Rightarrow> (pstr \<times> pstr) list res" where
  "load_tcp_vms [] acc = Inr acc"
| "load_tcp_vms (entry # entries) acc =
     andthen (entry_table entry) (\<lambda>d.
     andthen (ensure (is_str (dget d (lit ''ip'')) \<and> truthy (dget d (lit ''ip''))) ''tcp_vm entry is missing an ip'') (\<lambda>_.
     andthen (ensure (truthy (dget d (lit ''name''))) ''tcp_vm entry is missing a name'') (\<lambda>_.
       load_tcp_vms entries (AList.update (str_of (dget d (lit ''ip''))) (str_of (dget d (lit ''name''))) acc))))"

section \<open>Keys and rules\<close>

definition key_of_entry :: "keylib \<Rightarrow> (pyval \<Rightarrow> pyval res) \<Rightarrow> pstr \<Rightarrow> dict \<Rightarrow> key_config res" where
  "key_of_entry K resolve first_upstream d =
     andthen (resolve (dget_or d (lit ''socket'') (PStr first_upstream))) (\<lambda>socket.
       (case dget_or d (lit ''pubkey'') (PStr []) of
          PStr line \<Rightarrow> andthen (parse_pubkey K line) (\<lambda>(key_type, blob, fingerprint).
            Inr \<lparr>kc_id = str_of (dget_or d (lit ''id'') (PStr (lit ''unnamed-key''))), kc_type = key_type, kc_blob = blob,
                 kc_fingerprint = fingerprint, kc_socket = str_of socket, kc_explicit = dmem (lit ''socket'') d\<rparr>)
        | _ \<Rightarrow> Inl AttributeError))"

fun load_keys ::
  "keylib \<Rightarrow> (pyval \<Rightarrow> pyval res) \<Rightarrow> pstr \<Rightarrow> pyval list \<Rightarrow> (pbytes \<times> key_config) list \<Rightarrow> (pbytes \<times> key_config) list res" where
  "load_keys K resolve first_upstream [] acc = Inr acc"
| "load_keys K resolve first_upstream (entry # entries) acc =
     andthen (entry_table entry) (\<lambda>d.
     andthen (key_of_entry K resolve first_upstream d) (\<lambda>k.
     andthen (ensure (kc_blob k \<notin> fst ` set acc) ''Duplicate public key'') (\<lambda>_.
       load_keys K resolve first_upstream entries (acc @ [(kc_blob k, k)]))))"

text \<open>
  The \<open>match\<close> table of a rule; the two renamed selectors are refused. \<open>in\<close> on a text looks for a
  part of it, on a list for an element.
\<close>

definition renamed_in :: "pyval \<Rightarrow> bool res" where
  "renamed_in value =
     (case value of
        PDict d \<Rightarrow> Inr (dmem (lit ''vm_names'') d \<or> dmem (lit ''listener'') d)
      | PList vs \<Rightarrow> Inr (PStr (lit ''vm_names'') \<in> set vs \<or> PStr (lit ''listener'') \<in> set vs)
      | PStr s \<Rightarrow> Inr (contains (lit ''vm_names'') s \<or> contains (lit ''listener'') s)
      | _ \<Rightarrow> Inl TypeError)"

definition match_table :: "dict \<Rightarrow> dict res" where
  "match_table d =
     (let value = dget_or d (lit ''match'') (PDict [])
      in andthen (renamed_in value) (\<lambda>renamed.
         andthen (ensure (\<not> renamed) ''rule match selector was renamed'') (\<lambda>_. entry_table value)))"

definition rule_of_entry :: "keylib \<Rightarrow> known_hosts \<Rightarrow> pstr \<Rightarrow> dict \<Rightarrow> dict \<Rightarrow> agent_rule res" where
  "rule_of_entry K kh key_sel d matching =
     andthen (agent_pattern_list (dget matching (lit ''machine''))) (\<lambda>machine.
     andthen (agent_pattern_list (dget matching (lit ''listeners''))) (\<lambda>listeners.
     andthen (agent_policy d (lit ''auth'') (lit ''ask'')) (\<lambda>auth.
     andthen (agent_policy d (lit ''data_signing'') (lit ''deny'')) (\<lambda>data_signing.
     andthen (agent_policy d (lit ''add'') (lit ''deny'')) (\<lambda>add.
     andthen (agent_policy d (lit ''remove'') (lit ''deny'')) (\<lambda>rem.
     andthen (parse_host_keys K kh (dget_or d (lit ''allowed_host_keys'') (PList []))) (\<lambda>hosts.
       Inr \<lparr>ar_key = key_sel, ar_machine = machine, ar_listeners = listeners, ar_auth = auth, ar_data_signing = data_signing,
            ar_add = add, ar_remove = rem, ar_notify = truthy (dget_or d (lit ''notify'') (PBool True)), ar_hosts = hosts\<rparr>)))))))"

definition load_rule :: "keylib \<Rightarrow> known_hosts \<Rightarrow> pstr list \<Rightarrow> pyval \<Rightarrow> agent_rule res" where
  "load_rule K kh key_ids entry =
     andthen (entry_table entry) (\<lambda>d.
       (case dget_or d (lit ''key'') (PStr (lit ''*'')) of
          PStr key_sel \<Rightarrow>
            andthen (ensure (key_sel = lit ''*'' \<or> key_sel \<in> set key_ids) ''rule references unknown key'') (\<lambda>_.
            andthen (match_table d) (rule_of_entry K kh key_sel d))
        | PList _ \<Rightarrow> Inl TypeError
        | PDict _ \<Rightarrow> Inl TypeError
        | _ \<Rightarrow> Inl (ValueError ''rule references unknown key'')))"

section \<open>Listeners\<close>

definition RESOLUTIONS :: "pyval set" where
  "RESOLUTIONS = PStr ` {lit ''none'', lit ''certificate'', lit ''tartarus'', lit ''mofos''}"

text \<open>The mode of identification; a Unix socket has no address to identify a machine by.\<close>

definition resolution_mode :: "pyval \<Rightarrow> pstr \<Rightarrow> pstr \<Rightarrow> pstr res" where
  "resolution_mode value enc tr =
     andthen (ensure (value = PNone \<or> value \<in> RESOLUTIONS) ''invalid resolution'') (\<lambda>_.
       (let mode = (if value = PNone then (if enc = lit ''mtls'' then lit ''certificate'' else lit ''none'') else str_of value)
        in andthen (ensure (\<not> (tr = lit ''unix'' \<and> mode \<in> {lit ''tartarus'', lit ''mofos''})) ''resolution not valid on unix'')
             (\<lambda>_. Inr mode)))"

definition socket_flags :: "dict \<Rightarrow> pstr \<Rightarrow> (bool \<times> bool) res" where
  "socket_flags data tr =
     (let scan = truthy (dget_or data (lit ''scan_agent_socket_dirs'') (PBool False));
          session = truthy (dget_or data (lit ''resolve_session_socket'') (PBool False))
      in andthen (ensure (\<not> (tr \<noteq> lit ''unix'' \<and> (scan \<or> session))) ''only valid on the unix transport'')
           (\<lambda>_. Inr (scan, session)))"

definition listener_of_table :: "lib \<Rightarrow> (pyval \<Rightarrow> pyval res) \<Rightarrow> pstr \<Rightarrow> dict \<Rightarrow> agent_listener res" where
  "listener_of_table E resolve tr data =
     andthen (ensure (name_ok (dget data (lit ''name''))) ''listener name must be a non-empty string'') (\<lambda>_.
     andthen (agent_security_config data tr) (\<lambda>(enc, ca, sa).
     andthen (mtls_table data) (\<lambda>mtls.
     andthen (resolution_mode (dget data (lit ''resolution'')) enc tr) (\<lambda>mode.
     andthen (socket_flags data tr) (\<lambda>(scan, session).
     andthen (py_int (dget_or data (lit ''port'') (PInt DEFAULT_VSOCK_PORT))) (\<lambda>port.
     andthen (py_int (dget_or data (lit ''cid'') (PInt HOST_CID))) (\<lambda>cid.
     andthen (resolve (dget data (lit ''socket''))) (\<lambda>socket.
     andthen (py_float E (dget_or data (lit ''connect_timeout'') AGENT_TIMEOUT)) (\<lambda>connect_timeout.
     andthen (py_float E (dget_or data (lit ''handshake_timeout'') AGENT_TIMEOUT)) (\<lambda>handshake_timeout.
     andthen (py_int (dget_or data (lit ''decision_timeout'') (PInt DEFAULT_DECISION_TIMEOUT))) (\<lambda>decision_timeout.
     andthen (resolve (dget mtls (lit ''ca_file''))) (\<lambda>ca_file.
     andthen (resolve (dget mtls (lit ''cert_file''))) (\<lambda>cert_file.
     andthen (resolve (dget mtls (lit ''key_file''))) (\<lambda>key_file.
       Inr \<lparr>al_transport = tr, al_host = dget_or data (lit ''host'') local_host, al_port = PInt port, al_cid = PInt cid,
            al_socket = opt_text socket, al_socket_dir_mode = dget_or data (lit ''socket_dir_mode'') AGENT_SOCKET_DIR_MODE,
            al_socket_mode = dget_or data (lit ''socket_mode'') AGENT_SOCKET_MODE, al_connect_timeout = connect_timeout,
            al_handshake_timeout = handshake_timeout, al_decision_timeout = decision_timeout, al_resolution = mode,
            al_encryption = enc, al_client_auth = ca, al_server_auth = sa,
            al_mtls_enable = truthy (dget_or mtls (lit ''enable'') (PBool False)),
            al_ca_file = ca_file, al_cert_file = cert_file, al_key_file = key_file,
            al_required_oid = dget mtls (lit ''required_oid''), al_peer_required_oid = dget mtls (lit ''peer_required_oid''),
            al_name = opt_text (dget data (lit ''name'')), al_scan_dirs = scan, al_session_socket = session\<rparr>
     ))))))))))))))"

definition parse_listener :: "lib \<Rightarrow> (pyval \<Rightarrow> pyval res) \<Rightarrow> dict \<Rightarrow> agent_listener res" where
  "parse_listener E resolve data =
     (let tr = (if truthy (dget data (lit ''type'')) then dget data (lit ''type'') else dget data (lit ''transport''))
      in if tr \<in> TRANSPORTS then listener_of_table E resolve (str_of tr) data
         else Inl (ValueError ''invalid transport''))"

text \<open>
  What \<open>load\<close> keeps of the flat part of the document for the rest of it: the implicit listener
  before its address is known.
\<close>

definition flat_mtls :: "(pyval \<Rightarrow> pyval res) \<Rightarrow> dict \<Rightarrow> (dict \<times> pyval \<times> pyval \<times> pyval) res" where
  "flat_mtls resolve data =
     (case dget_or data (lit ''mtls'') (PDict []) of
        PDict mtls \<Rightarrow>
          andthen (resolve (dget mtls (lit ''ca_file''))) (\<lambda>ca_file.
          andthen (resolve (dget mtls (lit ''cert_file''))) (\<lambda>cert_file.
          andthen (resolve (dget mtls (lit ''key_file''))) (\<lambda>key_file. Inr (mtls, ca_file, cert_file, key_file))))
      | _ \<Rightarrow> Inr ([], PNone, PNone, PNone))"

text \<open>\<open>transport\<close>, or what the two aliases imply.\<close>

definition flat_transport :: "dict \<Rightarrow> pstr res" where
  "flat_transport data =
     (let tr = (if dget data (lit ''transport'') \<noteq> PNone then dget data (lit ''transport'')
                else if dget data (lit ''tcp_bind'') \<noteq> PNone then PStr (lit ''tcp'')
                else if dget data (lit ''vsock_port'') \<noteq> PNone then PStr (lit ''vsock'')
                else PStr (lit ''tcp''))
      in if tr \<in> TRANSPORTS then Inr (str_of tr) else Inl (ValueError ''invalid transport''))"

definition flat_base :: "lib \<Rightarrow> (pyval \<Rightarrow> pyval res) \<Rightarrow> dict \<Rightarrow> agent_listener res" where
  "flat_base E resolve data =
     andthen (resolve (dget data (lit ''socket''))) (\<lambda>socket.
     andthen (flat_transport data) (\<lambda>tr.
     andthen (flat_mtls resolve data) (\<lambda>(mtls, ca_file, cert_file, key_file).
     andthen (py_float E (dget_or data (lit ''connect_timeout'') AGENT_TIMEOUT)) (\<lambda>connect_timeout.
     andthen (py_float E (dget_or data (lit ''handshake_timeout'') AGENT_TIMEOUT)) (\<lambda>handshake_timeout.
     andthen (py_int (dget_or data (lit ''decision_timeout'') (PInt DEFAULT_DECISION_TIMEOUT))) (\<lambda>decision_timeout.
     andthen (agent_security_config data tr) (\<lambda>(enc, ca, sa).
       Inr \<lparr>al_transport = tr, al_host = dget_or data (lit ''host'') local_host,
            al_port = dget_or data (lit ''port'') (PInt DEFAULT_VSOCK_PORT), al_cid = dget_or data (lit ''cid'') (PInt HOST_CID),
            al_socket = opt_text socket, al_socket_dir_mode = dget_or data (lit ''socket_dir_mode'') AGENT_SOCKET_DIR_MODE,
            al_socket_mode = dget_or data (lit ''socket_mode'') AGENT_SOCKET_MODE, al_connect_timeout = connect_timeout,
            al_handshake_timeout = handshake_timeout, al_decision_timeout = decision_timeout, al_resolution = lit ''none'',
            al_encryption = enc, al_client_auth = ca, al_server_auth = sa,
            al_mtls_enable = truthy (dget_or mtls (lit ''enable'') (PBool False)),
            al_ca_file = ca_file, al_cert_file = cert_file, al_key_file = key_file,
            al_required_oid = dget mtls (lit ''required_oid''), al_peer_required_oid = dget mtls (lit ''peer_required_oid''),
            al_name = None, al_scan_dirs = False, al_session_socket = False\<rparr>)))))))"

text \<open>\<open>_parse_listener_from_flat\<close>: the address of the implicit listener.\<close>

definition flat_address :: "dict \<Rightarrow> agent_listener \<Rightarrow> (pyval \<times> pyval) res" where
  "flat_address data base =
     (if al_transport base = lit ''vsock'' then Inr (al_host base, dget_or data (lit ''vsock_port'') (al_port base))
      else if truthy (dget data (lit ''tcp_bind'')) then
        (case dget data (lit ''tcp_bind'') of
           PStr s \<Rightarrow> andthen (split_bind s) (\<lambda>(h, p). Inr (PStr h, PInt p))
         | _ \<Rightarrow> Inl AttributeError)
      else Inr (al_host base, al_port base))"

definition listener_from_flat :: "dict \<Rightarrow> agent_listener \<Rightarrow> pstr \<Rightarrow> agent_listener res" where
  "listener_from_flat data base mode =
     andthen (flat_address data base) (\<lambda>(h, p).
     andthen (socket_flags data (al_transport base)) (\<lambda>(scan, session).
     andthen (ensure (name_ok (dget data (lit ''name''))) ''listener name must be a non-empty string'') (\<lambda>_.
       Inr (base\<lparr>al_host := h, al_port := p, al_resolution := mode, al_name := opt_text (dget data (lit ''name'')),
                 al_scan_dirs := scan, al_session_socket := session\<rparr>))))"

definition FLAT_KEYS :: "pstr list" where
  "FLAT_KEYS = map lit [''transport'', ''tcp_bind'', ''vsock_port'', ''security'', ''mtls'']"

definition load_listeners :: "lib \<Rightarrow> (pyval \<Rightarrow> pyval res) \<Rightarrow> dict \<Rightarrow> agent_listener \<Rightarrow> pstr \<Rightarrow> agent_listener list res" where
  "load_listeners E resolve data base mode =
     andthen (ensure (\<not> dmem (lit ''transports'') data \<and> \<not> dmem (lit ''transport_defaults'') data) ''renamed to listeners'') (\<lambda>_.
     andthen (ensure (\<not> dmem (lit ''listener_defaults'') data) ''[listener_defaults] was removed'') (\<lambda>_.
     andthen (case dget data (lit ''listeners'') of
              PList (entry # entries) \<Rightarrow>
                andthen (ensure (\<forall>key \<in> set FLAT_KEYS. \<not> dmem key data) ''the configuration is ambiguous'') (\<lambda>_.
                andthen (ensure (\<forall>x \<in> set (entry # entries). is_dict x) ''listeners entry must be a table'') (\<lambda>_.
                  map_res (\<lambda>x. andthen (entry_table x) (parse_listener E resolve)) (entry # entries)))
            | _ \<Rightarrow> andthen (listener_from_flat data base mode) (\<lambda>l. Inr [l])) (\<lambda>ls.
     andthen (ensure (distinct (concat (map (\<lambda>l. case al_name l of None \<Rightarrow> [] | Some n \<Rightarrow> [n]) ls))) ''duplicate listener name'')
       (\<lambda>_. Inr ls))))"

section \<open>Loading\<close>

record agent_loaded =
  ld_config :: agent_config
  ld_listeners :: "agent_listener list"

text \<open>The deprecated client mode: one upstream, one private listener, and a rule that allows everything.\<close>

definition ALLOW_ALL :: agent_rule where
  "ALLOW_ALL = DEFAULT_RULE\<lparr>ar_auth := lit ''allow'', ar_data_signing := lit ''allow'', ar_add := lit ''allow'',
     ar_remove := lit ''allow'', ar_notify := False\<rparr>"

definition client_upstream_table :: "host \<Rightarrow> pyval \<Rightarrow> agent_listener \<Rightarrow> dict" where
  "client_upstream_table H connect_socket base =
     [(lit ''socket'',
        if al_transport base = lit ''unix'' \<and> \<not> truthy connect_socket
        then (case h_env H (lit ''SSH_AUTH_PROXY_SOCK'') of Some p \<Rightarrow> PStr p | None \<Rightarrow> PNone) else connect_socket),
      (lit ''host'', al_host base), (lit ''port'', al_port base), (lit ''cid'', al_cid base),
      (lit ''connect_timeout'', al_connect_timeout base), (lit ''handshake_timeout'', al_handshake_timeout base),
      (lit ''security'', PDict [(lit ''transport_encryption'', PStr (al_encryption base)),
         (lit ''client_auth'', PStr (al_client_auth base)), (lit ''server_auth'', PStr (al_server_auth base))]),
      (lit ''mtls'', PDict [(lit ''enable'', PBool (al_mtls_enable base)), (lit ''ca_file'', al_ca_file base),
         (lit ''cert_file'', al_cert_file base), (lit ''key_file'', al_key_file base),
         (lit ''required_oid'', al_required_oid base), (lit ''peer_required_oid'', al_peer_required_oid base)])]"

definition client_listener :: "pyval \<Rightarrow> agent_listener \<Rightarrow> agent_listener" where
  "client_listener listen_socket base =
     base\<lparr>al_transport := lit ''unix'', al_host := local_host, al_port := PInt DEFAULT_VSOCK_PORT, al_cid := PInt HOST_CID,
       al_socket := Some (if truthy listen_socket then str_of listen_socket else lit ''%t/ssh-agent-host''),
       al_resolution := lit ''none'', al_encryption := lit ''none'', al_client_auth := lit ''none'',
       al_server_auth := lit ''none'', al_mtls_enable := False, al_ca_file := PNone, al_cert_file := PNone,
       al_key_file := PNone, al_required_oid := PNone, al_peer_required_oid := PNone\<rparr>"

definition dialog_choice :: "dict \<Rightarrow> pstr option" where
  "dialog_choice data = opt_text (dget data (lit ''dialog_program''))"

definition load_client :: "lib \<Rightarrow> host \<Rightarrow> dict \<Rightarrow> pyval \<Rightarrow> pyval \<Rightarrow> agent_listener \<Rightarrow> agent_loaded res" where
  "load_client E H data listen_socket connect_socket base =
     andthen (build_upstream E Inr (al_transport base) (client_upstream_table H connect_socket base)) (\<lambda>remote.
     andthen (register_upstreams [remote]) (\<lambda>ups.
       Inr \<lparr>ld_config = \<lparr>ac_keys = [], ac_rules = [ALLOW_ALL], ac_upstreams = ups, ac_vm_by_cid = [], ac_vm_by_ip = [],
              ac_libvirt_uri = None, ac_dialog_program = dialog_choice data\<rparr>,
            ld_listeners = [client_listener listen_socket base]\<rparr>))"

text \<open>The policy shared by all listeners.\<close>

definition load_policy ::
  "keylib \<Rightarrow> (pstr \<Rightarrow> pbytes option) \<Rightarrow> (pyval \<Rightarrow> pyval res) \<Rightarrow> pstr \<Rightarrow> dict \<Rightarrow> ((pbytes \<times> key_config) list \<times> agent_rule list) res" where
  "load_policy K read resolve first_upstream data =
     andthen (iterated (dget_or data (lit ''known_hosts_files'') (PList []))) (\<lambda>files.
     andthen (map_res resolve files) (\<lambda>files.
     andthen (if \<forall>p \<in> set files. is_str p then Inr (load_known_hosts read (map str_of files) no_hosts) else Inl TypeError) (\<lambda>kh.
     andthen (iterated (dget_or data (lit ''key'') (PList []))) (\<lambda>key_entries.
     andthen (load_keys K resolve first_upstream key_entries []) (\<lambda>keys.
     andthen (iterated (dget_or data (lit ''rule'') (PList []))) (\<lambda>rule_entries.
     andthen (map_res (load_rule K kh (map (kc_id \<circ> snd) keys)) rule_entries) (\<lambda>rules.
       Inr (keys, rules))))))))"

definition load_proxy ::
  "lib \<Rightarrow> keylib \<Rightarrow> host \<Rightarrow> (pstr \<Rightarrow> pbytes option) \<Rightarrow> bool \<Rightarrow> (pyval \<Rightarrow> pyval res) \<Rightarrow> dict \<Rightarrow> agent_listener \<Rightarrow> agent_loaded res" where
  "load_proxy E K H read has_libvirt resolve data base =
     andthen (case dget data (lit ''tcp_bind'') of PNone \<Rightarrow> Inr () | v \<Rightarrow> andthen (split_bind (shown E v)) (\<lambda>_. Inr ())) (\<lambda>_.
     andthen (load_upstreams E H resolve data) (\<lambda>ups.
     andthen (ensure (\<not> (truthy (dget data (lit ''libvirt_uri'')) \<and> \<not> has_libvirt)) ''the libvirt module is not installed'') (\<lambda>_.
     andthen (resolution_mode (dget data (lit ''resolution'')) (al_encryption base) (al_transport base)) (\<lambda>mode.
     andthen (iterated (dget_or data (lit ''vm'') (PList []))) (\<lambda>vms.
     andthen (load_vms vms []) (\<lambda>by_cid.
     andthen (iterated (dget_or data (lit ''tcp_vm'') (PList []))) (\<lambda>tcp_vms.
     andthen (load_tcp_vms tcp_vms []) (\<lambda>by_ip.
     andthen (load_policy K read resolve (uc_id (hd ups)) data) (\<lambda>(keys, rules).
     andthen (load_listeners E resolve data base mode) (\<lambda>listeners.
       Inr \<lparr>ld_config = \<lparr>ac_keys = keys, ac_rules = rules, ac_upstreams = ups, ac_vm_by_cid = by_cid, ac_vm_by_ip = by_ip,
              ac_libvirt_uri = opt_text (dget data (lit ''libvirt_uri'')), ac_dialog_program = dialog_choice data\<rparr>,
            ld_listeners = listeners\<rparr>))))))))))"

text \<open>\<open>load\<close> on the parsed document, the directory of its file and the mode of the command line.\<close>

definition load_agent_config ::
  "lib \<Rightarrow> keylib \<Rightarrow> host \<Rightarrow> (pstr \<Rightarrow> pbytes option) \<Rightarrow> bool \<Rightarrow> pstr \<Rightarrow> dict \<Rightarrow> pstr option \<Rightarrow> agent_loaded res" where
  "load_agent_config E K H read has_libvirt config_dir data mode_arg =
     (let resolve = resolve_value H config_dir;
          mode = (case mode_arg of Some m \<Rightarrow> PStr m | None \<Rightarrow> dget data (lit ''mode''))
      in andthen (ensure (dget data (lit ''mode'') \<noteq> PStr (lit ''merge'') \<and> \<not> dmem (lit ''merge_sockets'') data)
           ''merge mode was removed'') (\<lambda>_.
         andthen (resolve (dget data (lit ''listen_socket''))) (\<lambda>listen_socket.
         andthen (resolve (dget data (lit ''connect_socket''))) (\<lambda>connect_socket.
         andthen (flat_base E resolve data) (\<lambda>base.
           if mode = PStr (lit ''client'') then load_client E H data listen_socket connect_socket base
           else load_proxy E K H read has_libvirt resolve data base)))))"
end
