(* ===== verification/AgentLoad.thy ===== *)
theory AgentLoad
  imports AgentConfig AgentDemo
begin

text \<open>
  What \<open>Config.load\<close> of \<open>ssh-agent-proxy\<close> guarantees of a configuration it accepts, and where an
  accepted configuration means less than its text says.
\<close>

section \<open>Helpers\<close>

lemma map_res_set: "map_res f xs = Inr ys \<Longrightarrow> y \<in> set ys \<Longrightarrow> \<exists>x \<in> set xs. f x = Inr y"
  by (induction xs arbitrary: ys) (auto split: sum.splits)

lemma map_res_length: "map_res f xs = Inr ys \<Longrightarrow> length ys = length xs"
  by (simp add: map_res_Inr_iff list_all2_lengthD)

section \<open>The security knobs\<close>

definition knobs_consistent :: "agent_knobs \<Rightarrow> bool" where
  "knobs_consistent k \<longleftrightarrow>
     k \<in> {(lit ''mtls'', lit ''transport'', lit ''transport''), (lit ''none'', lit ''none'', lit ''none'')}"

lemma agent_security_config_cases:
  assumes "agent_security_config data tr = Inr k"
  obtains security where "dget data (lit ''security'') = PDict security \<or> (dget data (lit ''security'') = PNone \<and> security = [])"
    and "agent_encryption data security tr = PStr (fst k)" and "knobs_consistent k"
    and "agent_mtls_enabled data \<Longrightarrow> fst k = lit ''mtls''"
    and "fst k \<noteq> lit ''mtls'' \<Longrightarrow>
      dget security (lit ''client_auth'') \<noteq> PStr (lit ''transport'') \<and> dget security (lit ''server_auth'') \<noteq> PStr (lit ''transport'')"
proof -
  obtain security where s: "(if dget data (lit ''security'') = PNone then PDict [] else dget data (lit ''security'')) = PDict security"
    using assms by (auto simp: agent_security_config_def split: pyval.splits)
  then have k: "k = (if agent_encryption data security tr = PStr (lit ''mtls'')
      then (lit ''mtls'', lit ''transport'', lit ''transport'') else (lit ''none'', lit ''none'', lit ''none''))"
    and e: "agent_encryption data security tr \<in> {PStr (lit ''none''), PStr (lit ''mtls'')}"
    and d: "\<not> (agent_mtls_enabled data \<and> agent_encryption data security tr \<noteq> PStr (lit ''mtls''))"
    and a: "agent_encryption data security tr \<noteq> PStr (lit ''mtls'') \<Longrightarrow>
      dget security (lit ''client_auth'') \<noteq> PStr (lit ''transport'') \<and> dget security (lit ''server_auth'') \<noteq> PStr (lit ''transport'')"
    using assms unfolding agent_security_config_def s by (auto simp: Let_def split: if_splits)
  have l: "lit ''mtls'' \<noteq> lit ''none''" by (simp add: lit_def)
  show thesis
  proof (rule that [of security])
    show "dget data (lit ''security'') = PDict security \<or> (dget data (lit ''security'') = PNone \<and> security = [])"
      using s by (auto split: if_splits)
  qed (use k e d a l in \<open>auto simp: knobs_consistent_def split: if_splits\<close>)
qed

text \<open>
  The knobs of a listener or an upstream are one of two consistent triples and never weaker than
  what is written: \<open>mtls.enable\<close>, an explicit \<open>mtls\<close>, or an authentication by the transport give
  mTLS; a \<open>tcp\<close> endpoint with a \<open>[security]\<close> table that is not empty is plain only if the table
  says so in so many words.
\<close>

theorem agent_security_never_downgraded:
  assumes "agent_security_config data tr = Inr (enc, ca, sa)"
  shows "(enc, ca, sa) \<in> {(lit ''mtls'', lit ''transport'', lit ''transport''), (lit ''none'', lit ''none'', lit ''none'')}
    \<and> (agent_mtls_enabled data \<longrightarrow> enc = lit ''mtls'')
    \<and> (\<forall>security. dget data (lit ''security'') = PDict security \<longrightarrow>
         (PStr (lit ''transport'') \<in> {dget security (lit ''client_auth''), dget security (lit ''server_auth'')}
            \<or> dget security (lit ''transport_encryption'') = PStr (lit ''mtls'') \<longrightarrow> enc = lit ''mtls'')
         \<and> (tr = lit ''tcp'' \<and> security \<noteq> [] \<and> enc = lit ''none'' \<longrightarrow>
              dget security (lit ''transport_encryption'') = PStr (lit ''none'')))"
proof -
  obtain security where s: "dget data (lit ''security'') = PDict security \<or> (dget data (lit ''security'') = PNone \<and> security = [])"
    and e: "agent_encryption data security tr = PStr enc" and c: "knobs_consistent (enc, ca, sa)"
    and m: "agent_mtls_enabled data \<Longrightarrow> enc = lit ''mtls''"
    and a: "enc \<noteq> lit ''mtls'' \<Longrightarrow>
      dget security (lit ''client_auth'') \<noteq> PStr (lit ''transport'') \<and> dget security (lit ''server_auth'') \<noteq> PStr (lit ''transport'')"
    using agent_security_config_cases [OF assms] by auto
  have l: "lit ''mtls'' \<noteq> lit ''none''" "lit ''mtls'' \<noteq> lit ''auto''" by (simp_all add: lit_def)
  have w: "dget security (lit ''transport_encryption'') = PStr (lit ''mtls'') \<Longrightarrow> enc = lit ''mtls''"
    "tr = lit ''tcp'' \<Longrightarrow> security \<noteq> [] \<Longrightarrow> enc = lit ''none'' \<Longrightarrow>
       dget security (lit ''transport_encryption'') = PStr (lit ''none'')"
    using e l by (auto simp: agent_encryption_def Let_def split: if_splits)
  show ?thesis
    using c m a w s by (auto simp: knobs_consistent_def)
qed

theorem agent_security_never_downgraded_witness:
  "agent_security_config [(lit ''security'', PDict [(lit ''client_auth'', PStr (lit ''transport''))])] (lit ''tcp'') =
     Inr (lit ''mtls'', lit ''transport'', lit ''transport'') \<and>
   lit ''mtls'' \<noteq> lit ''none''"
proof -
  have h: "agent_security_config [(lit ''security'', PDict [(lit ''client_auth'', PStr (lit ''transport''))])] (lit ''tcp'') =
     Inr (lit ''mtls'', lit ''transport'', lit ''transport'')"
    by (simp add: agent_security_config_def agent_encryption_def agent_mtls_enabled_def auth_method_ok_def dget_def lit_def)
  show ?thesis
    using agent_security_never_downgraded [OF h] h by (simp add: lit_def)
qed

text \<open>The docstring has \<open>tcp\<close> default to mTLS; without the table, and with an empty one, it is plain.\<close>

lemma empty_security_table_is_plain:
  "agent_security_config [(lit ''security'', PDict [])] (lit ''tcp'') = Inr (lit ''none'', lit ''none'', lit ''none'')"
  by (simp add: agent_security_config_def agent_encryption_def agent_mtls_enabled_def auth_method_ok_def dget_def lit_def)

section \<open>What an accepted document gives\<close>

definition key_entry_ok :: "pbytes \<times> key_config \<Rightarrow> bool" where
  "key_entry_ok e \<longleftrightarrow> kc_blob (snd e) = fst e \<and> kc_type (snd e) \<in> set ACCEPTED_KEY_TYPES"

definition POLICIES :: "pstr set" where
  "POLICIES = {lit ''deny'', lit ''ask'', lit ''allow''}"

definition agent_rule_ok :: "pstr set \<Rightarrow> agent_rule \<Rightarrow> bool" where
  "agent_rule_ok key_ids r \<longleftrightarrow>
     (ar_key r = lit ''*'' \<or> ar_key r \<in> key_ids) \<and> {ar_auth r, ar_data_signing r, ar_add r, ar_remove r} \<subseteq> POLICIES"

definition upstream_ok :: "upstream_config \<Rightarrow> bool" where
  "upstream_ok u \<longleftrightarrow> PStr (uc_transport u) \<in> TRANSPORTS \<and> knobs_consistent (uc_encryption u, uc_client_auth u, uc_server_auth u)"

definition listener_ok :: "agent_listener \<Rightarrow> bool" where
  "listener_ok l \<longleftrightarrow>
     PStr (al_transport l) \<in> TRANSPORTS
     \<and> knobs_consistent (al_encryption l, al_client_auth l, al_server_auth l)
     \<and> PStr (al_resolution l) \<in> RESOLUTIONS
     \<and> (al_transport l = lit ''unix'' \<longrightarrow> al_resolution l \<in> {lit ''none'', lit ''certificate''})
     \<and> (al_scan_dirs l \<or> al_session_socket l \<longrightarrow> al_transport l = lit ''unix'')
     \<and> al_name l \<noteq> Some []"

definition listener_names :: "agent_listener list \<Rightarrow> pstr list" where
  "listener_names ls = concat (map (\<lambda>l. case al_name l of None \<Rightarrow> [] | Some n \<Rightarrow> [n]) ls)"

lemma security_knobs: "agent_security_config data tr = Inr k \<Longrightarrow> knobs_consistent k"
  by (erule agent_security_config_cases)

lemma parse_pubkey_type: "parse_pubkey K line = Inr (t, blob, f) \<Longrightarrow> t \<in> set ACCEPTED_KEY_TYPES"
  by (auto simp: parse_pubkey_def split: list.splits if_splits option.splits)

lemma key_of_entry_type:
  assumes "key_of_entry K resolve u d = Inr k"
  shows "kc_type k \<in> set ACCEPTED_KEY_TYPES"
proof -
  obtain socket where
    c: "(case dget_or d (lit ''pubkey'') (PStr []) of
          PStr line \<Rightarrow> andthen (parse_pubkey K line) (\<lambda>(key_type, blob, fingerprint).
            Inr \<lparr>kc_id = str_of (dget_or d (lit ''id'') (PStr (lit ''unnamed-key''))), kc_type = key_type, kc_blob = blob,
                 kc_fingerprint = fingerprint, kc_socket = str_of socket, kc_explicit = dmem (lit ''socket'') d\<rparr>)
        | _ \<Rightarrow> Inl AttributeError) = Inr k"
    using assms unfolding key_of_entry_def andthen_Inr_iff by blast
  then obtain line where "dget_or d (lit ''pubkey'') (PStr []) = PStr line"
    by (cases "dget_or d (lit ''pubkey'') (PStr [])") simp_all
  with c show ?thesis by (auto dest: parse_pubkey_type)
qed

lemma load_keys_ok:
  assumes "load_keys K resolve u entries acc = Inr ks" and "distinct (map fst acc) \<and> (\<forall>e \<in> set acc. key_entry_ok e)"
  shows "distinct (map fst ks) \<and> (\<forall>e \<in> set ks. key_entry_ok e)"
  using assms
proof (induction entries arbitrary: acc)
  case Nil
  then show ?case by simp
next
  case (Cons entry entries)
  obtain d k where k: "key_of_entry K resolve u d = Inr k" "kc_blob k \<notin> fst ` set acc"
    and rest: "load_keys K resolve u entries (acc @ [(kc_blob k, k)]) = Inr ks"
    using Cons.prems(1) unfolding load_keys.simps andthen_Inr_iff ensure_Inr_iff by blast
  have "key_entry_ok (kc_blob k, k)" using key_of_entry_type [OF k(1)] by (simp add: key_entry_ok_def)
  then have "distinct (map fst (acc @ [(kc_blob k, k)])) \<and> (\<forall>e \<in> set (acc @ [(kc_blob k, k)]). key_entry_ok e)"
    using Cons.prems(2) k(2) by simp
  with rest show ?case by (rule Cons.IH)
qed

lemma load_vms_ok:
  assumes "load_vms entries acc = Inr vs" and "distinct (map fst acc)" and "\<forall>e \<in> set acc. HOST_CID < fst e"
  shows "distinct (map fst vs) \<and> (\<forall>e \<in> set vs. HOST_CID < fst e)"
  using assms
proof (induction entries arbitrary: acc)
  case (Cons entry entries)
  obtain d where d: "entry_table entry = Inr d" using Cons.prems(1) by auto
  obtain cid where "HOST_CID < cid" "cid \<notin> fst ` set acc"
    and rest: "load_vms entries (acc @ [(cid, str_of (dget d (lit ''name'')))]) = Inr vs"
    using Cons.prems(1) d by (cases "dget d (lit ''cid'')") auto
  then show ?case
    using Cons.IH [OF rest] Cons.prems(2,3) by auto
qed simp

lemma agent_policy_ok: "agent_policy d f dflt = Inr p \<Longrightarrow> p \<in> POLICIES"
  by (auto simp: agent_policy_def POLICIES_def Let_def split: if_splits)

lemma load_rule_ok:
  assumes "load_rule K kh key_ids entry = Inr r"
  shows "agent_rule_ok (set key_ids) r"
proof -
  obtain d where d: "entry_table entry = Inr d" using assms by (auto simp: load_rule_def)
  obtain key_sel matching where k: "key_sel = lit ''*'' \<or> key_sel \<in> set key_ids"
    and r: "rule_of_entry K kh key_sel d matching = Inr r"
    using assms d unfolding load_rule_def by (cases "dget_or d (lit ''key'') (PStr (lit ''*''))") auto
  show ?thesis
    using r k by (auto simp: rule_of_entry_def agent_rule_ok_def dest: agent_policy_ok)
qed

lemma load_policy_ok:
  assumes "load_policy K read resolve u data = Inr (keys, rules)"
  shows "distinct (map fst keys)" "\<forall>e \<in> set keys. key_entry_ok e"
    "\<forall>r \<in> set rules. agent_rule_ok (set (map (kc_id \<circ> snd) keys)) r"
proof -
  obtain kh key_entries rule_entries where k: "load_keys K resolve u key_entries [] = Inr keys"
    and r: "map_res (load_rule K kh (map (kc_id \<circ> snd) keys)) rule_entries = Inr rules"
    using assms unfolding load_policy_def by auto
  show "distinct (map fst keys)" "\<forall>e \<in> set keys. key_entry_ok e"
    using load_keys_ok [OF k] by simp_all
  show "\<forall>r \<in> set rules. agent_rule_ok (set (map (kc_id \<circ> snd) keys)) r"
    using map_res_set [OF r] load_rule_ok by blast
qed

lemma build_upstream_ok:
  "build_upstream E resolve tr data = Inr u \<Longrightarrow> PStr tr \<in> TRANSPORTS \<Longrightarrow> upstream_ok u"
  by (auto simp: build_upstream_def upstream_ok_def dest: security_knobs)

lemma unix_transport_ok [simp]: "PStr (lit ''unix'') \<in> TRANSPORTS" "PStr (lit ''tcp'') \<in> TRANSPORTS" "PStr (lit ''vsock'') \<in> TRANSPORTS"
  by (simp_all add: TRANSPORTS_def)

lemma transports_str: "v \<in> TRANSPORTS \<Longrightarrow> PStr (str_of v) \<in> TRANSPORTS"
  by (auto simp: TRANSPORTS_def)

lemma parse_upstream_ok: "parse_upstream E resolve entry = Inr u \<Longrightarrow> upstream_ok u"
  by (auto simp: parse_upstream_def Let_def split: pyval.splits if_splits dest: build_upstream_ok transports_str)

lemma load_upstreams_ok:
  assumes "load_upstreams E H resolve data = Inr ups"
  shows "ups \<noteq> []" "distinct (map uc_id ups)" "\<forall>u \<in> set ups. upstream_ok u"
proof -
  obtain raw where m: "map_res (parse_upstream E resolve) raw = Inr ups" and "distinct (map uc_id ups)" "ups \<noteq> []"
    using assms by (auto simp: load_upstreams_def register_upstreams_def)
  then show "ups \<noteq> []" "distinct (map uc_id ups)" by simp_all
  show "\<forall>u \<in> set ups. upstream_ok u" using map_res_set [OF m] parse_upstream_ok by blast
qed

lemma resolution_mode_ok:
  assumes "resolution_mode v enc tr = Inr mode"
  shows "PStr mode \<in> RESOLUTIONS \<and> (tr = lit ''unix'' \<longrightarrow> mode \<in> {lit ''none'', lit ''certificate''})"
proof -
  have "mode \<in> {lit ''none'', lit ''certificate'', lit ''tartarus'', lit ''mofos''}"
    using assms by (auto simp: resolution_mode_def RESOLUTIONS_def Let_def split: if_splits)
  moreover have "\<not> (tr = lit ''unix'' \<and> mode \<in> {lit ''tartarus'', lit ''mofos''})"
    using assms by (auto simp: resolution_mode_def Let_def)
  ultimately show ?thesis by (auto simp: RESOLUTIONS_def)
qed

lemma socket_flags_ok: "socket_flags data tr = Inr (scan, session) \<Longrightarrow> scan \<or> session \<Longrightarrow> tr = lit ''unix''"
  by (auto simp: socket_flags_def Let_def)

lemma name_ok_text: "name_ok v \<Longrightarrow> opt_text v \<noteq> Some []"
  by (auto simp: name_ok_def opt_text_def split: pyval.splits)

lemma listener_of_table_ok:
  assumes "listener_of_table E resolve tr data = Inr l" and "PStr tr \<in> TRANSPORTS"
  shows "listener_ok l"
proof -
  obtain enc ca sa mode scan session where
    s: "agent_security_config data tr = Inr (enc, ca, sa)" "resolution_mode (dget data (lit ''resolution'')) enc tr = Inr mode"
      "socket_flags data tr = Inr (scan, session)" "name_ok (dget data (lit ''name''))"
    and l: "al_transport l = tr" "al_encryption l = enc" "al_client_auth l = ca" "al_server_auth l = sa"
      "al_resolution l = mode" "al_scan_dirs l = scan" "al_session_socket l = session" "al_name l = opt_text (dget data (lit ''name''))"
    using assms(1) by (auto simp: listener_of_table_def)
  show ?thesis
    using security_knobs [OF s(1)] resolution_mode_ok [OF s(2)] socket_flags_ok [OF s(3)] name_ok_text [OF s(4)] assms(2)
    by (auto simp: listener_ok_def l)
qed

lemma checked_transport: "(if v \<in> TRANSPORTS then Inr (str_of v) else Inl e) = Inr tr \<Longrightarrow> PStr tr \<in> TRANSPORTS"
  by (auto dest: transports_str split: if_splits)

lemma flat_base_ok:
  assumes "flat_base E resolve data = Inr base"
  shows "PStr (al_transport base) \<in> TRANSPORTS" "knobs_consistent (al_encryption base, al_client_auth base, al_server_auth base)"
proof -
  obtain tr enc ca sa where "flat_transport data = Inr tr" "agent_security_config data tr = Inr (enc, ca, sa)"
    "al_transport base = tr" "al_encryption base = enc" "al_client_auth base = ca" "al_server_auth base = sa"
    using assms by (auto simp: flat_base_def)
  moreover from this have "PStr tr \<in> TRANSPORTS"
    unfolding flat_transport_def Let_def by (intro checked_transport) assumption
  ultimately show "PStr (al_transport base) \<in> TRANSPORTS" "knobs_consistent (al_encryption base, al_client_auth base, al_server_auth base)"
    using security_knobs by blast+
qed

lemma listener_from_flat_ok:
  assumes "listener_from_flat data base mode = Inr l" and "flat_base E resolve data = Inr base"
    and "resolution_mode v (al_encryption base) (al_transport base) = Inr mode"
  shows "listener_ok l"
proof -
  obtain h p scan session where s: "socket_flags data (al_transport base) = Inr (scan, session)" "name_ok (dget data (lit ''name''))"
    and l: "l = base\<lparr>al_host := h, al_port := p, al_resolution := mode, al_name := opt_text (dget data (lit ''name'')),
                 al_scan_dirs := scan, al_session_socket := session\<rparr>"
    using assms(1) by (auto simp: listener_from_flat_def)
  show ?thesis
    using flat_base_ok [OF assms(2)] resolution_mode_ok [OF assms(3)] socket_flags_ok [OF s(1)] name_ok_text [OF s(2)]
    by (auto simp: listener_ok_def l)
qed

lemma parse_listener_ok: "parse_listener E resolve data = Inr l \<Longrightarrow> listener_ok l"
  by (auto simp: parse_listener_def Let_def split: if_splits dest: listener_of_table_ok [OF _ transports_str])

lemma load_listeners_ok:
  assumes "load_listeners E resolve data base mode = Inr ls" and "flat_base E resolve data = Inr base"
    and "resolution_mode v (al_encryption base) (al_transport base) = Inr mode"
  shows "ls \<noteq> [] \<and> (\<forall>l \<in> set ls. listener_ok l) \<and> distinct (listener_names ls)"
proof -
  have d: "distinct (listener_names ls)"
    using assms(1) by (auto simp: load_listeners_def listener_names_def)
  show ?thesis
  proof (cases "\<exists>entry entries. dget data (lit ''listeners'') = PList (entry # entries)")
    case True
    then obtain entry entries where "map_res (\<lambda>x. andthen (entry_table x) (parse_listener E resolve)) (entry # entries) = Inr ls"
      using assms(1) by (auto simp: load_listeners_def)
    from map_res_set [OF this] map_res_length [OF this] show ?thesis
      using d parse_listener_ok by fastforce
  next
    case False
    then obtain l where "listener_from_flat data base mode = Inr l" "ls = [l]"
      using assms(1) unfolding load_listeners_def by (auto split: pyval.splits list.splits)
    then show ?thesis using d listener_from_flat_ok [OF _ assms(2,3)] by auto
  qed
qed

definition agent_config_ok :: "agent_config \<Rightarrow> bool" where
  "agent_config_ok cfg \<longleftrightarrow>
     distinct (map fst (ac_keys cfg)) \<and> (\<forall>e \<in> set (ac_keys cfg). key_entry_ok e)
     \<and> (\<forall>r \<in> set (ac_rules cfg). agent_rule_ok (set (map (kc_id \<circ> snd) (ac_keys cfg))) r)
     \<and> ac_upstreams cfg \<noteq> [] \<and> distinct (map uc_id (ac_upstreams cfg)) \<and> (\<forall>u \<in> set (ac_upstreams cfg). upstream_ok u)
     \<and> distinct (map fst (ac_vm_by_cid cfg)) \<and> (\<forall>e \<in> set (ac_vm_by_cid cfg). HOST_CID < fst e)"

lemma load_client_ok:
  assumes "load_client E H data listen_socket connect_socket base = Inr L" and "flat_base E resolve data = Inr base"
  shows "agent_config_ok (ld_config L) \<and> ld_listeners L \<noteq> [] \<and> (\<forall>l \<in> set (ld_listeners L). listener_ok l)
    \<and> distinct (listener_names (ld_listeners L))"
proof -
  obtain remote where r: "build_upstream E Inr (al_transport base) (client_upstream_table H connect_socket base) = Inr remote"
    and L: "ac_upstreams (ld_config L) = [remote]" "ac_keys (ld_config L) = []" "ac_rules (ld_config L) = [ALLOW_ALL]"
      "ac_vm_by_cid (ld_config L) = []" "ld_listeners L = [client_listener listen_socket base]"
    using assms(1) by (auto simp: load_client_def register_upstreams_def)
  have "upstream_ok remote" using build_upstream_ok [OF r] flat_base_ok [OF assms(2)] by simp
  moreover have "agent_rule_ok {} ALLOW_ALL" by (simp add: agent_rule_ok_def ALLOW_ALL_def DEFAULT_RULE_def POLICIES_def)
  moreover have "al_name base = None" "al_scan_dirs base = False" "al_session_socket base = False"
    using assms(2) by (auto simp: flat_base_def)
  then have "listener_ok (client_listener listen_socket base)"
    by (simp add: listener_ok_def client_listener_def knobs_consistent_def RESOLUTIONS_def)
  moreover have "distinct (listener_names [client_listener listen_socket base])"
    by (simp add: listener_names_def split: option.split)
  ultimately show ?thesis by (simp add: agent_config_ok_def L)
qed

lemma load_proxy_ok:
  assumes "load_proxy E K H read has_libvirt resolve data base = Inr L" and "flat_base E resolve data = Inr base"
  shows "agent_config_ok (ld_config L) \<and> ld_listeners L \<noteq> [] \<and> (\<forall>l \<in> set (ld_listeners L). listener_ok l)
    \<and> distinct (listener_names (ld_listeners L))"
proof -
  obtain ups mode vms keys rules where
    u: "load_upstreams E H resolve data = Inr ups" "ac_upstreams (ld_config L) = ups"
    and m: "resolution_mode (dget data (lit ''resolution'')) (al_encryption base) (al_transport base) = Inr mode"
    and v: "load_vms vms [] = Inr (ac_vm_by_cid (ld_config L))"
    and p: "load_policy K read resolve (uc_id (hd ups)) data = Inr (keys, rules)"
      "ac_keys (ld_config L) = keys" "ac_rules (ld_config L) = rules"
    and l: "load_listeners E resolve data base mode = Inr (ld_listeners L)"
    using assms(1) by (auto simp: load_proxy_def)
  show ?thesis
    using load_upstreams_ok [OF u(1)] load_vms_ok [OF v] load_policy_ok [OF p(1)] load_listeners_ok [OF l assms(2) m]
    by (simp add: agent_config_ok_def u(2) p(2,3))
qed

text \<open>
  C19: Every configuration that loads is coherent: one key per public key, rules that name known keys
  and policies, distinct and non-empty upstreams, distinct machine numbers above the host's, and
  at least one listener, each with consistent knobs and a mode of identification its transport
  has, under distinct names.
\<close>

theorem loaded_configuration_sound:
  assumes "load_agent_config E K H read has_libvirt config_dir data mode_arg = Inr L"
  shows "agent_config_ok (ld_config L) \<and> ld_listeners L \<noteq> [] \<and> (\<forall>l \<in> set (ld_listeners L). listener_ok l)
    \<and> distinct (listener_names (ld_listeners L))"
proof -
  obtain base listen_socket connect_socket where b: "flat_base E (resolve_value H config_dir) data = Inr base"
    and "load_client E H data listen_socket connect_socket base = Inr L
      \<or> load_proxy E K H read has_libvirt (resolve_value H config_dir) data base = Inr L"
    using assms by (auto simp: load_agent_config_def Let_def split: if_splits)
  then show ?thesis using load_client_ok [OF _ b] load_proxy_ok [OF _ b] by blast
qed

definition demo_document :: "pyval list \<Rightarrow> dict" where
  "demo_document keys =
     [(lit ''transport'', PStr (lit ''unix'')),
      (lit ''upstream'', PList [PDict [(lit ''name'', PStr (lit ''up'')), (lit ''socket'', PStr (lit ''/run/agent''))]]),
      (lit ''key'', PList keys), (lit ''rule'', PList [PDict [(lit ''auth'', PStr (lit ''allow''))]])]"

lemma demo_document_upstreams:
  "\<exists>u. load_upstreams demo_lib demo_host (resolve_value demo_host (lit ''/etc'')) (demo_document keys) = Inr [u] \<and> uc_id u = lit ''up''"
  by (simp add: load_upstreams_def raw_upstreams_def demo_document_def listed_def iterated_def dget_or_def dget_def lit_def
      parse_upstream_def resolve_value_def startswith_def path_of_def path_div_def path_str_def path_absolute_def
      build_upstream_def agent_security_config_def agent_encryption_def agent_mtls_enabled_def auth_method_ok_def
      mtls_table_def name_ok_def py_int_def DEFAULT_VSOCK_PORT_def HOST_CID_def upstream_id_def opt_text_def py_float_def
      AGENT_TIMEOUT_def register_upstreams_def ensure_def TRANSPORTS_def)

lemma demo_document_policy:
  assumes "load_keys demo_keylib resolve u keys [] = Inr ks"
  shows "load_policy demo_keylib (\<lambda>_. None) resolve u (demo_document keys) = Inr (ks, [DEFAULT_RULE\<lparr>ar_auth := lit ''allow''\<rparr>])"
  using assms
  by (simp add: load_policy_def demo_document_def iterated_def dget_or_def dget_def lit_def load_rule_def entry_table_def
      match_table_def renamed_in_def dmem_def rule_of_entry_def agent_pattern_list_def agent_policy_def parse_host_keys_def
      ensure_def DEFAULT_RULE_def)

lemma demo_document_flat:
  "\<exists>base. flat_base demo_lib (resolve_value demo_host (lit ''/etc'')) (demo_document keys) = Inr base
     \<and> al_transport base = lit ''unix'' \<and> al_encryption base = lit ''none''"
  by (simp add: flat_base_def demo_document_def dget_or_def dget_def lit_def resolve_value_def flat_transport_def TRANSPORTS_def
      flat_mtls_def py_float_def AGENT_TIMEOUT_def py_int_def DEFAULT_DECISION_TIMEOUT_def agent_security_config_def
      agent_encryption_def agent_mtls_enabled_def auth_method_ok_def ensure_def)

lemma demo_document_loads:
  assumes "load_keys demo_keylib (resolve_value demo_host (lit ''/etc'')) (lit ''up'') keys [] = Inr ks"
  shows "\<exists>L u. load_agent_config demo_lib demo_keylib demo_host (\<lambda>_. None) False (lit ''/etc'') (demo_document keys) None = Inr L
     \<and> ac_keys (ld_config L) = ks \<and> ac_upstreams (ld_config L) = [u] \<and> uc_id u = lit ''up''"
proof -
  obtain base where base: "flat_base demo_lib (resolve_value demo_host (lit ''/etc'')) (demo_document keys) = Inr base"
    and b: "al_transport base = lit ''unix''" "al_encryption base = lit ''none''"
    using demo_document_flat by blast
  obtain u where "load_upstreams demo_lib demo_host (resolve_value demo_host (lit ''/etc'')) (demo_document keys) = Inr [u]"
    "uc_id u = lit ''up''"
    using demo_document_upstreams by blast
  moreover have "resolution_mode PNone (al_encryption base) (al_transport base) = Inr (lit ''none'')"
    by (simp add: resolution_mode_def b lit_def ensure_def)
  moreover obtain ls where
    "load_listeners demo_lib (resolve_value demo_host (lit ''/etc'')) (demo_document keys) base (lit ''none'') = Inr ls"
    by (simp add: load_listeners_def demo_document_def dmem_def dget_def dget_or_def lit_def listener_from_flat_def
        flat_address_def socket_flags_def b name_ok_def opt_text_def ensure_def)
  moreover have "dget (demo_document keys) (lit k) = PNone"
    if "k \<in> {''mode'', ''listen_socket'', ''connect_socket'', ''tcp_bind'', ''libvirt_uri'', ''resolution''}" for k
    using that by (auto simp: demo_document_def dget_def lit_def)
  moreover have "dget_or (demo_document keys) (lit k) v = v" if "k \<in> {''vm'', ''tcp_vm''}" for k v
    using that by (auto simp: demo_document_def dget_or_def lit_def)
  moreover have "\<not> dmem (lit ''merge_sockets'') (demo_document keys)"
    by (simp add: demo_document_def dmem_def lit_def)
  ultimately show ?thesis
    using base assms by (simp add: load_agent_config_def load_proxy_def demo_document_policy resolve_value_def iterated_def ensure_def)
qed

theorem loaded_configuration_sound_witness:
  "\<exists>L. load_agent_config demo_lib demo_keylib demo_host (\<lambda>_. None) False (lit ''/etc'') (demo_document []) None = Inr L
     \<and> agent_config_ok (ld_config L)"
proof -
  obtain L where L: "load_agent_config demo_lib demo_keylib demo_host (\<lambda>_. None) False (lit ''/etc'') (demo_document []) None = Inr L"
    using demo_document_loads [of "[]"] by auto
  from loaded_configuration_sound [OF this] L show ?thesis by blast
qed

section \<open>Restrictions that are lost\<close>

text \<open>
  C18: A destination the files of known hosts do not have leaves the rule without any: the comment of
  \<open>KnownHosts.resolve\<close> says the caller fails closed, but a rule with no destinations is one that
  allows them all. The key signs an authentication to any host, in a session that was never bound.
\<close>

theorem unresolved_host_lifts_restriction:
  assumes "load_rule K kh key_ids (PDict d) = Inr r"
    and "dget_or d (lit ''allowed_host_keys'') (PList []) = PList [PStr host]"
    and "split_ws (py_strip host) = first # rest" and "first \<notin> set ACCEPTED_KEY_TYPES"
    and "resolve_host K kh (py_strip host) = Inr []"
    and "usage_policy r (determine_purpose (ae_keylib E) data) \<noteq> lit ''deny''"
  shows "sign_with_key E P blob data k r raw links s =
    ask_and_relay E P (determine_purpose (ae_keylib E) data) blob k r raw links s"
proof -
  have "parse_host_keys K kh (PList [PStr host]) = Inr []"
    by (simp add: parse_host_keys_def iterated_def host_keys_of_def Let_def assms(3-5))
  then obtain key_sel matching where "rule_of_entry K kh key_sel d matching = Inr r"
    using assms(1) unfolding load_rule_def by (cases "dget_or d (lit ''key'') (PStr (lit ''*''))") (auto simp: entry_table_def)
  then have "ar_hosts r = []"
    using assms(2) \<open>parse_host_keys K kh (PList [PStr host]) = Inr []\<close> by (auto simp: rule_of_entry_def)
  then show ?thesis
    using assms(6) by (simp add: sign_with_key_def on_state_def Let_def)
qed

theorem unresolved_host_lifts_restriction_witness:
  "\<exists>r. load_rule demo_keylib no_hosts [] (PDict [(lit ''auth'', PStr (lit ''allow'')),
       (lit ''allowed_host_keys'', PList [PStr (lit ''prod'')])]) = Inr r
     \<and> sign_with_key (demo_agent [] 1) demo_peer demo_blob demo_auth_data demo_key r demo_sign_request [lit ''up''] (demo_start []) =
        ask_and_relay (demo_agent [] 1) demo_peer AUTH_PURPOSE demo_blob demo_key r demo_sign_request [lit ''up''] (demo_start [])"
proof -
  let ?E = "demo_agent [] 1"
  let ?d = "[(lit ''auth'', PStr (lit ''allow'')), (lit ''allowed_host_keys'', PList [PStr (lit ''prod'')])]"
  have t: "py_strip (lit ''prod'') = lit ''prod''" "split_ws (lit ''prod'') = [lit ''prod'']"
    by (simp_all add: py_strip_def split_ws_def is_uspace_def lit_def)
  have n: "lit ''prod'' \<notin> set ACCEPTED_KEY_TYPES" by (simp add: ACCEPTED_KEY_TYPES_def lit_def)
  have h: "resolve_host demo_keylib no_hosts (py_strip (lit ''prod'')) = Inr []"
    by (simp add: t resolve_host_def no_hosts_def lookup_host_def hashed_blobs_def has_wildcard_def lit_def)
  then have "parse_host_keys demo_keylib no_hosts (PList [PStr (lit ''prod'')]) = Inr []"
    using n by (simp add: parse_host_keys_def iterated_def host_keys_of_def t)
  moreover have g: "dget_or ?d (lit ''allowed_host_keys'') (PList []) = PList [PStr (lit ''prod'')]"
    by (simp add: dget_or_def lit_def)
  ultimately obtain r where r: "load_rule demo_keylib no_hosts [] (PDict ?d) = Inr r" and a: "ar_auth r = lit ''allow''"
    by (simp add: load_rule_def entry_table_def match_table_def renamed_in_def dmem_def rule_of_entry_def agent_pattern_list_def
        agent_policy_def ensure_def dget_or_def dget_def lit_def)
  have p: "usage_policy r (determine_purpose (ae_keylib ?E) demo_auth_data) \<noteq> lit ''deny''"
    using a by (simp add: demo_purpose usage_policy_def lit_def)
  have s: "split_ws (py_strip (lit ''prod'')) = lit ''prod'' # []" by (simp add: t)
  show ?thesis
    using r unresolved_host_lifts_restriction [OF r g s n h p, of demo_peer demo_blob demo_key demo_sign_request "[lit ''up'']"
        "demo_start []"] by (auto simp only: demo_purpose)
qed
section \<open>Pinned sockets\<close>

text \<open>The id of a named or remote upstream is no path.\<close>

definition relative_id :: "pstr \<Rightarrow> bool" where
  "relative_id s \<longleftrightarrow> s \<noteq> [] \<and> (\<forall>p \<in> set [lit ''/'', lit ''%t/'', lit ''~/'']. \<not> startswith p s)"

lemma join_append_starts: "startswith (lit ''/'') a \<Longrightarrow> startswith (lit ''/'') (a @ b)"
  by (cases a) (auto simp: startswith_def lit_def)

lemma path_of_root: "fst (path_of t) \<in> {[], lit ''/'', lit ''//''}"
  by (simp add: path_of_def)

lemma path_str_of_rooted: "path_absolute p \<Longrightarrow> fst p \<in> {[], lit ''/'', lit ''//''} \<Longrightarrow> startswith (lit ''/'') (path_str p)"
  by (auto simp: path_str_def path_absolute_def startswith_def lit_def)

lemma resolved_not_relative:
  assumes "resolve_value H config_dir v = Inr (PStr s)" and "startswith (lit ''/'') config_dir"
    and "\<And>home. h_env H (lit ''HOME'') = Some home \<Longrightarrow> startswith (lit ''/'') home"
    and "\<And>home. h_home H [] = Some home \<Longrightarrow> startswith (lit ''/'') home"
  shows "\<not> relative_id s"
proof -
  have root: "startswith (lit ''/'') (path_str (path_div (path_of config_dir) p))" if "fst p \<in> {[], lit ''/'', lit ''//''}" for p
    by (rule path_str_of_rooted) (use that assms(2) in \<open>auto simp: path_div_def path_absolute_def path_of_def lit_def\<close>)
  have div: "startswith (lit ''/'') (path_str (path_div (path_of config_dir) (path_of t)))" for t
    by (rule root) (rule path_of_root)
  have home: "startswith (lit ''/'') (path_str (path_of dir) @ r)" if "startswith (lit ''/'') dir" for dir r
    by (rule join_append_starts, rule path_str_of_rooted) (use that in \<open>auto simp: path_absolute_def path_of_def lit_def\<close>)
  obtain t where v: "v = PStr t" using assms(1) by (cases v) (simp_all add: resolve_value_def)
  show ?thesis
    using assms(1,3,4) div [of t] home
    by (auto simp: v resolve_value_def relative_id_def join_append_starts split: if_splits option.splits)
qed

text \<open>Home directories are absolute.\<close>

definition rooted_host :: "host \<Rightarrow> bool" where
  "rooted_host H \<longleftrightarrow>
     (\<forall>home. h_env H (lit ''HOME'') = Some home \<or> h_home H [] = Some home \<longrightarrow> startswith (lit ''/'') home)"

lemma load_keys_sockets:
  assumes "load_keys K resolve u entries acc = Inr ks" and "\<forall>e \<in> set acc. good (kc_socket (snd e))"
    and "\<And>d k. key_of_entry K resolve u d = Inr k \<Longrightarrow> good (kc_socket k)"
  shows "\<forall>e \<in> set ks. good (kc_socket (snd e))"
  using assms(1,2)
proof (induction entries arbitrary: acc)
  case Nil
  then show ?case by simp
next
  case (Cons entry entries)
  obtain d k where k: "key_of_entry K resolve u d = Inr k"
    and rest: "load_keys K resolve u entries (acc @ [(kc_blob k, k)]) = Inr ks"
    using Cons.prems(1) unfolding load_keys.simps andthen_Inr_iff ensure_Inr_iff by blast
  have "\<forall>e \<in> set (acc @ [(kc_blob k, k)]). good (kc_socket (snd e))"
    using Cons.prems(2) assms(3) [OF k] by simp
  with rest show ?case by (rule Cons.IH)
qed

lemma key_of_entry_socket:
  assumes "key_of_entry K resolve u d = Inr k"
  shows "\<exists>v w. resolve v = Inr w \<and> kc_socket k = str_of w"
proof -
  obtain w where w: "resolve (dget_or d (lit ''socket'') (PStr u)) = Inr w"
    and c: "(case dget_or d (lit ''pubkey'') (PStr []) of
          PStr line \<Rightarrow> andthen (parse_pubkey K line) (\<lambda>(key_type, blob, fingerprint).
            Inr \<lparr>kc_id = str_of (dget_or d (lit ''id'') (PStr (lit ''unnamed-key''))), kc_type = key_type, kc_blob = blob,
                 kc_fingerprint = fingerprint, kc_socket = str_of w, kc_explicit = dmem (lit ''socket'') d\<rparr>)
        | _ \<Rightarrow> Inl AttributeError) = Inr k"
    using assms unfolding key_of_entry_def andthen_Inr_iff by blast
  from c have "kc_socket k = str_of w" by (cases "dget_or d (lit ''pubkey'') (PStr [])") auto
  with w show ?thesis by blast
qed

lemma load_proxy_policy:
  "load_proxy E K H read has_libvirt resolve data base = Inr L \<Longrightarrow>
     \<exists>u. load_policy K read resolve u data = Inr (ac_keys (ld_config L), ac_rules (ld_config L))"
  by (auto simp: load_proxy_def)

text \<open>
  The documentation names an upstream by its id in \<open>key.socket\<close>. Paths are resolved against the
  directory of the configuration first, so the id of a named, TCP or VSOCK upstream is never
  what a key is pinned to, nor what a key without a socket defaults to: such a pin is a path that
  no connection ever dials.
\<close>

theorem pin_to_upstream_id_is_lost:
  assumes "load_agent_config E K H read has_libvirt config_dir data mode_arg = Inr L"
    and "startswith (lit ''/'') config_dir" and "rooted_host H"
    and "u \<in> set (ac_upstreams (ld_config L))" and "relative_id (uc_id u)"
    and "(blob, k) \<in> set (ac_keys (ld_config L))"
  shows "kc_socket k \<noteq> uc_id u"
proof -
  let ?resolve = "resolve_value H config_dir"
  have r: "\<not> relative_id (str_of w)" if "?resolve v = Inr w" for v w
  proof (cases w)
    case (PStr s)
    then show ?thesis
      using resolved_not_relative [OF _ assms(2), of H v s] that assms(3) by (auto simp: rooted_host_def)
  qed (simp_all add: relative_id_def)
  obtain base listen_socket connect_socket where
    "load_client E H data listen_socket connect_socket base = Inr L \<or> load_proxy E K H read has_libvirt ?resolve data base = Inr L"
    using assms(1) by (auto simp: load_agent_config_def Let_def split: if_splits)
  then show ?thesis
  proof
    assume "load_client E H data listen_socket connect_socket base = Inr L"
    then show ?thesis using assms(6) by (auto simp: load_client_def)
  next
    assume "load_proxy E K H read has_libvirt ?resolve data base = Inr L"
    from load_proxy_policy [OF this] obtain first rules where
      "load_policy K read ?resolve first data = Inr (ac_keys (ld_config L), rules)" by blast
    then obtain entries where k: "load_keys K ?resolve first entries [] = Inr (ac_keys (ld_config L))"
      unfolding load_policy_def by auto
    have "\<forall>e \<in> set (ac_keys (ld_config L)). \<not> relative_id (kc_socket (snd e))"
    proof (rule load_keys_sockets [OF k])
      show "\<not> relative_id (kc_socket k)" if "key_of_entry K ?resolve first d = Inr k" for d k
        using key_of_entry_socket [OF that] r by auto
    qed simp
    then show ?thesis using assms(5,6) by fastforce
  qed
qed

theorem pin_to_upstream_id_is_lost_witness:
  "\<exists>L u k. load_agent_config demo_lib demo_keylib demo_host (\<lambda>_. None) False (lit ''/etc'')
       (demo_document [PDict [(lit ''socket'', PStr (lit ''up'')), (lit ''pubkey'', PStr (lit ''ssh-ed25519 AAAA''))]]) None = Inr L
     \<and> ac_upstreams (ld_config L) = [u] \<and> uc_id u = lit ''up'' \<and> ac_keys (ld_config L) = [([0, 0, 0], k)] \<and> kc_explicit k
     \<and> kc_socket k \<noteq> lit ''up''"
proof -
  let ?d = "[(lit ''socket'', PStr (lit ''up'')), (lit ''pubkey'', PStr (lit ''ssh-ed25519 AAAA''))]"
  have "split_ws (lit ''ssh-ed25519 AAAA'') = [lit ''ssh-ed25519'', lit ''AAAA'']"
    by (simp add: split_ws_def is_uspace_def lit_def)
  moreover have "b64decode_lenient (lit ''AAAA'') = Some [0, 0, 0]"
    by (simp add: b64decode_lenient_def lit_def b64_val_def)
  moreover have "lit ''ssh-ed25519'' \<in> set ACCEPTED_KEY_TYPES" by (simp add: ACCEPTED_KEY_TYPES_def)
  ultimately have p: "parse_pubkey demo_keylib (lit ''ssh-ed25519 AAAA'') =
      Inr (lit ''ssh-ed25519'', [0, 0, 0], key_fingerprint demo_keylib [0, 0, 0])"
    by (simp add: parse_pubkey_def)
  have "dget_or ?d (lit ''pubkey'') (PStr []) = PStr (lit ''ssh-ed25519 AAAA'')" "dget_or ?d (lit ''socket'') v = PStr (lit ''up'')"
    "dmem (lit ''socket'') ?d" for v
    by (simp_all add: dget_or_def dmem_def lit_def)
  moreover have "\<exists>w. resolve_value demo_host (lit ''/etc'') (PStr (lit ''up'')) = Inr w"
    by (simp add: resolve_value_def startswith_def lit_def)
  ultimately obtain k where "key_of_entry demo_keylib (resolve_value demo_host (lit ''/etc'')) (lit ''up'') ?d = Inr k"
    and b: "kc_blob k = [0, 0, 0]" and e: "kc_explicit k"
    by (auto simp: key_of_entry_def p)
  then have "load_keys demo_keylib (resolve_value demo_host (lit ''/etc'')) (lit ''up'') [PDict ?d] [] = Inr [([0, 0, 0], k)]"
    by (simp add: entry_table_def ensure_def)
  from demo_document_loads [OF this] obtain L u where L: "load_agent_config demo_lib demo_keylib demo_host (\<lambda>_. None) False
      (lit ''/etc'') (demo_document [PDict ?d]) None = Inr L"
    and k: "ac_keys (ld_config L) = [([0, 0, 0], k)]" and u: "ac_upstreams (ld_config L) = [u]" "uc_id u = lit ''up''"
    by blast
  have "startswith (lit ''/'') (lit ''/etc'')" "rooted_host demo_host" "relative_id (uc_id u)"
    by (simp_all add: startswith_def lit_def rooted_host_def demo_host_def relative_id_def u)
  from pin_to_upstream_id_is_lost [OF L this(1,2) _ this(3), of "[0, 0, 0]" k] show ?thesis
    using L k u e by auto
qed

end
