(* ===== verification/AgentLinks.thy ===== *)
theory AgentLinks
  imports AgentConfig
begin

text \<open>
  The outer side of \<open>ssh-agent-proxy\<close>: links to upstream agents (a local socket, or a remote proxy
  behind one shared connection that is reconnected once), the TLS contexts, and the binding of
  all listeners in \<open>run_proxy\<close>.
\<close>

section \<open>Links\<close>

text \<open>
  \<open>SocketLink.request\<close> on what will arrive on the socket: an answer that does not come in time is
  given up, and whatever of it arrives later stays in the stream.
\<close>

definition socket_request :: "bool \<Rightarrow> pbytes \<Rightarrow> inflow \<Rightarrow> pbytes option \<times> inflow" where
  "socket_request sent msg st = (if ssh_string msg = None \<or> \<not> sent then (None, st) else recv_msg st)"

text \<open>
  A \<open>RemoteConnection\<close>: the stream of the connection it holds, the number of connections made so
  far, and the messages written, each with the number of its connection. The \<open>n\<close>-th attempt to
  connect gives a stream or fails; a write may fail.
\<close>

record remote =
  rm_sock :: "inflow option"
  rm_attempts :: nat
  rm_written :: "(nat \<times> pbytes) list"

record remote_net =
  rn_connect :: "nat \<Rightarrow> inflow option"
  rn_write :: "nat \<Rightarrow> pbytes \<Rightarrow> bool"

definition remote_connect :: "remote_net \<Rightarrow> remote \<Rightarrow> remote" where
  "remote_connect N r = r\<lparr>rm_sock := rn_connect N (rm_attempts r), rm_attempts := Suc (rm_attempts r)\<rparr>"

definition ensure_connected :: "remote_net \<Rightarrow> remote \<Rightarrow> remote" where
  "ensure_connected N r = (if rm_sock r = None then remote_connect N r else r)"

text \<open>One pass over a connected socket: an answer, or the connection is dropped.\<close>

definition remote_try :: "remote_net \<Rightarrow> pbytes \<Rightarrow> inflow \<Rightarrow> remote \<Rightarrow> pbytes option \<times> remote" where
  "remote_try N msg st r =
     (if ssh_string msg = None \<or> \<not> rn_write N (rm_attempts r) msg then (None, r\<lparr>rm_sock := None\<rparr>)
      else (let r1 = r\<lparr>rm_written := rm_written r @ [(rm_attempts r, msg)]\<rparr>
            in case recv_msg st of
                 (None, _) \<Rightarrow> (None, r1\<lparr>rm_sock := None\<rparr>)
               | (Some resp, st') \<Rightarrow> (Some resp, r1\<lparr>rm_sock := Some st'\<rparr>)))"

fun remote_passes :: "remote_net \<Rightarrow> pbytes \<Rightarrow> nat \<Rightarrow> remote \<Rightarrow> pbytes option \<times> remote" where
  "remote_passes N msg 0 r = (None, r)"
| "remote_passes N msg (Suc n) r =
     (let r1 = ensure_connected N r
      in case rm_sock r1 of
           None \<Rightarrow> (None, r1)
         | Some st \<Rightarrow> (case remote_try N msg st r1 of
               (Some resp, r2) \<Rightarrow> (Some resp, r2)
             | (None, r2) \<Rightarrow> remote_passes N msg n r2))"

definition remote_request :: "remote_net \<Rightarrow> pbytes \<Rightarrow> remote \<Rightarrow> pbytes option \<times> remote" where
  "remote_request N msg r = remote_passes N msg 2 r"

section \<open>TLS\<close>

text \<open>\<open>create_ssl_context\<close> on the resolved fields of a listener or an upstream.\<close>

definition agent_ssl_context ::
  "crypto \<Rightarrow> (pstr \<Rightarrow> pbytes option) \<Rightarrow> net \<Rightarrow> pstr \<Rightarrow> pyval \<Rightarrow> pyval \<Rightarrow> pyval \<Rightarrow> pyval \<Rightarrow> bool \<Rightarrow> ssl_ctx option res" where
  "agent_ssl_context C read N enc ca cert key required_oid server =
     (if enc \<noteq> lit ''mtls'' then Inr None
      else if \<not> (path_text ca \<and> path_text cert \<and> path_text key) then Inl (SystemExit 1)
      else andthen (check_local_oid C read (str_of cert) required_oid) (\<lambda>_.
        (let ctx = \<lparr>ctx_server = server, ctx_check_hostname = False, ctx_cert_required = True,
               ctx_ca = str_of ca, ctx_cert = str_of cert, ctx_key = str_of key\<rparr>
         in andthen (net_load N ctx) (\<lambda>_. Inr (Some ctx)))))"

definition upstream_context :: "crypto \<Rightarrow> (pstr \<Rightarrow> pbytes option) \<Rightarrow> net \<Rightarrow> upstream_config \<Rightarrow> ssl_ctx option res" where
  "upstream_context C read N u =
     agent_ssl_context C read N (uc_encryption u) (uc_ca_file u) (uc_cert_file u) (uc_key_file u) (uc_required_oid u) False"

definition listener_context :: "crypto \<Rightarrow> (pstr \<Rightarrow> pbytes option) \<Rightarrow> net \<Rightarrow> agent_listener \<Rightarrow> ssl_ctx option res" where
  "listener_context C read N l =
     agent_ssl_context C read N (al_encryption l) (al_ca_file l) (al_cert_file l) (al_key_file l) (al_required_oid l) True"

text \<open>The host a remote upstream is dialled at; \<open>_gateway\<close> is resolved when the connection is made.\<close>

definition upstream_address :: "host \<Rightarrow> upstream_config \<Rightarrow> address res" where
  "upstream_address H u =
     (if uc_transport u = lit ''unix'' then
        (case uc_socket u of Some p \<Rightarrow> Inr (UnixAddr p) | None \<Rightarrow> Inr (UnixAddr (lit ''None'')))
      else if uc_transport u = lit ''tcp'' then
        (if uc_host u = PStr (lit ''_gateway'')
         then andthen (resolve_default_gateway H) (\<lambda>gw. Inr (InetAddr (PStr gw) (uc_port u)))
         else Inr (InetAddr (uc_host u) (uc_port u)))
      else Inr (VsockAddr (uc_cid u) (uc_port u)))"

text \<open>
  \<open>RemoteConnection._connect\<close>: the OID of the peer's certificate is checked when there is a
  certificate and a required OID.
\<close>

definition check_remote_oid :: "crypto \<Rightarrow> pbytes option \<Rightarrow> pyval \<Rightarrow> unit res" where
  "check_remote_oid C der oid =
     (if \<not> truthy oid then Inr ()
      else (case der of None \<Rightarrow> Inr ()
        | Some d \<Rightarrow> if d = [] then Inr () else verify_cert_der C d (str_of oid)))"

definition dial_remote :: "crypto \<Rightarrow> net \<Rightarrow> address \<Rightarrow> ssl_ctx option \<Rightarrow> pyval \<Rightarrow> sock res" where
  "dial_remote C N addr ctx oid =
     andthen (net_dial N addr) (\<lambda>s.
       (case ctx of
          None \<Rightarrow> Inr s
        | Some c \<Rightarrow>
            andthen (net_wrap N c (case addr of InetAddr h _ \<Rightarrow> Some (str_of h) | _ \<Rightarrow> None) s) (\<lambda>w.
            andthen (check_remote_oid C (peer_der w) oid) (\<lambda>_. Inr w))))"

text \<open>
  \<open>Config.shared_remote\<close>: the connections of the process by upstream id, each with the address,
  the context and the first connection (which may have failed).
\<close>

type_synonym remote_pool = "(pstr \<times> (address \<times> ssl_ctx option \<times> sock option)) list"

definition shared_remote ::
  "crypto \<Rightarrow> (pstr \<Rightarrow> pbytes option) \<Rightarrow> net \<Rightarrow> host \<Rightarrow> upstream_config \<Rightarrow> remote_pool \<Rightarrow> remote_pool res" where
  "shared_remote C read N H u pool =
     (if uc_id u \<in> fst ` set pool then Inr pool
      else andthen (upstream_context C read N u) (\<lambda>ctx.
           andthen (upstream_address H u) (\<lambda>addr.
             (case dial_remote C N addr ctx (uc_peer_required_oid u) of
                Inr s \<Rightarrow> Inr (pool @ [(uc_id u, (addr, ctx, Some s))])
              | Inl (SystemExit code) \<Rightarrow> Inl (SystemExit code)
              | Inl e \<Rightarrow> Inr (pool @ [(uc_id u, (addr, ctx, None))])))))"

section \<open>Binding\<close>

text \<open>\<open>_parse_mode\<close>.\<close>

definition agent_mode :: "lib \<Rightarrow> pyval \<Rightarrow> pyval \<Rightarrow> int res" where
  "agent_mode E value dflt =
     (case int_text 8 (shown E (if value = PNone then dflt else value)) of
        Some m \<Rightarrow> Inr m
      | None \<Rightarrow> Inl (ValueError ''invalid socket mode''))"

text \<open>\<open>Path.chmod\<close>, which raises when it cannot change the mode.\<close>

definition path_chmod :: "pstr \<Rightarrow> int \<Rightarrow> fs \<Rightarrow> unit res \<times> fs" where
  "path_chmod path mode F =
     (if \<not> (-2147483648 \<le> mode \<and> mode < 2147483648) then (Inl OverflowError, F)
      else (case fs_node F path of
          None \<Rightarrow> (Inl (OSError ''no such file''), F)
        | Some info \<Rightarrow>
            if fs_denied F path then (Inl (OSError ''permission denied''), F)
            else (Inr (), put_node path (info\<lparr>st_mode := mode mod 4096\<rparr>) F)))"

definition prepare_agent_socket :: "host \<Rightarrow> pstr \<Rightarrow> int \<Rightarrow> fs \<Rightarrow> unit res \<times> fs" where
  "prepare_agent_socket H path dir_mode F =
     (let parent_path = path_parent (path_of path); parent = path_str parent_path;
          (made, F1) = (if path_exists parent F then (Inr (), F) else make_dirs H (path_prefixes parent_path) F)
      in case made of Inl e \<Rightarrow> (Inl e, F1)
         | Inr _ \<Rightarrow>
             if (case fs_node F1 parent of Some info \<Rightarrow> st_type info = Symlink | None \<Rightarrow> False)
             then (Inl (RuntimeError ''refusing to bind: parent is a symlink''), F1)
             else (case path_chmod parent dir_mode F1 of
                 (Inl e, F2) \<Rightarrow> (Inl e, F2)
               | (Inr _, F2) \<Rightarrow> clear_bind_target H path F2))"

definition AGENT_SOCKET :: pstr where
  "AGENT_SOCKET = lit ''%t/ssh-agent-proxy/server.sock''"

definition listener_path :: "host \<Rightarrow> pstr option \<Rightarrow> agent_listener \<Rightarrow> pstr res" where
  "listener_path H launchctl l =
     (case agent_expand_socket_path H launchctl
             (case al_socket l of Some p \<Rightarrow> if p = [] then AGENT_SOCKET else p | None \<Rightarrow> AGENT_SOCKET) of
        None \<Rightarrow> Inl (RuntimeError ''Could not determine home directory.'')
      | Some p \<Rightarrow> Inr p)"

definition bind_agent_unix :: "lib \<Rightarrow> host \<Rightarrow> pstr \<Rightarrow> agent_listener \<Rightarrow> fs \<Rightarrow> unit res \<times> fs" where
  "bind_agent_unix E H path l F =
     (case agent_mode E (al_socket_dir_mode l) AGENT_SOCKET_DIR_MODE of Inl e \<Rightarrow> (Inl e, F)
      | Inr dir_mode \<Rightarrow> (case prepare_agent_socket H path dir_mode F of
          (Inl e, F1) \<Rightarrow> (Inl e, F1)
        | (Inr _, F1) \<Rightarrow> (case bind_unix H path F1 of
            (Inl e, F2) \<Rightarrow> (Inl e, F2)
          | (Inr _, F2) \<Rightarrow> (case agent_mode E (al_socket_mode l) AGENT_SOCKET_MODE of
                Inl e \<Rightarrow> (Inl e, F2)
              | Inr mode \<Rightarrow> path_chmod path mode F2))))"

definition pyval_int :: "pyval \<Rightarrow> int res" where
  "pyval_int v = (case v of PInt i \<Rightarrow> Inr i | PBool b \<Rightarrow> Inr (if b then 1 else 0) | _ \<Rightarrow> Inl TypeError)"

definition bind_listener :: "lib \<Rightarrow> net \<Rightarrow> host \<Rightarrow> pstr option \<Rightarrow> agent_listener \<Rightarrow> fs \<Rightarrow> unit res \<times> fs" where
  "bind_listener E N H launchctl l F =
     (if al_transport l = lit ''unix'' then
        (case listener_path H launchctl l of Inl e \<Rightarrow> (Inl e, F) | Inr path \<Rightarrow> bind_agent_unix E H path l F)
      else (case pyval_int (al_port l) of Inl e \<Rightarrow> (Inl e, F)
        | Inr port \<Rightarrow>
            (net_bind N (if al_transport l = lit ''tcp'' then InetAddr (al_host l) port else VsockAddr HOST_CID port), F)))"

definition unlink_listener_socket :: "host \<Rightarrow> pstr option \<Rightarrow> fs \<Rightarrow> agent_listener \<Rightarrow> fs" where
  "unlink_listener_socket H launchctl F l =
     (if al_transport l \<noteq> lit ''unix'' then F
      else (case listener_path H launchctl l of
          Inl e \<Rightarrow> F
        | Inr path \<Rightarrow>
          if fs_denied F path \<or> (case fs_node F path of Some info \<Rightarrow> st_type info = Directory | None \<Rightarrow> False) then F else drop_node path F))"

text \<open>Every listener is bound before any serves; the sockets of those already bound are removed on a failure.\<close>

fun bind_all ::
  "lib \<Rightarrow> crypto \<Rightarrow> (pstr \<Rightarrow> pbytes option) \<Rightarrow> net \<Rightarrow> host \<Rightarrow> pstr option \<Rightarrow> agent_listener list
    \<Rightarrow> (agent_listener \<times> ssl_ctx option) list \<Rightarrow> fs \<Rightarrow> (agent_listener \<times> ssl_ctx option) list \<times> unit res \<times> fs" where
  "bind_all E C read N H launchctl [] bound F = (bound, Inr (), F)"
| "bind_all E C read N H launchctl (l # ls) bound F =
     (case listener_context C read N l of
        Inl e \<Rightarrow> (bound, Inl e, F)
      | Inr ctx \<Rightarrow> (case bind_listener E N H launchctl l F of
            (Inl e, F1) \<Rightarrow> (bound, Inl e, F1)
          | (Inr _, F1) \<Rightarrow> bind_all E C read N H launchctl ls (bound @ [(l, ctx)]) F1))"

definition run_proxy ::
  "lib \<Rightarrow> crypto \<Rightarrow> (pstr \<Rightarrow> pbytes option) \<Rightarrow> net \<Rightarrow> host \<Rightarrow> pstr option \<Rightarrow> agent_listener list \<Rightarrow> fs
    \<Rightarrow> (agent_listener \<times> ssl_ctx option) list res \<times> fs" where
  "run_proxy E C read N H launchctl ls F =
     (case bind_all E C read N H launchctl ls [] F of
        (bound, Inr _, F1) \<Rightarrow> (Inr bound, F1)
      | (bound, Inl e, F1) \<Rightarrow> (Inl e, foldl (unlink_listener_socket H launchctl) F1 (map fst bound)))"

text \<open>\<open>main\<close>: a configuration that does not load ends the process with 1.\<close>

definition agent_main ::
  "lib \<Rightarrow> keylib \<Rightarrow> crypto \<Rightarrow> (pstr \<Rightarrow> pbytes option) \<Rightarrow> net \<Rightarrow> host \<Rightarrow> pstr option \<Rightarrow> bool \<Rightarrow> pstr \<Rightarrow> dict \<Rightarrow> pstr option \<Rightarrow> fs
    \<Rightarrow> (agent_loaded \<times> (agent_listener \<times> ssl_ctx option) list) res \<times> fs" where
  "agent_main E K C read N H launchctl has_libvirt config_dir data mode_arg F =
     (case load_agent_config E K H read has_libvirt config_dir data mode_arg of
        Inl (SystemExit code) \<Rightarrow> (Inl (SystemExit code), F)
      | Inl e \<Rightarrow> (Inl (SystemExit 1), F)
      | Inr L \<Rightarrow> (case run_proxy E C read N H launchctl (ld_listeners L) F of
            (Inl e, F1) \<Rightarrow> (Inl e, F1)
          | (Inr bound, F1) \<Rightarrow> (Inr (L, bound), F1)))"

end
