(* ===== verification/AgentEdges.thy ===== *)
theory AgentEdges
  imports AgentLinks AgentFacts Listen
begin

text \<open>
  The facts of the outer side of \<open>ssh-agent-proxy\<close>: how often a request reaches a remote agent, what a
  late answer does to a link, that a connection configured for mTLS is TLS, and what binding
  leaves on the file system.
\<close>

section \<open>Requests to upstream agents\<close>

lemma ensure_connected_spec:
  "rm_written (ensure_connected N r) = rm_written r \<and> rm_attempts r \<le> rm_attempts (ensure_connected N r)
    \<and> rm_attempts (ensure_connected N r) \<le> Suc (rm_attempts r)
    \<and> (rm_sock r = None \<longrightarrow> rm_attempts (ensure_connected N r) = Suc (rm_attempts r))"
  by (simp add: ensure_connected_def remote_connect_def)

lemma remote_try_spec:
  assumes "remote_try N msg st r = (res, r')"
  shows "rm_attempts r' = rm_attempts r \<and> (rm_sock r' = None \<longleftrightarrow> res = None)
    \<and> (rm_written r' = rm_written r \<and> res = None \<or> rm_written r' = rm_written r @ [(rm_attempts r, msg)])"
  using assms by (auto simp: remote_try_def Let_def split: if_splits prod.splits option.splits)

lemma remote_passes_spec:
  assumes "remote_passes N msg n r = (res, r')"
  shows "\<exists>ws. rm_written r' = rm_written r @ ws \<and> length ws \<le> n \<and> (\<forall>w \<in> set ws. snd w = msg) \<and> distinct (map fst ws)
    \<and> (\<forall>w \<in> set ws. (if rm_sock r = None then Suc (rm_attempts r) else rm_attempts r) \<le> fst w)
    \<and> rm_attempts r' \<le> rm_attempts r + n \<and> (res \<noteq> None \<longrightarrow> ws \<noteq> [] \<and> rm_sock r' \<noteq> None)
    \<and> (res = None \<and> n > 0 \<longrightarrow> rm_sock r' = None)"
  using assms
proof (induction n arbitrary: r)
  case 0
  then show ?case by simp
next
  case (Suc n)
  let ?r1 = "ensure_connected N r"
  have e: "rm_written ?r1 = rm_written r" "rm_attempts r \<le> rm_attempts ?r1" "rm_attempts ?r1 \<le> Suc (rm_attempts r)"
    "rm_sock r = None \<Longrightarrow> rm_attempts ?r1 = Suc (rm_attempts r)"
    using ensure_connected_spec [of N r] by simp_all
  show ?case
  proof (cases "rm_sock ?r1")
    case None
    then show ?thesis using Suc.prems e by (auto simp: Let_def)
  next
    case (Some st)
    obtain res2 r2 where t: "remote_try N msg st ?r1 = (res2, r2)" by force
    note t1 = remote_try_spec [OF t]
    show ?thesis
    proof (cases res2)
      case (Some resp)
      then have "res = Some resp" "r' = r2" using Suc.prems t \<open>rm_sock ?r1 = Some st\<close> by (simp_all add: Let_def)
      then show ?thesis using t1 Some e by (intro exI [of _ "[(rm_attempts ?r1, msg)]"]) auto
    next
      case None
      then have rest: "remote_passes N msg n r2 = (res, r')" using Suc.prems t \<open>rm_sock ?r1 = Some st\<close> by (simp add: Let_def)
      have r2: "rm_sock r2 = None" "rm_attempts r2 = rm_attempts ?r1" using t1 None by auto
      obtain ws where ws: "rm_written r' = rm_written r2 @ ws" "length ws \<le> n" "\<forall>w \<in> set ws. snd w = msg" "distinct (map fst ws)"
        "\<forall>w \<in> set ws. Suc (rm_attempts ?r1) \<le> fst w" "rm_attempts r' \<le> rm_attempts ?r1 + n"
        "res \<noteq> None \<longrightarrow> ws \<noteq> [] \<and> rm_sock r' \<noteq> None" "res = None \<and> n > 0 \<longrightarrow> rm_sock r' = None"
        using Suc.IH [OF rest] unfolding r2 by (elim exE conjE) (rule that, (assumption | simp)+)
      have last: "res = None \<longrightarrow> rm_sock r' = None"
        using ws(8) rest r2 by (cases n) auto
      obtain us where us: "rm_written r2 = rm_written r @ us" "us = [] \<or> us = [(rm_attempts ?r1, msg)]"
        using t1 e(1) None by auto
      have d: "distinct (map fst (us @ ws))"
        using us(2) ws(4,5) by fastforce
      show ?thesis
      proof (intro exI conjI)
        show "rm_written r' = rm_written r @ (us @ ws)" using ws(1) us(1) by simp
        show "length (us @ ws) \<le> Suc n" using us(2) ws(2) by auto
        show "\<forall>w \<in> set (us @ ws). snd w = msg" using us(2) ws(3) by auto
        show "distinct (map fst (us @ ws))" by (rule d)
        show "\<forall>w \<in> set (us @ ws). (if rm_sock r = None then Suc (rm_attempts r) else rm_attempts r) \<le> fst w"
          using us(2) ws(5) e by fastforce
        show "rm_attempts r' \<le> rm_attempts r + Suc n" using ws(6) e(3) by simp
        show "res \<noteq> None \<longrightarrow> us @ ws \<noteq> [] \<and> rm_sock r' \<noteq> None" using ws(7) by auto
        show "res = None \<and> Suc n > 0 \<longrightarrow> rm_sock r' = None" using last by simp
      qed
    qed
  qed
qed

text \<open>
  C31: A request over a shared connection is written at most twice, never twice on the same connection,
  and always as it came; an answer is read off a connection that stays open, a failure leaves
  none open, so what arrives later is never taken for an answer.
\<close>

theorem remote_request_at_most_twice:
  assumes "remote_request N msg r = (res, r')"
  shows "\<exists>ws. rm_written r' = rm_written r @ ws \<and> length ws \<le> 2 \<and> distinct (map fst ws) \<and> (\<forall>w \<in> set ws. snd w = msg)
    \<and> rm_attempts r' \<le> rm_attempts r + 2 \<and> (res = None \<longleftrightarrow> rm_sock r' = None) \<and> (res \<noteq> None \<longrightarrow> ws \<noteq> [])"
proof -
  obtain ws where "rm_written r' = rm_written r @ ws" "length ws \<le> 2" "\<forall>w \<in> set ws. snd w = msg" "distinct (map fst ws)"
    "rm_attempts r' \<le> rm_attempts r + 2" "res \<noteq> None \<longrightarrow> ws \<noteq> [] \<and> rm_sock r' \<noteq> None" "res = None \<longrightarrow> rm_sock r' = None"
    using remote_passes_spec [OF assms [unfolded remote_request_def]] by auto
  then show ?thesis by (intro exI [of _ ws]) auto
qed

theorem remote_request_at_most_twice_witness:
  "\<exists>res r' ws. remote_request \<lparr>rn_connect = (\<lambda>n. Some (if n = 0 then [] else [Data [0, 0, 0, 1, 6]])), rn_write = (\<lambda>_ _. True)\<rparr> [17]
       \<lparr>rm_sock = None, rm_attempts = 0, rm_written = []\<rparr> = (res, r')
    \<and> res = Some [6] \<and> rm_written r' = ws \<and> length ws \<le> 2 \<and> ws = [(1, [17]), (2, [17])]"
proof -
  let ?N = "\<lparr>rn_connect = (\<lambda>n. Some (if n = 0 then [] else [Data [0, 0, 0, 1, 6]])), rn_write = (\<lambda>_ _. True)\<rparr>"
  let ?r = "\<lparr>rm_sock = None, rm_attempts = 0, rm_written = []\<rparr>"
  have r: "recv_msg [Data [0, 0, 0, 1, 6]] = (Some [6], [])"
    by (simp add: recv_msg_def recv_exactly.simps recv_def read_int_def buf_def big_endian_def MAX_AGENT_MSG_LEN_def)
  have h: "remote_request ?N [17] ?r = (Some [6], \<lparr>rm_sock = Some [], rm_attempts = 2, rm_written = [(1, [17]), (2, [17])]\<rparr>)"
    by (simp add: remote_request_def numeral_2_eq_2 ensure_connected_def remote_connect_def remote_try_def recv_msg_Nil r [unfolded One_nat_def] Let_def)
  from remote_request_at_most_twice [OF h] h show ?thesis by auto
qed

text \<open>
  A link to a local agent has no such protection. When the agent answers after the timeout (the
  approver of a nested agent took too long), the answer stays in the stream and the next
  request on the link, whatever it is, is answered with it; every later answer is off by one.
\<close>

theorem late_answer_is_misattributed:
  assumes "steady st" and "flat st = agent_frame answer @ r" and "sendable answer"
    and "ssh_string first \<noteq> None" and "ssh_string second \<noteq> None"
  shows "\<exists>st'. socket_request True first (Quiet # st) = (None, st)
    \<and> socket_request True second st = (Some answer, st') \<and> flat st' = r"
proof -
  have "recv_msg (Quiet # st) = (None, st)"
    by (simp add: recv_msg_def recv_exactly.simps recv_def)
  moreover obtain st' where "recv_msg st = (Some answer, st')" "flat st' = r"
    using recv_agent_frame [OF assms(1-3)] by blast
  ultimately show ?thesis using assms(4,5) by (auto simp: socket_request_def)
qed

theorem late_answer_is_misattributed_witness:
  "\<exists>st'. socket_request True [13, 1] [Quiet, Data [0, 0, 0, 2, 14, 1]] = (None, [Data [0, 0, 0, 2, 14, 1]])
    \<and> socket_request True [13, 2] [Data [0, 0, 0, 2, 14, 1]] = (Some [14, 1], st')"
proof -
  have f: "flat [Data [0, 0, 0, 2, 14, 1]] = agent_frame [14, 1] @ []"
    by (simp add: agent_frame_def)
  have s: "sendable [14, 1]" by (simp add: sendable_def MAX_AGENT_MSG_LEN_def)
  from late_answer_is_misattributed [OF _ f s, of "[13, 1]" "[13, 2]"] show ?thesis by auto
qed

section \<open>Remote upstreams\<close>

lemma agent_ssl_context_mtls:
  assumes "agent_ssl_context C read N enc ca cert key oid server = Inr ctx"
  shows "(enc = lit ''mtls'' \<longleftrightarrow> ctx \<noteq> None) \<and> (\<forall>c. ctx = Some c \<longrightarrow> ctx_cert_required c \<and> ctx_server c = server \<and> net_load N c = Inr ())"
  using assms by (auto simp: agent_ssl_context_def Let_def split: if_splits)

text \<open>
  An upstream configured for mTLS is only ever reached through a handshake that demands a
  certificate, and with a required OID only if the certificate has it: the pool never holds a
  plain connection for it. Its first connection may have failed; it is then retried on the
  same terms.
\<close>

theorem remote_upstream_never_plain:
  assumes "shared_remote C read N H u pool = Inr pool'" and "uc_id u \<notin> fst ` set pool" and "uc_encryption u = lit ''mtls''"
  shows "\<exists>addr c s. pool' = pool @ [(uc_id u, (addr, Some c, s))] \<and> ctx_cert_required c \<and> \<not> ctx_server c
    \<and> (\<forall>sk. s = Some sk \<longrightarrow> (\<exists>name plain_sk. net_wrap N c name plain_sk = Inr sk)
         \<and> (\<forall>der. truthy (uc_peer_required_oid u) \<and> peer_der sk = Some der \<and> der \<noteq> [] \<longrightarrow>
              verify_cert_der C der (str_of (uc_peer_required_oid u)) = Inr ()))"
proof -
  obtain ctx addr where c: "upstream_context C read N u = Inr ctx" and a: "upstream_address H u = Inr addr"
    using assms(1,2) by (auto simp: shared_remote_def)
  obtain c where ctx: "ctx = Some c" "ctx_cert_required c" "\<not> ctx_server c"
    using agent_ssl_context_mtls [OF c [unfolded upstream_context_def]] assms(3) by auto
  show ?thesis
  proof (cases "dial_remote C N addr (Some c) (uc_peer_required_oid u)")
    case (Inl e)
    then have "pool' = pool @ [(uc_id u, (addr, Some c, None))]"
      using assms(1,2) c a ctx(1) by (auto simp: shared_remote_def split: exn.splits)
    then show ?thesis using ctx by blast
  next
    case (Inr sk)
    then have p: "pool' = pool @ [(uc_id u, (addr, Some c, Some sk))]"
      using assms(1,2) c a ctx(1) by (auto simp: shared_remote_def)
    obtain plain_sk name where w: "net_wrap N c name plain_sk = Inr sk"
      and o: "check_remote_oid C (peer_der sk) (uc_peer_required_oid u) = Inr ()"
      using Inr by (auto simp: dial_remote_def)
    have "verify_cert_der C der (str_of (uc_peer_required_oid u)) = Inr ()"
      if "truthy (uc_peer_required_oid u)" "peer_der sk = Some der" "der \<noteq> []" for der
      using o that by (simp add: check_remote_oid_def)
    then show ?thesis using p ctx w by blast
  qed
qed

definition demo_upstream :: upstream_config where
  "demo_upstream =
     \<lparr>uc_id = lit ''tcp:h:1'', uc_transport = lit ''tcp'', uc_socket = None, uc_host = PStr (lit ''h''), uc_port = 1, uc_cid = 2,
      uc_connect_timeout = PInt 1, uc_handshake_timeout = PInt 1, uc_encryption = lit ''mtls'',
      uc_client_auth = lit ''transport'', uc_server_auth = lit ''transport'', uc_mtls_enable = True,
      uc_ca_file = PStr (lit ''a''), uc_cert_file = PStr (lit ''c''), uc_key_file = PStr (lit ''k''),
      uc_required_oid = PNone, uc_peer_required_oid = PNone\<rparr>"

theorem remote_upstream_never_plain_witness:
  "\<exists>pool addr c s. shared_remote demo_crypto (\<lambda>_. None) demo_net demo_host demo_upstream [] = Inr pool
    \<and> pool = [(lit ''tcp:h:1'', (addr, Some c, s))] \<and> ctx_cert_required c"
proof -
  obtain pool where p: "shared_remote demo_crypto (\<lambda>_. None) demo_net demo_host demo_upstream [] = Inr pool"
    by (simp add: shared_remote_def upstream_context_def agent_ssl_context_def demo_upstream_def path_text_def check_local_oid_def
        demo_net_def upstream_address_def dial_remote_def check_remote_oid_def Let_def lit_def)
  have "uc_encryption demo_upstream = lit ''mtls''" "uc_id demo_upstream = lit ''tcp:h:1''" by (simp_all add: demo_upstream_def)
  with remote_upstream_never_plain [OF p] p show ?thesis by fastforce
qed

section \<open>Binding\<close>

lemma path_chmod_spec:
  assumes "path_chmod p mode F = (Inr (), F')"
  shows "\<exists>info. fs_node F p = Some info \<and> F' = put_node p (info\<lparr>st_mode := mode mod 4096\<rparr>) F"
  using assms by (auto simp: path_chmod_def split: if_splits option.splits)

lemma prepare_agent_socket_spec:
  assumes "prepare_agent_socket H path mode F = (Inr (), F')" and "parent_of path \<noteq> path"
  shows "fs_node F' path = None
    \<and> (\<exists>d. fs_node F' (parent_of path) = Some d \<and> st_type d \<noteq> Symlink \<and> st_mode d = mode mod 4096)
    \<and> (\<forall>info. fs_node F path = Some info \<longrightarrow> st_type info = SocketFile \<and> st_uid info = h_uid H)"
proof -
  let ?p = "parent_of path"
  obtain r1 F1 where m: "(if path_exists ?p F then (Inr (), F) else make_dirs H (path_prefixes (path_parent (path_of path))) F) = (r1, F1)"
    by (cases "if path_exists ?p F then (Inr (), F) else make_dirs H (path_prefixes (path_parent (path_of path))) F")
  have m1: "fs_node F1 q = fs_node F q \<or> (fs_node F q = None \<and> (\<exists>d. fs_node F1 q = Some d \<and> st_type d = Directory))" for q
    using m make_dirs_spec [of H _ F r1 F1] by (auto split: if_splits)
  obtain F2 where l: "\<not> (case fs_node F1 ?p of Some info \<Rightarrow> st_type info = Symlink | None \<Rightarrow> False)"
    and c: "path_chmod ?p mode F1 = (Inr (), F2)" and t: "clear_bind_target H path F2 = (Inr (), F')"
    using assms(1) m unfolding prepare_agent_socket_def Let_def parent_of_def
    by (auto split: sum.splits if_splits prod.splits)
  obtain info where i: "fs_node F1 ?p = Some info" "F2 = put_node ?p (info\<lparr>st_mode := mode mod 4096\<rparr>) F1"
    using path_chmod_spec [OF c] by blast
  note t1 = clear_bind_target_spec [OF t]
  have "fs_node F' ?p = Some (info\<lparr>st_mode := mode mod 4096\<rparr>)" using t1 i(2) assms(2) by simp
  moreover have "st_type info \<noteq> Symlink" using l i(1) by simp
  moreover have "st_type old = SocketFile \<and> st_uid old = h_uid H" if "fs_node F path = Some old" for old
    using m1 [of path] that t1 i(2) assms(2) by auto
  ultimately show ?thesis using t1 by auto
qed

text \<open>
  A bound Unix listener is a socket of the server's user with the configured mode, in a directory
  that is no link and has the configured mode, and it replaced nothing but a socket of the same user.
\<close>

theorem agent_listener_is_private:
  assumes "bind_agent_unix E H path l F = (Inr (), F')" and "parent_of path \<noteq> path"
  shows "\<exists>info d mode dir_mode. fs_node F' path = Some info \<and> st_type info = SocketFile \<and> st_uid info = h_uid H
    \<and> agent_mode E (al_socket_mode l) AGENT_SOCKET_MODE = Inr mode \<and> st_mode info = mode mod 4096
    \<and> fs_node F' (parent_of path) = Some d \<and> st_type d \<noteq> Symlink
    \<and> agent_mode E (al_socket_dir_mode l) AGENT_SOCKET_DIR_MODE = Inr dir_mode \<and> st_mode d = dir_mode mod 4096
    \<and> (\<forall>old. fs_node F path = Some old \<longrightarrow> st_type old = SocketFile \<and> st_uid old = h_uid H)"
proof -
  obtain dir_mode F1 F2 mode where d: "agent_mode E (al_socket_dir_mode l) AGENT_SOCKET_DIR_MODE = Inr dir_mode"
    and p: "prepare_agent_socket H path dir_mode F = (Inr (), F1)" and b: "bind_unix H path F1 = (Inr (), F2)"
    and m: "agent_mode E (al_socket_mode l) AGENT_SOCKET_MODE = Inr mode" and c: "path_chmod path mode F2 = (Inr (), F')"
    using assms(1) unfolding bind_agent_unix_def by (auto split: sum.splits prod.splits)
  have F2: "F2 = new_node path SocketFile 384 (h_uid H) F1"
    using b by (auto simp: bind_unix_def split: if_splits)
  obtain info where i: "fs_node F2 path = Some info" "F' = put_node path (info\<lparr>st_mode := mode mod 4096\<rparr>) F2"
    using path_chmod_spec [OF c] by blast
  have n: "fs_node F' path = Some (info\<lparr>st_mode := mode mod 4096\<rparr>)" "st_type info = SocketFile" "st_uid info = h_uid H"
    using i F2 by auto
  have "fs_node F' (parent_of path) = fs_node F1 (parent_of path)" using i(2) F2 assms(2) by simp
  moreover obtain pd where pd: "fs_node F1 (parent_of path) = Some pd" "st_type pd \<noteq> Symlink" "st_mode pd = dir_mode mod 4096"
    and o: "\<forall>old. fs_node F path = Some old \<longrightarrow> st_type old = SocketFile \<and> st_uid old = h_uid H"
    using prepare_agent_socket_spec [OF p assms(2)] by blast
  ultimately show ?thesis
    using n d m
    by (intro exI [of _ "info\<lparr>st_mode := mode mod 4096\<rparr>"] exI [of _ pd] exI [of _ mode] exI [of _ dir_mode]) simp
qed

lemma octal_modes [simp]:
  "agent_mode E PNone AGENT_SOCKET_MODE = Inr 384" "agent_mode E PNone AGENT_SOCKET_DIR_MODE = Inr 448"
  by (simp_all add: agent_mode_def AGENT_SOCKET_MODE_def AGENT_SOCKET_DIR_MODE_def shown_def int_text_def strip_def is_space_def
      startswith_def unsigned_val_def lit_def)

theorem agent_listener_is_private_witness:
  "\<exists>F' info. bind_agent_unix demo_lib demo_host (lit ''/run/s/k'') demo_agent_listener demo_fs = (Inr (), F')
    \<and> fs_node F' (lit ''/run/s/k'') = Some info \<and> st_uid info = 1000 \<and> st_mode info = 384"
proof -
  have n: "lit ''/run/s'' \<noteq> lit ''/run/s/k''" by (simp add: lit_def)
  have p: "parent_of (lit ''/run/s/k'') \<noteq> lit ''/run/s/k''" using n by (simp add: parent_of_def demo_parent)
  obtain F' where b: "bind_agent_unix demo_lib demo_host (lit ''/run/s/k'') demo_agent_listener demo_fs = (Inr (), F')"
    using n by (simp add: bind_agent_unix_def demo_agent_listener_def prepare_agent_socket_def demo_parent Let_def path_exists_def
        demo_fs_def path_chmod_def clear_bind_target_def bind_unix_def put_node_def new_node_def demo_host_def)
  have a: "al_socket_mode demo_agent_listener = PNone" "h_uid demo_host = 1000"
    by (simp_all add: demo_agent_listener_def demo_host_def)
  from agent_listener_is_private [OF b p] b show ?thesis by (auto simp: a)
qed

lemma unlink_drops:
  "fs_node (unlink_listener_socket H launchctl F l) q \<in> {fs_node F q, None}"
  "fs_denied (unlink_listener_socket H launchctl F l) = fs_denied F"
  by (auto simp: unlink_listener_socket_def split: sum.split)

lemma unlink_all_drops:
  "fs_node (foldl (unlink_listener_socket H launchctl) F ls) q \<in> {fs_node F q, None}"
  "fs_denied (foldl (unlink_listener_socket H launchctl) F ls) = fs_denied F"
proof (induction ls arbitrary: F)
  case (Cons l ls)
  { case 1 show ?case using Cons.IH(1) [of "unlink_listener_socket H launchctl F l"] unlink_drops(1) [of H launchctl F l q] by auto }
  { case 2 show ?case using Cons.IH(2) [of "unlink_listener_socket H launchctl F l"] unlink_drops(2) [of H launchctl F l] by simp }
qed simp_all

text \<open>The socket of a listener is gone, unless the path may not be changed or is a directory.\<close>

definition unbound :: "host \<Rightarrow> pstr option \<Rightarrow> agent_listener \<Rightarrow> fs \<Rightarrow> bool" where
  "unbound H launchctl l F \<longleftrightarrow>
     (al_transport l = lit ''unix'' \<longrightarrow> (\<forall>path. listener_path H launchctl l = Inr path \<longrightarrow>
        fs_denied F path \<or> (case fs_node F path of None \<Rightarrow> True | Some info \<Rightarrow> st_type info = Directory)))"

lemma unlink_unbound: "unbound H launchctl l (unlink_listener_socket H launchctl F l)"
  by (auto simp: unbound_def unlink_listener_socket_def split: option.splits)

lemma unbound_stays:
  assumes "unbound H launchctl l F"
  shows "unbound H launchctl l (foldl (unlink_listener_socket H launchctl) F ls)"
proof -
  have n: "fs_node (foldl (unlink_listener_socket H launchctl) F ls) q \<in> {fs_node F q, None}" for q
    by (rule unlink_all_drops)
  show ?thesis
    unfolding unbound_def unlink_all_drops(2)
  proof (intro impI allI)
    fix path
    assume "al_transport l = lit ''unix''" "listener_path H launchctl l = Inr path"
    with assms have "fs_denied F path \<or> (case fs_node F path of None \<Rightarrow> True | Some info \<Rightarrow> st_type info = Directory)"
      by (auto simp: unbound_def)
    with n [of path] show "fs_denied F path \<or>
        (case fs_node (foldl (unlink_listener_socket H launchctl) F ls) path of None \<Rightarrow> True | Some info \<Rightarrow> st_type info = Directory)"
      by auto
  qed
qed

lemma unlink_all_unbound:
  "l \<in> set ls \<Longrightarrow> unbound H launchctl l (foldl (unlink_listener_socket H launchctl) F ls)"
proof (induction ls arbitrary: F)
  case (Cons x ls)
  then show ?case using unbound_stays [OF unlink_unbound] by auto
qed simp

lemma bind_all_spec:
  assumes "bind_all E C read N H launchctl ls bound F = (bound', res, F')"
  shows "\<exists>ds rest. ls = ds @ rest \<and> map fst bound' = map fst bound @ ds \<and> (is_ok res \<longleftrightarrow> rest = [])
    \<and> (\<forall>e \<in> set bound'. e \<in> set bound \<or> listener_context C read N (fst e) = Inr (snd e))"
  using assms
proof (induction ls arbitrary: bound F)
  case Nil
  then show ?case by auto
next
  case (Cons l ls)
  show ?case
  proof (cases "listener_context C read N l")
    case (Inl e)
    then show ?thesis using Cons.prems by (intro exI [of _ "[]"] exI [of _ "l # ls"]) auto
  next
    case (Inr ctx)
    obtain r F1 where b: "bind_listener E N H launchctl l F = (r, F1)" by force
    show ?thesis
    proof (cases r)
      case (Inl e)
      then show ?thesis using Cons.prems Inr b by (intro exI [of _ "[]"] exI [of _ "l # ls"]) auto
    next
      case (Inr u)
      then have "bind_all E C read N H launchctl ls (bound @ [(l, ctx)]) F1 = (bound', res, F')"
        using Cons.prems \<open>listener_context C read N l = Inr ctx\<close> b by simp
      from Cons.IH [OF this] obtain ds rest where "ls = ds @ rest" "map fst bound' = map fst bound @ l # ds" "is_ok res \<longleftrightarrow> rest = []"
        "\<forall>e \<in> set bound'. e \<in> set bound \<or> e = (l, ctx) \<or> listener_context C read N (fst e) = Inr (snd e)"
        by auto
      then show ?thesis
        using \<open>listener_context C read N l = Inr ctx\<close>
        by (intro exI [of _ "l # ds"] exI [of _ rest]) auto
    qed
  qed
qed

text \<open>
  C30: The server starts with every listener of the configuration bound, those configured for mTLS
  with a context that demands certificates, or it fails, and then no socket of a listener bound
  before the failure is left at its path.
\<close>

theorem run_proxy_all_or_nothing:
  "case run_proxy E C read N H launchctl ls F of
     (Inr bound, F') \<Rightarrow> map fst bound = ls
       \<and> (\<forall>(l, ctx) \<in> set bound. al_encryption l = lit ''mtls'' \<longleftrightarrow> (\<exists>c. ctx = Some c \<and> ctx_server c \<and> ctx_cert_required c))
   | (Inl e, F') \<Rightarrow> \<exists>ds rest. ls = ds @ rest \<and> rest \<noteq> [] \<and> (\<forall>l \<in> set ds. unbound H launchctl l F')"
proof -
  obtain bound' res F' where b: "bind_all E C read N H launchctl ls [] F = (bound', res, F')"
    by (cases "bind_all E C read N H launchctl ls [] F") auto
  obtain ds rest where s: "ls = ds @ rest" "map fst bound' = ds" "is_ok res \<longleftrightarrow> rest = []"
    "\<forall>e \<in> set bound'. listener_context C read N (fst e) = Inr (snd e)"
    using bind_all_spec [OF b] by auto
  show ?thesis
  proof (cases res)
    case (Inl e)
    then show ?thesis using b s unlink_all_unbound by (fastforce simp: run_proxy_def)
  next
    case (Inr u)
    have "al_encryption l = lit ''mtls'' \<longleftrightarrow> (\<exists>c. ctx = Some c \<and> ctx_server c \<and> ctx_cert_required c)"
      if "(l, ctx) \<in> set bound'" for l ctx
      using s(4) that agent_ssl_context_mtls [of C read N "al_encryption l" _ _ _ _ True ctx]
      by (cases ctx) (force simp: listener_context_def)+
    then show ?thesis using b s Inr by (auto simp: run_proxy_def)
  qed
qed

theorem run_proxy_all_or_nothing_witness:
  "\<exists>bound F'. run_proxy demo_lib demo_crypto (\<lambda>_. None) demo_net demo_host None
     [demo_agent_listener\<lparr>al_transport := lit ''tcp''\<rparr>] demo_fs = (Inr bound, F') \<and> length bound = 1"
proof -
  let ?ls = "[demo_agent_listener\<lparr>al_transport := lit ''tcp''\<rparr>]"
  obtain bound F' where r: "run_proxy demo_lib demo_crypto (\<lambda>_. None) demo_net demo_host None ?ls demo_fs = (Inr bound, F')"
    by (simp add: run_proxy_def listener_context_def agent_ssl_context_def demo_agent_listener_def bind_listener_def pyval_int_def
        demo_net_def lit_def)
  have "map fst bound = ?ls"
    using run_proxy_all_or_nothing [where E = demo_lib and C = demo_crypto and read = "\<lambda>_. None" and N = demo_net and H = demo_host
        and launchctl = None and ls = ?ls and F = demo_fs] r by simp
  then have "length bound = 1" by (cases bound) auto
  with r show ?thesis by blast
qed

text \<open>
  The listener that fails itself is not among those cleaned up: with a \<open>socket_mode\<close> that is no
  octal number its socket is bound, and stays.
\<close>

lemma bad_socket_mode_leaves_socket:
  assumes "agent_mode E (al_socket_mode l) AGENT_SOCKET_MODE = Inl e"
    and "agent_mode E (al_socket_dir_mode l) AGENT_SOCKET_DIR_MODE = Inr dir_mode"
    and "prepare_agent_socket H path dir_mode F = (Inr (), F1)" and "bind_unix H path F1 = (Inr (), F2)"
  shows "bind_agent_unix E H path l F = (Inl e, F2) \<and> (\<exists>info. fs_node F2 path = Some info \<and> st_type info = SocketFile)"
  using assms by (auto simp: bind_agent_unix_def bind_unix_def split: if_splits)

end
