(* ===== verification/ClipConfig.thy ===== *)
theory ClipConfig
  imports Client
begin

text \<open>
  The configuration of \<open>clipboard-bridge\<close>: the security knobs and the mTLS table of a listener,
  the authorization rules of the admin listeners, the server pin of a client, the schema of a
  document, and the expansion of a server document into one view per listener. The parsed
  document is a dictionary. Expansion of paths is the code of \<open>sudo-auth-proxy\<close>, and its model.
\<close>

section \<open>Constants\<close>

definition CLIP_PORT :: pyval where
  "CLIP_PORT = PInt 27795"

definition CLIP_CID :: pyval where
  "CLIP_CID = PInt 2"

definition CLIP_BIND :: pyval where
  "CLIP_BIND = PStr (lit ''0.0.0.0'')"

definition CLIP_CONNECT_HOST :: pyval where
  "CLIP_CONNECT_HOST = PStr (lit ''127.0.0.1'')"

definition CLIP_PROXY_SOCKET :: pstr where
  "CLIP_PROXY_SOCKET = lit ''%t/clipboard-bridge-proxy''"

definition CLIP_CONNECT_TIMEOUT :: pyval where
  "CLIP_CONNECT_TIMEOUT = PFloat 5"

definition CLIP_HANDSHAKE_TIMEOUT :: pyval where
  "CLIP_HANDSHAKE_TIMEOUT = PFloat 10"

definition CLIP_RECV_TIMEOUT :: pyval where
  "CLIP_RECV_TIMEOUT = PFloat 60"

definition CLIP_READ_TIMEOUT :: pyval where
  "CLIP_READ_TIMEOUT = PFloat 60"

definition CLIP_MAX_CONNECTIONS :: int where
  "CLIP_MAX_CONNECTIONS = 100"

text \<open>The modes \<open>0o700\<close> and \<open>0o600\<close>.\<close>

definition CLIP_SOCKET_DIR_MODE :: pyval where
  "CLIP_SOCKET_DIR_MODE = PInt 448"

definition CLIP_SOCKET_MODE :: pyval where
  "CLIP_SOCKET_MODE = PInt 384"

definition ADMIN_OID :: pstr where
  "ADMIN_OID = lit ''1.3.6.1.4.1.99999.3.3''"

definition LISTENER_TYPES :: "pstr list" where
  "LISTENER_TYPES = [lit ''vsock'', lit ''tcp'', lit ''unix'']"

definition RESOLUTION_MODES :: "pstr list" where
  "RESOLUTION_MODES = [lit ''none'', lit ''certificate'', lit ''tartarus'', lit ''mofos'']"

definition CLIP_RULE_POLICIES :: "pstr list" where
  "CLIP_RULE_POLICIES = [lit ''allow'', lit ''deny'']"

definition CLIP_SECURITY_KEYS :: "pstr list" where
  "CLIP_SECURITY_KEYS = map lit [''transport_encryption'', ''client_auth'', ''server_auth'']"

definition CLIP_MTLS_KEYS :: "pstr list" where
  "CLIP_MTLS_KEYS = map lit [''enable'', ''ca_file'', ''cert_file'', ''key_file'', ''required_oid'', ''peer_required_oid'']"

definition CLIP_ACL_KEYS :: "pstr list" where
  "CLIP_ACL_KEYS = map lit [''trusted_fingerprints'', ''trusted_names'']"

definition CLIP_RULE_KEYS :: "pstr list" where
  "CLIP_RULE_KEYS = map lit [''match'', ''policy'']"

definition CLIP_RULE_MATCH_KEYS :: "pstr list" where
  "CLIP_RULE_MATCH_KEYS = map lit [''machine'', ''listeners'', ''action'', ''target'']"

definition CLIP_LISTENER_KEYS :: "pstr list" where
  "CLIP_LISTENER_KEYS = map lit
     [''type'', ''name'', ''admin'', ''port'', ''cid'', ''host'', ''socket'', ''socket_dir_mode'', ''socket_mode'',
      ''connect_timeout'', ''handshake_timeout'', ''max_connections'', ''server_read_timeout'', ''resolution'',
      ''security'', ''mtls'']"

definition SERVER_TOP_LEVEL_KEYS :: "pstr list" where
  "SERVER_TOP_LEVEL_KEYS = map lit [''mode'', ''debug'', ''vm'', ''tcp_vm'', ''labels'', ''listeners'', ''rule'']"

definition CLIENT_TOP_LEVEL_KEYS :: "pstr list" where
  "CLIENT_TOP_LEVEL_KEYS = map lit
     [''mode'', ''transport'', ''host'', ''port'', ''cid'', ''socket'', ''proxy_socket'', ''register'', ''debug'',
      ''connect_timeout'', ''handshake_timeout'', ''recv_timeout'', ''security'', ''mtls'', ''acl'']"

definition TABLE_KEYS :: "(pstr \<times> pstr list) list" where
  "TABLE_KEYS = [(lit ''security'', CLIP_SECURITY_KEYS), (lit ''mtls'', CLIP_MTLS_KEYS), (lit ''acl'', CLIP_ACL_KEYS)]"

section \<open>Single values\<close>

text \<open>Every refused value raises \<open>ConfigError\<close>; the messages are shortened.\<close>

definition known_keys :: "dict \<Rightarrow> pstr list \<Rightarrow> bool" where
  "known_keys table allowed \<longleftrightarrow> (\<forall>k \<in> set (dkeys table). k \<in> set allowed)"

definition validate_table :: "dict \<Rightarrow> pstr \<times> pstr list \<Rightarrow> unit res" where
  "validate_table container entry =
     (case dget container (fst entry) of
        PNone \<Rightarrow> Inr ()
      | PDict table \<Rightarrow> require (known_keys table (snd entry)) (ConfigError ''unknown key(s)'')
      | _ \<Rightarrow> Inl (ConfigError ''must be a table''))"

definition parse_mode_value :: "pyval \<Rightarrow> int res" where
  "parse_mode_value value =
     (let mode = (case value of PInt i \<Rightarrow> Some i | PStr s \<Rightarrow> int_text 8 s | _ \<Rightarrow> None)
      in case mode of
           None \<Rightarrow> Inl (ConfigError ''must be an octal mode'')
         | Some m \<Rightarrow> if m < 0 \<or> m > 511 then Inl (ConfigError ''must be an octal mode between 0000 and 0777'') else Inr m)"

text \<open>\<open>value <= 0\<close> is false of NaN, so NaN and infinity pass.\<close>

definition positive_number :: "pyval \<Rightarrow> bool \<Rightarrow> unit res" where
  "positive_number value integer =
     (case value of
        PInt i \<Rightarrow> require (0 < i) (ConfigError ''must be positive'')
      | PFloat q \<Rightarrow>
          if integer then Inl (ConfigError ''must be a positive integer'')
          else require (0 < q) (ConfigError ''must be positive'')
      | PNonFinite t \<Rightarrow>
          if integer then Inl (ConfigError ''must be a positive integer'')
          else require (t \<noteq> lit ''-Infinity'') (ConfigError ''must be positive'')
      | _ \<Rightarrow> Inl (ConfigError ''must be a positive number''))"

section \<open>mTLS and the security knobs\<close>

definition text_given :: "pyval \<Rightarrow> bool" where
  "text_given v \<longleftrightarrow> is_str v \<and> truthy v"

definition load_mtls :: "dict \<Rightarrow> bool \<Rightarrow> dict option res" where
  "load_mtls container required =
     (case dget container (lit ''mtls'') of
        PNone \<Rightarrow> if required then Inl (ConfigError ''required when transport encryption is mTLS'') else Inr None
      | PDict raw \<Rightarrow>
          andthen (require (known_keys raw CLIP_MTLS_KEYS) (ConfigError ''unknown key(s)'')) (\<lambda>_.
          if required then
            andthen (require (dget raw (lit ''enable'') = PBool True) (ConfigError ''enable must be true for an mTLS listener'')) (\<lambda>_.
            andthen (require (\<forall>k \<in> set MTLS_PATH_KEYS. text_given (dget raw k)) (ConfigError ''required for an mTLS listener'')) (\<lambda>_.
              Inr (Some raw)))
          else Inr (Some raw))
      | _ \<Rightarrow> Inl (ConfigError ''must be a table''))"

record clip_knobs =
  cb_encryption :: pstr
  cb_client_auth :: pstr
  cb_server_auth :: pstr

definition clip_mtls_enabled :: "dict \<Rightarrow> bool" where
  "clip_mtls_enabled entry =
     (case dget entry (lit ''mtls'') of PDict mtls \<Rightarrow> truthy (dget_or mtls (lit ''enable'') (PBool False)) | _ \<Rightarrow> False)"

definition clip_transport :: "dict \<Rightarrow> pyval" where
  "clip_transport entry =
     (if truthy (dget entry (lit ''type'')) then dget entry (lit ''type'')
      else if truthy (dget entry (lit ''transport'')) then dget entry (lit ''transport'')
      else PStr (lit ''tcp''))"

definition clip_encryption :: "dict \<Rightarrow> dict \<Rightarrow> pyval" where
  "clip_encryption entry security =
     (let given = dget security (lit ''transport_encryption'')
      in if given = PNone \<or> given = PStr (lit ''auto'')
         then (if clip_mtls_enabled entry \<or> clip_transport entry = PStr (lit ''tcp'')
               then PStr (lit ''mtls'') else PStr (lit ''none''))
         else given)"

definition auth_given_ok :: "pyval \<Rightarrow> unit res" where
  "auth_given_ok v =
     andthen (require (v = PNone \<or> is_str v) (ConfigError ''must be a single string'')) (\<lambda>_.
       require (v \<in> {PNone, PStr (lit ''transport''), PStr (lit ''none'')}) (ConfigError ''unknown authentication method''))"

definition clip_auth :: "pyval \<Rightarrow> pyval \<Rightarrow> pyval \<Rightarrow> clip_knobs res" where
  "clip_auth enc ca sa =
     (if enc = PStr (lit ''mtls'') then
        andthen (require (ca \<in> {PNone, PStr (lit ''transport'')}) (ConfigError ''under mtls, client_auth must be transport'')) (\<lambda>_.
        andthen (require (sa \<in> {PNone, PStr (lit ''transport'')}) (ConfigError ''under mtls, server_auth must be transport'')) (\<lambda>_.
          Inr \<lparr>cb_encryption = lit ''mtls'', cb_client_auth = lit ''transport'', cb_server_auth = lit ''transport''\<rparr>))
      else
        andthen (require (ca \<noteq> PStr (lit ''transport'')) (ConfigError ''client_auth = transport requires mtls'')) (\<lambda>_.
        andthen (require (sa \<noteq> PStr (lit ''transport'')) (ConfigError ''server_auth = transport requires mtls'')) (\<lambda>_.
        andthen (require (ca \<noteq> PNone \<and> sa \<noteq> PNone) (ConfigError ''requires an explicit none'')) (\<lambda>_.
          Inr \<lparr>cb_encryption = lit ''none'', cb_client_auth = str_of ca, cb_server_auth = str_of sa\<rparr>))))"

definition resolve_listener_security :: "dict \<Rightarrow> clip_knobs res" where
  "resolve_listener_security entry =
     (case (if dget entry (lit ''security'') = PNone then PDict [] else dget entry (lit ''security'')) of
        PDict security \<Rightarrow>
          andthen (require (known_keys security CLIP_SECURITY_KEYS) (ConfigError ''unknown key(s) inside [security]'')) (\<lambda>_.
          andthen (require (clip_transport entry \<in> PStr ` set LISTENER_TYPES) (ConfigError ''unknown transport'')) (\<lambda>_.
          andthen (require (dget entry (lit ''mtls'') = PNone \<or> is_dict (dget entry (lit ''mtls''))) (ConfigError ''[mtls] must be a table'')) (\<lambda>_.
          let enc = clip_encryption entry security; ca = dget security (lit ''client_auth''); sa = dget security (lit ''server_auth'')
          in andthen (require (enc \<in> {PStr (lit ''none''), PStr (lit ''mtls'')}) (ConfigError ''unknown transport_encryption'')) (\<lambda>_.
             andthen (require (\<not> (clip_mtls_enabled entry \<and> enc \<noteq> PStr (lit ''mtls''))) (ConfigError ''refusing to downgrade'')) (\<lambda>_.
             andthen (auth_given_ok ca) (\<lambda>_. andthen (auth_given_ok sa) (\<lambda>_. clip_auth enc ca sa)))))))
      | _ \<Rightarrow> Inl (ConfigError ''[security] must be a table''))"

section \<open>Rules\<close>

definition as_pattern_tuple :: "pyval \<Rightarrow> pstr list res" where
  "as_pattern_tuple value =
     (case value of
        PNone \<Rightarrow> Inr []
      | PStr s \<Rightarrow> Inr (if s \<noteq> [] then [s] else [])
      | PList vs \<Rightarrow>
          if \<forall>p \<in> set vs. is_str p then Inr (map str_of vs)
          else Inl (ConfigError ''must be a string or a list of strings'')
      | _ \<Rightarrow> Inl (ConfigError ''must be a string or a list of strings''))"

record clip_rule =
  cr_machine :: "pstr list"
  cr_listeners :: "pstr list"
  cr_action :: "pstr list"
  cr_target :: "pstr list"
  cr_policy :: pstr

text \<open>
  What a request is matched in. The requested target is any JSON value; \<open>fnmatchcase\<close> of a value
  that is no text raises \<open>TypeError\<close>, so a rule may raise.
\<close>

record clip_query =
  cq_listener :: pstr
  cq_machine :: "pstr option"
  cq_action :: pyval
  cq_target :: pyval

definition machine_matches :: "pstr list \<Rightarrow> pstr option \<Rightarrow> bool" where
  "machine_matches patterns machine \<longleftrightarrow>
     patterns = [] \<or> (case machine of None \<Rightarrow> False | Some m \<Rightarrow> \<exists>p \<in> set patterns. fnmatchcase m p)"

definition any_pattern_matches :: "pstr list \<Rightarrow> pyval \<Rightarrow> bool res" where
  "any_pattern_matches patterns value =
     (if patterns = [] then Inr True
      else if \<not> truthy value then Inr (\<exists>p \<in> set patterns. fnmatchcase [] p)
      else (case value of PStr s \<Rightarrow> Inr (\<exists>p \<in> set patterns. fnmatchcase s p) | _ \<Rightarrow> Inl TypeError))"

text \<open>The conjunction stops at its first false part.\<close>

definition clip_rule_matches :: "clip_rule \<Rightarrow> clip_query \<Rightarrow> bool res" where
  "clip_rule_matches r q =
     (if \<not> machine_matches (cr_machine r) (cq_machine q) then Inr False
      else andthen (any_pattern_matches (cr_listeners r) (PStr (cq_listener q))) (\<lambda>l. if \<not> l then Inr False
      else andthen (any_pattern_matches (cr_action r) (cq_action q)) (\<lambda>a. if \<not> a then Inr False
      else any_pattern_matches (cr_target r) (cq_target q))))"

fun clip_evaluate_rules :: "clip_rule list \<Rightarrow> clip_query \<Rightarrow> pstr res" where
  "clip_evaluate_rules [] q = Inr (lit ''deny'')"
| "clip_evaluate_rules (r # rules) q =
     andthen (clip_rule_matches r q) (\<lambda>hit. if hit then Inr (cr_policy r) else clip_evaluate_rules rules q)"

definition build_clip_rule :: "pstr \<Rightarrow> dict \<Rightarrow> clip_rule res" where
  "build_clip_rule policy match =
     andthen (as_pattern_tuple (dget match (lit ''machine''))) (\<lambda>machine.
     andthen (as_pattern_tuple (dget match (lit ''listeners''))) (\<lambda>listeners.
     andthen (as_pattern_tuple (dget match (lit ''action''))) (\<lambda>action.
     andthen (as_pattern_tuple (dget match (lit ''target''))) (\<lambda>target.
       Inr \<lparr>cr_machine = machine, cr_listeners = listeners, cr_action = action, cr_target = target, cr_policy = policy\<rparr>))))"

definition parse_clip_rule :: "pyval \<Rightarrow> clip_rule res" where
  "parse_clip_rule entry_value =
     (case entry_value of
        PDict entry \<Rightarrow>
          (let policy = dget_or entry (lit ''policy'') (PStr (lit ''deny''))
           in andthen (require (known_keys entry CLIP_RULE_KEYS) (ConfigError ''unknown key(s)'')) (\<lambda>_.
              andthen (require (policy \<in> PStr ` set CLIP_RULE_POLICIES) (ConfigError ''policy must be one of allow, deny'')) (\<lambda>_.
              case dget_or entry (lit ''match'') (PDict []) of
                PDict match \<Rightarrow>
                  andthen (require (known_keys match CLIP_RULE_MATCH_KEYS) (ConfigError ''unknown key(s)'')) (\<lambda>_.
                    build_clip_rule (str_of policy) match)
              | _ \<Rightarrow> Inl (ConfigError ''match must be a table''))))
      | _ \<Rightarrow> Inl (ConfigError ''must be a table''))"

definition parse_clip_rules :: "pyval \<Rightarrow> clip_rule list res" where
  "parse_clip_rules entries =
     (case entries of PNone \<Rightarrow> Inr [] | PList es \<Rightarrow> map_res parse_clip_rule es
      | _ \<Rightarrow> Inl (ConfigError ''rule must be an array of tables''))"

section \<open>The server pin of a client\<close>

definition clip_fingerprint :: "pyval \<Rightarrow> pstr res" where
  "clip_fingerprint fingerprint =
     (case fingerprint of
        PStr s \<Rightarrow>
          if \<not> startswith (lit ''SHA256:'') s then Inl (ConfigError ''must be SHA256:... fingerprints'')
          else (let body = rstrip_pad (drop 7 s)
                in if body = [] then Inl (ConfigError ''has no digest'')
                   else (case b64decode (body @ replicate ((4 - length body mod 4) mod 4) 61) of
                           None \<Rightarrow> Inl (ConfigError ''is not valid base64'')
                         | Some raw \<Rightarrow>
                             if length raw \<noteq> 32 then Inl (ConfigError ''is not a SHA-256 digest'')
                             else Inr (lit ''SHA256:'' @ body)))
      | _ \<Rightarrow> Inl (ConfigError ''must be SHA256:... fingerprints''))"

definition clip_fingerprint_set :: "pyval \<Rightarrow> pstr list res" where
  "clip_fingerprint_set entries =
     (case entries of PNone \<Rightarrow> Inr [] | PList es \<Rightarrow> map_res clip_fingerprint es
      | _ \<Rightarrow> Inl (ConfigError ''must be a list of fingerprints''))"

definition clip_load_acl :: "dict \<Rightarrow> (pstr list \<times> pstr list) res" where
  "clip_load_acl config =
     (case dget config (lit ''acl'') of
        PNone \<Rightarrow> Inr ([], [])
      | PDict raw \<Rightarrow>
          andthen (require (known_keys raw CLIP_ACL_KEYS) (ConfigError ''[acl] has unknown key(s)'')) (\<lambda>_.
          andthen (clip_fingerprint_set (dget raw (lit ''trusted_fingerprints''))) (\<lambda>fps.
          andthen (as_pattern_tuple (dget raw (lit ''trusted_names''))) (\<lambda>names.
          andthen (require (fps \<noteq> [] \<or> names \<noteq> []) (ConfigError ''[acl] must pin an identity'')) (\<lambda>_.
            Inr (fps, names)))))
      | _ \<Rightarrow> Inl (ConfigError ''[acl] must be a table''))"

section \<open>The schema of a document\<close>

definition resolution_ok :: "pyval \<Rightarrow> pyval \<Rightarrow> unit res" where
  "resolution_ok transport resolution =
     (if resolution = PNone then Inr ()
      else andthen (require (resolution \<in> PStr ` set RESOLUTION_MODES) (ConfigError ''unknown resolution'')) (\<lambda>_.
        require (\<not> (transport = PStr (lit ''unix'') \<and> resolution \<in> {PStr (lit ''tartarus''), PStr (lit ''mofos'')}))
          (ConfigError ''resolution is not valid on a unix listener'')))"

fun each :: "('a \<Rightarrow> unit res) \<Rightarrow> 'a list \<Rightarrow> unit res" where
  "each f [] = Inr ()"
| "each f (x # xs) = andthen (f x) (\<lambda>_. each f xs)"

lemma each_Inr_iff [simp]: "each f xs = Inr u \<longleftrightarrow> (\<forall>x \<in> set xs. f x = Inr ())"
  by (induction xs) auto

definition listener_bounds_ok :: "dict \<Rightarrow> unit res" where
  "listener_bounds_ok entry =
     andthen (each (\<lambda>f. if dmem f entry then positive_number (dget entry f) (f = lit ''max_connections'') else Inr ())
       (map lit [''connect_timeout'', ''handshake_timeout'', ''max_connections'', ''server_read_timeout''])) (\<lambda>_.
     each (\<lambda>f. if dmem f entry then andthen (parse_mode_value (dget entry f)) (\<lambda>_. Inr ()) else Inr ())
       (map lit [''socket_dir_mode'', ''socket_mode'']))"

text \<open>An mTLS listener names its own and its peers' extended key usage; the admin one is reserved.\<close>

definition listener_oids_ok :: "dict \<Rightarrow> dict \<Rightarrow> unit res" where
  "listener_oids_ok entry mtls =
     andthen (require (text_given (dget mtls (lit ''required_oid'')) \<and> text_given (dget mtls (lit ''peer_required_oid'')))
       (ConfigError ''required for an mTLS listener'')) (\<lambda>_.
     if dget entry (lit ''admin'') = PBool True
     then require (dget mtls (lit ''peer_required_oid'') = PStr ADMIN_OID) (ConfigError ''must be the admin OID'')
     else require (dget mtls (lit ''peer_required_oid'') \<noteq> PStr ADMIN_OID) (ConfigError ''may not accept the admin OID''))"

definition listener_security_ok :: "dict \<Rightarrow> unit res" where
  "listener_security_ok entry =
     andthen (resolve_listener_security entry) (\<lambda>k.
     andthen (require (\<not> (dget entry (lit ''resolution'') = PStr (lit ''certificate'') \<and> cb_encryption k \<noteq> lit ''mtls''))
       (ConfigError ''resolution = certificate requires mtls'')) (\<lambda>_.
     if cb_encryption k = lit ''mtls''
     then andthen (load_mtls entry True) (\<lambda>m. case m of Some mtls \<Rightarrow> listener_oids_ok entry mtls | None \<Rightarrow> Inr ())
     else andthen (load_mtls entry False) (\<lambda>_. Inr ())))"

definition clip_listener_table :: "pyval \<Rightarrow> unit res" where
  "clip_listener_table entry_value =
     (case entry_value of
        PDict entry \<Rightarrow>
          (let transport = dget entry (lit ''type'')
           in andthen (require (known_keys entry CLIP_LISTENER_KEYS) (ConfigError ''unknown key(s)'')) (\<lambda>_.
              andthen (require (dmem (lit ''type'') entry) (ConfigError ''missing the required type key'')) (\<lambda>_.
              andthen (require (transport \<in> PStr ` set LISTENER_TYPES) (ConfigError ''unknown type'')) (\<lambda>_.
              andthen (require (\<not> (transport = PStr (lit ''unix'') \<and> \<not> truthy (dget entry (lit ''socket''))))
                (ConfigError ''a unix listener requires a socket path'')) (\<lambda>_.
              andthen (each (validate_table entry) TABLE_KEYS) (\<lambda>_.
              andthen (require (\<not> (dmem (lit ''admin'') entry \<and> dget entry (lit ''admin'') \<notin> range PBool))
                (ConfigError ''admin must be a boolean'')) (\<lambda>_.
              andthen (resolution_ok transport (dget entry (lit ''resolution''))) (\<lambda>_.
              andthen (listener_bounds_ok entry) (\<lambda>_.
                listener_security_ok entry)))))))))
      | _ \<Rightarrow> Inl (ConfigError ''must be a table''))"

definition vm_entry_ok :: "pstr \<Rightarrow> pyval \<Rightarrow> unit res" where
  "vm_entry_ok key entry_value =
     (case entry_value of
        PDict entry \<Rightarrow>
          andthen (require (known_keys entry [key, lit ''name'']) (ConfigError ''unknown key(s)'')) (\<lambda>_.
          andthen (require (dmem key entry) (ConfigError ''missing the required key'')) (\<lambda>_.
            require (text_given (dget entry (lit ''name''))) (ConfigError ''name must be a non-empty string'')))
      | _ \<Rightarrow> Inl (ConfigError ''must be a table''))"

definition validate_vm_table :: "dict \<Rightarrow> pstr \<Rightarrow> pstr \<Rightarrow> unit res" where
  "validate_vm_table config name key =
     (case dget config name of PNone \<Rightarrow> Inr () | PList entries \<Rightarrow> each (vm_entry_ok key) entries
      | _ \<Rightarrow> Inl (ConfigError ''must be an array of tables''))"

fun clip_check_listeners :: "pyval list \<Rightarrow> pstr list \<Rightarrow> unit res" where
  "clip_check_listeners [] seen_names = Inr ()"
| "clip_check_listeners (entry # entries) seen_names =
     andthen (clip_listener_table entry) (\<lambda>_.
       case (case entry of PDict d \<Rightarrow> dget d (lit ''name'') | _ \<Rightarrow> PNone) of
         PNone \<Rightarrow> clip_check_listeners entries seen_names
       | PStr name \<Rightarrow>
           andthen (require (name \<noteq> []) (ConfigError ''name must be a non-empty string'')) (\<lambda>_.
           andthen (require (name \<notin> set seen_names) (ConfigError ''duplicate listener name'')) (\<lambda>_.
             clip_check_listeners entries (name # seen_names)))
       | _ \<Rightarrow> Inl (ConfigError ''name must be a non-empty string''))"

definition server_schema :: "dict \<Rightarrow> unit res" where
  "server_schema config =
     (case dget config (lit ''listeners'') of
        PList entries \<Rightarrow>
          andthen (require (entries \<noteq> []) (ConfigError ''a non-empty [[listeners]] array'')) (\<lambda>_.
          andthen (clip_check_listeners entries []) (\<lambda>_.
          andthen (validate_vm_table config (lit ''vm'') (lit ''cid'')) (\<lambda>_.
          andthen (validate_vm_table config (lit ''tcp_vm'') (lit ''ip'')) (\<lambda>_.
          andthen (parse_clip_rules (dget config (lit ''rule''))) (\<lambda>_. Inr ())))))
      | _ \<Rightarrow> Inl (ConfigError ''a non-empty [[listeners]] array''))"

definition client_schema :: "dict \<Rightarrow> unit res" where
  "client_schema config =
     andthen (each (validate_table config) TABLE_KEYS) (\<lambda>_.
     andthen (if \<exists>k \<in> set (map lit [''security'', ''mtls'', ''transport'']). dmem k config
              then andthen (resolve_listener_security config) (\<lambda>k.
                if cb_encryption k = lit ''mtls'' then andthen (load_mtls config True) (\<lambda>_. Inr ()) else Inr ())
              else Inr ()) (\<lambda>_.
     andthen (require (\<not> (dget config (lit ''transport'') = PStr (lit ''unix'') \<and> \<not> truthy (dget config (lit ''socket''))))
       (ConfigError ''a unix client requires a non-empty socket path'')) (\<lambda>_.
     andthen (each (\<lambda>f. if dmem f config then positive_number (dget config f) False else Inr ())
       (map lit [''connect_timeout'', ''handshake_timeout'', ''recv_timeout''])) (\<lambda>_.
     andthen (clip_load_acl config) (\<lambda>_. Inr ())))))"

definition document_role :: "dict \<Rightarrow> pstr option \<Rightarrow> pstr" where
  "document_role config role =
     (case role of Some r \<Rightarrow> r
      | None \<Rightarrow>
          if dget config (lit ''mode'') \<in> {PStr (lit ''server''), PStr (lit ''client'')} then str_of (dget config (lit ''mode''))
          else if dmem (lit ''listeners'') config then lit ''server'' else lit ''client'')"

definition clip_document_schema :: "dict \<Rightarrow> pstr option \<Rightarrow> pstr res" where
  "clip_document_schema config given =
     (let role = document_role config given
      in andthen (require (role \<in> {lit ''server'', lit ''client''}) (ConfigError ''unknown role'')) (\<lambda>_.
         andthen (require (\<not> (dmem (lit ''mode'') config \<and> dget config (lit ''mode'') \<noteq> PStr role)) (ConfigError ''mode does not match'')) (\<lambda>_.
         andthen (require (known_keys config (if role = lit ''server'' then SERVER_TOP_LEVEL_KEYS else CLIENT_TOP_LEVEL_KEYS))
           (ConfigError ''unknown key(s) at the top level'')) (\<lambda>_.
         andthen (if role = lit ''server'' then server_schema config else client_schema config) (\<lambda>_. Inr role)))))"

section \<open>Loading\<close>

definition expand_socket_key :: "host \<Rightarrow> dict \<Rightarrow> pstr \<Rightarrow> dict" where
  "expand_socket_key H container key =
     (if text_given (dget container key) then dset container key (PStr (expand_socket_path H (str_of (dget container key))))
      else container)"

definition expand_clip_entry :: "host \<Rightarrow> ppath \<Rightarrow> pyval \<Rightarrow> pyval" where
  "expand_clip_entry H config_dir entry =
     (case entry of
        PDict d \<Rightarrow> PDict (expand_socket_key H (resolve_tables (h_home H) config_dir d) (lit ''socket''))
      | v \<Rightarrow> v)"

definition expand_clip_document :: "host \<Rightarrow> ppath \<Rightarrow> dict \<Rightarrow> dict" where
  "expand_clip_document H config_dir config =
     (let top = expand_socket_key H (expand_socket_key H (resolve_tables (h_home H) config_dir config) (lit ''socket''))
            (lit ''proxy_socket'')
      in case dget top (lit ''listeners'') of
           PList entries \<Rightarrow> dset top (lit ''listeners'') (PList (map (expand_clip_entry H config_dir) entries))
         | _ \<Rightarrow> top)"

text \<open>The file is missing, does not parse (\<open>TOMLDecodeError\<close>, no \<open>ConfigError\<close>), or holds a document.\<close>

definition clip_load_config :: "host \<Rightarrow> ppath \<Rightarrow> dict res option \<Rightarrow> pstr \<Rightarrow> dict res" where
  "clip_load_config H config_dir file role =
     andthen (require (role \<in> {lit ''server'', lit ''client''}) (ConfigError ''unknown role'')) (\<lambda>_.
     case file of
       None \<Rightarrow> Inr []
     | Some parsed \<Rightarrow> andthen parsed (\<lambda>document.
         let config = expand_clip_document H config_dir document
         in andthen (clip_document_schema config (Some role)) (\<lambda>_. Inr config)))"

section \<open>Listener views\<close>

fun attach :: "dict \<Rightarrow> (string \<times> string) list \<Rightarrow> dict \<Rightarrow> dict" where
  "attach config [] view = view"
| "attach config ((key, as) # more_keys) view =
     attach config more_keys (if dmem (lit key) config then dset view (lit as) (dget config (lit key)) else view)"

definition clip_view :: "dict \<Rightarrow> nat \<Rightarrow> dict \<Rightarrow> dict" where
  "clip_view config index entry =
     (let transport = dget_or entry (lit ''type'') (dget entry (lit ''transport''));
          view = ddel (if transport \<noteq> PNone then dset entry (lit ''transport'') transport else entry) (lit ''type'');
          own = dset (dset (dset view (lit ''_listener_index'') (PInt (int index))) (lit ''_listener_name'') (dget view (lit ''name'')))
                  (lit ''_admin'') (PBool (truthy (dget_or view (lit ''admin'') (PBool False))))
      in attach config [(''debug'', ''_debug''), (''rule'', ''_rule''), (''labels'', ''_labels''), (''vm'', ''_vm''), (''tcp_vm'', ''_tcp_vm'')] own)"

fun clip_views_from :: "dict \<Rightarrow> nat \<Rightarrow> pyval list \<Rightarrow> dict list res" where
  "clip_views_from config index [] = Inr []"
| "clip_views_from config index (entry # entries) =
     (case entry of
        PDict d \<Rightarrow> andthen (clip_views_from config (Suc index) entries) (\<lambda>views. Inr (clip_view config index d # views))
      | _ \<Rightarrow> Inl (ConfigError ''must be a table''))"

definition clip_listener_views :: "dict \<Rightarrow> dict list res" where
  "clip_listener_views config =
     (case dget config (lit ''listeners'') of
        PList entries \<Rightarrow>
          if entries = [] then Inl (ConfigError ''a non-empty [[listeners]] array'') else clip_views_from config 0 entries
      | _ \<Rightarrow> Inl (ConfigError ''a non-empty [[listeners]] array''))"

end
