(* ===== verification/ClipStore.thy ===== *)
theory ClipStore
  imports ClipConfig
begin

text \<open>
  The server of \<open>clipboard-bridge\<close>: the slots it keeps per client, the names it resolves, the
  requests of guest and admin listeners, the connections and the expiry pass. A request is one
  step of the server; the expiry pass is three, as it takes the locks three times. What the
  server writes to its connections and the notifications it shows are recorded in the order in
  which they happen.
\<close>

section \<open>The state\<close>

text \<open>
  A slot of the store. Slots are keyed by client ids, which are texts, and by whatever value an
  admin gave as a target, so the key is a JSON value; the dictionary compares keys as Python
  does (\<open>1\<close>, \<open>1.0\<close> and \<open>True\<close> are one key, NaN is never found again).
\<close>

record slot =
  sl_data :: pyval
  sl_updated :: rat
  sl_name :: "pstr option"

definition numeric :: "pyval \<Rightarrow> rat option" where
  "numeric v = (case v of PInt i \<Rightarrow> Some (of_int i) | PBool b \<Rightarrow> Some (if b then 1 else 0) | PFloat q \<Rightarrow> Some q | _ \<Rightarrow> None)"

definition same_key :: "pyval \<Rightarrow> pyval \<Rightarrow> bool" where
  "same_key a b \<longleftrightarrow>
     (case (numeric a, numeric b) of
        (Some x, Some y) \<Rightarrow> x = y
      | (None, None) \<Rightarrow> a = b \<and> a \<noteq> PNonFinite (lit ''NaN'')
      | _ \<Rightarrow> False)"

definition hashable :: "pyval \<Rightarrow> bool" where
  "hashable v \<longleftrightarrow> (case v of PList vs \<Rightarrow> False | PDict d \<Rightarrow> False | _ \<Rightarrow> True)"

type_synonym store = "(pyval \<times> slot) list"

fun slot_of :: "store \<Rightarrow> pyval \<Rightarrow> slot option" where
  "slot_of [] key = None"
| "slot_of ((k, s) # slots) key = (if same_key k key then Some s else slot_of slots key)"

fun put_slot :: "pyval \<Rightarrow> slot \<Rightarrow> store \<Rightarrow> store" where
  "put_slot key s [] = [(key, s)]"
| "put_slot key s ((k, t) # slots) = (if same_key k key then (k, s) # slots else (k, t) # put_slot key s slots)"

text \<open>
  The two dictionaries of the process, the progress of the expiry pass (the ids with a
  subscriber it has seen, the ids it has removed), what was written to each connection, and
  the notifications.
\<close>

record bridge =
  br_slots :: store
  br_subs :: "pstr \<Rightarrow> nat list"
  br_reading :: "nat \<Rightarrow> bool"
  br_active :: "pstr set"
  br_stale :: "pyval list"
  br_sent :: "(nat \<times> pyval) list"
  br_notes :: "(pstr option \<times> string) list"

definition empty_bridge :: bridge where
  "empty_bridge = \<lparr>br_slots = [], br_subs = (\<lambda>c. []), br_reading = (\<lambda>c. False), br_active = {}, br_stale = [],
     br_sent = [], br_notes = []\<rparr>"

section \<open>Expiry\<close>

definition CLIENT_EXPIRY_SECONDS :: rat where
  "CLIENT_EXPIRY_SECONDS = 300"

text \<open>A key of the subscriber table is present exactly while its list is not empty.\<close>

definition expire_scan :: "bridge \<Rightarrow> bridge" where
  "expire_scan B = B\<lparr>br_active := {c. br_subs B c \<noteq> []}, br_stale := []\<rparr>"

definition is_stale :: "bridge \<Rightarrow> rat \<Rightarrow> pyval \<times> slot \<Rightarrow> bool" where
  "is_stale B now entry \<longleftrightarrow>
     fst entry \<notin> PStr ` br_active B \<and> sl_updated (snd entry) < now - CLIENT_EXPIRY_SECONDS"

definition expire_drop :: "rat \<Rightarrow> bridge \<Rightarrow> bridge" where
  "expire_drop now B =
     B\<lparr>br_slots := filter (\<lambda>e. \<not> is_stale B now e) (br_slots B), br_stale := map fst (filter (is_stale B now) (br_slots B))\<rparr>"

definition expire_forget :: "bridge \<Rightarrow> bridge" where
  "expire_forget B =
     B\<lparr>br_subs := (\<lambda>c. if PStr c \<in> set (br_stale B) then [] else br_subs B c), br_stale := []\<rparr>"

section \<open>Names\<close>

text \<open>How a connection reached the server, and the address the kernel gives for its peer.\<close>

definition get_client_id :: "pyval \<Rightarrow> sock_name \<Rightarrow> pstr" where
  "get_client_id server_type client_address =
     (if server_type = PStr (lit ''vsock'') then
        (case client_address of VsockName cid \<Rightarrow> lit ''vsock:'' @ int_repr cid | _ \<Rightarrow> lit ''unknown'')
      else if server_type = PStr (lit ''tcp'') then
        (case client_address of InetName ip \<Rightarrow> lit ''tcp:'' @ ip | _ \<Rightarrow> lit ''unknown'')
      else if server_type = PStr (lit ''unix'') then lit ''unix:local'' else lit ''unknown'')"

definition text_of :: "lib \<Rightarrow> pyval \<Rightarrow> pstr" where
  "text_of L v = (case v of PStr s \<Rightarrow> s | PInt i \<Rightarrow> int_repr i | _ \<Rightarrow> str_text L v)"

text \<open>The entries of a resolution map of the document; the schema has checked that they are tables.\<close>

definition vm_map :: "dict \<Rightarrow> string \<Rightarrow> dict list" where
  "vm_map view name = (case dget view (lit name) of PList vs \<Rightarrow> only_dicts vs | _ \<Rightarrow> [])"

definition first_named :: "pyval \<Rightarrow> dict list \<Rightarrow> dict option" where
  "first_named target vms = find (\<lambda>vm. dget vm (lit ''name'') = target) vms"

definition named_slot :: "store \<Rightarrow> pyval \<Rightarrow> pyval option" where
  "named_slot slots target = map_option fst (find (\<lambda>e. map_option PStr (sl_name (snd e)) = Some target) slots)"

definition direct_id :: "pyval \<Rightarrow> bool" where
  "direct_id target \<longleftrightarrow>
     (case target of
        PStr s \<Rightarrow> startswith (lit ''vsock:'') s \<or> startswith (lit ''tcp:'') s \<or> startswith (lit ''unix:'') s
      | _ \<Rightarrow> False)"

definition resolve_target_to_id :: "lib \<Rightarrow> dict \<Rightarrow> store \<Rightarrow> pyval \<Rightarrow> pyval" where
  "resolve_target_to_id L view slots target =
     (if target = PNone \<or> direct_id target then target
      else (case named_slot slots target of Some cid \<Rightarrow> cid
        | None \<Rightarrow> (case first_named target (vm_map view ''_vm'') of
              Some vm \<Rightarrow> PStr (lit ''vsock:'' @ text_of L (dget vm (lit ''cid'')))
            | None \<Rightarrow> (case first_named target (vm_map view ''_tcp_vm'') of
                  Some vm \<Rightarrow> PStr (lit ''tcp:'' @ text_of L (dget vm (lit ''ip'')))
                | None \<Rightarrow> target))))"

text \<open>\<open>client_id.split(":", 1)[1]\<close>, and the number it must be for a VSOCK client.\<close>

definition after_colon :: "pstr \<Rightarrow> pstr" where
  "after_colon s = drop 1 (dropWhile (\<lambda>c. c \<noteq> 58) s)"

definition client_cid :: "pstr \<Rightarrow> int option" where
  "client_cid client_id = (case py_int (PStr (after_colon client_id)) of Inl _ \<Rightarrow> None | Inr cid \<Rightarrow> Some cid)"

definition clip_resolve_tartarus :: "host \<Rightarrow> dict \<Rightarrow> pstr \<Rightarrow> pstr option" where
  "clip_resolve_tartarus H view client_id =
     (if startswith (lit ''vsock:'') client_id then
        (case client_cid client_id of None \<Rightarrow> None
         | Some cid \<Rightarrow> (case find (\<lambda>vm. eq_int (dget vm (lit ''cid'')) cid) (vm_map view ''_vm'') of
              Some vm \<Rightarrow> Some (str_of (dget vm (lit ''name'')))
            | None \<Rightarrow> tartarus_name_for_id H cid))
      else if startswith (lit ''tcp:'') client_id then
        (let ip = after_colon client_id
         in case find (\<lambda>vm. dget vm (lit ''ip'') = PStr ip) (vm_map view ''_tcp_vm'') of
              Some vm \<Rightarrow> Some (str_of (dget vm (lit ''name'')))
            | None \<Rightarrow> (case tartarus_id_for_ip H ip of None \<Rightarrow> None | Some vm_id \<Rightarrow> tartarus_name_for_id H vm_id))
      else None)"

definition resolve_client_name :: "host \<Rightarrow> pyval \<Rightarrow> pstr option res" where
  "resolve_client_name H client_id =
     (case client_id of
        PStr s \<Rightarrow>
          if \<not> startswith (lit ''vsock:'') s then Inr (Some s)
          else (case client_cid s of None \<Rightarrow> Inr (Some s)
            | Some cid \<Rightarrow> (case tartarus_name_for_id H cid of
                  Some name \<Rightarrow> Inr (Some (if name \<noteq> [] then name else s)) | None \<Rightarrow> Inr (Some s)))
      | _ \<Rightarrow> Inl AttributeError)"

definition clip_resolution_mode :: "dict \<Rightarrow> pstr res" where
  "clip_resolution_mode view =
     (let mode = dget view (lit ''resolution'')
      in if mode = PNone then Inr (lit ''none'')
         else if mode = PStr (lit ''qemu'') then Inl (ConfigError ''resolution = qemu was removed'')
         else if mode \<in> PStr ` set RESOLUTION_MODES then Inr (str_of mode)
         else Inl (ConfigError ''unknown resolution mode''))"

text \<open>
  The common name of a peer certificate is the package's answer (\<open>cn\<close>), and so is the name \<open>mofos\<close>
  gives for an id or an address; the cache in front of \<open>mofos\<close> is left out.
\<close>

definition resolve_friendly_name ::
  "host \<Rightarrow> (pbytes \<Rightarrow> pstr option) \<Rightarrow> (peer_id \<Rightarrow> pstr option) \<Rightarrow> pstr \<Rightarrow> dict \<Rightarrow> pbytes option \<Rightarrow> pstr option res" where
  "resolve_friendly_name H cn mofos client_id view der =
     andthen (clip_resolution_mode view) (\<lambda>mode.
       if mode = lit ''none'' then Inr None
       else if mode = lit ''certificate'' then
         Inr (case der of Some d \<Rightarrow> if d = [] then None else cn d | None \<Rightarrow> None)
       else if mode = lit ''tartarus'' then Inr (clip_resolve_tartarus H view client_id)
       else if startswith (lit ''vsock:'') client_id then
         Inr (case client_cid client_id of None \<Rightarrow> None | Some cid \<Rightarrow> mofos (PeerCid cid))
       else if startswith (lit ''tcp:'') client_id then Inr (mofos (PeerIp (after_colon client_id)))
       else Inr None)"

section \<open>Writing a slot\<close>

definition ok_reply :: dict where
  "ok_reply = [(lit ''status'', PStr (lit ''ok''))]"

definition data_reply :: "pyval \<Rightarrow> dict" where
  "data_reply data = ok_reply @ [(lit ''data'', data)]"

definition error_reply :: dict where
  "error_reply = [(lit ''status'', PStr (lit ''error'')), (lit ''message'', PStr (lit ''error''))]"

text \<open>The one error every refused request gets; its texts are shortened.\<close>

definition unauthorized_reply :: dict where
  "unauthorized_reply =
     [(lit ''status'', PStr (lit ''error'')), (lit ''message'', PStr (lit ''request not authorized by listener/rule''))]"

text \<open>
  The name stored with a slot: none at all on a listener without resolution, else the name given,
  else the one the slot already had, else one looked up.
\<close>

definition slot_name :: "host \<Rightarrow> dict \<Rightarrow> slot option \<Rightarrow> pyval \<Rightarrow> pstr option \<Rightarrow> pstr option res" where
  "slot_name H view found target_id given =
     andthen (clip_resolution_mode view) (\<lambda>mode.
       if mode = lit ''none'' then Inr None
       else (case given of Some n \<Rightarrow> Inr (Some n)
         | None \<Rightarrow> (case found of
               Some s \<Rightarrow> (case sl_name s of Some n \<Rightarrow> Inr (Some n) | None \<Rightarrow> resolve_client_name H target_id)
             | None \<Rightarrow> resolve_client_name H target_id)))"

definition subscribers_of :: "bridge \<Rightarrow> pyval \<Rightarrow> nat list" where
  "subscribers_of B target_id = (case target_id of PStr c \<Rightarrow> br_subs B c | _ \<Rightarrow> [])"

definition notify_and_broadcast ::
  "host \<Rightarrow> rat \<Rightarrow> dict \<Rightarrow> pyval \<Rightarrow> pyval \<Rightarrow> string \<Rightarrow> pstr option \<Rightarrow> nat option \<Rightarrow> (bridge, unit) op" where
  "notify_and_broadcast H now view target_id data action_text name exclude B =
     (if \<not> hashable target_id then (Inl TypeError, B)
      else (case slot_name H view (slot_of (br_slots B) target_id) target_id name of
          Inl e \<Rightarrow> (Inl e, B)
        | Inr n \<Rightarrow>
            (Inr (), B\<lparr>br_slots := put_slot target_id \<lparr>sl_data = data, sl_updated = now, sl_name = n\<rparr> (br_slots B),
                 br_notes := br_notes B @ [(n, action_text)],
                 br_sent := br_sent B @ map (\<lambda>w. (w, PDict (data_reply data)))
                   (filter (\<lambda>w. exclude \<noteq> Some w) (subscribers_of B target_id))\<rparr>)))"

section \<open>Admin requests\<close>

record clip_request =
  rq_action :: pyval
  rq_data :: pyval
  rq_target :: pyval
  rq_json :: bool

definition parse_clip_request :: "pyval \<Rightarrow> clip_request res" where
  "parse_clip_request v =
     (case v of
        PDict d \<Rightarrow> Inr \<lparr>rq_action = dget d (lit ''action''), rq_data = dget_or d (lit ''data'') (PStr []),
                       rq_target = dget d (lit ''target''), rq_json = truthy (dget d (lit ''json''))\<rparr>
      | _ \<Rightarrow> Inl AttributeError)"

definition opt_name :: "pstr option \<Rightarrow> pyval" where
  "opt_name n = (case n of None \<Rightarrow> PNone | Some s \<Rightarrow> PStr s)"

definition client_summary :: "pyval \<times> slot \<Rightarrow> pyval" where
  "client_summary e =
     PDict [(lit ''id'', fst e), (lit ''name'', opt_name (sl_name (snd e))), (lit ''updated'', PFloat (sl_updated (snd e)))]"

definition slot_dump :: "slot \<Rightarrow> pyval" where
  "slot_dump s = PDict [(lit ''data'', sl_data s), (lit ''updated'', PFloat (sl_updated s)), (lit ''name'', opt_name (sl_name s))]"

text \<open>A key of a JSON object, as \<open>json.dumps\<close> writes it.\<close>

definition key_text :: "lib \<Rightarrow> pyval \<Rightarrow> pstr" where
  "key_text L v = (case v of PStr s \<Rightarrow> s | _ \<Rightarrow> dumps L v)"

definition dump_store :: "lib \<Rightarrow> (pyval \<times> slot) list \<Rightarrow> pyval" where
  "dump_store L slots = PDict (map (\<lambda>(k, s). (key_text L k, slot_dump s)) slots)"

definition is_admin_action :: "clip_request \<Rightarrow> bool" where
  "is_admin_action r \<longleftrightarrow>
     rq_action r = PStr (lit ''clients'')
     \<or> (rq_action r = PStr (lit ''get'') \<and> (truthy (rq_target r) \<or> rq_json r))
     \<or> (rq_action r = PStr (lit ''set'') \<and> truthy (rq_target r))"

definition admin_get :: "lib \<Rightarrow> dict \<Rightarrow> clip_request \<Rightarrow> (bridge, dict) op" where
  "admin_get L view r B =
     (let resolved = resolve_target_to_id L view (br_slots B) (rq_target r); found = slot_of (br_slots B) resolved
      in if rq_json r \<and> \<not> truthy (rq_target r) then (Inr (data_reply (dump_store L (br_slots B))), B)
         else if \<not> hashable resolved then (Inl TypeError, B)
         else if rq_json r
         then (Inr (data_reply (case found of Some s \<Rightarrow> dump_store L [(resolved, s)] | None \<Rightarrow> PDict [])), B)
         else (Inr (data_reply (case found of Some s \<Rightarrow> sl_data s | None \<Rightarrow> PStr [])), B))"

definition admin_query :: "pstr \<Rightarrow> pstr option \<Rightarrow> clip_request \<Rightarrow> clip_query" where
  "admin_query listener machine r =
     \<lparr>cq_listener = listener, cq_machine = machine, cq_action = rq_action r, cq_target = rq_target r\<rparr>"

definition admin_serve :: "lib \<Rightarrow> host \<Rightarrow> rat \<Rightarrow> dict \<Rightarrow> clip_request \<Rightarrow> (bridge, dict) op" where
  "admin_serve L H now view r B =
     (if rq_action r = PStr (lit ''clients'') then (Inr (data_reply (PList (map client_summary (br_slots B)))), B)
      else if rq_action r = PStr (lit ''get'') then admin_get L view r B
      else if rq_action r = PStr (lit ''set'') then
        seq (notify_and_broadcast H now view (resolve_target_to_id L view (br_slots B) (rq_target r)) (rq_data r)
               ''Host push'' None None) (\<lambda>_. ret ok_reply) B
      else (Inr unauthorized_reply, B))"

definition handle_admin ::
  "lib \<Rightarrow> host \<Rightarrow> rat \<Rightarrow> dict \<Rightarrow> clip_rule list \<Rightarrow> pstr \<Rightarrow> pstr option \<Rightarrow> clip_request \<Rightarrow> (bridge, dict) op" where
  "handle_admin L H now view rules listener machine r B =
     (if \<not> is_admin_action r then (Inr unauthorized_reply, B)
      else (case clip_evaluate_rules rules (admin_query listener machine r) of
          Inl e \<Rightarrow> (Inl e, B)
        | Inr policy \<Rightarrow> if policy \<noteq> lit ''allow'' then (Inr unauthorized_reply, B) else admin_serve L H now view r B))"

section \<open>Guest requests\<close>

text \<open>A guest request is answered, or turns the connection into a subscription.\<close>

datatype guest_answer = Reply dict | Subscribed

definition register_slot :: "rat \<Rightarrow> pstr option \<Rightarrow> slot option \<Rightarrow> slot" where
  "register_slot now machine found =
     (case found of
        None \<Rightarrow> \<lparr>sl_data = PStr [], sl_updated = now, sl_name = machine\<rparr>
      | Some s \<Rightarrow> s\<lparr>sl_updated := now, sl_name := (case machine of Some m \<Rightarrow> Some m | None \<Rightarrow> sl_name s)\<rparr>)"

definition guest_data :: "bridge \<Rightarrow> pstr \<Rightarrow> pyval" where
  "guest_data B client = (case slot_of (br_slots B) (PStr client) of Some s \<Rightarrow> sl_data s | None \<Rightarrow> PStr [])"

definition handle_guest ::
  "host \<Rightarrow> rat \<Rightarrow> dict \<Rightarrow> nat \<Rightarrow> pstr \<Rightarrow> pstr option \<Rightarrow> clip_request \<Rightarrow> (bridge, guest_answer) op" where
  "handle_guest H now view conn client machine r B =
     (if rq_action r = PStr (lit ''set'') then
        (if truthy (rq_target r) then (Inr (Reply unauthorized_reply), B)
         else seq (notify_and_broadcast H now view (PStr client) (rq_data r) ''Push'' machine (Some conn)) (\<lambda>_. ret (Reply ok_reply)) B)
      else if rq_action r = PStr (lit ''get'') then
        (if truthy (rq_target r) \<or> rq_json r then (Inr (Reply unauthorized_reply), B)
         else (Inr (Reply (data_reply (guest_data B client))), B))
      else if rq_action r = PStr (lit ''register'') then
        (Inr (Reply ok_reply), B\<lparr>br_slots := put_slot (PStr client)
           (register_slot now machine (slot_of (br_slots B) (PStr client))) (br_slots B)\<rparr>)
      else if rq_action r = PStr (lit ''subscribe'') then
        (Inr Subscribed, B\<lparr>br_sent := br_sent B @ [(conn, PDict (ok_reply @ [(lit ''message'', PStr (lit ''Subscribed''))]))],
           br_subs := (br_subs B)(client := br_subs B client @ [conn]), br_reading := (br_reading B)(conn := True)\<rparr>)
      else (Inr (Reply unauthorized_reply), B))"

section \<open>Connections\<close>

text \<open>What the server knows of an accepted connection for as long as it lasts.\<close>

record clip_peer =
  cp_client :: pstr
  cp_machine :: "pstr option"
  cp_admin :: bool
  cp_listener :: pstr
  cp_rules :: "clip_rule list"
  cp_view :: dict

text \<open>
  The start of \<open>handle\<close>: the certificate a listener under mTLS demands, then the name of the peer.
  The result is the peer, or an error answer and the end of the connection.
\<close>

definition accept_peer ::
  "crypto \<Rightarrow> host \<Rightarrow> (pbytes \<Rightarrow> pstr option) \<Rightarrow> (peer_id \<Rightarrow> pstr option) \<Rightarrow> clip_rule list \<Rightarrow> dict \<Rightarrow> sock \<Rightarrow> clip_peer option res" where
  "accept_peer C H cn mofos rules view s =
     (case resolve_listener_security view of
        Inl (ConfigError _) \<Rightarrow> Inr None
      | Inl e \<Rightarrow> Inl e
      | Inr k \<Rightarrow>
          (let client = get_client_id (dget_or view (lit ''transport'') (PStr (lit ''tcp''))) (sk_peername s);
               der = (if cb_encryption k = lit ''mtls'' \<and> sk_tls s then peer_der s else None)
           in case check_peer_oid C der (required_peer_oid view) of
                Inl (ValueError _) \<Rightarrow> Inr None
              | Inl (RuntimeError _) \<Rightarrow> Inr None
              | Inl e \<Rightarrow> Inl e
              | Inr _ \<Rightarrow> andthen (resolve_friendly_name H cn mofos client view der) (\<lambda>machine.
                  Inr (Some \<lparr>cp_client = client, cp_machine = machine, cp_admin = truthy (dget view (lit ''_admin'')),
                    cp_listener = (case dget view (lit ''_listener_name'') of PStr n \<Rightarrow> n | _ \<Rightarrow> []),
                    cp_rules = rules, cp_view = view\<rparr>))))"

definition parse_clip_line :: "lib \<Rightarrow> pbytes \<Rightarrow> pyval res" where
  "parse_clip_line L line =
     (case utf8_decode line of None \<Rightarrow> Inl (ValueError ''invalid UTF-8'')
      | Some t \<Rightarrow> (case json_loads L t of Inl _ \<Rightarrow> Inl (ValueError ''invalid JSON'') | Inr v \<Rightarrow> Inr v))"

definition serve_request :: "lib \<Rightarrow> host \<Rightarrow> rat \<Rightarrow> clip_peer \<Rightarrow> nat \<Rightarrow> pyval \<Rightarrow> (bridge, guest_answer) op" where
  "serve_request L H now P conn v =
     seq (pure_op (parse_clip_request v)) (\<lambda>r.
       if cp_admin P
       then seq (handle_admin L H now (cp_view P) (cp_rules P) (cp_listener P) (cp_machine P) r) (\<lambda>reply. ret (Reply reply))
       else handle_guest H now (cp_view P) conn (cp_client P) (cp_machine P) r)"

definition send_to :: "nat \<Rightarrow> dict \<Rightarrow> bridge \<Rightarrow> bridge" where
  "send_to conn reply B = B\<lparr>br_sent := br_sent B @ [(conn, PDict reply)]\<rparr>"

text \<open>
  One line from a connection. Whatever a request raises is answered with an error and the
  connection goes on; a subscribed connection reads its lines and ignores them.
\<close>

definition receive_line :: "lib \<Rightarrow> host \<Rightarrow> rat \<Rightarrow> clip_peer \<Rightarrow> nat \<Rightarrow> pbytes \<Rightarrow> bridge \<Rightarrow> bridge" where
  "receive_line L H now P conn line B =
     (if br_reading B conn then B
      else (case seq (pure_op (parse_clip_line L line)) (serve_request L H now P conn) B of
          (Inl e, B') \<Rightarrow> send_to conn error_reply B'
        | (Inr (Reply reply), B') \<Rightarrow> send_to conn reply B'
        | (Inr Subscribed, B') \<Rightarrow> B'))"

definition hang_up :: "clip_peer \<Rightarrow> nat \<Rightarrow> bridge \<Rightarrow> bridge" where
  "hang_up P conn B =
     (if br_reading B conn
      then B\<lparr>br_subs := (br_subs B)(cp_client P := remove1 conn (br_subs B (cp_client P))), br_reading := (br_reading B)(conn := False)\<rparr>
      else B)"

section \<open>The server as a machine\<close>

datatype bridge_event = Line nat pbytes rat | HangUp nat | ExpireScan | ExpireDrop rat | ExpireForget

definition bridge_step :: "lib \<Rightarrow> host \<Rightarrow> (nat \<Rightarrow> clip_peer) \<Rightarrow> bridge \<Rightarrow> bridge_event \<Rightarrow> bridge" where
  "bridge_step L H peers B ev =
     (case ev of
        Line conn line now \<Rightarrow> receive_line L H now (peers conn) conn line B
      | HangUp conn \<Rightarrow> hang_up (peers conn) conn B
      | ExpireScan \<Rightarrow> expire_scan B
      | ExpireDrop now \<Rightarrow> expire_drop now B
      | ExpireForget \<Rightarrow> expire_forget B)"

definition bridge_run :: "lib \<Rightarrow> host \<Rightarrow> (nat \<Rightarrow> clip_peer) \<Rightarrow> bridge \<Rightarrow> bridge_event list \<Rightarrow> bridge" where
  "bridge_run L H peers B evs = foldl (bridge_step L H peers) B evs"

text \<open>What the connections of a client were sent.\<close>

definition seen_by :: "(nat \<Rightarrow> clip_peer) \<Rightarrow> pstr \<Rightarrow> bridge \<Rightarrow> (nat \<times> pyval) list" where
  "seen_by peers client B = filter (\<lambda>(conn, v). cp_client (peers conn) = client) (br_sent B)"

end
