(* ===== verification/ClipFacts.thy ===== *)
theory ClipFacts
  imports ClipStore
begin

text \<open>
  What the server of \<open>clipboard-bridge\<close> guarantees: guests do not influence each other, an admin
  request is served only under a rule, a client reads back what it wrote; and where it does less
  than its documentation says.
\<close>

section \<open>Unwinding\<close>

text \<open>
  A machine whose events belong to an observer or to somebody else. When the steps of the others
  leave what the observer sees alone, and its own steps depend on nothing more, then a run looks
  to the observer like the run of its own events only.
\<close>

locale unwinding =
  fixes step :: "'s \<Rightarrow> 'e \<Rightarrow> 's"
    and inv :: "'s \<Rightarrow> bool"
    and allowed :: "'e \<Rightarrow> bool"
    and own :: "'e \<Rightarrow> bool"
    and same :: "'s \<Rightarrow> 's \<Rightarrow> bool"
  assumes inv_step: "inv s \<Longrightarrow> allowed e \<Longrightarrow> inv (step s e)"
    and same_trans: "same s t \<Longrightarrow> same t u \<Longrightarrow> same s u"
    and respects: "inv s \<Longrightarrow> allowed e \<Longrightarrow> \<not> own e \<Longrightarrow> same (step s e) s"
    and consistent: "inv s \<Longrightarrow> inv t \<Longrightarrow> same s t \<Longrightarrow> allowed e \<Longrightarrow> own e \<Longrightarrow> same (step s e) (step t e)"
begin

lemma run_inv: "inv s \<Longrightarrow> \<forall>e \<in> set es. allowed e \<Longrightarrow> inv (foldl step s es)"
  by (induction es arbitrary: s) (auto intro: inv_step)

lemma purge:
  "inv s \<Longrightarrow> inv t \<Longrightarrow> same s t \<Longrightarrow> \<forall>e \<in> set es. allowed e \<Longrightarrow> same (foldl step s es) (foldl step t (filter own es))"
proof (induction es arbitrary: s t)
  case (Cons e es)
  show ?case
  proof (cases "own e")
    case True
    then show ?thesis using Cons by (auto intro!: Cons.IH intro: inv_step consistent)
  next
    case False
    then show ?thesis using Cons by (auto intro!: Cons.IH intro: inv_step same_trans [OF respects])
  qed
qed simp

lemma others_do_not_matter:
  "inv s \<Longrightarrow> \<forall>e \<in> set es. allowed e \<and> \<not> own e \<Longrightarrow> same s s \<Longrightarrow> same (foldl step s es) s"
proof (induction es rule: rev_induct)
  case (snoc e es)
  then have "same (step (foldl step s es) e) (foldl step s es)" by (intro respects run_inv) auto
  then show ?case using snoc by (auto intro: same_trans)
qed simp

end

section \<open>Slots\<close>

lemma same_key_PStr [simp]: "same_key (PStr c) k \<longleftrightarrow> k = PStr c" "same_key k (PStr c) \<longleftrightarrow> k = PStr c"
  by (auto simp: same_key_def numeric_def lit_def split: option.splits pyval.splits)

lemma hashable_PStr [simp]: "hashable (PStr c)"
  by (simp add: hashable_def)

definition entries_of :: "pstr \<Rightarrow> store \<Rightarrow> store" where
  "entries_of c slots = filter (\<lambda>e. fst e = PStr c) slots"

lemma slot_of_entries: "slot_of slots (PStr c) = (case entries_of c slots of [] \<Rightarrow> None | e # es \<Rightarrow> Some (snd e))"
  by (induction slots) (auto simp: entries_of_def)

lemma entries_of_put:
  "entries_of c (put_slot (PStr d) s slots) =
     (if c \<noteq> d then entries_of c slots
      else (case entries_of c slots of [] \<Rightarrow> [(PStr c, s)] | e # es \<Rightarrow> (fst e, s) # es))"
  by (induction slots) (auto simp: entries_of_def)

lemma slot_of_put [simp]:
  "slot_of (put_slot (PStr d) s slots) (PStr c) = (if c = d then Some s else slot_of slots (PStr c))"
  by (simp add: slot_of_entries entries_of_put split: list.split)

section \<open>What a client can see\<close>

text \<open>Subscriptions belong to the clients whose connections they are, and only subscribed connections have them.\<close>

definition linked :: "(nat \<Rightarrow> clip_peer) \<Rightarrow> bridge \<Rightarrow> bool" where
  "linked peers B \<longleftrightarrow>
     (\<forall>c. distinct (br_subs B c) \<and> (\<forall>conn \<in> set (br_subs B c). cp_client (peers conn) = c \<and> br_reading B conn))"

definition is_guest_event :: "(nat \<Rightarrow> clip_peer) \<Rightarrow> bridge_event \<Rightarrow> bool" where
  "is_guest_event peers ev \<longleftrightarrow> (case ev of Line conn line now \<Rightarrow> \<not> cp_admin (peers conn) | _ \<Rightarrow> True)"

definition concerns :: "(nat \<Rightarrow> clip_peer) \<Rightarrow> pstr \<Rightarrow> bridge_event \<Rightarrow> bool" where
  "concerns peers c ev \<longleftrightarrow>
     (case ev of Line conn line now \<Rightarrow> cp_client (peers conn) = c | HangUp conn \<Rightarrow> cp_client (peers conn) = c | _ \<Rightarrow> True)"

definition same_view :: "(nat \<Rightarrow> clip_peer) \<Rightarrow> pstr \<Rightarrow> bridge \<Rightarrow> bridge \<Rightarrow> bool" where
  "same_view peers c B B' \<longleftrightarrow>
     entries_of c (br_slots B) = entries_of c (br_slots B') \<and> br_subs B c = br_subs B' c \<and>
     (\<forall>conn. cp_client (peers conn) = c \<longrightarrow> br_reading B conn = br_reading B' conn) \<and>
     (c \<in> br_active B \<longleftrightarrow> c \<in> br_active B') \<and> (PStr c \<in> set (br_stale B) \<longleftrightarrow> PStr c \<in> set (br_stale B')) \<and>
     seen_by peers c B = seen_by peers c B'"

lemma same_view_refl [simp]: "same_view peers c B B"
  by (simp add: same_view_def)

lemma seen_by_send [simp]:
  "seen_by peers c (send_to conn reply B) =
     seen_by peers c B @ (if cp_client (peers conn) = c then [(conn, PDict reply)] else [])"
  by (simp add: seen_by_def send_to_def)

lemma send_to_other [simp]:
  "br_slots (send_to conn reply B) = br_slots B" "br_subs (send_to conn reply B) = br_subs B"
  "br_reading (send_to conn reply B) = br_reading B" "br_active (send_to conn reply B) = br_active B"
  "br_stale (send_to conn reply B) = br_stale B"
  by (simp_all add: send_to_def)

lemma linked_send [simp]: "linked peers (send_to conn reply B) = linked peers B"
  by (simp add: linked_def)

lemma same_view_send:
  "same_view peers c B B' \<Longrightarrow> same_view peers c (send_to conn reply B) (send_to conn reply B')"
  by (simp add: same_view_def)

lemma same_view_send_other:
  "cp_client (peers conn) \<noteq> c \<Longrightarrow> same_view peers c (send_to conn reply B) B' \<longleftrightarrow> same_view peers c B B'"
  by (simp add: same_view_def)

section \<open>Guest requests\<close>

text \<open>
  A guest request other than a subscription is one of: an answer and no change, an error and no
  change, or a new slot of the client, with the notification and the pushes that go with it.
\<close>

definition write_slot :: "pstr \<Rightarrow> slot \<Rightarrow> nat list \<Rightarrow> (pstr option \<times> string) list \<Rightarrow> dict \<Rightarrow> bridge \<Rightarrow> bridge" where
  "write_slot client s ws notes reply B =
     B\<lparr>br_slots := put_slot (PStr client) s (br_slots B), br_notes := br_notes B @ notes,
       br_sent := br_sent B @ map (\<lambda>w. (w, PDict reply)) ws\<rparr>"

lemma write_slot_simps [simp]:
  "br_slots (write_slot client s ws notes reply B) = put_slot (PStr client) s (br_slots B)"
  "br_subs (write_slot client s ws notes reply B) = br_subs B"
  "br_reading (write_slot client s ws notes reply B) = br_reading B"
  "br_active (write_slot client s ws notes reply B) = br_active B"
  "br_stale (write_slot client s ws notes reply B) = br_stale B"
  "seen_by peers c (write_slot client s ws notes reply B) =
     seen_by peers c B @ map (\<lambda>w. (w, PDict reply)) (filter (\<lambda>w. cp_client (peers w) = c) ws)"
  by (simp_all add: write_slot_def seen_by_def filter_map comp_def)

lemma linked_write [simp]: "linked peers (write_slot client s ws notes reply B) = linked peers B"
  by (simp add: linked_def)

text \<open>What a guest request does, as a function of the client's own slot and subscriptions only.\<close>

datatype guest_effect =
    Answer "guest_answer res"
  | WriteSlot slot "nat list" "(pstr option \<times> string) list" dict
  | Subscribe

definition push_effect :: "pstr option res \<Rightarrow> rat \<Rightarrow> pyval \<Rightarrow> nat list \<Rightarrow> guest_effect" where
  "push_effect name now data ws =
     (case name of Inl e \<Rightarrow> Answer (Inl e)
      | Inr n \<Rightarrow> WriteSlot \<lparr>sl_data = data, sl_updated = now, sl_name = n\<rparr> ws [(n, ''Push'')] (data_reply data))"

definition guest_effect ::
  "host \<Rightarrow> rat \<Rightarrow> dict \<Rightarrow> nat \<Rightarrow> pstr \<Rightarrow> pstr option \<Rightarrow> clip_request \<Rightarrow> slot option \<Rightarrow> nat list \<Rightarrow> guest_effect" where
  "guest_effect H now view conn client machine r found subs =
     (if rq_action r = PStr (lit ''set'') \<and> \<not> truthy (rq_target r)
      then push_effect (slot_name H view found (PStr client) machine) now (rq_data r) (filter (\<lambda>w. conn \<noteq> w) subs)
      else if rq_action r = PStr (lit ''get'') \<and> \<not> (truthy (rq_target r) \<or> rq_json r)
      then Answer (Inr (Reply (data_reply (case found of Some s \<Rightarrow> sl_data s | None \<Rightarrow> PStr []))))
      else if rq_action r = PStr (lit ''register'') then WriteSlot (register_slot now machine found) [] [] []
      else if rq_action r = PStr (lit ''subscribe'') then Subscribe
      else Answer (Inr (Reply unauthorized_reply)))"

definition perform :: "nat \<Rightarrow> pstr \<Rightarrow> guest_effect \<Rightarrow> bridge \<Rightarrow> guest_answer res \<times> bridge" where
  "perform conn client eff B =
     (case eff of
        Answer x \<Rightarrow> (x, B)
      | WriteSlot s ws notes reply \<Rightarrow> (Inr (Reply ok_reply), write_slot client s ws notes reply B)
      | Subscribe \<Rightarrow> (Inr Subscribed,
          (send_to conn (ok_reply @ [(lit ''message'', PStr (lit ''Subscribed''))]) B)
            \<lparr>br_subs := (br_subs B)(client := br_subs B client @ [conn]), br_reading := (br_reading B)(conn := True)\<rparr>))"

lemma handle_guest_effect:
  "handle_guest H now view conn client machine r B =
     perform conn client (guest_effect H now view conn client machine r (slot_of (br_slots B) (PStr client)) (br_subs B client)) B"
proof -
  consider (set) "rq_action r = PStr (lit ''set'')" | (get) "rq_action r = PStr (lit ''get'')"
    | (register) "rq_action r = PStr (lit ''register'')" | (subscribe) "rq_action r = PStr (lit ''subscribe'')"
    | (other) "rq_action r \<notin> {PStr (lit ''set''), PStr (lit ''get''), PStr (lit ''register''), PStr (lit ''subscribe'')}"
    by blast
  then show ?thesis
  proof cases
    case set
    then show ?thesis
      by (cases "slot_name H view (slot_of (br_slots B) (PStr client)) (PStr client) machine")
        (simp_all add: handle_guest_def guest_effect_def push_effect_def perform_def seq_def ret_def notify_and_broadcast_def
          subscribers_of_def write_slot_def)
  next
    case get
    then show ?thesis by (simp add: handle_guest_def guest_effect_def perform_def guest_data_def)
  next
    case register
    then show ?thesis by (simp add: handle_guest_def guest_effect_def perform_def write_slot_def)
  next
    case subscribe
    then show ?thesis by (simp add: handle_guest_def guest_effect_def perform_def send_to_def)
  next
    case other
    then show ?thesis by (simp add: handle_guest_def guest_effect_def perform_def)
  qed
qed

text \<open>The effect of a whole line of a guest, errors included.\<close>

definition request_of :: "lib \<Rightarrow> pbytes \<Rightarrow> clip_request res" where
  "request_of L line = andthen (parse_clip_line L line) parse_clip_request"

definition line_effect ::
  "lib \<Rightarrow> host \<Rightarrow> rat \<Rightarrow> clip_peer \<Rightarrow> nat \<Rightarrow> pbytes \<Rightarrow> slot option \<Rightarrow> nat list \<Rightarrow> guest_effect" where
  "line_effect L H now P conn line found subs =
     (case request_of L line of
        Inl e \<Rightarrow> Answer (Inl e)
      | Inr r \<Rightarrow> guest_effect H now (cp_view P) conn (cp_client P) (cp_machine P) r found subs)"

definition deliver :: "nat \<Rightarrow> guest_answer res \<times> bridge \<Rightarrow> bridge" where
  "deliver conn x =
     (case x of (Inl e, B') \<Rightarrow> send_to conn error_reply B' | (Inr (Reply reply), B') \<Rightarrow> send_to conn reply B' | (Inr Subscribed, B') \<Rightarrow> B')"

lemma receive_guest_line:
  assumes "\<not> cp_admin P" "\<not> br_reading B conn"
  shows "receive_line L H now P conn line B =
    deliver conn (perform conn (cp_client P)
      (line_effect L H now P conn line (slot_of (br_slots B) (PStr (cp_client P))) (br_subs B (cp_client P))) B)"
proof (cases "parse_clip_line L line")
  case (Inl e)
  then show ?thesis using assms
    by (simp add: receive_line_def deliver_def line_effect_def perform_def seq_def pure_op_def request_of_def)
next
  case (Inr v)
  show ?thesis
  proof (cases "parse_clip_request v")
    case (Inl e)
    with Inr assms show ?thesis
      by (simp add: receive_line_def deliver_def line_effect_def perform_def seq_def pure_op_def serve_request_def request_of_def)
  next
    case (Inr r)
    with \<open>parse_clip_line L line = Inr v\<close> assms show ?thesis
      by (simp add: receive_line_def deliver_def line_effect_def seq_def pure_op_def serve_request_def handle_guest_effect request_of_def)
  qed
qed

section \<open>The unwinding conditions\<close>

lemma push_effect_subs: "push_effect name now data ws = WriteSlot s ws' notes reply \<Longrightarrow> ws' = ws"
  by (cases name) (simp_all add: push_effect_def)

lemma line_effect_subs:
  "line_effect L H now P conn line found subs = WriteSlot s ws notes reply \<Longrightarrow> set ws \<subseteq> set subs"
  by (auto simp: line_effect_def guest_effect_def dest: push_effect_subs split: sum.splits if_splits)

lemma view_of_own_line:
  assumes "same_view peers c B B'" "cp_client (peers conn) = c"
  shows "same_view peers c (deliver conn (perform conn c eff B)) (deliver conn (perform conn c eff B'))"
proof (cases eff)
  case (Answer x)
  then show ?thesis using assms
    by (cases x; cases "projr x") (auto simp: perform_def deliver_def intro: same_view_send)
next
  case (WriteSlot s ws ns reply)
  have "same_view peers c (write_slot c s ws ns reply B) (write_slot c s ws ns reply B')"
    using assms(1) by (simp add: same_view_def entries_of_put)
  with WriteSlot show ?thesis by (simp add: perform_def deliver_def same_view_send)
next
  case Subscribe
  then show ?thesis using assms
    by (auto simp: perform_def deliver_def same_view_def seen_by_def send_to_def)
qed

lemma view_of_other_line:
  assumes "cp_client (peers conn) = d" "d \<noteq> c" "linked peers B"
    and "eff = line_effect L H now P conn line found (br_subs B d)"
  shows "same_view peers c (deliver conn (perform conn d eff B)) B"
proof (cases eff)
  case (Answer x)
  then show ?thesis using assms
    by (cases x; cases "projr x") (auto simp: perform_def deliver_def same_view_send_other)
next
  case (WriteSlot s ws ns reply)
  then have "set ws \<subseteq> set (br_subs B d)" using assms(4) line_effect_subs by simp
  then have "filter (\<lambda>w. cp_client (peers w) = c) ws = []"
    using assms(2,3) by (auto simp: linked_def filter_empty_conv)
  then have "same_view peers c (write_slot d s ws ns reply B) B"
    using assms(2) by (simp add: same_view_def entries_of_put)
  with WriteSlot show ?thesis using assms(1,2) by (simp add: perform_def deliver_def same_view_send_other)
next
  case Subscribe
  then show ?thesis using assms(1,2)
    by (auto simp: perform_def deliver_def same_view_def seen_by_def send_to_def)
qed

lemma linked_line:
  assumes "linked peers B" "cp_client (peers conn) = d" "\<not> br_reading B conn"
  shows "linked peers (deliver conn (perform conn d eff B))"
proof (cases eff)
  case (Answer x)
  then show ?thesis using assms by (cases x; cases "projr x") (auto simp: perform_def deliver_def)
next
  case (WriteSlot s ws ns reply)
  then show ?thesis using assms by (simp add: perform_def deliver_def)
next
  case Subscribe
  then show ?thesis using assms by (auto simp: perform_def deliver_def linked_def send_to_def)
qed

lemma entries_of_filter: "entries_of c (filter p slots) = filter p (entries_of c slots)"
  by (simp add: entries_of_def conj_commute)

lemma view_of_drop:
  assumes "same_view peers c B B'"
  shows "same_view peers c (expire_drop now B) (expire_drop now B')"
proof -
  have stale: "is_stale B now e \<longleftrightarrow> is_stale B' now e" if "fst e = PStr c" for e
    using assms that by (auto simp: is_stale_def same_view_def)
  have own: "entries_of c (br_slots B) = entries_of c (br_slots B')" using assms by (simp add: same_view_def)
  have "filter (\<lambda>e. \<not> is_stale B now e) (entries_of c (br_slots B)) = filter (\<lambda>e. \<not> is_stale B' now e) (entries_of c (br_slots B'))"
    unfolding own by (rule filter_cong) (auto simp: entries_of_def stale)
  moreover have "PStr c \<in> fst ` set (filter (is_stale D now) (br_slots D)) \<longleftrightarrow> (\<exists>e \<in> set (entries_of c (br_slots D)). is_stale D now e)" for D
    by (auto simp: entries_of_def image_iff)
  moreover have "(\<exists>e \<in> set (entries_of c (br_slots B)). is_stale B now e) \<longleftrightarrow> (\<exists>e \<in> set (entries_of c (br_slots B')). is_stale B' now e)"
    unfolding own by (auto simp: entries_of_def stale)
  ultimately show ?thesis using assms
    by (simp add: same_view_def expire_drop_def entries_of_filter seen_by_def)
qed


lemma view_step_respects:
  assumes "linked peers B" "is_guest_event peers ev" "\<not> concerns peers c ev"
  shows "same_view peers c (bridge_step L H peers B ev) B"
proof (cases ev)
  case (Line conn line now)
  then have d: "\<not> cp_admin (peers conn)" "cp_client (peers conn) \<noteq> c" using assms(2,3) by (auto simp: is_guest_event_def concerns_def)
  show ?thesis
  proof (cases "br_reading B conn")
    case True
    then show ?thesis by (simp add: Line bridge_step_def receive_line_def)
  next
    case False
    then show ?thesis
      unfolding Line bridge_step_def bridge_event.case receive_guest_line [OF d(1) False]
      by (intro view_of_other_line [OF refl d(2) assms(1) refl])
  qed
next
  case (HangUp conn)
  then show ?thesis using assms(3) by (auto simp: concerns_def bridge_step_def hang_up_def same_view_def seen_by_def)
qed (use assms(3) in \<open>auto simp: concerns_def\<close>)

lemma view_step_consistent:
  assumes "same_view peers c B B'" "is_guest_event peers ev" "concerns peers c ev"
  shows "same_view peers c (bridge_step L H peers B ev) (bridge_step L H peers B' ev)"
proof (cases ev)
  case (Line conn line now)
  then have d: "\<not> cp_admin (peers conn)" "cp_client (peers conn) = c" using assms(2,3) by (auto simp: is_guest_event_def concerns_def)
  have reading: "br_reading B conn = br_reading B' conn" using assms(1) d(2) by (simp add: same_view_def)
  have own: "slot_of (br_slots B) (PStr c) = slot_of (br_slots B') (PStr c)" "br_subs B c = br_subs B' c"
    using assms(1) by (simp_all add: same_view_def slot_of_entries)
  show ?thesis
  proof (cases "br_reading B conn")
    case True
    then show ?thesis using reading assms(1) by (simp add: Line bridge_step_def receive_line_def)
  next
    case False
    then have "\<not> br_reading B' conn" using reading by simp
    with False show ?thesis
      using view_of_own_line [OF assms(1) d(2)]
      by (simp add: Line bridge_step_def receive_guest_line d own)
  qed
next
  case (HangUp conn)
  then show ?thesis using assms(1,3) by (auto simp: concerns_def bridge_step_def hang_up_def same_view_def seen_by_def)
next
  case ExpireScan
  then show ?thesis using assms(1) by (simp add: bridge_step_def expire_scan_def same_view_def seen_by_def)
next
  case (ExpireDrop now)
  then show ?thesis using view_of_drop [OF assms(1)] by (simp add: bridge_step_def)
next
  case ExpireForget
  then show ?thesis using assms(1) by (simp add: bridge_step_def expire_forget_def same_view_def seen_by_def)
qed

lemma admin_get_reads [simp]: "snd (admin_get L view r B) = B"
  by (simp add: admin_get_def Let_def)

lemma notify_keeps_subscriptions:
  "br_subs (snd (notify_and_broadcast H now view target data action name exclude B)) = br_subs B"
  "br_reading (snd (notify_and_broadcast H now view target data action name exclude B)) = br_reading B"
  by (simp_all add: notify_and_broadcast_def split: sum.split)

lemma snd_seq_ret [simp]: "snd (seq m (\<lambda>x. ret (f x)) B) = snd (m B)"
  by (simp add: seq_def ret_def split: prod.split sum.split)

lemma admin_keeps_subscriptions:
  "br_subs (snd (handle_admin L H now view rules listener machine r B)) = br_subs B"
  "br_reading (snd (handle_admin L H now view rules listener machine r B)) = br_reading B"
  by (simp_all add: handle_admin_def admin_serve_def notify_keeps_subscriptions split: sum.split)

lemma receive_admin_line:
  assumes "cp_admin P" "\<not> br_reading B conn"
  shows "receive_line L H now P conn line B =
    (case request_of L line of
       Inl e \<Rightarrow> send_to conn error_reply B
     | Inr r \<Rightarrow> (case handle_admin L H now (cp_view P) (cp_rules P) (cp_listener P) (cp_machine P) r B of
           (Inl e, B') \<Rightarrow> send_to conn error_reply B' | (Inr reply, B') \<Rightarrow> send_to conn reply B'))"
proof (cases "parse_clip_line L line")
  case (Inl e)
  then show ?thesis using assms by (simp add: receive_line_def seq_def pure_op_def request_of_def)
next
  case (Inr v)
  then show ?thesis using assms
    by (cases "parse_clip_request v")
      (simp_all add: receive_line_def seq_def pure_op_def serve_request_def ret_def request_of_def split: prod.split sum.split)
qed

lemma linked_same: "br_subs B' = br_subs B \<Longrightarrow> br_reading B' = br_reading B \<Longrightarrow> linked peers B' = linked peers B"
  by (simp add: linked_def)

lemma linked_step:
  assumes "linked peers B"
  shows "linked peers (bridge_step L H peers B ev)"
proof (cases ev)
  case (Line conn line now)
  consider "br_reading B conn" | (guest) "\<not> br_reading B conn" "\<not> cp_admin (peers conn)"
    | (admin) "\<not> br_reading B conn" "cp_admin (peers conn)" by blast
  then show ?thesis
  proof cases
    case guest
    then show ?thesis using assms linked_line [OF assms refl] by (simp add: Line bridge_step_def receive_guest_line)
  next
    case admin
    let ?P = "peers conn"
    have "linked peers (snd (handle_admin L H now (cp_view ?P) (cp_rules ?P) (cp_listener ?P) (cp_machine ?P) r B))" for r
      using linked_same [OF admin_keeps_subscriptions] assms by blast
    then show ?thesis using assms
      by (auto simp: Line bridge_step_def receive_admin_line [OF admin(2,1)] split: sum.split prod.split) (metis snd_conv)+
  qed (use assms in \<open>simp add: Line bridge_step_def receive_line_def\<close>)
next
  case (HangUp conn)
  then show ?thesis using assms by (auto simp: bridge_step_def hang_up_def linked_def dest: notin_set_remove1)
qed (use assms in \<open>auto simp: bridge_step_def linked_def expire_scan_def expire_drop_def expire_forget_def\<close>)

interpretation guests: unwinding "bridge_step L H peers" "linked peers" "is_guest_event peers" "concerns peers c" "same_view peers c"
  for L H peers c
proof
  show "same_view peers c s u" if "same_view peers c s t" "same_view peers c t u" for s t u
    using that by (simp add: same_view_def)
qed (auto intro: linked_step view_step_respects view_step_consistent)

lemma linked_empty [simp]: "linked peers empty_bridge"
  by (simp add: linked_def empty_bridge_def)

lemma linked_run: "linked peers (bridge_run L H peers empty_bridge evs)"
  unfolding bridge_run_def by (induction evs rule: rev_induct) (auto intro: linked_step)

section \<open>Single requests\<close>

lemma parse_dumped:
  assumes "json_ok v" "utf8_encode (dumps L v) = Inr line" "parse_clip_request v = Inr r"
  shows "request_of L line = Inr r"
  using utf8_decode_encode [OF assms(2)] json_loads_dumps [OF assms(1), of L] assms(3)
  by (simp add: request_of_def parse_clip_line_def)

lemma slot_name_defined: "clip_resolution_mode view = Inr m \<Longrightarrow> \<exists>n. slot_name H view found (PStr c) given = Inr n"
  by (auto simp: slot_name_def resolve_client_name_def split: option.splits if_splits)

text \<open>A guest's own write, read and subscription, as lines of its connections.\<close>

lemma guest_set_line:
  assumes "\<not> cp_admin P" "\<not> br_reading B conn" "request_of L line = Inr r"
    and "rq_action r = PStr (lit ''set'')" "\<not> truthy (rq_target r)"
    and "slot_name H (cp_view P) (slot_of (br_slots B) (PStr (cp_client P))) (PStr (cp_client P)) (cp_machine P) = Inr n"
  shows "receive_line L H now P conn line B =
    send_to conn ok_reply (write_slot (cp_client P) \<lparr>sl_data = rq_data r, sl_updated = now, sl_name = n\<rparr>
      (filter (\<lambda>w. conn \<noteq> w) (br_subs B (cp_client P))) [(n, ''Push'')] (data_reply (rq_data r)) B)"
  using assms(3-6) unfolding receive_guest_line [OF assms(1,2)]
  by (simp add: line_effect_def guest_effect_def push_effect_def perform_def deliver_def)

lemma guest_get_line:
  assumes "\<not> cp_admin P" "\<not> br_reading B conn" "request_of L line = Inr r"
    and "rq_action r = PStr (lit ''get'')" "\<not> truthy (rq_target r)" "\<not> rq_json r"
  shows "receive_line L H now P conn line B = send_to conn (data_reply (guest_data B (cp_client P))) B"
  using assms(3-6) unfolding receive_guest_line [OF assms(1,2)]
  by (simp add: line_effect_def guest_effect_def perform_def deliver_def guest_data_def)

lemma guest_subscribe_line:
  assumes "\<not> cp_admin P" "\<not> br_reading B conn" "request_of L line = Inr r" "rq_action r = PStr (lit ''subscribe'')"
  shows "receive_line L H now P conn line B = snd (perform conn (cp_client P) Subscribe B)"
  using assms(3,4) unfolding receive_guest_line [OF assms(1,2)]
  by (simp add: line_effect_def guest_effect_def perform_def deliver_def)

lemma admin_line:
  assumes "cp_admin P" "\<not> br_reading B conn" "request_of L line = Inr r" "is_admin_action r"
    and "clip_evaluate_rules (cp_rules P) (admin_query (cp_listener P) (cp_machine P) r) = Inr (lit ''allow'')"
  shows "receive_line L H now P conn line B =
    (case admin_serve L H now (cp_view P) r B of (Inl e, B') \<Rightarrow> send_to conn error_reply B' | (Inr reply, B') \<Rightarrow> send_to conn reply B')"
  using assms(3-5) unfolding receive_admin_line [OF assms(1,2)]
  by (simp add: handle_admin_def)

section \<open>Guests\<close>

text \<open>
  C4: On guest listeners a client is isolated: what its connections receive, whatever is pushed to
  them included, is exactly what they would receive if no other client had ever sent anything.
\<close>

theorem guests_are_isolated:
  assumes "\<forall>ev \<in> set evs. is_guest_event peers ev"
  shows "seen_by peers c (bridge_run L H peers empty_bridge evs)
    = seen_by peers c (bridge_run L H peers empty_bridge (filter (concerns peers c) evs))"
  using guests.purge [OF linked_empty linked_empty same_view_refl assms] by (simp add: bridge_run_def same_view_def)

text \<open>
  A client reads back what it wrote: whatever the other clients do in between, the answer to a
  \<open>get\<close> holds the data of the client's last \<open>set\<close>, on whichever of its connections it asks.
\<close>

theorem guest_reads_back:
  assumes "linked peers B" "\<not> br_reading B a" "\<not> br_reading B b"
    and "cp_client (peers a) = c" "cp_client (peers b) = c" "\<not> cp_admin (peers a)" "\<not> cp_admin (peers b)"
    and "request_of L line = Inr r" "rq_action r = PStr (lit ''set'')" "\<not> truthy (rq_target r)"
    and "request_of L line' = Inr r'" "rq_action r' = PStr (lit ''get'')" "\<not> truthy (rq_target r')" "\<not> rq_json r'"
    and "clip_resolution_mode (cp_view (peers a)) = Inr mode"
    and "\<forall>ev \<in> set evs. is_guest_event peers ev \<and> \<not> concerns peers c ev"
  shows "last (seen_by peers c (bridge_run L H peers B (Line a line t # evs @ [Line b line' t'])))
    = (b, PDict (data_reply (rq_data r)))"
proof -
  obtain n where n: "slot_name H (cp_view (peers a)) (slot_of (br_slots B) (PStr (cp_client (peers a))))
      (PStr (cp_client (peers a))) (cp_machine (peers a)) = Inr n"
    using slot_name_defined [OF assms(15)] by blast
  define B1 where "B1 = bridge_step L H peers B (Line a line t)"
  have B1: "slot_of (br_slots B1) (PStr c) = Some \<lparr>sl_data = rq_data r, sl_updated = t, sl_name = n\<rparr>"
      "\<not> br_reading B1 b"
    using assms(3,4) by (simp_all add: B1_def bridge_step_def guest_set_line [OF assms(6,2,8,9,10) n])
  define B2 where "B2 = bridge_run L H peers B1 evs"
  have "same_view peers c B2 B1"
    unfolding B2_def bridge_run_def using linked_step [OF assms(1)] assms(16)
    by (intro guests.others_do_not_matter) (auto simp: B1_def)
  then have "guest_data B2 c = rq_data r" "\<not> br_reading B2 b"
    using B1 assms(5) by (auto simp: same_view_def guest_data_def slot_of_entries)
  moreover have "bridge_run L H peers B (Line a line t # evs @ [Line b line' t']) = bridge_step L H peers B2 (Line b line' t')"
    by (simp add: bridge_run_def B1_def B2_def)
  ultimately show ?thesis
    using guest_get_line [OF assms(7) _ assms(11-14)] assms(5) by (simp add: bridge_step_def)
qed

text \<open>
  A client's push goes to every one of its subscriptions, the connection that is told to leave
  out its own included: a connection that pushes is never one that subscribed, so the exclusion
  excludes nothing and the client gets its own clipboard back.
\<close>

theorem own_push_comes_back:
  assumes "B = bridge_run L H peers empty_bridge evs" "peers conn = P" "\<not> cp_admin P" "\<not> br_reading B conn"
    and "request_of L line = Inr r" "rq_action r = PStr (lit ''set'')" "\<not> truthy (rq_target r)"
    and "clip_resolution_mode (cp_view P) = Inr mode"
  shows "br_sent (bridge_step L H peers B (Line conn line now)) =
    br_sent B @ map (\<lambda>w. (w, PDict (data_reply (rq_data r)))) (br_subs B (cp_client P)) @ [(conn, PDict ok_reply)]"
proof -
  obtain n where n: "slot_name H (cp_view P) (slot_of (br_slots B) (PStr (cp_client P))) (PStr (cp_client P)) (cp_machine P) = Inr n"
    using slot_name_defined [OF assms(8)] by blast
  have "conn \<notin> set (br_subs B (cp_client P))"
    using linked_run [of peers L H evs] assms(1,4) by (auto simp: linked_def)
  then have "filter (\<lambda>w. conn \<noteq> w) (br_subs B (cp_client P)) = br_subs B (cp_client P)"
    by (auto simp: filter_id_conv)
  then show ?thesis
    by (simp add: bridge_step_def assms(2) guest_set_line [OF assms(3-7) n] send_to_def write_slot_def)
qed

section \<open>Admin listeners\<close>

lemma evaluate_decided:
  "clip_evaluate_rules rules q = Inr policy \<Longrightarrow> policy \<noteq> lit ''deny'' \<Longrightarrow>
     \<exists>us r vs. rules = us @ r # vs \<and> cr_policy r = policy \<and> clip_rule_matches r q = Inr True
       \<and> (\<forall>u \<in> set us. clip_rule_matches u q = Inr False)"
proof (induction rules)
  case (Cons r rules)
  then obtain hit where hit: "clip_rule_matches r q = Inr hit" by auto
  show ?case
  proof (cases hit)
    case True
    then show ?thesis using Cons.prems hit by (intro exI [of _ "[]"]) auto
  next
    case False
    then obtain us r' vs where "rules = us @ r' # vs" "cr_policy r' = policy" "clip_rule_matches r' q = Inr True"
        "\<forall>u \<in> set us. clip_rule_matches u q = Inr False"
      using Cons hit by auto
    then show ?thesis using hit False by (intro exI [of _ "r # us"]) auto
  qed
qed simp

text \<open>
  C8: An admin listener answers with anything but a refusal, or changes anything, only for an admin
  request whose first matching rule says \<open>allow\<close>; and a rule for named machines matches only a peer
  the listener has given a name.
\<close>

theorem admin_requests_need_a_rule:
  assumes "cp_admin P" "\<not> br_reading B conn"
    and "receive_line L H now P conn line B \<notin> {send_to conn error_reply B, send_to conn unauthorized_reply B}"
  shows "\<exists>r us rule vs. request_of L line = Inr r \<and> is_admin_action r \<and> cp_rules P = us @ rule # vs
    \<and> cr_policy rule = lit ''allow''
    \<and> clip_rule_matches rule (admin_query (cp_listener P) (cp_machine P) r) = Inr True
    \<and> (\<forall>u \<in> set us. clip_rule_matches u (admin_query (cp_listener P) (cp_machine P) r) = Inr False)
    \<and> (cr_machine rule = [] \<or> (\<exists>m. cp_machine P = Some m \<and> (\<exists>p \<in> set (cr_machine rule). fnmatchcase m p)))"
proof -
  obtain r where r: "request_of L line = Inr r"
    using assms(3) unfolding receive_admin_line [OF assms(1,2)] by (auto split: sum.splits)
  let ?q = "admin_query (cp_listener P) (cp_machine P) r"
  have act: "is_admin_action r" and "clip_evaluate_rules (cp_rules P) ?q = Inr (lit ''allow'')"
    using assms(3) r unfolding receive_admin_line [OF assms(1,2)]
    by (auto simp: handle_admin_def split: sum.splits if_splits)
  then obtain us rule vs where rule: "cp_rules P = us @ rule # vs" "cr_policy rule = lit ''allow''"
      "clip_rule_matches rule ?q = Inr True" "\<forall>u \<in> set us. clip_rule_matches u ?q = Inr False"
    using evaluate_decided by fastforce
  have "machine_matches (cr_machine rule) (cp_machine P)"
    using rule(3) by (auto simp: clip_rule_matches_def admin_query_def split: if_splits)
  then show ?thesis using r act rule by (auto simp: machine_matches_def split: option.splits)
qed

text \<open>
  A rule that only names a target does not keep to it: with one such rule, \<open>clients\<close> sent with
  that target lists every client, while a \<open>get\<close> of any other target is refused.
\<close>

theorem clients_ignores_its_target:
  assumes "cp_admin P" "\<not> br_reading B conn"
    and "cp_rules P = [\<lparr>cr_machine = [], cr_listeners = [], cr_action = [], cr_target = [n], cr_policy = lit ''allow''\<rparr>]"
    and "plain n" "n \<noteq> []"
    and "request_of L line = Inr \<lparr>rq_action = PStr (lit ''clients''), rq_data = d, rq_target = PStr n, rq_json = j\<rparr>"
    and "request_of L line' = Inr \<lparr>rq_action = PStr (lit ''get''), rq_data = d', rq_target = PStr t, rq_json = j'\<rparr>" "t \<noteq> n" "t \<noteq> []"
  shows "receive_line L H now P conn line B = send_to conn (data_reply (PList (map client_summary (br_slots B)))) B
    \<and> receive_line L H now P conn line' B = send_to conn unauthorized_reply B"
proof -
  let ?r = "\<lparr>rq_action = PStr (lit ''clients''), rq_data = d, rq_target = PStr n, rq_json = j\<rparr>"
  let ?r' = "\<lparr>rq_action = PStr (lit ''get''), rq_data = d', rq_target = PStr t, rq_json = j'\<rparr>"
  have verdict: "clip_evaluate_rules (cp_rules P) (admin_query (cp_listener P) (cp_machine P) ?r) = Inr (lit ''allow'')"
      "clip_evaluate_rules (cp_rules P) (admin_query (cp_listener P) (cp_machine P) ?r') = Inr (lit ''deny'')"
    using assms(4,5,8,9)
    by (simp_all add: assms(3) clip_rule_matches_def machine_matches_def any_pattern_matches_def admin_query_def fnmatchcase_plain)
  have "receive_line L H now P conn line B = send_to conn (data_reply (PList (map client_summary (br_slots B)))) B"
    using admin_line [OF assms(1,2,6) _ verdict(1)] by (simp add: is_admin_action_def admin_serve_def)
  moreover have "receive_line L H now P conn line' B = send_to conn unauthorized_reply B"
    using assms(7) verdict(2) unfolding receive_admin_line [OF assms(1,2)]
    by (simp add: handle_admin_def)
  ultimately show ?thesis ..
qed

end
