(* ===== verification/ClipGaps.thy ===== *)
theory ClipGaps
  imports ClipFacts Identity
begin

text \<open>
  Where the server of \<open>clipboard-bridge\<close> does less than its documentation says: a push by name
  costs the client its name, the expiry pass can cut off a live subscriber, and a client that only
  reads expires. Then the concrete connections on which the facts of the server are applied.
\<close>

section \<open>Names\<close>

lemma find_None_iff_all: "find p xs = None \<longleftrightarrow> (\<forall>x \<in> set xs. \<not> p x)"
  by (induction xs) auto

lemma named_slot_put:
  assumes "entries_of c slots = [(PStr c, old)]" "sl_name s \<noteq> Some n"
    and "\<forall>e \<in> set slots. sl_name (snd e) = Some n \<longrightarrow> fst e = PStr c"
  shows "named_slot (put_slot (PStr c) s slots) (PStr n) = None"
  using assms
proof (induction slots)
  case (Cons e slots)
  obtain k t where e: "e = (k, t)" by (cases e)
  show ?case
  proof (cases "k = PStr c")
    case True
    then have "entries_of c slots = []" using Cons.prems(1) e by (simp add: entries_of_def)
    then have "\<forall>e \<in> set slots. fst e \<noteq> PStr c" by (auto simp: entries_of_def filter_empty_conv)
    then show ?thesis using Cons.prems(2,3) True e by (auto simp: named_slot_def find_None_iff_all)
  next
    case False
    then show ?thesis using Cons e by (auto simp: named_slot_def entries_of_def)
  qed
qed (simp add: entries_of_def)

lemma admin_set_line:
  assumes "cp_admin P" "\<not> br_reading B conn" "request_of L line = Inr r"
    and "rq_action r = PStr (lit ''set'')" "truthy (rq_target r)"
    and "clip_evaluate_rules (cp_rules P) (admin_query (cp_listener P) (cp_machine P) r) = Inr (lit ''allow'')"
    and "clip_resolution_mode (cp_view P) = Inr (lit ''none'')"
    and "resolve_target_to_id L (cp_view P) (br_slots B) (rq_target r) = PStr c"
  shows "receive_line L H now P conn line B =
    send_to conn ok_reply (write_slot c \<lparr>sl_data = rq_data r, sl_updated = now, sl_name = None\<rparr>
      (br_subs B c) [(None, ''Host push'')] (data_reply (rq_data r)) B)"
proof -
  have "is_admin_action r" using assms(4,5) by (simp add: is_admin_action_def)
  then show ?thesis
    using admin_line [OF assms(1-3) _ assms(6)] assms(4,7,8)
    by (simp add: admin_serve_def seq_def ret_def notify_and_broadcast_def slot_name_def subscribers_of_def write_slot_def)
qed

text \<open>
  C37: A push by name takes the name away: on an admin listener without name resolution (the
  documented one), the first push to a client by its friendly name reaches the client and erases
  its name, so the next push to the same name goes to a slot of that name and never reaches the client.
\<close>

theorem host_push_forgets_the_name:
  assumes "cp_admin P" "\<not> br_reading B conn" "clip_resolution_mode (cp_view P) = Inr (lit ''none'')"
    and "vm_map (cp_view P) ''_vm'' = []" "vm_map (cp_view P) ''_tcp_vm'' = []"
    and "request_of L line = Inr r" "request_of L line' = Inr r'"
    and "rq_action r = PStr (lit ''set'')" "rq_action r' = PStr (lit ''set'')"
    and "rq_target r = PStr n" "rq_target r' = PStr n" "n \<noteq> []" "\<not> direct_id (PStr n)"
    and "clip_evaluate_rules (cp_rules P) (admin_query (cp_listener P) (cp_machine P) r) = Inr (lit ''allow'')"
    and "entries_of c (br_slots B) = [(PStr c, s)]" "sl_name s = Some n" "c \<noteq> n"
    and "\<forall>e \<in> set (br_slots B). sl_name (snd e) = Some n \<longrightarrow> fst e = PStr c"
    and "B1 = receive_line L H t P conn line B"
  shows "slot_of (br_slots B1) (PStr c) = Some \<lparr>sl_data = rq_data r, sl_updated = t, sl_name = None\<rparr>
    \<and> slot_of (br_slots (receive_line L H t' P conn line' B1)) (PStr c) = slot_of (br_slots B1) (PStr c)
    \<and> slot_of (br_slots (receive_line L H t' P conn line' B1)) (PStr n)
      = Some \<lparr>sl_data = rq_data r', sl_updated = t', sl_name = None\<rparr>
    \<and> br_sent (receive_line L H t' P conn line' B1)
      = br_sent B1 @ map (\<lambda>w. (w, PDict (data_reply (rq_data r')))) (br_subs B n) @ [(conn, PDict ok_reply)]"
proof -
  have "(PStr c, s) \<in> set (entries_of c (br_slots B))" by (simp add: assms(15))
  then have "(PStr c, s) \<in> set (br_slots B)" by (simp add: entries_of_def)
  then have "find (\<lambda>e. map_option PStr (sl_name (snd e)) = Some (PStr n)) (br_slots B) \<noteq> None"
    unfolding find_None_iff_all using assms(16) by (metis option.map(2) snd_conv)
  then obtain e where e: "find (\<lambda>e. map_option PStr (sl_name (snd e)) = Some (PStr n)) (br_slots B) = Some e" by auto
  then have "sl_name (snd e) = Some n" "e \<in> set (br_slots B)" by (auto simp: find_Some_iff)
  then have first: "resolve_target_to_id L (cp_view P) (br_slots B) (PStr n) = PStr c"
    using assms(13,18) e by (simp add: resolve_target_to_id_def named_slot_def)
  have B1: "B1 = send_to conn ok_reply (write_slot c \<lparr>sl_data = rq_data r, sl_updated = t, sl_name = None\<rparr>
      (br_subs B c) [(None, ''Host push'')] (data_reply (rq_data r)) B)"
    unfolding assms(19) using assms(1,2,3,6,8,10,12,14) first by (intro admin_set_line) simp_all
  have reading: "\<not> br_reading B1 conn" using assms(2) by (simp add: B1)
  have "named_slot (br_slots B1) (PStr n) = None"
    using named_slot_put [OF assms(15) _ assms(18)] by (simp add: B1)
  then have second: "resolve_target_to_id L (cp_view P) (br_slots B1) (rq_target r') = PStr n"
    using assms(4,5,11,13) by (simp add: resolve_target_to_id_def first_named_def)
  have "admin_query (cp_listener P) (cp_machine P) r' = admin_query (cp_listener P) (cp_machine P) r"
    using assms(8-11) by (simp add: admin_query_def)
  then have B2: "receive_line L H t' P conn line' B1 = send_to conn ok_reply
      (write_slot n \<lparr>sl_data = rq_data r', sl_updated = t', sl_name = None\<rparr> (br_subs B1 n) [(None, ''Host push'')]
        (data_reply (rq_data r')) B1)"
    using assms(3,9,11,12,14) second by (intro admin_set_line [OF assms(1) reading assms(7)]) simp_all
  have goal0: "slot_of (br_slots B1) (PStr c) = Some \<lparr>sl_data = rq_data r, sl_updated = t, sl_name = None\<rparr>" by (simp add: B1)
  have goal1: "slot_of (br_slots (receive_line L H t' P conn line' B1)) (PStr c) = slot_of (br_slots B1) (PStr c)"
    using assms(17) by (simp add: B2)
  have goal2: "slot_of (br_slots (receive_line L H t' P conn line' B1)) (PStr n)
      = Some \<lparr>sl_data = rq_data r', sl_updated = t', sl_name = None\<rparr>" by (simp add: B2)
  have goal3: "br_sent (receive_line L H t' P conn line' B1)
      = br_sent B1 @ map (\<lambda>w. (w, PDict (data_reply (rq_data r')))) (br_subs B n) @ [(conn, PDict ok_reply)]"
    by (simp add: B2 send_to_def write_slot_def) (simp add: B1)
  show ?thesis using goal0 goal1 goal2 goal3 by (intro conjI)
qed

section \<open>Expiry\<close>

text \<open>
  C38: The expiry pass can cut off a live subscriber: a client that subscribes after the pass has
  looked for subscribers, while its slot is old, stays connected, but its subscription is dropped
  from the table, and a later push of the client reaches no connection any more.
\<close>

theorem live_subscriber_is_forgotten:
  assumes "\<not> cp_admin (peers a)" "cp_client (peers a) = c" "\<not> br_reading B a" "br_subs B c = []"
    and "request_of L line = Inr r" "rq_action r = PStr (lit ''subscribe'')"
    and "(PStr c, s) \<in> set (br_slots B)" "sl_updated s < t' - 300"
    and "\<not> cp_admin (peers b)" "cp_client (peers b) = c" "\<not> br_reading B b" "a \<noteq> b"
    and "request_of L line' = Inr r'" "rq_action r' = PStr (lit ''set'')" "\<not> truthy (rq_target r')"
    and "clip_resolution_mode (cp_view (peers b)) = Inr mode"
    and "B' = bridge_run L H peers B [ExpireScan, Line a line t, ExpireDrop t', ExpireForget]"
  shows "br_reading B' a
    \<and> br_subs B' c = []
    \<and> br_sent (bridge_step L H peers B' (Line b line' t'')) = br_sent B' @ [(b, PDict ok_reply)]"
proof -
  define B1 where "B1 = snd (perform a c Subscribe (expire_scan B))"
  have B1: "bridge_run L H peers B [ExpireScan, Line a line t] = B1"
    using guest_subscribe_line [OF assms(1) _ assms(5,6)] assms(2,3)
    by (simp add: bridge_run_def bridge_step_def B1_def expire_scan_def)
  have "is_stale B1 t' (PStr c, s)" and "(PStr c, s) \<in> set (br_slots B1)"
    using assms(4,7,8) by (auto simp: B1_def perform_def is_stale_def expire_scan_def CLIENT_EXPIRY_SECONDS_def)
  then have stale: "PStr c \<in> set (br_stale (expire_drop t' B1))" by (force simp: expire_drop_def)
  have B': "B' = expire_forget (expire_drop t' B1)"
    unfolding assms(17) using B1 by (simp add: bridge_run_def bridge_step_def)
  have subs: "br_subs B' c = []" using stale by (simp add: B' expire_forget_def)
  have goal0: "br_reading B' a" by (simp add: B' expire_forget_def expire_drop_def B1_def perform_def)
  have reading: "\<not> br_reading B' b"
    using assms(11,12) by (simp add: B' expire_forget_def expire_drop_def B1_def perform_def expire_scan_def)
  obtain n where n: "slot_name H (cp_view (peers b)) (slot_of (br_slots B') (PStr (cp_client (peers b))))
      (PStr (cp_client (peers b))) (cp_machine (peers b)) = Inr n"
    using slot_name_defined [OF assms(16)] by blast
  have goal2: "br_sent (bridge_step L H peers B' (Line b line' t'')) = br_sent B' @ [(b, PDict ok_reply)]"
    using subs assms(10)
    by (simp add: bridge_step_def guest_set_line [OF assms(9) reading assms(13-15) n] send_to_def write_slot_def)
  show ?thesis using goal0 subs goal2 by (intro conjI)
qed

text \<open>
  A client that only reads is not seen: a \<open>get\<close> does not renew the slot, so a client without a
  subscription loses its clipboard in the pass right after one.
\<close>

theorem polling_client_expires:
  assumes "\<not> cp_admin (peers a)" "cp_client (peers a) = c" "\<not> br_reading B a" "br_subs B c = []"
    and "request_of L line = Inr r" "rq_action r = PStr (lit ''get'')" "\<not> truthy (rq_target r)" "\<not> rq_json r"
    and "entries_of c (br_slots B) = [(PStr c, s)]" "sl_updated s < now - 300"
    and "B' = bridge_run L H peers B [Line a line now, ExpireScan, ExpireDrop now]"
  shows "br_sent B' = br_sent B @ [(a, PDict (data_reply (sl_data s)))]
    \<and> slot_of (br_slots B') (PStr c) = None"
proof -
  define B1 where "B1 = send_to a (data_reply (sl_data s)) B"
  have "receive_line L H now (peers a) a line B = B1"
    using guest_get_line [OF assms(1,3,5-8)] assms(2,9) by (simp add: B1_def guest_data_def slot_of_entries)
  then have B': "B' = expire_drop now (expire_scan B1)" by (simp add: assms(11) bridge_run_def bridge_step_def)
  have goal0: "br_sent B' = br_sent B @ [(a, PDict (data_reply (sl_data s)))]"
    by (simp add: B' expire_drop_def expire_scan_def B1_def send_to_def)
  have "is_stale (expire_scan B1) now (PStr c, s)"
    using assms(4,10) by (auto simp: is_stale_def expire_scan_def B1_def CLIENT_EXPIRY_SECONDS_def)
  then have goal1: "slot_of (br_slots B') (PStr c) = None"
    using assms(9) by (simp add: B' slot_of_entries expire_drop_def entries_of_filter) (simp add: expire_scan_def B1_def)
  show ?thesis using goal0 goal1 by (intro conjI)
qed

section \<open>A concrete server\<close>

text \<open>
  Two connections of one VM, one of another, and an admin connection over the Unix socket; the
  lines they send.
\<close>

definition demo_guest :: "pstr \<Rightarrow> pstr \<Rightarrow> clip_peer" where
  "demo_guest client name =
     \<lparr>cp_client = client, cp_machine = Some name, cp_admin = False, cp_listener = lit ''vms'', cp_rules = [],
       cp_view = [(lit ''resolution'', PStr (lit ''tartarus''))]\<rparr>"

definition demo_admin :: "pstr list \<Rightarrow> clip_peer" where
  "demo_admin targets =
     \<lparr>cp_client = lit ''unix:local'', cp_machine = None, cp_admin = True, cp_listener = lit ''admin'',
       cp_rules = [\<lparr>cr_machine = [], cr_listeners = [], cr_action = [], cr_target = targets, cr_policy = lit ''allow''\<rparr>],
       cp_view = []\<rparr>"

definition demo_peers :: "nat \<Rightarrow> clip_peer" where
  "demo_peers conn =
     (if conn = 1 \<or> conn = 2 then demo_guest (lit ''vsock:5'') (lit ''dev'')
      else if conn = 3 then demo_guest (lit ''vsock:6'') (lit ''web'') else demo_admin [])"

definition set_line :: pbytes where
  "set_line = lit ''{\"action\":\"set\",\"data\":\"aGk=\"}''"

definition get_line :: pbytes where
  "get_line = lit ''{\"action\":\"get\"}''"

definition subscribe_line :: pbytes where
  "subscribe_line = lit ''{\"action\":\"subscribe\"}''"

definition named_set_line :: pbytes where
  "named_set_line = lit ''{\"action\":\"set\",\"data\":\"aGk=\",\"target\":\"dev\"}''"

definition clients_line :: pbytes where
  "clients_line = lit ''{\"action\":\"clients\",\"target\":\"dev\"}''"

definition other_get_line :: pbytes where
  "other_get_line = lit ''{\"action\":\"get\",\"target\":\"web\"}''"

lemmas line_eval = frame_eval set_line_def get_line_def subscribe_line_def named_set_line_def clients_line_def other_get_line_def
  parse_clip_request_def dget_or_def

lemma demo_requests:
  "request_of demo_lib set_line = Inr \<lparr>rq_action = PStr (lit ''set''), rq_data = PStr (lit ''aGk=''), rq_target = PNone, rq_json = False\<rparr>"
  "request_of demo_lib get_line = Inr \<lparr>rq_action = PStr (lit ''get''), rq_data = PStr [], rq_target = PNone, rq_json = False\<rparr>"
  "request_of demo_lib subscribe_line = Inr \<lparr>rq_action = PStr (lit ''subscribe''), rq_data = PStr [], rq_target = PNone, rq_json = False\<rparr>"
  "request_of demo_lib named_set_line = Inr \<lparr>rq_action = PStr (lit ''set''), rq_data = PStr (lit ''aGk=''), rq_target = PStr (lit ''dev''), rq_json = False\<rparr>"
  "request_of demo_lib clients_line = Inr \<lparr>rq_action = PStr (lit ''clients''), rq_data = PStr [], rq_target = PStr (lit ''dev''), rq_json = False\<rparr>"
  "request_of demo_lib other_get_line = Inr \<lparr>rq_action = PStr (lit ''get''), rq_data = PStr [], rq_target = PStr (lit ''web''), rq_json = False\<rparr>"
proof -
  let ?a = "lit ''action''" and ?d = "(lit ''data'', PStr (lit ''aGk=''))" and ?t = "(lit ''target'', PStr (lit ''dev''))"
  show "request_of demo_lib set_line = Inr \<lparr>rq_action = PStr (lit ''set''), rq_data = PStr (lit ''aGk=''), rq_target = PNone, rq_json = False\<rparr>"
    by (rule parse_dumped [of "PDict [(?a, PStr (lit ''set'')), ?d]"]) (simp_all add: line_eval)
  show "request_of demo_lib get_line = Inr \<lparr>rq_action = PStr (lit ''get''), rq_data = PStr [], rq_target = PNone, rq_json = False\<rparr>"
    by (rule parse_dumped [of "PDict [(?a, PStr (lit ''get''))]"]) (simp_all add: line_eval)
  show "request_of demo_lib subscribe_line = Inr \<lparr>rq_action = PStr (lit ''subscribe''), rq_data = PStr [], rq_target = PNone, rq_json = False\<rparr>"
    by (rule parse_dumped [of "PDict [(?a, PStr (lit ''subscribe''))]"]) (simp_all add: line_eval)
  show "request_of demo_lib named_set_line = Inr \<lparr>rq_action = PStr (lit ''set''), rq_data = PStr (lit ''aGk=''), rq_target = PStr (lit ''dev''), rq_json = False\<rparr>"
    by (rule parse_dumped [of "PDict [(?a, PStr (lit ''set'')), ?d, ?t]"]) (simp_all add: line_eval)
  show "request_of demo_lib clients_line = Inr \<lparr>rq_action = PStr (lit ''clients''), rq_data = PStr [], rq_target = PStr (lit ''dev''), rq_json = False\<rparr>"
    by (rule parse_dumped [of "PDict [(?a, PStr (lit ''clients'')), ?t]"]) (simp_all add: line_eval)
  show "request_of demo_lib other_get_line = Inr \<lparr>rq_action = PStr (lit ''get''), rq_data = PStr [], rq_target = PStr (lit ''web''), rq_json = False\<rparr>"
    by (rule parse_dumped [of "PDict [(?a, PStr (lit ''get'')), (lit ''target'', PStr (lit ''web''))]"]) (simp_all add: line_eval)
qed

definition demo_bridge :: bridge where
  "demo_bridge = empty_bridge\<lparr>br_slots := [(PStr (lit ''vsock:5''), \<lparr>sl_data = PStr [], sl_updated = 0, sl_name = Some (lit ''dev'')\<rparr>)]\<rparr>"

lemma demo_peer_simps [simp]:
  "demo_peers 1 = demo_guest (lit ''vsock:5'') (lit ''dev'')" "demo_peers (Suc 0) = demo_guest (lit ''vsock:5'') (lit ''dev'')"
  "demo_peers 2 = demo_guest (lit ''vsock:5'') (lit ''dev'')"
  "demo_peers 3 = demo_guest (lit ''vsock:6'') (lit ''web'')" "demo_peers 4 = demo_admin []"
  "cp_client (demo_guest client name) = client" "\<not> cp_admin (demo_guest client name)"
  "cp_admin (demo_admin targets)" "cp_view (demo_admin targets) = []"
  "clip_resolution_mode (cp_view (demo_guest client name)) = Inr (lit ''tartarus'')"
  "clip_resolution_mode [] = Inr (lit ''none'')"
  by (simp_all add: demo_peers_def demo_guest_def demo_admin_def clip_resolution_mode_def RESOLUTION_MODES_def)

lemma demo_bridge_simps [simp]:
  "br_reading demo_bridge conn = False" "br_subs demo_bridge c = []"
  "br_slots demo_bridge = [(PStr (lit ''vsock:5''), \<lparr>sl_data = PStr [], sl_updated = 0, sl_name = Some (lit ''dev'')\<rparr>)]"
  by (simp_all add: demo_bridge_def empty_bridge_def)

theorem guests_are_isolated_witness:
  "seen_by demo_peers (lit ''vsock:5'') (bridge_run demo_lib demo_host demo_peers empty_bridge
      [Line 1 set_line 0, Line 3 set_line 1, ExpireScan, Line 2 get_line 2])
    = seen_by demo_peers (lit ''vsock:5'') (bridge_run demo_lib demo_host demo_peers empty_bridge
      [Line 1 set_line 0, ExpireScan, Line 2 get_line 2])"
  using guests_are_isolated [of "[Line 1 set_line 0, Line 3 set_line 1, ExpireScan, Line 2 get_line 2]" demo_peers
      "lit ''vsock:5''" demo_lib demo_host]
  by (simp add: is_guest_event_def concerns_def)

theorem guest_reads_back_witness:
  "last (seen_by demo_peers (lit ''vsock:5'') (bridge_run demo_lib demo_host demo_peers empty_bridge
      [Line 1 set_line 0, Line 3 set_line 1, Line 2 get_line 2])) = (2, PDict (data_reply (PStr (lit ''aGk=''))))"
proof -
  have "linked demo_peers empty_bridge" "\<not> br_reading empty_bridge 1" "\<not> br_reading empty_bridge 2"
    "\<forall>ev \<in> set [Line 3 set_line 1]. is_guest_event demo_peers ev \<and> \<not> concerns demo_peers (lit ''vsock:5'') ev"
    by (simp_all add: empty_bridge_def linked_def is_guest_event_def concerns_def)
  from guest_reads_back [OF this(1-3) _ _ _ _ demo_requests(1) _ _ demo_requests(2) _ _ _ _ this(4), of "lit ''tartarus''" demo_host 0 2]
  show ?thesis by simp
qed

theorem own_push_comes_back_witness:
  "br_sent (bridge_step demo_lib demo_host demo_peers
      (bridge_run demo_lib demo_host demo_peers empty_bridge [Line 1 subscribe_line 0]) (Line 2 set_line 1))
    = [(1, PDict (ok_reply @ [(lit ''message'', PStr (lit ''Subscribed''))])),
       (1, PDict (data_reply (PStr (lit ''aGk='')))), (2, PDict ok_reply)]"
proof -
  let ?B = "bridge_run demo_lib demo_host demo_peers empty_bridge [Line 1 subscribe_line 0]"
  have "\<not> br_reading empty_bridge 1" by (simp add: empty_bridge_def)
  then have B: "?B = snd (perform 1 (lit ''vsock:5'') Subscribe empty_bridge)"
    using guest_subscribe_line [OF _ _ demo_requests(3), of "demo_peers 1" empty_bridge 1 demo_host 0]
    by (simp add: bridge_run_def bridge_step_def)
  have at: "\<not> br_reading ?B 2" "br_subs ?B (lit ''vsock:5'') = [1]"
      "br_sent ?B = [(1, PDict (ok_reply @ [(lit ''message'', PStr (lit ''Subscribed''))]))]"
    unfolding B by (simp_all add: perform_def send_to_def empty_bridge_def)
  show ?thesis
    using own_push_comes_back [where peers = demo_peers and conn = 2 and now = 1 and mode = "lit ''tartarus''",
        OF refl refl _ _ demo_requests(1), of demo_host "[Line 1 subscribe_line 0]"]
      at by simp
qed

theorem admin_requests_need_a_rule_witness:
  "\<exists>r us rule vs. request_of demo_lib named_set_line = Inr r \<and> cp_rules (demo_admin []) = us @ rule # vs \<and> cr_policy rule = lit ''allow''"
proof -
  have a: "clip_evaluate_rules (cp_rules (demo_admin [])) (admin_query (cp_listener (demo_admin [])) (cp_machine (demo_admin []))
      \<lparr>rq_action = PStr (lit ''set''), rq_data = PStr (lit ''aGk=''), rq_target = PStr (lit ''dev''), rq_json = False\<rparr>) = Inr (lit ''allow'')"
    by (simp add: demo_admin_def clip_rule_matches_def machine_matches_def any_pattern_matches_def)
  have "resolve_target_to_id demo_lib [] (br_slots demo_bridge) (PStr (lit ''dev'')) = PStr (lit ''vsock:5'')"
    by (simp add: resolve_target_to_id_def direct_id_def startswith_def lit_def named_slot_def)
  then have "receive_line demo_lib demo_host 0 (demo_admin []) 4 named_set_line demo_bridge
      \<notin> {send_to 4 error_reply demo_bridge, send_to 4 unauthorized_reply demo_bridge}"
    using admin_set_line [OF _ _ demo_requests(4) _ _ a, of demo_bridge 4 "lit ''vsock:5''" demo_host 0]
    by (auto simp: send_to_def write_slot_def demo_bridge_def empty_bridge_def ok_reply_def error_reply_def unauthorized_reply_def
        dest!: arg_cong [where f = br_notes])
  from admin_requests_need_a_rule [OF _ _ this] show ?thesis by (force simp: demo_admin_def)
qed

theorem clients_ignores_its_target_witness:
  "receive_line demo_lib demo_host 0 (demo_admin [lit ''dev'']) 4 clients_line demo_bridge
     = send_to 4 (data_reply (PList (map client_summary (br_slots demo_bridge)))) demo_bridge
   \<and> receive_line demo_lib demo_host 0 (demo_admin [lit ''dev'']) 4 other_get_line demo_bridge = send_to 4 unauthorized_reply demo_bridge"
  by (rule clients_ignores_its_target [where n = "lit ''dev''", OF _ _ _ _ _ demo_requests(5) demo_requests(6)])
    (simp_all add: demo_admin_def plain_lit)

theorem host_push_forgets_the_name_witness:
  "slot_of (br_slots (receive_line demo_lib demo_host 1 (demo_admin []) 4 named_set_line demo_bridge)) (PStr (lit ''vsock:5''))
     = Some \<lparr>sl_data = PStr (lit ''aGk=''), sl_updated = 1, sl_name = None\<rparr>"
proof -
  have a: "clip_evaluate_rules (cp_rules (demo_admin [])) (admin_query (cp_listener (demo_admin [])) (cp_machine (demo_admin []))
      \<lparr>rq_action = PStr (lit ''set''), rq_data = PStr (lit ''aGk=''), rq_target = PStr (lit ''dev''), rq_json = False\<rparr>) = Inr (lit ''allow'')"
    by (simp add: demo_admin_def clip_rule_matches_def machine_matches_def any_pattern_matches_def)
  have d: "\<not> direct_id (PStr (lit ''dev''))" by (simp add: direct_id_def startswith_def lit_def)
  have vm: "vm_map (cp_view (demo_admin [])) ''_vm'' = []" "vm_map (cp_view (demo_admin [])) ''_tcp_vm'' = []"
    by (simp_all add: vm_map_def)
  show ?thesis
    using host_push_forgets_the_name [OF _ _ _ vm demo_requests(4) demo_requests(4) _ _ _ _ _ d a, of demo_bridge 4 "lit ''vsock:5''"
        "\<lparr>sl_data = PStr [], sl_updated = 0, sl_name = Some (lit ''dev'')\<rparr>" _ demo_host 1 1]
    by (simp add: entries_of_def)
qed

theorem live_subscriber_is_forgotten_witness:
  "br_subs (bridge_run demo_lib demo_host demo_peers demo_bridge
      [ExpireScan, Line 1 subscribe_line 400, ExpireDrop 401, ExpireForget]) (lit ''vsock:5'') = []"
  using live_subscriber_is_forgotten [OF _ _ _ _ demo_requests(3) _ _ _ _ _ _ _ demo_requests(1) _ _ _ refl,
      of demo_peers 1 "lit ''vsock:5''" demo_bridge "\<lparr>sl_data = PStr [], sl_updated = 0, sl_name = Some (lit ''dev'')\<rparr>" 401 2
        "lit ''tartarus''" demo_host 400]
  by simp

theorem polling_client_expires_witness:
  "slot_of (br_slots (bridge_run demo_lib demo_host demo_peers demo_bridge [Line 1 get_line 400, ExpireScan, ExpireDrop 400]))
     (PStr (lit ''vsock:5'')) = None"
  using polling_client_expires [OF _ _ _ _ demo_requests(2) _ _ _ _ _ refl,
      of demo_peers 1 "lit ''vsock:5''" demo_bridge "\<lparr>sl_data = PStr [], sl_updated = 0, sl_name = Some (lit ''dev'')\<rparr>" 400 demo_host]
  by (simp add: entries_of_def)

end
