(* ===== verification/ClipServe.thy ===== *)
theory ClipServe
  imports ClipStore
begin

text \<open>
  The process around the server of \<open>clipboard-bridge\<close>: the TLS context of a listener, binding one
  listener, and \<open>cmd_serve\<close> up to the point where the listeners serve. Sockets, TLS and the file system are
  the ones of \<open>sudo-auth-proxy\<close>, whose socket preparation this program has word for word.
\<close>

section \<open>The TLS context\<close>

definition exits_on_config_error :: "'a res \<Rightarrow> 'a res" where
  "exits_on_config_error r = (case r of Inl (ConfigError _) \<Rightarrow> Inl (SystemExit 1) | _ \<Rightarrow> r)"

definition clip_ssl_context ::
  "crypto \<Rightarrow> (pstr \<Rightarrow> pbytes option) \<Rightarrow> net \<Rightarrow> dict \<Rightarrow> bool \<Rightarrow> ssl_ctx option res" where
  "clip_ssl_context C read N config server =
     andthen (exits_on_config_error (resolve_listener_security config)) (\<lambda>k.
       if cb_encryption k \<noteq> lit ''mtls'' then Inr None
       else andthen (exits_on_config_error (load_mtls config True)) (\<lambda>m.
         let mtls = (case m of Some table \<Rightarrow> table | None \<Rightarrow> []); cert = str_of (dget mtls (lit ''cert_file''))
         in andthen (check_local_oid C read cert (dget mtls (lit ''required_oid''))) (\<lambda>_.
            let ctx = \<lparr>ctx_server = server, ctx_check_hostname = False, ctx_cert_required = True,
                  ctx_ca = str_of (dget mtls (lit ''ca_file'')), ctx_cert = cert, ctx_key = str_of (dget mtls (lit ''key_file''))\<rparr>
            in andthen (net_load N ctx) (\<lambda>_. Inr (Some ctx)))))"

section \<open>Binding a listener\<close>

text \<open>
  A bound listener: its view, its context and bounds, and for a Unix listener the path and the
  inode of the socket it made.
\<close>

record clip_listener =
  cl_view :: dict
  cl_ctx :: "ssl_ctx option"
  cl_max_connections :: int
  cl_read_timeout :: pyval
  cl_handshake_timeout :: pyval
  cl_socket :: "(pstr \<times> nat option) option"

definition integer_of :: "pyval \<Rightarrow> int res" where
  "integer_of v = (case v of PInt i \<Rightarrow> Inr i | PBool b \<Rightarrow> Inr (if b then 1 else 0) | _ \<Rightarrow> Inl TypeError)"

definition bind_clip_unix :: "host \<Rightarrow> dict \<Rightarrow> fs \<Rightarrow> (pstr \<times> nat option) res \<times> fs" where
  "bind_clip_unix H view F =
     (case dget view (lit ''socket'') of
        PStr path \<Rightarrow>
          if path = [] then (Inl (ConfigError ''a unix listener requires a socket path''), F)
          else (case parse_mode_value (dget_or view (lit ''socket_dir_mode'') CLIP_SOCKET_DIR_MODE) of
              Inl e \<Rightarrow> (Inl e, F)
            | Inr dir_mode \<Rightarrow> (case parse_mode_value (dget_or view (lit ''socket_mode'') CLIP_SOCKET_MODE) of
                Inl e \<Rightarrow> (Inl e, F)
              | Inr socket_mode \<Rightarrow> (case prepare_unix_socket H path dir_mode F of
                  (Inl e, F1) \<Rightarrow> (Inl e, F1)
                | (Inr _, F1) \<Rightarrow> (case bind_unix H path F1 of
                    (Inl e, F2) \<Rightarrow> (Inl e, F2)
                  | (Inr _, F2) \<Rightarrow> (case chmod path socket_mode F2 of
                      (Inl e, F3) \<Rightarrow> (Inl e, F3)
                    | (Inr _, F3) \<Rightarrow> (case assert_owner_only H path socket_mode False F3 of
                        Inl e \<Rightarrow> (Inl e, F3)
                      | Inr _ \<Rightarrow> (Inr (path, map_option st_ino (fs_node F3 path)), F3)))))))
      | v \<Rightarrow> if truthy v then (Inl TypeError, F) else (Inl (ConfigError ''a unix listener requires a socket path''), F))"

definition clip_net_address :: "host \<Rightarrow> dict \<Rightarrow> address res" where
  "clip_net_address H view =
     (if dget_or view (lit ''transport'') (PStr (lit ''tcp'')) = PStr (lit ''vsock'') then
        (if \<not> h_has_vsock H then Inl (ConfigError ''VSOCK is not supported on this platform'')
         else andthen (integer_of (dget_or view (lit ''cid'') CLIP_CID)) (\<lambda>cid.
           andthen (integer_of (dget_or view (lit ''port'') CLIP_PORT)) (\<lambda>port. Inr (VsockAddr cid port))))
      else andthen (integer_of (dget_or view (lit ''port'') CLIP_PORT)) (\<lambda>port.
        Inr (InetAddr (dget_or view (lit ''host'') CLIP_BIND) port)))"

definition bind_clip_address :: "net \<Rightarrow> host \<Rightarrow> dict \<Rightarrow> fs \<Rightarrow> (pstr \<times> nat option) option res \<times> fs" where
  "bind_clip_address N H view F =
     (if dget_or view (lit ''transport'') (PStr (lit ''tcp'')) = PStr (lit ''unix'') then
        (case bind_clip_unix H view F of (Inl e, F1) \<Rightarrow> (Inl e, F1) | (Inr s, F1) \<Rightarrow> (Inr (Some s), F1))
      else (andthen (clip_net_address H view) (\<lambda>a. andthen (net_bind N a) (\<lambda>_. Inr None)), F))"

text \<open>The runtime bounds fall back to the defaults on anything that is no positive number.\<close>

definition clip_bind_listener ::
  "lib \<Rightarrow> crypto \<Rightarrow> (pstr \<Rightarrow> pbytes option) \<Rightarrow> net \<Rightarrow> host \<Rightarrow> dict \<Rightarrow> fs \<Rightarrow> clip_listener res \<times> fs" where
  "clip_bind_listener E C read N H view F =
     (case clip_ssl_context C read N view True of Inl e \<Rightarrow> (Inl e, F)
      | Inr ctx \<Rightarrow> (case positive_int (dget view (lit ''max_connections'')) CLIP_MAX_CONNECTIONS of Inl e \<Rightarrow> (Inl e, F)
      | Inr max_connections \<Rightarrow>
        (case positive_float E (dget view (lit ''server_read_timeout'')) CLIP_READ_TIMEOUT of Inl e \<Rightarrow> (Inl e, F)
      | Inr read_timeout \<Rightarrow>
        (case positive_float E (dget view (lit ''handshake_timeout'')) CLIP_HANDSHAKE_TIMEOUT of Inl e \<Rightarrow> (Inl e, F)
      | Inr handshake_timeout \<Rightarrow>
        (case bind_clip_address N H view F of
           (Inl e, F1) \<Rightarrow> (Inl e, F1)
         | (Inr s, F1) \<Rightarrow>
             (Inr \<lparr>cl_view = view, cl_ctx = ctx, cl_max_connections = max_connections, cl_read_timeout = read_timeout,
                cl_handshake_timeout = handshake_timeout, cl_socket = s\<rparr>, F1))))))"

text \<open>Closing a listener removes its socket only if the inode is still the one it bound.\<close>

definition unlink_bound_socket :: "clip_listener \<Rightarrow> fs \<Rightarrow> fs" where
  "unlink_bound_socket l F =
     (case cl_socket l of None \<Rightarrow> F
      | Some (path, bound_ino) \<Rightarrow> (case fs_node F path of None \<Rightarrow> F
        | Some info \<Rightarrow>
            if bound_ino = Some (st_ino info) \<and> st_type info = SocketFile \<and> \<not> fs_denied F path then drop_node path F else F))"

section \<open>Starting the server\<close>

fun clip_bind_all ::
  "lib \<Rightarrow> crypto \<Rightarrow> (pstr \<Rightarrow> pbytes option) \<Rightarrow> net \<Rightarrow> host \<Rightarrow> dict list \<Rightarrow> clip_listener list \<Rightarrow> fs
    \<Rightarrow> clip_listener list \<times> unit res \<times> fs" where
  "clip_bind_all E C read N H [] bound F = (bound, Inr (), F)"
| "clip_bind_all E C read N H (view # views) bound F =
     (case clip_bind_listener E C read N H view F of
        (Inl e, F1) \<Rightarrow> (bound, Inl e, F1)
      | (Inr l, F1) \<Rightarrow> clip_bind_all E C read N H views (bound @ [l]) F1)"

definition serve_failure :: "exn \<Rightarrow> exn" where
  "serve_failure e = (case e of ConfigError _ \<Rightarrow> SystemExit 1 | OSError _ \<Rightarrow> SystemExit 1 | RuntimeError _ \<Rightarrow> SystemExit 1 | _ \<Rightarrow> e)"

definition clip_serve ::
  "lib \<Rightarrow> crypto \<Rightarrow> (pstr \<Rightarrow> pbytes option) \<Rightarrow> net \<Rightarrow> host \<Rightarrow> dict \<Rightarrow> fs \<Rightarrow> (clip_listener list \<times> clip_rule list) res \<times> fs" where
  "clip_serve E C read N H config F =
     (case andthen (clip_listener_views config) (\<lambda>views. andthen (parse_clip_rules (dget config (lit ''rule''))) (\<lambda>rules.
              Inr (views, rules))) of
        Inl e \<Rightarrow> (Inl e, F)
      | Inr (views, rules) \<Rightarrow> (case clip_bind_all E C read N H views [] F of
          (bound, Inr _, F1) \<Rightarrow> (Inr (bound, rules), F1)
        | (bound, Inl e, F1) \<Rightarrow> (Inl (serve_failure e), fold unlink_bound_socket bound F1)))"

end
