(* ===== verification/ClipClient.thy ===== *)
theory ClipClient
  imports ClipServe
begin

text \<open>
  The clients of \<open>clipboard-bridge\<close>: where to connect, the checked connection, one request over a
  fresh connection, the persistent connection, the local proxy, the subscription, and the commands.
  What a connection meets (the socket, whether sending works, the chunks that arrive and how it
  ends) is the record \<open>wire\<close>.
\<close>

section \<open>The connection\<close>

datatype clip_address = ToUnix pyval | ToVsock pyval pyval | ToTcp pyval pyval

definition get_connection_info :: "host \<Rightarrow> dict \<Rightarrow> clip_address res" where
  "get_connection_info H config =
     (let transport = dget config (lit ''transport''); port = dget_or config (lit ''port'') CLIP_PORT
      in if transport = PStr (lit ''unix'') then
           (if truthy (dget config (lit ''socket'')) then Inr (ToUnix (dget config (lit ''socket'')))
            else Inl (ConfigError ''a unix client requires a non-empty socket path''))
         else if transport = PStr (lit ''vsock'') then Inr (ToVsock (dget_or config (lit ''cid'') CLIP_CID) port)
         else if transport = PStr (lit ''tcp'') then
           (let hostname = dget_or config (lit ''host'') CLIP_CONNECT_HOST
            in if hostname = PStr (lit ''_gateway'') then andthen (resolve_default_gateway H) (\<lambda>gw. Inr (ToTcp (PStr gw) port))
               else Inr (ToTcp hostname port))
         else Inr (ToTcp CLIP_CONNECT_HOST CLIP_PORT))"

text \<open>The names of a certificate as the \<open>cryptography\<close> package gives them.\<close>

definition clip_verify_acl :: "crypto \<Rightarrow> (pbytes \<Rightarrow> pstr list) \<Rightarrow> sock \<Rightarrow> dict \<Rightarrow> unit res" where
  "clip_verify_acl C names s config =
     andthen (clip_load_acl config) (\<lambda>(fps, patterns).
       if fps = [] \<and> patterns = [] then Inr ()
       else (case peer_der s of
           None \<Rightarrow> Inl (OSError ''no peer certificate to pin'')
         | Some der \<Rightarrow>
             if der = [] then Inl (OSError ''no peer certificate to pin'')
             else (case load_der C der of None \<Rightarrow> Inl (ValueError ''cannot parse certificate'')
               | Some cert \<Rightarrow>
                   if spki_fingerprint C (c_key cert) \<in> set fps then Inr ()
                   else if \<exists>name \<in> set (names der). \<exists>pattern \<in> set patterns. fnmatchcase name pattern then Inr ()
                   else Inl (OSError ''server certificate is not in the client acl''))))"

definition tls_name :: "clip_address \<Rightarrow> pstr option" where
  "tls_name a = (case a of ToTcp (PStr h) _ \<Rightarrow> Some h | _ \<Rightarrow> None)"

definition wrap_ssl ::
  "crypto \<Rightarrow> (pbytes \<Rightarrow> pstr list) \<Rightarrow> (pstr \<Rightarrow> pbytes option) \<Rightarrow> net \<Rightarrow> dict \<Rightarrow> clip_address \<Rightarrow> sock \<Rightarrow> sock res" where
  "wrap_ssl C names read N config a s =
     (case resolve_listener_security config of
        Inl (ConfigError _) \<Rightarrow> Inl (OSError ''configuration error'')
      | Inl e \<Rightarrow> Inl e
      | Inr k \<Rightarrow>
          if cb_encryption k \<noteq> lit ''mtls'' then Inr s
          else andthen (clip_ssl_context C read N config False) (\<lambda>c. case c of
              None \<Rightarrow> Inr s
            | Some ctx \<Rightarrow>
                andthen (net_wrap N ctx (tls_name a) s) (\<lambda>w.
                andthen (check_peer_oid C (peer_der w) (required_peer_oid config)) (\<lambda>_.
                andthen (clip_verify_acl C names w config) (\<lambda>_. Inr w)))))"

section \<open>One request\<close>

datatype wire_end = Closes | Resets | Times

record wire =
  w_connects :: "sock res"
  w_sends :: bool
  w_chunks :: "pbytes list"
  w_end :: wire_end

text \<open>
  What the client is given: TLS and the package's answers, and the settings of the connection.
  Sending is noted, so that what left the machine is part of every result.
\<close>

record clip_env =
  cv_lib :: lib
  cv_crypto :: crypto
  cv_names :: "pbytes \<Rightarrow> pstr list"
  cv_read :: "pstr \<Rightarrow> pbytes option"
  cv_net :: net

definition open_wire :: "clip_env \<Rightarrow> dict \<Rightarrow> clip_address \<Rightarrow> wire \<Rightarrow> sock res" where
  "open_wire V config a w =
     andthen (w_connects w) (\<lambda>s. wrap_ssl (cv_crypto V) (cv_names V) (cv_read V) (cv_net V) config a s)"

text \<open>
  What was received up to the chunk that completes a line, the chunks still to come, and how the
  connection ended when no line was completed (an empty chunk is the peer's closing).
\<close>

fun gather :: "pbytes \<Rightarrow> pbytes list \<Rightarrow> wire_end \<Rightarrow> pbytes \<times> pbytes list \<times> wire_end option" where
  "gather data [] e = (data, [], Some e)"
| "gather data (chunk # chunks) e =
     (if chunk = [] then (data, [], Some Closes)
      else if 10 \<in> set (data @ chunk) then (data @ chunk, chunks, None) else gather (data @ chunk) chunks e)"

definition read_response :: "wire \<Rightarrow> pbytes res" where
  "read_response w =
     (case gather [] (w_chunks w) (w_end w) of
        (data, _, e) \<Rightarrow>
          if e = Some Times then Inl (OSError ''timed out'')
          else if data = [] then Inl (OSError ''Server closed connection without response'')
          else Inr data)"

definition send_request :: "clip_env \<Rightarrow> dict \<Rightarrow> clip_address \<Rightarrow> wire \<Rightarrow> dict \<Rightarrow> pyval res \<times> dict list" where
  "send_request V config a w request =
     (case open_wire V config a w of Inl e \<Rightarrow> (Inl e, [])
      | Inr s \<Rightarrow>
          if \<not> w_sends w then (Inl (OSError ''send failed''), [])
          else (andthen (read_response w) (parse_clip_line (cv_lib V)), [request]))"

definition proxy_connection_config :: "dict \<Rightarrow> dict" where
  "proxy_connection_config config =
     [(lit ''transport'', PStr (lit ''unix'')),
      (lit ''security'', PDict [(lit ''transport_encryption'', PStr (lit ''none'')), (lit ''client_auth'', PStr (lit ''none'')),
         (lit ''server_auth'', PStr (lit ''none''))]),
      (lit ''recv_timeout'', dget_or config (lit ''recv_timeout'') CLIP_RECV_TIMEOUT),
      (lit ''debug'', dget_or config (lit ''debug'') (PBool False))]"

definition is_oserror :: "exn \<Rightarrow> bool" where
  "is_oserror e = (case e of OSError _ \<Rightarrow> True | _ \<Rightarrow> False)"

text \<open>
  The local proxy is tried first; an unavailable one, or one whose own connection is down, is
  passed over. A response that is no object has no \<open>get\<close>.
\<close>

definition send_admin_request ::
  "clip_env \<Rightarrow> dict \<Rightarrow> clip_address \<Rightarrow> wire \<Rightarrow> wire \<Rightarrow> dict \<Rightarrow> pyval res \<times> dict list" where
  "send_admin_request V config a proxy direct request =
     (let fallback = send_request V config a direct request
      in if \<not> truthy (dget config (lit ''proxy_socket'')) then fallback
         else (case send_request V (proxy_connection_config config) (ToUnix (dget config (lit ''proxy_socket''))) proxy request of
             (Inr (PDict response), sent) \<Rightarrow>
               if dget response (lit ''status'') \<noteq> PStr (lit ''proxy_unavailable'') then (Inr (PDict response), sent)
               else (fst fallback, sent @ snd fallback)
           | (Inr v, sent) \<Rightarrow> (Inl AttributeError, sent)
           | (Inl e, sent) \<Rightarrow> if is_oserror e then (fst fallback, sent @ snd fallback) else (Inl e, sent)))"

section \<open>The persistent connection\<close>

text \<open>
  \<open>PersistentConnection.request\<close>: an open connection, if there is one, then at most one new one; a
  failure of any kind closes the connection. The argument lists what the successive connections meet,
  the first being the open one.
\<close>

definition use_connection :: "lib \<Rightarrow> wire \<Rightarrow> (pyval \<times> wire) res" where
  "use_connection L w =
     (if \<not> w_sends w then Inl (OSError ''send failed'')
      else (case gather [] (w_chunks w) (w_end w) of
          (data, rest, None) \<Rightarrow> andthen (parse_clip_line L data) (\<lambda>v. Inr (v, w\<lparr>w_chunks := rest\<rparr>))
        | (data, rest, Some e) \<Rightarrow> Inl (OSError ''remote closed the connection'')))"

definition delivered :: "wire \<Rightarrow> pyval \<Rightarrow> pyval list" where
  "delivered w request = (if w_sends w then [request] else [])"

fun persistent_attempts ::
  "clip_env \<Rightarrow> dict \<Rightarrow> clip_address \<Rightarrow> nat \<Rightarrow> wire option \<Rightarrow> wire list \<Rightarrow> pyval \<Rightarrow> pyval res \<times> wire option \<times> pyval list" where
  "persistent_attempts V config a 0 current dials request = (Inl (OSError ''request failed''), current, [])"
| "persistent_attempts V config a (Suc n) (Some w) dials request =
     (case use_connection (cv_lib V) w of
        Inr (v, w') \<Rightarrow> (Inr v, Some w', delivered w request)
      | Inl e \<Rightarrow> (case persistent_attempts V config a n None dials request of
            (r, c, sent) \<Rightarrow> (r, c, delivered w request @ sent)))"
| "persistent_attempts V config a (Suc n) None [] request = (Inl (OSError ''request failed''), None, [])"
| "persistent_attempts V config a (Suc n) None (w # dials) request =
     (case open_wire V config a w of
        Inl e \<Rightarrow> (Inl (OSError ''request failed''), None, [])
      | Inr s \<Rightarrow> (case use_connection (cv_lib V) w of
            Inr (v, w') \<Rightarrow> (Inr v, Some w', delivered w request)
          | Inl e \<Rightarrow> (case persistent_attempts V config a n None dials request of
                (r, c, sent) \<Rightarrow> (r, c, delivered w request @ sent))))"

definition persistent_request ::
  "clip_env \<Rightarrow> dict \<Rightarrow> clip_address \<Rightarrow> wire option \<Rightarrow> wire list \<Rightarrow> pyval \<Rightarrow> pyval res \<times> wire option \<times> pyval list" where
  "persistent_request V config a current dials request = persistent_attempts V config a 2 current dials request"

text \<open>One line of a client of the local proxy, and the answer it gets; any JSON value is passed on.\<close>

definition proxy_answer :: "clip_env \<Rightarrow> dict \<Rightarrow> clip_address \<Rightarrow> wire option \<Rightarrow> wire list \<Rightarrow> pbytes \<Rightarrow> pyval \<times> wire option" where
  "proxy_answer V config a current dials line =
     (case parse_clip_line (cv_lib V) line of
        Inl e \<Rightarrow> (PDict [(lit ''status'', PStr (lit ''error'')), (lit ''message'', PStr (lit ''Invalid request''))], current)
      | Inr v \<Rightarrow> (case persistent_request V config a current dials v of
            (Inr response, c, sent) \<Rightarrow> (response, c)
          | (Inl e, c, sent) \<Rightarrow> (PDict [(lit ''status'', PStr (lit ''proxy_unavailable'')), (lit ''message'', PStr (lit ''error''))], c)))"

section \<open>Clipboard data\<close>

text \<open>
  \<open>base64.b64decode(s)\<close> as the clients call it: characters outside the alphabet are skipped, and a
  complete padding ends the data. The arguments are the position in a group of four, the bits
  left over, and the padding seen.
\<close>

fun b64_loose :: "nat \<Rightarrow> nat \<Rightarrow> nat \<Rightarrow> pbytes \<Rightarrow> pbytes option" where
  "b64_loose quad left pads [] = (if quad = 0 then Some [] else None)"
| "b64_loose quad left pads (c # s) =
     (if c = 61 then
        (if 2 \<le> quad then (if 4 \<le> quad + Suc pads then Some [] else b64_loose quad left (Suc pads) s)
         else b64_loose quad left pads s)
      else (case b64_val c of
          None \<Rightarrow> b64_loose quad left pads s
        | Some v \<Rightarrow>
            if quad = 0 then b64_loose 1 v 0 s
            else if quad = 1 then map_option (\<lambda>r. (left * 4 + v div 16) # r) (b64_loose 2 (v mod 16) 0 s)
            else if quad = 2 then map_option (\<lambda>r. (left * 16 + v div 4) # r) (b64_loose 3 (v mod 4) 0 s)
            else map_option (\<lambda>r. (left * 64 + v) # r) (b64_loose 0 0 0 s)))"

definition loose_decode :: "pbytes \<Rightarrow> pbytes option" where
  "loose_decode s = b64_loose 0 0 0 s"

text \<open>
  What a client makes of the data of a response: the decoded bytes, or the text itself when it does
  not decode (a lone surrogate raises). A value that is no text is passed on as it is: the clipboard
  program is then started with it as its input, which raises unless it is empty, and \<open>None\<close> (the
  result \<open>None\<close>) makes the program read the standard input of the client.
\<close>

definition decode_text :: "pstr \<Rightarrow> pbytes res" where
  "decode_text s =
     (if \<forall>c \<in> set s. c < 128
      then (case loose_decode s of Some d \<Rightarrow> Inr d | None \<Rightarrow> Inr s)
      else utf8_encode s)"

definition decode_data :: "pyval \<Rightarrow> (pyval + pbytes) res" where
  "decode_data v = (case v of PStr s \<Rightarrow> andthen (decode_text s) (\<lambda>d. Inr (Inr d)) | _ \<Rightarrow> Inr (Inl v))"

definition set_system_clipboard :: "pyval + pbytes \<Rightarrow> pbytes option res" where
  "set_system_clipboard d =
     (case d of Inr bytes \<Rightarrow> Inr (Some bytes)
      | Inl v \<Rightarrow> if v = PNone then Inr None else if truthy v then Inl TypeError else Inr (Some []))"

section \<open>The subscription\<close>

text \<open>
  \<open>run_subscriber\<close> after \<open>subscribe\<close> was sent: the chunks that hold the confirmation are thrown away
  whole, then chunks are gathered until there is a newline and the lines of what was gathered are
  applied one by one; a piece that is no JSON is skipped. The result is the clipboards set and
  whether the loop ended by an error.
\<close>

fun split_lines :: "pbytes \<Rightarrow> pbytes list" where
  "split_lines [] = [[]]"
| "split_lines (x # s) = (if x = 10 then [] # split_lines s else (case split_lines s of [] \<Rightarrow> [[x]] | p # ps \<Rightarrow> (x # p) # ps))"

definition push_line :: "lib \<Rightarrow> pbytes \<Rightarrow> pbytes option list res" where
  "push_line L line =
     (case utf8_decode line of None \<Rightarrow> Inl (ValueError ''invalid UTF-8'')
      | Some t \<Rightarrow> (case json_loads L t of
            Inl JIntDigits \<Rightarrow> Inl (ValueError ''Exceeds the limit for integer string conversion'')
          | Inl _ \<Rightarrow> Inr []
          | Inr (PDict response) \<Rightarrow>
              if dget response (lit ''status'') = PStr (lit ''ok'') \<and> dmem (lit ''data'') response
              then andthen (andthen (decode_data (dget response (lit ''data''))) set_system_clipboard) (\<lambda>d. Inr [d])
              else Inr []
          | Inr _ \<Rightarrow> Inl AttributeError))"

fun apply_lines :: "lib \<Rightarrow> pbytes list \<Rightarrow> pbytes option list \<times> bool" where
  "apply_lines L [] = ([], True)"
| "apply_lines L (line # lines) =
     (if line = [] then apply_lines L lines
      else (case push_line L line of
          Inl e \<Rightarrow> ([], False)
        | Inr ds \<Rightarrow> (case apply_lines L lines of (rest, fine) \<Rightarrow> (ds @ rest, fine))))"

text \<open>Gathering: the data up to and including the chunk with the first newline, and the chunks after it.\<close>

fun next_batch :: "pbytes \<Rightarrow> pbytes list \<Rightarrow> pbytes \<times> pbytes list" where
  "next_batch data [] = (data, [])"
| "next_batch data (chunk # chunks) =
     (if 10 \<in> set data then (data, chunk # chunks) else if chunk = [] then (data, []) else next_batch (data @ chunk) chunks)"

lemma next_batch_shorter: "next_batch data chunks = (d, rest) \<Longrightarrow> 10 \<notin> set data \<Longrightarrow> chunks \<noteq> [] \<Longrightarrow> length rest < length chunks"
proof (induction data chunks rule: next_batch.induct)
  case (2 data chunk chunks)
  show ?case
  proof (cases "chunk = [] \<or> chunks = []")
    case True
    then show ?thesis using 2 by (cases chunks) (auto split: if_splits)
  next
    case False
    then have n: "next_batch (data @ chunk) chunks = (d, rest)" using 2(2,3) by simp
    show ?thesis
    proof (cases "10 \<in> set chunk")
      case True
      then have "rest = chunks" using n False by (cases chunks) auto
      then show ?thesis by simp
    next
      case False
      then show ?thesis using 2(1,3) n \<open>\<not> (chunk = [] \<or> chunks = [])\<close> by auto
    qed
  qed
qed simp

function apply_pushes :: "lib \<Rightarrow> pbytes list \<Rightarrow> pbytes option list \<times> bool" where
  "apply_pushes L chunks =
     (if chunks = [] then ([], True)
      else (case next_batch [] chunks of
          (data, rest) \<Rightarrow>
            if data = [] then ([], True)
            else (case apply_lines L (split_lines data) of
                (ds, False) \<Rightarrow> (ds, False)
              | (ds, True) \<Rightarrow> (case apply_pushes L rest of (more_ds, fine) \<Rightarrow> (ds @ more_ds, fine)))))"
  by pat_completeness auto
termination
  by (relation "measure (\<lambda>(L, chunks). length chunks)") (auto dest: next_batch_shorter [OF sym])

definition run_subscription :: "lib \<Rightarrow> pbytes list \<Rightarrow> pbytes option list \<times> bool" where
  "run_subscription L chunks =
     (case next_batch [] chunks of (confirmation, rest) \<Rightarrow> if confirmation = [] then ([], True) else apply_pushes L rest)"

section \<open>The commands\<close>

text \<open>How a command ends: it sets the clipboard, prints bytes or a value, finishes with a notice, or raises.\<close>

datatype clip_outcome = SetsClipboard "pbytes option" | WritesOut pbytes | PrintsValue pyval | Finished | Fails exn

definition response_status :: "pyval \<Rightarrow> pyval res" where
  "response_status v = (case v of PDict d \<Rightarrow> Inr (dget d (lit ''status'')) | _ \<Rightarrow> Inl AttributeError)"

text \<open>
  \<open>cmd_pull\<close> without \<open>--json\<close>, given the outcome of its request, whether its output is read by a
  program, and the system clipboard. The fallback data are bytes already.
\<close>

definition emit :: "bool \<Rightarrow> pyval + pbytes \<Rightarrow> clip_outcome" where
  "emit piped d =
     (if piped then (case d of Inr bytes \<Rightarrow> WritesOut bytes | Inl v \<Rightarrow> Fails TypeError)
      else (case set_system_clipboard d of Inl e \<Rightarrow> Fails e | Inr c \<Rightarrow> SetsClipboard c))"

definition clipboard_as_data :: "pbytes \<Rightarrow> pbytes" where
  "clipboard_as_data clipboard = (case loose_decode clipboard of Some d \<Rightarrow> d | None \<Rightarrow> clipboard)"

definition pull_offline :: "bool \<Rightarrow> pbytes \<Rightarrow> clip_outcome" where
  "pull_offline piped clipboard =
     (if piped then Fails (SystemExit 1) else emit piped (Inr (clipboard_as_data clipboard)))"

definition pull_online :: "bool \<Rightarrow> pbytes \<Rightarrow> dict \<Rightarrow> clip_outcome" where
  "pull_online piped clipboard response =
     (if dget response (lit ''status'') \<noteq> PStr (lit ''ok'') then Fails (SystemExit 1)
      else if dget_or response (lit ''data'') (PStr []) = PNone then emit piped (Inr (clipboard_as_data clipboard))
      else (case decode_data (dget_or response (lit ''data'') (PStr [])) of Inl e \<Rightarrow> Fails e | Inr d \<Rightarrow> emit piped d))"

definition cmd_pull :: "bool \<Rightarrow> pbytes \<Rightarrow> pyval res \<Rightarrow> clip_outcome" where
  "cmd_pull piped clipboard answer =
     (case answer of
        Inl e \<Rightarrow> if is_oserror e then pull_offline piped clipboard else Fails e
      | Inr (PDict response) \<Rightarrow> pull_online piped clipboard response
      | Inr v \<Rightarrow> Fails AttributeError)"

definition push_request :: "pbytes \<Rightarrow> pstr \<Rightarrow> dict" where
  "push_request content target =
     [(lit ''action'', PStr (lit ''set'')), (lit ''data'', PStr (b64encode content))]
       @ (if target \<noteq> [] then [(lit ''target'', PStr target)] else [])"

definition pull_request :: "bool \<Rightarrow> pstr \<Rightarrow> dict" where
  "pull_request json target =
     [(lit ''action'', PStr (lit ''get''))] @ (if json then [(lit ''json'', PBool True)] else [])
       @ (if target \<noteq> [] then [(lit ''target'', PStr target)] else [])"

definition cmd_push :: "bool \<Rightarrow> pbytes \<Rightarrow> pyval res \<Rightarrow> clip_outcome" where
  "cmd_push stdin_piped content answer =
     (case answer of
        Inl e \<Rightarrow> if \<not> is_oserror e then Fails e else if stdin_piped then Fails (SystemExit 1) else SetsClipboard (Some content)
      | Inr v \<Rightarrow> (case response_status v of Inl e \<Rightarrow> Fails e
          | Inr status \<Rightarrow> if status \<noteq> PStr (lit ''ok'') then Fails (SystemExit 1) else Finished))"

definition cmd_clients :: "pyval res \<Rightarrow> clip_outcome" where
  "cmd_clients answer =
     (case answer of
        Inl e \<Rightarrow> if is_oserror e then Fails (SystemExit 1) else Fails e
      | Inr (PDict d) \<Rightarrow>
          if dget d (lit ''status'') = PStr (lit ''ok'') then PrintsValue (dget_or d (lit ''data'') (PList [])) else Fails (SystemExit 1)
      | Inr v \<Rightarrow> Fails AttributeError)"

definition cmd_register :: "pyval res \<Rightarrow> clip_outcome" where
  "cmd_register answer =
     (case answer of
        Inl e \<Rightarrow> if is_oserror e then Fails (SystemExit 1) else Fails e
      | Inr v \<Rightarrow> (case response_status v of Inl e \<Rightarrow> Fails e
          | Inr status \<Rightarrow> if status = PStr (lit ''ok'') then Finished else Fails (SystemExit 1)))"

text \<open>Which configuration a command reads when none is given.\<close>

definition uses_admin_config :: "pstr \<Rightarrow> pstr \<Rightarrow> bool \<Rightarrow> bool" where
  "uses_admin_config command target json \<longleftrightarrow>
     command = lit ''clients'' \<or> (command \<in> {lit ''push'', lit ''pull''} \<and> (target \<noteq> [] \<or> json))"

definition resolve_default_config :: "(pstr \<Rightarrow> bool) \<Rightarrow> pstr \<Rightarrow> pstr \<Rightarrow> pstr \<Rightarrow> pstr \<Rightarrow> pstr \<Rightarrow> bool \<Rightarrow> pstr" where
  "resolve_default_config present server_path client_path admin_path command target json =
     (if command = lit ''serve'' then server_path
      else (let (preferred, fallback) = (if uses_admin_config command target json then (admin_path, client_path) else (client_path, admin_path))
            in if present preferred then preferred else if present fallback then fallback else preferred))"

text \<open>One turn of the clipboard monitor of \<open>cmd_client\<close>: what it pushes, and the data it remembers.\<close>

definition monitor_turn :: "pbytes option \<Rightarrow> pbytes \<Rightarrow> pbytes option \<times> pbytes option" where
  "monitor_turn last_data current =
     (if current \<noteq> [] \<and> last_data \<noteq> Some current then (Some current, Some current) else (None, last_data))"

end
