(* ===== verification/ClipEdges.thy ===== *)
theory ClipEdges
  imports ClipClient ClipGaps Listen
begin

text \<open>
  The facts of the outer side of \<open>clipboard-bridge\<close>: which channels are TLS and who is accepted on them,
  what a failed start leaves behind, how often a request is delivered, and what a client makes of
  the data it receives.
\<close>

section \<open>The security of a channel\<close>

lemma resolve_listener_security_spec:
  assumes "resolve_listener_security entry = Inr k"
  shows "cb_encryption k \<in> {lit ''mtls'', lit ''none''}
    \<and> (cb_encryption k = lit ''mtls'' \<longrightarrow> cb_client_auth k = lit ''transport'' \<and> cb_server_auth k = lit ''transport'')
    \<and> (cb_encryption k = lit ''none'' \<longrightarrow> \<not> clip_mtls_enabled entry
        \<and> (\<exists>security. dget entry (lit ''security'') = PDict security
             \<and> dget security (lit ''client_auth'') = PStr (lit ''none'') \<and> dget security (lit ''server_auth'') = PStr (lit ''none'')
             \<and> (clip_transport entry = PStr (lit ''tcp'') \<longrightarrow> dget security (lit ''transport_encryption'') = PStr (lit ''none''))))"
proof -
  obtain security where s: "(if dget entry (lit ''security'') = PNone then PDict [] else dget entry (lit ''security'')) = PDict security"
    using assms by (auto simp: resolve_listener_security_def Let_def split: pyval.splits if_splits)
  let ?enc = "clip_encryption entry security"
  have e: "?enc \<in> {PStr (lit ''none''), PStr (lit ''mtls'')}" "clip_mtls_enabled entry \<Longrightarrow> ?enc = PStr (lit ''mtls'')"
    and a: "auth_given_ok (dget security (lit ''client_auth'')) = Inr ()" "auth_given_ok (dget security (lit ''server_auth'')) = Inr ()"
    and c: "clip_auth ?enc (dget security (lit ''client_auth'')) (dget security (lit ''server_auth'')) = Inr k"
    using assms unfolding resolve_listener_security_def s by (auto simp: Let_def)
  have n: "lit ''none'' \<noteq> lit ''mtls''" "lit ''auto'' \<noteq> lit ''none''" by (simp_all add: lit_def)
  show ?thesis
  proof (cases "?enc = PStr (lit ''mtls'')")
    case True
    then show ?thesis using c n by (auto simp: clip_auth_def)
  next
    case False
    then have none: "?enc = PStr (lit ''none'')" using e(1) by simp
    have k: "cb_encryption k = lit ''none''" and ca: "dget security (lit ''client_auth'') = PStr (lit ''none'')"
      "dget security (lit ''server_auth'') = PStr (lit ''none'')"
      using c a False by (auto simp: clip_auth_def auth_given_ok_def)
    have "dget entry (lit ''security'') = PDict security"
      using s ca by (auto split: if_splits)
    moreover have "dget security (lit ''transport_encryption'') = PStr (lit ''none'')" if "clip_transport entry = PStr (lit ''tcp'')"
      using none that n by (auto simp: clip_encryption_def Let_def split: if_splits)
    moreover have "\<not> clip_mtls_enabled entry" using e(2) False by blast
    ultimately show ?thesis using k ca n by auto
  qed
qed

text \<open>
  C21: A channel is plain only when the configuration says so in full: its \<open>[mtls]\<close> table is not enabled,
  both authentications are spelled out as none, and over TCP the encryption is too. Every other
  configuration that is accepted means mTLS in both directions.
\<close>

theorem clip_plain_only_when_spelled_out:
  assumes "resolve_listener_security entry = Inr k"
  shows "(cb_encryption k = lit ''mtls'' \<and> cb_client_auth k = lit ''transport'' \<and> cb_server_auth k = lit ''transport'')
    \<or> (cb_encryption k = lit ''none'' \<and> \<not> clip_mtls_enabled entry
        \<and> (\<exists>security. dget entry (lit ''security'') = PDict security
             \<and> dget security (lit ''client_auth'') = PStr (lit ''none'') \<and> dget security (lit ''server_auth'') = PStr (lit ''none'')
             \<and> (clip_transport entry = PStr (lit ''tcp'') \<longrightarrow> dget security (lit ''transport_encryption'') = PStr (lit ''none''))))"
  using resolve_listener_security_spec [OF assms] by blast

definition plain_entry :: dict where
  "plain_entry = [(lit ''type'', PStr (lit ''unix'')), (lit ''socket'', PStr (lit ''/run/s/k'')),
     (lit ''security'', PDict [(lit ''client_auth'', PStr (lit ''none'')), (lit ''server_auth'', PStr (lit ''none''))])]"

lemma plain_entry_security:
  "resolve_listener_security plain_entry =
     Inr \<lparr>cb_encryption = lit ''none'', cb_client_auth = lit ''none'', cb_server_auth = lit ''none''\<rparr>"
  by (simp add: resolve_listener_security_def plain_entry_def known_keys_def dkeys_def CLIP_SECURITY_KEYS_def clip_transport_def
      LISTENER_TYPES_def clip_encryption_def clip_mtls_enabled_def auth_given_ok_def clip_auth_def Let_def lit_def)

theorem clip_plain_only_when_spelled_out_witness:
  "\<exists>k. resolve_listener_security plain_entry = Inr k \<and> cb_encryption k = lit ''none'' \<and> \<not> clip_mtls_enabled plain_entry"
  using clip_plain_only_when_spelled_out [OF plain_entry_security] plain_entry_security by (auto simp: lit_def)

section \<open>Who is accepted on a listener\<close>

lemma attach_get: "dget (attach config ks view) k = dget view k" if "k \<notin> (\<lambda>(_, as). lit as) ` set ks"
  using that by (induction config ks view rule: attach.induct) auto

lemma clip_view_get:
  assumes "k \<notin> lit ` {''type'', ''transport'', ''_listener_index'', ''_listener_name'', ''_admin'', ''_debug'', ''_rule'', ''_labels'', ''_vm'', ''_tcp_vm''}"
  shows "dget (clip_view config i entry) k = dget entry k"
  using assms by (simp add: clip_view_def Let_def attach_get)

lemma clip_view_type: "dget (clip_view config i entry) (lit ''type'') = PNone"
  by (simp add: clip_view_def Let_def attach_get lit_def)

lemma dget_or_split: "dget_or d k x = (if dmem k d then dget d k else x)"
  using map_of_eq_None_iff [of d k] by (cases "map_of d k") (auto simp: dget_or_def dget_def dmem_def)

lemma dmem_dget: "dget d k \<noteq> PNone \<Longrightarrow> dmem k d"
  using dget_not_mem by blast

lemma clip_view_transport:
  "dget entry (lit ''type'') \<noteq> PNone \<Longrightarrow> dget (clip_view config i entry) (lit ''transport'') = dget entry (lit ''type'')"
  using dmem_dget [of entry "lit ''type''"] by (simp add: clip_view_def Let_def attach_get lit_def dget_or_split)

lemma clip_view_admin:
  "dget (clip_view config i entry) (lit ''_admin'') = PBool (truthy (dget_or entry (lit ''admin'') (PBool False)))"
  by (simp add: clip_view_def Let_def attach_get lit_def dget_or_split)

lemma resolve_of_view:
  assumes "dget entry (lit ''type'') \<in> PStr ` set LISTENER_TYPES"
  shows "resolve_listener_security (clip_view config i entry) = resolve_listener_security entry"
proof -
  let ?v = "clip_view config i entry"
  have t: "truthy (dget entry (lit ''type''))" "dget entry (lit ''type'') \<noteq> PNone"
    using assms by (auto simp: LISTENER_TYPES_def lit_def)
  have g: "dget ?v (lit ''security'') = dget entry (lit ''security'')" "dget ?v (lit ''mtls'') = dget entry (lit ''mtls'')"
    by (rule clip_view_get, simp add: lit_def)+
  have c: "clip_transport ?v = clip_transport entry"
    using t clip_view_transport [OF t(2), of config i] by (simp add: clip_transport_def clip_view_type)
  show ?thesis
    by (simp only: c resolve_listener_security_def g clip_encryption_def clip_mtls_enabled_def)
qed

lemma clip_views_from_spec:
  "clip_views_from config i entries = Inr views \<Longrightarrow> view \<in> set views \<Longrightarrow>
     \<exists>d j. PDict d \<in> set entries \<and> view = clip_view config j d"
proof (induction config i entries arbitrary: views rule: clip_views_from.induct)
  case (2 config i entry entries)
  then show ?case by (cases entry) fastforce+
qed simp

lemma clip_check_listeners_spec:
  "clip_check_listeners entries names = Inr () \<Longrightarrow> e \<in> set entries \<Longrightarrow> clip_listener_table e = Inr ()"
  by (induction entries arbitrary: names) (auto split: pyval.splits)

lemma view_of_checked_document:
  assumes "clip_document_schema config (Some (lit ''server'')) = Inr role" and "clip_listener_views config = Inr views" and "view \<in> set views"
  shows "\<exists>d j. clip_listener_table (PDict d) = Inr () \<and> view = clip_view config j d"
proof -
  have "server_schema config = Inr ()"
    using assms(1) by (simp add: clip_document_schema_def document_role_def Let_def)
  then obtain entries where e: "dget config (lit ''listeners'') = PList entries" "clip_check_listeners entries [] = Inr ()"
    by (auto simp: server_schema_def split: pyval.splits)
  then obtain i where "clip_views_from config i entries = Inr views"
    using assms(2) by (auto simp: clip_listener_views_def split: if_splits)
  from clip_views_from_spec [OF this assms(3)] clip_check_listeners_spec [OF e(2)] show ?thesis by blast
qed

lemma listener_table_oids:
  assumes "clip_listener_table (PDict d) = Inr ()"
  shows "dget d (lit ''type'') \<in> PStr ` set LISTENER_TYPES
    \<and> (\<exists>k. resolve_listener_security d = Inr k \<and> (cb_encryption k = lit ''mtls'' \<longrightarrow>
         (\<exists>mtls oid. dget d (lit ''mtls'') = PDict mtls \<and> dget mtls (lit ''peer_required_oid'') = PStr oid \<and> oid \<noteq> []
            \<and> (truthy (dget_or d (lit ''admin'') (PBool False)) \<longleftrightarrow> oid = ADMIN_OID))))"
proof -
  have t: "dget d (lit ''type'') \<in> PStr ` set LISTENER_TYPES" and s: "listener_security_ok d = Inr ()"
    and a: "dmem (lit ''admin'') d \<Longrightarrow> dget d (lit ''admin'') \<in> range PBool"
    using assms by (simp_all add: clip_listener_table_def Let_def)
  obtain k where k: "resolve_listener_security d = Inr k" and m: "if cb_encryption k = lit ''mtls''
     then andthen (load_mtls d True) (\<lambda>m. case m of Some mtls \<Rightarrow> listener_oids_ok d mtls | None \<Rightarrow> Inr ()) = Inr ()
     else andthen (load_mtls d False) (\<lambda>_. Inr ()) = Inr ()"
    using s by (auto simp: listener_security_ok_def split: if_splits)
  have adm: "truthy (dget_or d (lit ''admin'') (PBool False)) \<longleftrightarrow> dget d (lit ''admin'') = PBool True"
    using a by (auto simp: dget_or_split dget_not_mem)
  have "\<exists>mtls oid. dget d (lit ''mtls'') = PDict mtls \<and> dget mtls (lit ''peer_required_oid'') = PStr oid \<and> oid \<noteq> []
      \<and> (dget d (lit ''admin'') = PBool True \<longleftrightarrow> oid = ADMIN_OID)" if e: "cb_encryption k = lit ''mtls''"
  proof -
    obtain m where l: "load_mtls d True = Inr m" "(case m of Some mtls \<Rightarrow> listener_oids_ok d mtls | None \<Rightarrow> Inr ()) = Inr ()"
      using m e by auto
    obtain mtls where d: "dget d (lit ''mtls'') = PDict mtls" "m = Some mtls"
      using l(1) by (auto simp: load_mtls_def split: pyval.splits if_splits)
    have o: "text_given (dget mtls (lit ''peer_required_oid''))"
      "if dget d (lit ''admin'') = PBool True then dget mtls (lit ''peer_required_oid'') = PStr ADMIN_OID
       else dget mtls (lit ''peer_required_oid'') \<noteq> PStr ADMIN_OID"
      using l(2) d(2) by (auto simp: listener_oids_ok_def split: if_splits)
    obtain oid where "dget mtls (lit ''peer_required_oid'') = PStr oid" "oid \<noteq> []"
      using o(1) by (cases "dget mtls (lit ''peer_required_oid'')") (auto simp: text_given_def)
    then show ?thesis using d(1) o(2) by (auto split: if_splits)
  qed
  then show ?thesis using t k adm by blast
qed

text \<open>
  C13: On the mTLS listeners of a document the server accepts, the admin role is a matter of the
  certificate: whoever is accepted on an admin listener with a certificate has the extended key
  usage of the administrators in it, and whoever is accepted on any other listener has another one
  that its configuration names.
\<close>

theorem admin_role_is_certified:
  assumes "clip_document_schema config (Some (lit ''server'')) = Inr role" and "clip_listener_views config = Inr views" and "view \<in> set views"
    and "resolve_listener_security view = Inr k" and "cb_encryption k = lit ''mtls''"
    and "sk_tls s" and "peer_der s = Some der" and "der \<noteq> []"
    and "accept_peer C H cn mofos rules view s = Inr (Some P)"
  shows "\<exists>oid. verify_cert_der C der oid = Inr () \<and> required_peer_oid view = PStr oid \<and> (cp_admin P \<longleftrightarrow> oid = ADMIN_OID)"
proof -
  obtain d j where d: "clip_listener_table (PDict d) = Inr ()" and v: "view = clip_view config j d"
    using view_of_checked_document [OF assms(1-3)] by blast
  note o = listener_table_oids [OF d]
  have "resolve_listener_security d = Inr k"
    using assms(4) o resolve_of_view [of d config j] v by simp
  then obtain mtls oid where m: "dget d (lit ''mtls'') = PDict mtls" "dget mtls (lit ''peer_required_oid'') = PStr oid" "oid \<noteq> []"
    and a: "truthy (dget_or d (lit ''admin'') (PBool False)) \<longleftrightarrow> oid = ADMIN_OID"
    using o assms(5) by auto
  have "dget view (lit ''mtls'') = PDict mtls"
    using m(1) clip_view_get [of "lit ''mtls''" config j d] v by (simp add: lit_def)
  then have r: "required_peer_oid view = PStr oid" by (simp add: required_peer_oid_def m(2))
  have c: "check_peer_oid C (Some der) (PStr oid) = verify_cert_der C der oid"
    using m(3) assms(8) by (simp add: check_peer_oid_def)
  have "cp_admin P \<longleftrightarrow> truthy (dget view (lit ''_admin''))" "verify_cert_der C der oid = Inr ()"
    using assms(9) by (auto simp: accept_peer_def assms(4-7) r c Let_def split: sum.splits exn.splits)
  then show ?thesis using r a clip_view_admin [of config j d] v by auto
qed

text \<open>The document and the certificate of the witnesses: one admin listener over TCP.\<close>

definition admin_mtls :: dict where
  "admin_mtls = [(lit ''enable'', PBool True), (lit ''ca_file'', PStr (lit ''a'')), (lit ''cert_file'', PStr (lit ''c'')),
     (lit ''key_file'', PStr (lit ''k'')), (lit ''required_oid'', PStr (lit ''1.3.6.1'')), (lit ''peer_required_oid'', PStr ADMIN_OID)]"

definition admin_entry :: dict where
  "admin_entry = [(lit ''type'', PStr (lit ''tcp'')), (lit ''admin'', PBool True), (lit ''mtls'', PDict admin_mtls)]"

definition admin_document :: dict where
  "admin_document = [(lit ''listeners'', PList [PDict admin_entry])]"

definition admin_crypto :: crypto where
  "admin_crypto = demo_crypto\<lparr>load_der := (\<lambda>b. Some (demo_leaf\<lparr>c_extensions := Some [(False, ExtendedKeyUsage [ADMIN_OID])]\<rparr>))\<rparr>"

definition admin_sock :: sock where
  "admin_sock = demo_sock\<lparr>peer_der := Some [42], sk_tls := True, sk_peername := InetName (lit ''10.0.0.2'')\<rparr>"

lemma admin_entry_security:
  "resolve_listener_security admin_entry =
     Inr \<lparr>cb_encryption = lit ''mtls'', cb_client_auth = lit ''transport'', cb_server_auth = lit ''transport''\<rparr>"
  by (simp add: resolve_listener_security_def admin_entry_def admin_mtls_def known_keys_def dkeys_def CLIP_SECURITY_KEYS_def
      clip_transport_def LISTENER_TYPES_def clip_encryption_def clip_mtls_enabled_def dget_or_split auth_given_ok_def clip_auth_def
      Let_def lit_def)

lemma admin_listener_ok: "clip_listener_table (PDict admin_entry) = Inr ()"
proof -
  have k: "known_keys admin_entry CLIP_LISTENER_KEYS" "known_keys admin_mtls CLIP_MTLS_KEYS"
    by (simp_all add: known_keys_def dkeys_def admin_entry_def admin_mtls_def CLIP_LISTENER_KEYS_def CLIP_MTLS_KEYS_def lit_def)
  have g: "dget admin_entry (lit ''type'') = PStr (lit ''tcp'')" "dget admin_entry (lit ''admin'') = PBool True"
    "dget admin_entry (lit ''mtls'') = PDict admin_mtls" "dget admin_entry (lit ''security'') = PNone"
    "dget admin_entry (lit ''acl'') = PNone" "dget admin_entry (lit ''resolution'') = PNone"
    by (simp_all add: admin_entry_def lit_def)
  have b: "listener_bounds_ok admin_entry = Inr ()"
    by (simp add: listener_bounds_ok_def admin_entry_def lit_def)
  have l: "load_mtls admin_entry True = Inr (Some admin_mtls)"
    unfolding load_mtls_def g(3) using k(2) by (simp add: admin_mtls_def MTLS_PATH_KEYS_def text_given_def lit_def)
  have o: "listener_oids_ok admin_entry admin_mtls = Inr ()"
    unfolding listener_oids_ok_def g(2) by (simp add: admin_mtls_def text_given_def ADMIN_OID_def lit_def)
  have s: "listener_security_ok admin_entry = Inr ()"
    by (simp add: listener_security_ok_def admin_entry_security g l o)
  show ?thesis
    using k g b s
    by (simp add: clip_listener_table_def Let_def TABLE_KEYS_def validate_table_def resolution_ok_def LISTENER_TYPES_def dmem_dget)
qed

lemma admin_document_ok:
  "clip_document_schema admin_document (Some (lit ''server'')) = Inr (lit ''server'')"
  "clip_listener_views admin_document = Inr [clip_view admin_document 0 admin_entry]"
proof -
  have n: "dget admin_entry (lit ''name'') = PNone" "dget admin_document (lit ''listeners'') = PList [PDict admin_entry]"
    "dget admin_document (lit ''vm'') = PNone" "dget admin_document (lit ''tcp_vm'') = PNone" "dget admin_document (lit ''rule'') = PNone"
    by (simp_all add: admin_entry_def admin_document_def lit_def)
  have s: "server_schema admin_document = Inr ()"
    unfolding server_schema_def n by (simp add: admin_listener_ok n(1) validate_vm_table_def n parse_clip_rules_def)
  have k: "known_keys admin_document SERVER_TOP_LEVEL_KEYS" "\<not> dmem (lit ''mode'') admin_document"
    by (simp_all add: known_keys_def dkeys_def admin_document_def SERVER_TOP_LEVEL_KEYS_def lit_def)
  show "clip_document_schema admin_document (Some (lit ''server'')) = Inr (lit ''server'')"
    using s k by (simp add: clip_document_schema_def document_role_def Let_def)
  show "clip_listener_views admin_document = Inr [clip_view admin_document 0 admin_entry]"
    by (simp add: clip_listener_views_def n)
qed

theorem admin_role_is_certified_witness:
  "\<exists>P. accept_peer admin_crypto demo_host (\<lambda>_. None) (\<lambda>_. None) [] (clip_view admin_document 0 admin_entry) admin_sock = Inr (Some P)
    \<and> verify_cert_der admin_crypto [42] ADMIN_OID = Inr () \<and> cp_admin P"
proof -
  let ?v = "clip_view admin_document 0 admin_entry"
  have t: "dget admin_entry (lit ''type'') \<in> PStr ` set LISTENER_TYPES"
    by (simp add: admin_entry_def LISTENER_TYPES_def lit_def)
  have k: "resolve_listener_security ?v = Inr \<lparr>cb_encryption = lit ''mtls'', cb_client_auth = lit ''transport'', cb_server_auth = lit ''transport''\<rparr>"
    using resolve_of_view [OF t] admin_entry_security by simp
  have "dget ?v (lit ''mtls'') = PDict admin_mtls"
    using clip_view_get [of "lit ''mtls''" admin_document 0 admin_entry] by (simp add: admin_entry_def lit_def)
  then have r: "required_peer_oid ?v = PStr ADMIN_OID"
    by (simp add: required_peer_oid_def admin_mtls_def lit_def)
  have c: "check_peer_oid admin_crypto (Some [42]) (PStr ADMIN_OID) = Inr ()"
    by (simp add: check_peer_oid_def verify_cert_der_def admin_crypto_def cert_has_oid_def extensions_of_def demo_leaf_def ADMIN_OID_def lit_def)
  have m: "clip_resolution_mode ?v = Inr (lit ''none'')"
    using clip_view_get [of "lit ''resolution''" admin_document 0 admin_entry]
    by (simp add: clip_resolution_mode_def admin_entry_def lit_def)
  obtain P where a: "accept_peer admin_crypto demo_host (\<lambda>_. None) (\<lambda>_. None) [] ?v admin_sock = Inr (Some P)"
    by (simp add: accept_peer_def k r admin_sock_def c resolve_friendly_name_def m)
  have "\<exists>oid. verify_cert_der admin_crypto [42] oid = Inr () \<and> required_peer_oid ?v = PStr oid \<and> (cp_admin P \<longleftrightarrow> oid = ADMIN_OID)"
    by (rule admin_role_is_certified [OF admin_document_ok _ k _ _ _ _ a]) (simp_all add: admin_sock_def)
  with a r show ?thesis by auto
qed

section \<open>Starting the server\<close>

lemma clip_ssl_context_Inr:
  assumes "clip_ssl_context C read N config server = Inr ctx"
  shows "\<exists>k. resolve_listener_security config = Inr k \<and> (cb_encryption k = lit ''mtls'' \<longleftrightarrow> ctx \<noteq> None)
    \<and> (\<forall>c. ctx = Some c \<longrightarrow> ctx_cert_required c \<and> ctx_server c = server \<and> \<not> ctx_check_hostname c \<and> net_load N c = Inr ())"
proof -
  obtain k where k: "resolve_listener_security config = Inr k"
    using assms by (auto simp: clip_ssl_context_def exits_on_config_error_def split: sum.splits exn.splits)
  then show ?thesis
    using assms by (auto simp: clip_ssl_context_def exits_on_config_error_def Let_def split: if_splits)
qed

lemma clip_bind_listener_Inr:
  assumes "clip_bind_listener E C read N H view F = (Inr l, F')"
  shows "cl_view l = view \<and> clip_ssl_context C read N view True = Inr (cl_ctx l)"
  using assms by (auto simp: clip_bind_listener_def split: sum.splits prod.splits)

lemma clip_bind_all_spec:
  assumes "clip_bind_all E C read N H views bound F = (bound', res, F')"
  shows "\<exists>ds rest. views = ds @ rest \<and> map cl_view bound' = map cl_view bound @ ds \<and> (is_ok res \<longleftrightarrow> rest = [])
    \<and> (\<forall>l \<in> set bound'. l \<in> set bound \<or> clip_ssl_context C read N (cl_view l) True = Inr (cl_ctx l))"
  using assms
proof (induction views arbitrary: bound F)
  case Nil
  then show ?case by auto
next
  case (Cons view views)
  obtain r F1 where b: "clip_bind_listener E C read N H view F = (r, F1)" by force
  show ?case
  proof (cases r)
    case (Inl e)
    then show ?thesis using Cons.prems b by (intro exI [of _ "[]"] exI [of _ "view # views"]) auto
  next
    case (Inr l)
    note l = clip_bind_listener_Inr [OF b [unfolded Inr]]
    have "clip_bind_all E C read N H views (bound @ [l]) F1 = (bound', res, F')"
      using Cons.prems b Inr by simp
    from Cons.IH [OF this] obtain ds rest where "views = ds @ rest" "map cl_view bound' = map cl_view bound @ view # ds"
      "is_ok res \<longleftrightarrow> rest = []" "\<forall>x \<in> set bound'. x \<in> set bound \<or> x = l \<or> clip_ssl_context C read N (cl_view x) True = Inr (cl_ctx x)"
      using l by auto
    then show ?thesis using l by (intro exI [of _ "view # ds"] exI [of _ rest]) auto
  qed
qed

text \<open>The socket a listener made is gone, unless the path may not be changed.\<close>

definition released :: "fs \<Rightarrow> clip_listener \<Rightarrow> bool" where
  "released F l \<longleftrightarrow>
     (case cl_socket l of None \<Rightarrow> True
      | Some (path, bound_ino) \<Rightarrow> (case fs_node F path of None \<Rightarrow> True
        | Some info \<Rightarrow> bound_ino \<noteq> Some (st_ino info) \<or> st_type info \<noteq> SocketFile \<or> fs_denied F path))"

lemma unlink_bound_socket_drops:
  "fs_node (unlink_bound_socket l F) q \<in> {fs_node F q, None}"
  "fs_denied (unlink_bound_socket l F) = fs_denied F"
  by (auto simp: unlink_bound_socket_def split: option.split)

lemma unlink_bound_socket_releases: "released (unlink_bound_socket l F) l"
  by (auto simp: released_def unlink_bound_socket_def split: option.splits)

lemma released_stays: "released F l \<Longrightarrow> released (unlink_bound_socket x F) l"
proof (cases "cl_socket l")
  case (Some s)
  obtain path ino where s: "s = (path, ino)" by force
  assume "released F l"
  then show ?thesis
    using unlink_bound_socket_drops(1) [of x F path] Some s by (auto simp: released_def unlink_bound_socket_drops(2) split: option.splits)
qed (simp add: released_def)

lemma unlink_all_stays: "released F l \<Longrightarrow> released (fold unlink_bound_socket ls F) l"
  by (induction ls arbitrary: F) (auto dest: released_stays)

lemma unlink_all_releases: "l \<in> set ls \<Longrightarrow> released (fold unlink_bound_socket ls F) l"
  by (induction ls arbitrary: F) (auto intro: unlink_all_stays unlink_bound_socket_releases)

text \<open>
  The clipboard server starts with a bound listener for every entry of its document, those whose
  security is mTLS with a context that demands certificates, or it fails, and then the socket of
  no listener bound before the failure is left at its path.
\<close>

theorem clip_serve_all_or_nothing:
  "case clip_serve E C read N H config F of
     (Inr (bound, rules), F') \<Rightarrow> clip_listener_views config = Inr (map cl_view bound)
       \<and> parse_clip_rules (dget config (lit ''rule'')) = Inr rules
       \<and> (\<forall>l \<in> set bound. \<exists>k. resolve_listener_security (cl_view l) = Inr k
            \<and> (cb_encryption k = lit ''mtls'' \<longleftrightarrow> (\<exists>c. cl_ctx l = Some c \<and> ctx_server c \<and> ctx_cert_required c)))
   | (Inl e, F') \<Rightarrow> F' = F \<or> (\<exists>views bound cause F1. clip_listener_views config = Inr views
       \<and> clip_bind_all E C read N H views [] F = (bound, Inl cause, F1) \<and> map cl_view bound = take (length bound) views
       \<and> length bound < length views \<and> (\<forall>l \<in> set bound. released F' l) \<and> e = serve_failure cause)"
proof -
  have early: ?thesis if "clip_serve E C read N H config F = (Inl e, F)" for e
    using that by simp
  show ?thesis
  proof (cases "clip_listener_views config")
    case (Inl e)
    then show ?thesis using early by (simp add: clip_serve_def)
  next
    case v: (Inr views)
    show ?thesis
    proof (cases "parse_clip_rules (dget config (lit ''rule''))")
      case (Inl e)
      then show ?thesis using early v by (simp add: clip_serve_def)
    next
      case r: (Inr rules)
      obtain bound res F1 where b: "clip_bind_all E C read N H views [] F = (bound, res, F1)"
        by (cases "clip_bind_all E C read N H views [] F") auto
      obtain ds rest where s: "views = ds @ rest" "map cl_view bound = ds" "is_ok res \<longleftrightarrow> rest = []"
        "\<forall>l \<in> set bound. clip_ssl_context C read N (cl_view l) True = Inr (cl_ctx l)"
        using clip_bind_all_spec [OF b] by auto
      show ?thesis
      proof (cases res)
        case (Inl e)
        then have "clip_serve E C read N H config F = (Inl (serve_failure e), fold unlink_bound_socket bound F1)"
          using b v r by (simp add: clip_serve_def)
        moreover have "length bound < length views" "map cl_view bound = take (length bound) views"
          using s(1-3) Inl by auto
        ultimately show ?thesis using v b Inl unlink_all_releases by fastforce
      next
        case (Inr u)
        then have "clip_serve E C read N H config F = (Inr (bound, rules), F1)"
          using b v r by (simp add: clip_serve_def)
        moreover have "\<exists>k. resolve_listener_security (cl_view l) = Inr k
            \<and> (cb_encryption k = lit ''mtls'' \<longleftrightarrow> (\<exists>c. cl_ctx l = Some c \<and> ctx_server c \<and> ctx_cert_required c))"
          if "l \<in> set bound" for l
          using s(4) that clip_ssl_context_Inr [of C read N "cl_view l" True "cl_ctx l"] by (cases "cl_ctx l") auto
        ultimately show ?thesis using v r s Inr by auto
      qed
    qed
  qed
qed


theorem clip_serve_all_or_nothing_witness:
  "\<exists>l. clip_serve demo_lib admin_crypto (\<lambda>_. Some [42]) demo_net demo_host admin_document demo_fs = (Inr ([l], []), demo_fs)
    \<and> (\<exists>c. cl_ctx l = Some c \<and> ctx_cert_required c)"
proof -
  let ?v = "clip_view admin_document 0 admin_entry"
  have t: "dget admin_entry (lit ''type'') \<in> PStr ` set LISTENER_TYPES"
    by (simp add: admin_entry_def LISTENER_TYPES_def lit_def)
  have k: "resolve_listener_security ?v = Inr \<lparr>cb_encryption = lit ''mtls'', cb_client_auth = lit ''transport'', cb_server_auth = lit ''transport''\<rparr>"
    using resolve_of_view [OF t] admin_entry_security by simp
  have m: "dget ?v (lit ''mtls'') = PDict admin_mtls"
    using clip_view_get [of "lit ''mtls''" admin_document 0 admin_entry] by (simp add: admin_entry_def lit_def)
  have l: "load_mtls ?v True = Inr (Some admin_mtls)"
    unfolding load_mtls_def m by (simp add: known_keys_def dkeys_def CLIP_MTLS_KEYS_def admin_mtls_def MTLS_PATH_KEYS_def text_given_def lit_def)
  obtain ctx where c: "clip_ssl_context admin_crypto (\<lambda>_. Some [42]) demo_net ?v True = Inr ctx"
    by (simp add: clip_ssl_context_def k l exits_on_config_error_def check_local_oid_def verify_cert_file_def admin_crypto_def
        demo_crypto_def cert_has_oid_def extensions_of_def demo_leaf_def demo_net_def admin_mtls_def Let_def lit_def)
  have g: "dget ?v (lit ''max_connections'') = PNone" "dget ?v (lit ''server_read_timeout'') = PNone"
    "dget ?v (lit ''handshake_timeout'') = PNone" "dget ?v (lit ''port'') = PNone"
    using clip_view_get [of _ admin_document 0 admin_entry] by (simp_all add: admin_entry_def lit_def)
  have tr: "dget_or ?v (lit ''transport'') (PStr (lit ''tcp'')) = PStr (lit ''tcp'')"
    using clip_view_transport [of admin_entry admin_document 0] t by (auto simp: dget_or_split admin_entry_def)
  obtain port where p: "integer_of (dget_or ?v (lit ''port'') CLIP_PORT) = Inr port"
    by (cases "dmem (lit ''port'') ?v")
      (auto simp: clip_view_def Let_def admin_entry_def admin_document_def dget_or_split CLIP_PORT_def integer_of_def lit_def)
  have n: "PStr (lit ''tcp'') \<noteq> PStr (lit ''unix'')" "PStr (lit ''tcp'') \<noteq> PStr (lit ''vsock'')" by (simp_all add: lit_def)
  have a: "bind_clip_address demo_net demo_host ?v demo_fs = (Inr None, demo_fs)"
    by (simp add: bind_clip_address_def clip_net_address_def tr n p demo_net_def)
  obtain l where b: "clip_bind_listener demo_lib admin_crypto (\<lambda>_. Some [42]) demo_net demo_host ?v demo_fs = (Inr l, demo_fs)"
    by (simp add: clip_bind_listener_def c g positive_int_def positive_float_def a)
  have r: "parse_clip_rules (dget admin_document (lit ''rule'')) = Inr []"
    by (simp add: admin_document_def parse_clip_rules_def lit_def)
  have s: "clip_serve demo_lib admin_crypto (\<lambda>_. Some [42]) demo_net demo_host admin_document demo_fs = (Inr ([l], []), demo_fs)"
    by (simp add: clip_serve_def admin_document_ok r b)
  have "cl_view l = ?v" using clip_bind_listener_Inr [OF b] by simp
  then show ?thesis
    using clip_serve_all_or_nothing [where E = demo_lib and C = admin_crypto and read = "\<lambda>_. Some [42]" and N = demo_net
        and H = demo_host and config = admin_document and F = demo_fs] s k by auto
qed

section \<open>The connection of a client\<close>

lemma clip_verify_acl_Inr:
  assumes "clip_verify_acl C names s config = Inr ()" and "clip_load_acl config = Inr (fps, patterns)" and "fps \<noteq> [] \<or> patterns \<noteq> []"
  shows "\<exists>der cert. peer_der s = Some der \<and> load_der C der = Some cert
    \<and> (spki_fingerprint C (c_key cert) \<in> set fps \<or> (\<exists>name \<in> set (names der). \<exists>p \<in> set patterns. fnmatchcase name p))"
  using assms by (auto simp: clip_verify_acl_def split: option.splits if_splits)

text \<open>
  C25: A client whose configuration means mTLS never talks over anything else. The socket it is given
  after the checks is the one its handshake made, with a context that demands a certificate; a
  certificate that was received has the extended key usage asked for; and with a pin in the
  configuration there was a certificate, and it is one of the pinned.
\<close>

theorem clip_client_never_plain:
  assumes "wrap_ssl C names read N config a s = Inr w" and "resolve_listener_security config = Inr k" and "cb_encryption k = lit ''mtls''"
    and "clip_load_acl config = Inr (fps, patterns)"
  shows "\<exists>ctx. net_wrap N ctx (tls_name a) s = Inr w \<and> ctx_cert_required ctx \<and> \<not> ctx_server ctx
    \<and> check_peer_oid C (peer_der w) (required_peer_oid config) = Inr ()
    \<and> (fps = [] \<and> patterns = [] \<or> (\<exists>der cert. peer_der w = Some der \<and> load_der C der = Some cert
        \<and> (spki_fingerprint C (c_key cert) \<in> set fps \<or> (\<exists>name \<in> set (names der). \<exists>p \<in> set patterns. fnmatchcase name p))))"
proof -
  obtain c where c: "clip_ssl_context C read N config False = Inr c"
    and w: "(case c of None \<Rightarrow> Inr s
            | Some ctx \<Rightarrow>
                andthen (net_wrap N ctx (tls_name a) s) (\<lambda>w.
                andthen (check_peer_oid C (peer_der w) (required_peer_oid config)) (\<lambda>_.
                andthen (clip_verify_acl C names w config) (\<lambda>_. Inr w)))) = Inr w"
    using assms(1) by (auto simp: wrap_ssl_def assms(2,3))
  have "c \<noteq> None" "\<forall>ctx. c = Some ctx \<longrightarrow> ctx_cert_required ctx \<and> \<not> ctx_server ctx"
    using clip_ssl_context_Inr [OF c] assms(2,3) by auto
  then obtain ctx where ctx: "c = Some ctx" "ctx_cert_required ctx" "\<not> ctx_server ctx" by blast
  have n: "net_wrap N ctx (tls_name a) s = Inr w" "check_peer_oid C (peer_der w) (required_peer_oid config) = Inr ()"
    "clip_verify_acl C names w config = Inr ()"
    using w ctx(1) by auto
  show ?thesis
    using clip_verify_acl_Inr [OF n(3) assms(4)] n(1,2) ctx(2,3) by blast
qed

definition pinned_client :: dict where
  "pinned_client = [(lit ''transport'', PStr (lit ''tcp'')), (lit ''mtls'', PDict admin_mtls),
     (lit ''acl'', PDict [(lit ''trusted_names'', PStr (lit ''bridge''))])]"

theorem clip_client_never_plain_witness:
  "\<exists>ctx. wrap_ssl admin_crypto (\<lambda>_. [lit ''bridge'']) (\<lambda>_. Some [42]) demo_net pinned_client (ToTcp (PStr (lit ''h'')) (PInt 1)) admin_sock
      = Inr admin_sock
    \<and> net_wrap demo_net ctx (Some (lit ''h'')) admin_sock = Inr admin_sock \<and> ctx_cert_required ctx"
proof -
  have k: "resolve_listener_security pinned_client =
     Inr \<lparr>cb_encryption = lit ''mtls'', cb_client_auth = lit ''transport'', cb_server_auth = lit ''transport''\<rparr>"
    by (simp add: resolve_listener_security_def pinned_client_def admin_mtls_def known_keys_def dkeys_def CLIP_SECURITY_KEYS_def
        clip_transport_def LISTENER_TYPES_def clip_encryption_def clip_mtls_enabled_def dget_or_split auth_given_ok_def clip_auth_def
        Let_def lit_def)
  have m: "dget pinned_client (lit ''mtls'') = PDict admin_mtls"
    by (simp add: pinned_client_def lit_def)
  have l: "load_mtls pinned_client True = Inr (Some admin_mtls)"
    unfolding load_mtls_def m by (simp add: known_keys_def dkeys_def CLIP_MTLS_KEYS_def admin_mtls_def MTLS_PATH_KEYS_def text_given_def lit_def)
  obtain ctx where c: "clip_ssl_context admin_crypto (\<lambda>_. Some [42]) demo_net pinned_client False = Inr (Some ctx)"
    by (simp add: clip_ssl_context_def k l exits_on_config_error_def check_local_oid_def verify_cert_file_def admin_crypto_def
        demo_crypto_def cert_has_oid_def extensions_of_def demo_leaf_def demo_net_def admin_mtls_def Let_def lit_def)
  have r: "required_peer_oid pinned_client = PStr ADMIN_OID"
    by (simp add: required_peer_oid_def m) (simp add: admin_mtls_def lit_def)
  have o: "check_peer_oid admin_crypto (peer_der admin_sock) (PStr ADMIN_OID) = Inr ()"
    by (simp add: check_peer_oid_def verify_cert_der_def admin_crypto_def admin_sock_def cert_has_oid_def extensions_of_def demo_leaf_def
        ADMIN_OID_def lit_def)
  have a: "clip_load_acl pinned_client = Inr ([], [lit ''bridge''])"
    by (simp add: clip_load_acl_def pinned_client_def known_keys_def dkeys_def CLIP_ACL_KEYS_def clip_fingerprint_set_def
        as_pattern_tuple_def lit_def)
  have v: "clip_verify_acl admin_crypto (\<lambda>_. [lit ''bridge'']) admin_sock pinned_client = Inr ()"
    by (simp add: clip_verify_acl_def a admin_sock_def admin_crypto_def fnmatchcase_def lit_def)
  have nw: "net_wrap demo_net x n s = Inr s" for x n s by (simp add: demo_net_def)
  have w: "wrap_ssl admin_crypto (\<lambda>_. [lit ''bridge'']) (\<lambda>_. Some [42]) demo_net pinned_client (ToTcp (PStr (lit ''h'')) (PInt 1)) admin_sock
      = Inr admin_sock"
    by (simp add: wrap_ssl_def k c nw r o v)
  from clip_client_never_plain [OF w k _ a] w show ?thesis by (auto simp: tls_name_def)
qed

section \<open>How often a request is delivered\<close>

lemma persistent_attempts_spec:
  "persistent_attempts V config a n current dials request = (r, c, sent) \<Longrightarrow>
     length sent \<le> n \<and> set sent \<subseteq> {request} \<and> (n > 0 \<longrightarrow> (is_ok r \<longleftrightarrow> c \<noteq> None)) \<and> (is_ok r \<longrightarrow> sent \<noteq> [])"
proof (induction V config a n current dials request arbitrary: r c sent rule: persistent_attempts.induct)
  case (2 V config a n w dials request)
  show ?case
  proof (cases "use_connection (cv_lib V) w")
    case (Inr p)
    then have "w_sends w" by (simp add: use_connection_def split: if_splits)
    then show ?thesis using 2(2) Inr by (cases p) (auto simp: delivered_def)
  next
    case (Inl e)
    obtain r' c' sent' where p: "persistent_attempts V config a n None dials request = (r', c', sent')"
      by (metis prod_cases3)
    show ?thesis using 2(1) [OF Inl p] 2(2) Inl p
      by (cases n) (auto simp: delivered_def)
  qed
next
  case (4 V config a n w dials request)
  show ?case
  proof (cases "open_wire V config a w")
    case (Inr s)
    show ?thesis
    proof (cases "use_connection (cv_lib V) w")
      case u: (Inr p)
      then have "w_sends w" by (simp add: use_connection_def split: if_splits)
      then show ?thesis using 4(2) u Inr by (cases p) (auto simp: delivered_def)
    next
      case u: (Inl e)
      obtain r' c' sent' where p: "persistent_attempts V config a n None dials request = (r', c', sent')"
        by (metis prod_cases3)
      show ?thesis using 4(1) [OF Inr u p] 4(2) Inr u p
        by (cases n) (auto simp: delivered_def)
    qed
  qed (use 4(2) in auto)
qed auto

text \<open>
  A request over the persistent connection is delivered at most twice, each time as it is; an
  answer leaves a connection that is open, a failure leaves none, so bytes that arrive late are
  never taken for the answer to a later request.
\<close>

theorem persistent_request_at_most_twice:
  assumes "persistent_request V config a current dials request = (r, c, sent)"
  shows "sent \<in> {[], [request], [request, request]} \<and> (is_ok r \<longleftrightarrow> c \<noteq> None) \<and> (is_ok r \<longrightarrow> sent \<noteq> [])"
proof -
  note s = persistent_attempts_spec [OF assms [unfolded persistent_request_def]]
  have "sent \<in> {[], [request], [request, request]}"
    using s by (cases sent; cases "tl sent"; cases "tl (tl sent)") auto
  with s show ?thesis by simp
qed

definition plain_client :: dict where
  "plain_client = [(lit ''transport'', PStr (lit ''unix'')), (lit ''socket'', PStr (lit ''/run/s/k'')),
     (lit ''security'', PDict [(lit ''client_auth'', PStr (lit ''none'')), (lit ''server_auth'', PStr (lit ''none''))])]"

definition demo_env :: clip_env where
  "demo_env = \<lparr>cv_lib = demo_lib, cv_crypto = demo_crypto, cv_names = (\<lambda>_. []), cv_read = (\<lambda>_. None), cv_net = demo_net\<rparr>"

definition demo_wire :: "pbytes list \<Rightarrow> wire" where
  "demo_wire chunks = \<lparr>w_connects = Inr demo_sock, w_sends = True, w_chunks = chunks, w_end = Closes\<rparr>"

text \<open>The open connection was closed by the peer while it was idle; the request goes out again.\<close>

theorem persistent_request_at_most_twice_witness:
  "\<exists>r c. persistent_request demo_env plain_client (ToUnix (PStr [])) (Some (demo_wire [])) [demo_wire [lit ''{}'' @ [10]]] (PDict [])
      = (r, c, [PDict [], PDict []]) \<and> is_ok r \<and> c \<noteq> None"
proof -
  have k: "resolve_listener_security plain_client = Inr \<lparr>cb_encryption = lit ''none'', cb_client_auth = lit ''none'', cb_server_auth = lit ''none''\<rparr>"
    by (simp add: resolve_listener_security_def plain_client_def known_keys_def dkeys_def CLIP_SECURITY_KEYS_def clip_transport_def
        LISTENER_TYPES_def clip_encryption_def clip_mtls_enabled_def auth_given_ok_def clip_auth_def Let_def lit_def)
  have o: "open_wire demo_env plain_client (ToUnix (PStr [])) (demo_wire chunks) = Inr demo_sock" for chunks
    by (simp add: open_wire_def demo_wire_def wrap_ssl_def k)
  have e: "use_connection demo_lib (demo_wire []) = Inl (OSError ''remote closed the connection'')"
    by (simp add: use_connection_def demo_wire_def)
  have l: "parse_clip_line demo_lib (lit ''{}'' @ [10]) = Inr (PDict [])"
    using jval.simps(3) [of demo_lib 7]
    by (simp add: parse_clip_line_def utf8_next_def json_loads_def jws_def startswith_def lit_def)
  have u: "use_connection demo_lib (demo_wire [lit ''{}'' @ [10]]) = Inr (PDict [], demo_wire [])"
    using l by (simp add: use_connection_def demo_wire_def)
  have p: "persistent_request demo_env plain_client (ToUnix (PStr [])) (Some (demo_wire [])) [demo_wire [lit ''{}'' @ [10]]] (PDict [])
      = (Inr (PDict []), Some (demo_wire []), [PDict [], PDict []])"
    using o e u by (simp add: persistent_request_def numeral_2_eq_2 demo_env_def delivered_def demo_wire_def)
  from persistent_request_at_most_twice [OF p] p show ?thesis by auto
qed

end
