(* ===== verification/ClipData.thy ===== *)
theory ClipData
  imports ClipEdges
begin

text \<open>
  What the clients of \<open>clipboard-bridge\<close> make of the data they receive: what was pushed is what is
  pulled, which pushes a subscription applies and which it loses, and what a pull without a server
  does to the clipboard.
\<close>

section \<open>The encoding of the data\<close>

lemma loose_char:
  assumes "v < 64"
  shows "b64_loose 0 l p (b64_char v # s) = b64_loose 1 v 0 s"
    and "b64_loose 1 l p (b64_char v # s) = map_option (\<lambda>r. (l * 4 + v div 16) # r) (b64_loose 2 (v mod 16) 0 s)"
    and "b64_loose 2 l p (b64_char v # s) = map_option (\<lambda>r. (l * 16 + v div 4) # r) (b64_loose 3 (v mod 4) 0 s)"
    and "b64_loose 3 l p (b64_char v # s) = map_option (\<lambda>r. (l * 64 + v) # r) (b64_loose 0 0 0 s)"
  using assms by (simp_all add: b64_val_char b64_char_not_pad)

lemma loose_pad: "b64_loose 2 l 0 [61, 61] = Some []" "b64_loose 3 l 0 [61] = Some []"
  by simp_all

lemma append_Cons_fun: "(@) (x # xs) = (\<lambda>s. x # xs @ s)"
  by (rule ext) simp

lemma loose_groups:
  assumes "a < 64" "b < 64"
  shows "loose_decode [b64_char a, b64_char b, 61, 61] = Some (b64_group2 a b)"
    and "c < 64 \<Longrightarrow> loose_decode [b64_char a, b64_char b, b64_char c, 61] = Some (b64_group3 a b c)"
    and "c < 64 \<Longrightarrow> d < 64 \<Longrightarrow> loose_decode (b64_char a # b64_char b # b64_char c # b64_char d # s)
      = map_option ((@) (b64_group4 a b c d)) (loose_decode s)"
  using assms
  by (simp_all add: loose_decode_def loose_char [unfolded One_nat_def] loose_pad b64_group2_def b64_group3_def b64_group4_def option.map_comp comp_def append_Cons_fun
      del: b64_loose.simps)

lemma loose_decode_encode: "bytes_ok b \<Longrightarrow> loose_decode (b64encode b) = Some b"
proof (induction b rule: b64encode.induct)
  case 1
  show ?case by (simp add: loose_decode_def)
qed (simp_all add: loose_groups b64_vals b64_group_bytes)

interpretation loose: codec b64encode loose_decode bytes_ok
  by unfold_locales (rule loose_decode_encode)

lemma b64_char_ascii: "b64_char v < 128"
  by (auto simp: b64_char_def)

lemma b64encode_ascii: "c \<in> set (b64encode b) \<Longrightarrow> c < 128"
  by (induction b rule: b64encode.induct) (auto simp: b64_char_ascii)

lemma decode_encoded: "bytes_ok content \<Longrightarrow> decode_data (PStr (b64encode content)) = Inr (Inr content)"
  by (simp add: decode_data_def decode_text_def b64encode_ascii loose_decode_encode)

text \<open>
  C12: Clipboards come back as they were: after a client's push, whatever the other clients do in
  between, a pull by the same client puts exactly the pushed bytes into its clipboard, or
  writes them out.
\<close>

theorem clipboard_round_trip:
  assumes "linked peers B" "\<not> br_reading B a" "\<not> br_reading B b"
    and "cp_client (peers a) = c" "cp_client (peers b) = c" "\<not> cp_admin (peers a)" "\<not> cp_admin (peers b)"
    and "parse_clip_line L line = Inr (PDict (push_request content []))" and "bytes_ok content"
    and "parse_clip_line L line' = Inr (PDict (pull_request False []))"
    and "clip_resolution_mode (cp_view (peers a)) = Inr mode"
    and "\<forall>ev \<in> set evs. is_guest_event peers ev \<and> \<not> concerns peers c ev"
  shows "\<exists>response. last (seen_by peers c (bridge_run L H peers B (Line a line t # evs @ [Line b line' t']))) = (b, PDict response)
    \<and> cmd_pull piped clipboard (Inr (PDict response)) = (if piped then WritesOut content else SetsClipboard (Some content))"
proof -
  let ?r = "\<lparr>rq_action = PStr (lit ''set''), rq_data = PStr (b64encode content), rq_target = PNone, rq_json = False\<rparr>"
  let ?r' = "\<lparr>rq_action = PStr (lit ''get''), rq_data = PStr [], rq_target = PNone, rq_json = False\<rparr>"
  have r: "request_of L line = Inr ?r"
    by (simp add: request_of_def assms(8) push_request_def parse_clip_request_def dget_or_def lit_def)
  have r': "request_of L line' = Inr ?r'"
    by (simp add: request_of_def assms(10) pull_request_def parse_clip_request_def dget_or_def lit_def)
  have "last (seen_by peers c (bridge_run L H peers B (Line a line t # evs @ [Line b line' t'])))
      = (b, PDict (data_reply (PStr (b64encode content))))"
    using guest_reads_back [OF assms(1-7) r _ _ r' _ _ _ assms(11,12)] by simp
  moreover have "cmd_pull piped clipboard (Inr (PDict (data_reply (PStr (b64encode content)))))
      = (if piped then WritesOut content else SetsClipboard (Some content))"
    by (simp add: cmd_pull_def pull_online_def data_reply_def ok_reply_def dget_or_def decode_encoded [OF assms(9)] emit_def
        set_system_clipboard_def lit_def)
  ultimately show ?thesis by blast
qed

lemma parse_clip_dumped:
  assumes "json_ok v" "utf8_encode (dumps L v) = Inr line"
  shows "parse_clip_line L line = Inr v"
  using utf8_decode_encode [OF assms(2)] json_loads_dumps [OF assms(1), of L] by (simp add: parse_clip_line_def)

lemma demo_client_lines:
  "parse_clip_line demo_lib set_line = Inr (PDict (push_request [104, 105] []))"
  "parse_clip_line demo_lib get_line = Inr (PDict (pull_request False []))"
  by (rule parse_clip_dumped; simp add: push_request_def pull_request_def b64_char_def line_eval)+

theorem clipboard_round_trip_witness:
  "\<exists>response. last (seen_by demo_peers (lit ''vsock:5'') (bridge_run demo_lib demo_host demo_peers empty_bridge
      [Line 1 set_line 0, Line 3 set_line 1, Line 2 get_line 2])) = (2, PDict response)
    \<and> cmd_pull False [] (Inr (PDict response)) = SetsClipboard (Some [104, 105])"
proof -
  have "linked demo_peers empty_bridge" "\<not> br_reading empty_bridge 1" "\<not> br_reading empty_bridge 2"
    "\<forall>ev \<in> set [Line 3 set_line 1]. is_guest_event demo_peers ev \<and> \<not> concerns demo_peers (lit ''vsock:5'') ev"
    by (simp_all add: empty_bridge_def linked_def is_guest_event_def concerns_def)
  from clipboard_round_trip [OF this(1-3) _ _ _ _ demo_client_lines(1) _ demo_client_lines(2) _ this(4),
      of "lit ''tartarus''" demo_host 0 2 False "[]"]
  show ?thesis by simp
qed

section \<open>The subscription\<close>

lemma next_batch_pieces:
  assumes "data @ concat pieces = line @ [10]" and "10 \<notin> set line" and "[] \<notin> set pieces"
  shows "next_batch data (pieces @ rest) = (line @ [10], rest)"
  using assms
proof (induction pieces arbitrary: data)
  case Nil
  then show ?case by (cases rest) simp_all
next
  case (Cons piece pieces)
  have "data @ (piece @ concat pieces) = line @ [10]" "piece @ concat pieces \<noteq> []" using Cons.prems by auto
  then obtain t where "line = data @ t" by (metis append_butlast_last_id append_eq_append_conv2 append.assoc butlast_append butlast_snoc)
  then have "10 \<notin> set data" using Cons.prems(2) by simp
  then show ?case using Cons.IH [of "data @ piece"] Cons.prems by auto
qed

lemma split_lines_append: "10 \<notin> set a \<Longrightarrow> split_lines (a @ 10 # b) = a # split_lines b"
  by (induction a) auto


lemmas apply_pushes_unfold = apply_pushes.simps
declare apply_pushes.simps [simp del]

lemma apply_pushes_batch:
  assumes "next_batch [] chunks = (data, rest)" and "data \<noteq> []" and "apply_lines L (split_lines data) = (ds, True)"
  shows "apply_pushes L chunks = (ds @ fst (apply_pushes L rest), snd (apply_pushes L rest))"
proof -
  have "chunks \<noteq> []" using assms(1,2) by auto
  then show ?thesis using assms by (simp add: apply_pushes_unfold [of L chunks] split: prod.split)
qed

lemma push_line_data:
  assumes "parse_clip_line L line = Inr (PDict (data_reply (PStr (b64encode content))))" and "bytes_ok content"
  shows "push_line L line = Inr [Some content]"
proof -
  obtain t where t: "utf8_decode line = Some t" "json_loads L t = Inr (PDict (data_reply (PStr (b64encode content))))"
    using assms(1) by (auto simp: parse_clip_line_def split: option.splits sum.splits)
  have "dget (data_reply (PStr (b64encode content))) (lit ''data'') = PStr (b64encode content)"
    "dget (data_reply (PStr (b64encode content))) (lit ''status'') = PStr (lit ''ok'')"
    "dmem (lit ''data'') (data_reply (PStr (b64encode content)))"
    by (simp_all add: data_reply_def ok_reply_def lit_def)
  then show ?thesis
    by (simp add: push_line_def t decode_encoded [OF assms(2)] set_system_clipboard_def)
qed

text \<open>A push on its way: the chunks it comes in, the line they make up, and the content it announces.\<close>

definition arrives :: "lib \<Rightarrow> pbytes list \<times> pbytes \<times> pbytes \<Rightarrow> bool" where
  "arrives L p =
     (case p of (pieces, line, content) \<Rightarrow>
        concat pieces = line @ [10] \<and> [] \<notin> set pieces \<and> line \<noteq> [] \<and> 10 \<notin> set line \<and> bytes_ok content
          \<and> parse_clip_line L line = Inr (PDict (data_reply (PStr (b64encode content)))))"

lemma apply_arriving:
  assumes "list_all (arrives L) pushes"
  shows "apply_pushes L (concat (map fst pushes)) = (map (\<lambda>(_, _, content). Some content) pushes, True)"
  using assms
proof (induction pushes)
  case Nil
  show ?case by (simp add: apply_pushes_unfold)
next
  case (Cons p pushes)
  obtain pieces line content where p: "p = (pieces, line, content)" by (rule prod_cases3)
  have a: "concat pieces = line @ [10]" "[] \<notin> set pieces" "line \<noteq> []" "10 \<notin> set line"
    "push_line L line = Inr [Some content]"
    using Cons.prems push_line_data by (auto simp: p arrives_def)
  have "apply_lines L (split_lines (line @ [10])) = ([Some content], True)"
    using a(3-5) by (simp add: split_lines_append)
  then show ?case
    using apply_pushes_batch [OF next_batch_pieces [of "[]" pieces line "concat (map fst pushes)"]] Cons a(1,2,4)
    by (simp add: p)
qed

text \<open>
  C28: However the network cuts them up, a subscription applies the pushes it receives once each and in
  order, as long as no chunk holds the end of one line and the start of the next: the clipboards it
  sets are the contents that were pushed.
\<close>

theorem subscriber_applies_pushes:
  assumes "10 \<in> set confirmation" and "list_all (arrives L) pushes"
  shows "run_subscription L (confirmation # concat (map fst pushes)) = (map (\<lambda>(_, _, content). Some content) pushes, True)"
proof -
  have stop: "next_batch confirmation chunks = (confirmation, chunks)" for chunks
    using assms(1) by (cases chunks) auto
  have "next_batch [] (confirmation # concat (map fst pushes)) = (confirmation, concat (map fst pushes))"
    using assms(1) stop by auto
  then show ?thesis
    using assms(1) apply_arriving [OF assms(2)] by (auto simp: run_subscription_def)
qed


definition push_text :: pbytes where
  "push_text = lit ''{\"status\":\"ok\",\"data\":\"aGk=\"}''"

lemma demo_push:
  "parse_clip_line demo_lib push_text = Inr (PDict (data_reply (PStr (b64encode [104, 105]))))"
  by (rule parse_clip_dumped; simp add: push_text_def data_reply_def ok_reply_def b64_char_def line_eval)


theorem subscriber_applies_pushes_witness:
  "run_subscription demo_lib [lit ''{}'' @ [10], take 7 push_text, drop 7 push_text @ [10]] = ([Some [104, 105]], True)"
proof -
  let ?p = "([take 7 push_text, drop 7 push_text @ [10]], push_text, [104, 105 :: nat])"
  have "list_all (arrives demo_lib) [?p]"
    using demo_push by (simp add: arrives_def) (simp add: push_text_def lit_def)
  from subscriber_applies_pushes [OF _ this, of "lit ''{}'' @ [10]"] show ?thesis by simp
qed


section \<open>A pull without a server\<close>

lemma loose_decode_any:
  assumes "length s = 4 * k" and "\<forall>c \<in> set s. b64_val c \<noteq> None"
  shows "\<exists>d. loose_decode s = Some d \<and> length d = 3 * k"
  using assms
proof (induction k arbitrary: s)
  case 0
  then show ?case by (simp add: loose_decode_def)
next
  case (Suc k)
  then obtain a b c d t where s: "s = a # b # c # d # t" and t: "length t = 4 * k"
    by (auto simp: length_Suc_conv numeral_eq_Suc)
  obtain va vb vc vd where v: "b64_val a = Some va" "b64_val b = Some vb" "b64_val c = Some vc" "b64_val d = Some vd"
    using Suc.prems(2) s by auto
  obtain r where r: "loose_decode t = Some r" "length r = 3 * k"
    using Suc.IH [OF t] Suc.prems(2) s by auto
  have "x \<noteq> 61" if "b64_val x = Some y" for x y using that by (auto simp: b64_val_def split: if_splits)
  then show ?case using v r s by (auto simp: loose_decode_def)
qed

text \<open>
  A pull that finds no server takes the system clipboard for the encoded data: a clipboard of
  letters and digits whose length is a multiple of four (a word, a number, a name) is replaced by
  the bytes it would encode, three quarters of its length.
\<close>

theorem offline_pull_mangles_the_clipboard:
  assumes "clipboard \<noteq> []" and "length clipboard mod 4 = 0" and "\<forall>c \<in> set clipboard. b64_val c \<noteq> None"
  shows "\<exists>d. cmd_pull False clipboard (Inl (OSError e)) = SetsClipboard (Some d) \<and> d \<noteq> clipboard
    \<and> length d = length clipboard div 4 * 3"
proof -
  let ?k = "length clipboard div 4"
  have k: "length clipboard = 4 * ?k" "0 < ?k" using assms(1,2) by (auto simp: mod_0_imp_dvd div_greater_zero_iff dest: dvd_imp_le)
  obtain d where d: "loose_decode clipboard = Some d" "length d = 3 * ?k"
    using loose_decode_any [OF k(1) assms(3)] by blast
  have "cmd_pull False clipboard (Inl (OSError e)) = SetsClipboard (Some d)"
    by (simp add: cmd_pull_def is_oserror_def pull_offline_def clipboard_as_data_def d emit_def set_system_clipboard_def)
  then show ?thesis using d k by (intro exI [of _ d]) auto
qed

theorem offline_pull_mangles_the_clipboard_witness:
  "\<exists>d. cmd_pull False (lit ''password'') (Inl (OSError [])) = SetsClipboard (Some d) \<and> d \<noteq> lit ''password'' \<and> length d = 6"
proof -
  have "lit ''password'' \<noteq> []" "length (lit ''password'') mod 4 = 0" "\<forall>c \<in> set (lit ''password''). b64_val c \<noteq> None"
    "length (lit ''password'') div 4 * 3 = 6"
    by (simp_all add: lit_def b64_val_def)
  from offline_pull_mangles_the_clipboard [OF this(1-3), of "[]"] this(4) show ?thesis by simp
qed

end
