(* ===== verification/Spec2Isabelle.thy ===== *)
theory Spec2Isabelle
  imports Prelude Json Base64 Protocol Glob Policy Config Schema Text X509 Chain Display Prompt Peers Identity
    Transport Listen Server Client Demo Decisions Elevation Agreement Startup MountHelper Mounts
    Wire Framing Binding AgentPolicy AgentProxy AgentServe AgentSafety AgentDemo AgentFacts AgentGaps
    AgentConfig AgentLoad AgentLinks AgentEdges
    ClipConfig ClipStore ClipFacts ClipGaps ClipServe ClipClient ClipEdges ClipData
begin

text \<open>
  A verification library for \<open>tartarus.nix\<close>, a set of Python programs that let isolated guests use
  what their host guards: elevation with a human's approval (\<open>sudo-auth-proxy\<close>), mounts
  (\<open>tartarus-mount\<close>), SSH keys (\<open>ssh-agent-proxy\<close>), the clipboard (\<open>clipboard-bridge\<close>), and the
  command line that runs the guests (\<open>tartarus\<close>). Paths below are relative to \<open>src/\<close>.

  \<^bold>\<open>The parts and how they interact.\<close> \<open>nix/packages/sudo-auth-proxy/sudo-auth-proxy.py\<close> holds both
  ends of one protocol. The client (\<open>run_client\<close>) is called by PAM in the guest, connects over
  VSOCK, TCP or a forwarded Unix socket, optionally under mTLS, sends one JSON frame
  (\<open>auth_request\<close>) and exits with 0 only on a verified \<open>allow\<close>. The server (\<open>run_server\<close>, \<open>Handler\<close>)
  authenticates the requester, lets the first matching rule decide, or acknowledges the
  request, shows a dialog and answers what the human chose. \<open>nix/packages/tartarus-mount/tartarus-mount.py\<close>
  is a root daemon in the guest that mounts directories the host has staged.
  \<open>nix/packages/ssh-agent-proxy/ssh-agent-proxy.py\<close> is a filter in front of an SSH agent: it reads
  the agent's messages, learns the destination of a session from the bindings the client sends, lets
  the first matching rule decide about every signature, asks a human where the rule says so, and
  relays the rest to the local socket or to another proxy over mTLS.
  \<open>nix/packages/clipboard-bridge/clipboard-bridge.py\<close> keeps one clipboard per guest on the host: a guest
  sets and gets its own over a guest listener and subscribes to pushes, the host reads and sets
  any of them over an admin listener as far as rules allow, and the clients apply what they
  receive to the system clipboard.

  \<^bold>\<open>Theories of the elevation proxy, in the order of its code.\<close>
  \<^item> \<open>Prelude\<close>: values of JSON and TOML (\<open>pyval\<close>, dictionaries as association lists in insertion
    order), exceptions (\<open>exn\<close>) and results (\<open>res\<close>: \<open>Inl\<close> an exception, \<open>Inr\<close> a value), the record
    \<open>lib\<close> of library functions that are parameters, the interfaces \<open>json\<close> and \<open>first_match\<close>.
    Text is a list of code points, bytes are a list of numbers.
  \<^item> \<open>Json\<close>, \<open>Base64\<close>, \<open>Text\<close>, \<open>Glob\<close>: what the code uses of \<open>json\<close>, \<open>base64\<close>, string and path
    methods, and \<open>fnmatch.fnmatchcase\<close>; the JSON writer and reader are inverse on values without
    floats and with distinct keys.
  \<^item> \<open>Protocol\<close>: framing, builders and validators of the three frames, the request digest,
    \<open>authenticate_request\<close>, \<open>verify_response\<close>.
  \<^item> \<open>Policy\<close>: \<open>Rule\<close>, \<open>parse_rules\<close>, \<open>evaluate_rules\<close>, \<open>identity_candidates\<close>.
  \<^item> \<open>Config\<close> and \<open>Schema\<close>: coercions, key schema, listener views, security knobs, pins, labels,
    \<open>build_security\<close>; \<open>Schema\<close> holds their facts.
  \<^item> \<open>X509\<close> and \<open>Chain\<close>: extension checks, \<open>verify_x509_chain\<close>, EKU and server pin; the facts.
  \<^item> \<open>Display\<close> and \<open>Prompt\<close>: sanitising, dialog context and texts, the three dialog back ends; the
    facts.
  \<^item> \<open>Peers\<close> and \<open>Identity\<close>: names of virtual machines, gateway, Unix peer credentials, \<open>sshd\<close> and
    socket path checks; the facts. The answers of the system are the record \<open>host\<close>.
  \<^item> \<open>Transport\<close> and \<open>Listen\<close>: the three transports, TLS contexts, \<open>connect\<close>, \<open>listen\<close>, \<open>run_server\<close> up
    to serving; the facts. The file system is an explicit store (\<open>fs\<close>), sockets and TLS are the
    record \<open>net\<close>.
  \<^item> \<open>Server\<close>: \<open>Handler.setup\<close> and \<open>Handler.handle\<close>. What a connection meets is the record
    \<open>session\<close>; a run gives the list of its visible events (frames sent, dialogs shown) and how the
    loop ended. The connection slots are a step relation.
  \<^item> \<open>Client\<close>: \<open>run_client\<close>, \<open>load_config\<close>, \<open>main\<close>. What a run meets is the record \<open>client_env\<close>; every run
    leaves by an exception, \<open>SystemExit 0\<close> being the approval.
  \<^item> \<open>Demo\<close>, \<open>Decisions\<close>, \<open>Elevation\<close>, \<open>Agreement\<close>, \<open>Startup\<close>: a concrete connection for the witnesses, and
    the facts of the server, of the client, of both together over the bytes they exchange, and
    of the start of the process.

  \<^bold>\<open>Theories of the mount helper.\<close> \<open>MountHelper\<close> has the validation of ids and targets, the state
  file, \<open>mount_op\<close>, \<open>umount_op\<close>, \<open>list_op\<close>, \<open>dispatch\<close> and \<open>_handle_connection\<close>, as functions on a state of
  the kernel, the JSON value in the state file and the commands run so far; \<open>helper_reach\<close> is what
  any sequence of connections leads to, with arbitrary changes outside in between. \<open>Mounts\<close>
  holds the facts.

  \<^bold>\<open>Theories of the agent proxy, in the order of its code.\<close>
  \<^item> \<open>Wire\<close>, \<open>Framing\<close> and \<open>Binding\<close>: \<open>SSHBuffer\<close>, the framing of messages, key blobs, purposes, host
    keys and the signature of a session binding, over the schemes of the \<open>cryptography\<close> package (record
    \<open>keylib\<close>); the round trips, what a cut stream does, and what a binding proves.
  \<^item> \<open>AgentPolicy\<close>: keys, rules and their first match, the files of known hosts.
  \<^item> \<open>AgentProxy\<close> and \<open>AgentServe\<close>: the state of one connection, one definition per handler of a message,
    the message loop; who the peer is, which sockets a connection uses and how they are dialled.
  \<^item> \<open>AgentSafety\<close>, \<open>AgentDemo\<close>, \<open>AgentFacts\<close>, \<open>AgentGaps\<close>: the invariant \<open>state_ok\<close> that every operation
    keeps, a concrete connection for the witnesses, what no run of the handler does, and the
    inputs that get further than the documentation says.
  \<^item> \<open>AgentConfig\<close> and \<open>AgentLoad\<close>: \<open>Config.load\<close> from the parsed TOML document to the record the
    proxy runs on; the facts of a loaded configuration.
  \<^item> \<open>AgentLinks\<close> and \<open>AgentEdges\<close>: links to upstream agents and their retry, TLS contexts, the
    listeners, \<open>run_proxy\<close> and \<open>main\<close>; the facts of the edges of the process.

  \<^bold>\<open>Theories of the clipboard bridge, in the order of its code.\<close>
  \<^item> \<open>ClipConfig\<close>: \<open>resolve_listener_security\<close>, \<open>parse_rules\<close>, \<open>load_client_acl\<close>,
    \<open>validate_document_schema\<close>, \<open>load_config\<close>, \<open>listener_views\<close>.
  \<^item> \<open>ClipStore\<close>: the process state (record \<open>bridge\<close>: the dictionaries of slots and of subscriptions, and
    all that was written to connections), names, \<open>_handle_admin\<close>, \<open>_handle_guest\<close>, \<open>handle\<close>. One request is
    one step (\<open>bridge_step\<close>); the expiry pass is three, since it releases its locks twice.
  \<^item> \<open>ClipFacts\<close> and \<open>ClipGaps\<close>: an unwinding interface (locale \<open>unwinding\<close>) under which the events of
    other clients can be removed from a run, interpreted on the server, what admin requests need, and
    where the server does less than its documentation says.
  \<^item> \<open>ClipServe\<close> and \<open>ClipClient\<close>: TLS contexts, \<open>_bind_listener\<close>, \<open>cmd_serve\<close>; connecting and checking,
    \<open>send_request\<close>, \<open>PersistentConnection\<close>, the proxy, \<open>run_subscriber\<close> and the commands. What a
    connection meets is the record \<open>wire\<close>, the chunks that arrive included.
  \<^item> \<open>ClipEdges\<close> and \<open>ClipData\<close>: when a channel may be plain, who is accepted as an administrator, what a
    failed start leaves, how often a request is delivered; the clipboard's way from one client to
    another, and the data that is lost or changed on it.

  \<^bold>\<open>What the lemmas show.\<close> The end to end properties rest on layers: round trips of JSON, base64 and
  frames; the exact sets of frames the validators accept; the binding of a response to its
  request by nonce and digest; the first-match semantics of rules; the conversation every run
  of the handler is an instance of (\<open>conversation\<close>, an abstract protocol, with the safety
  properties by rule induction over it); the collection \<open>calm\<close>, which shows that no operation the
  client calls leaves by \<open>SystemExit 0\<close>; and their composition over the wire. For the mount helper
  the collection \<open>keeps\<close> carries the two invariants (well-formed records, confined commands)
  through every operation. For the agent proxy the triples of \<open>Prelude\<close> carry \<open>state_ok\<close> through every
  method, the collection \<open>replying\<close> shows that each message gets exactly one answer, and the loader is a
  sequence of checks (\<open>andthen\<close>, \<open>ensure\<close>) whose success gives back every check that was made. For the
  clipboard the views of one client are shown to be untouched by the steps of the others, and
  the encoding of the commands is another instance of the interface \<open>codec\<close>.

  \<^bold>\<open>Bounds and fuel.\<close> The JSON reader runs on fuel twice the length of the text plus two, which is
  proved enough for every text the writer emits. The walk up a certificate chain has the
  code's own depth bound plus one. The handler's loop and the reading of a stream end because
  every message takes bytes off it. The dialog, clock and write outcomes of a connection are
  indexed by the number of the message.

  \<^bold>\<open>Hypotheses on code that is not here.\<close> SHA-256, the \<open>cryptography\<close> package, TLS, Unicode
  normalisation, dialog programs, mount programs and the operating system are parameters.
  Where a property needs more of them it says so: that two canonical encodings do not collide,
  that digests are encodable text, that a socket operation does not end the process. For the
  clipboard bridge the names in a certificate and the answers of \<open>mofos\<close> are parameters, and a line
  is taken by the value it parses to.

  \<^bold>\<open>Not modelled.\<close>
  \<^item> The texts of messages beyond a fixed name per error, debug output and log lines, spelling
    suggestions for unknown keys.
  \<^item> Threads: one connection is sequential, and the connections of the mount helper are served one
    after the other, as its loop does. \<open>serve_forever\<close> and the wait for the threads are left out.
  \<^item> Timeouts other than as a stream that fails; rounding of floats; digits and spaces outside
    ASCII in \<open>int\<close>; reversed ranges in \<open>fnmatch\<close> classes; the recursion limit of the JSON reader; the cache
    of \<open>build_security\<close>; malformed public keys; texts other than plain hexadecimal in the routing
    table; \<open>lstat\<close> errors other than a missing file; a listener name that is no string.
  \<^item> The bytes of the mount helper's state file (it holds a JSON value, and is replaced as a whole),
    its accept loop, signal handler and command-line client.
  \<^item> Of the agent proxy: the expansion of paths to \<open>known_hosts\<close> (the files are taken as texts), the
    names given to configured agents, locks and time limits, the notification back end, the
    connection to libvirt, and the code it shares with the elevation proxy word for word (gateway, virtual machine
    and Unix credential lookups), which is modelled once.
  \<^item> Of the clipboard bridge: the argument parser, \<open>pull --json\<close>, the clipboard and notification
    programs, the cache in front of \<open>mofos\<close>, threads, sleeping loops and time limits, and the code it
    shares with the elevation proxy word for word (socket preparation, connection slots, coercions, path
    expansion, gateway and virtual machine lookups), which is modelled once.
  \<^item> The \<open>tartarus\<close> command line (\<open>src/tartarus\<close>): it starts and stops virtual machines and containers
    through programs, and its own logic is the merge of configuration files.
\<close>

end
